(* ===== verification/Relay_Prelude.thy ===== *)
theory Relay_Prelude
  imports
    Complex_Main
    "HOL-Library.Word"
    "HOL-Library.Char_ord"
    "HOL-Library.List_Lexorder"
    "HOL-Library.Product_Lexorder"
    "HOL-Library.Sublist"
    "HOL-Library.AList"
begin

text \<open>
  Shared vocabulary of the development: the JavaScript values and library operations the relay's
  code uses (strings, array indexing, decimal printing, the conversion of a string to a number,
  hexadecimal buffers), and the generic lemmas the component theories share.

  A JavaScript string is a \<open>string\<close> whose characters stand for its UTF-16 code units (the code
  units below 256). An integral JavaScript number is an \<open>int\<close>; a value that may be
  \<open>undefined\<close> is an \<open>option\<close>. A Node \<open>Buffer\<close> is a list of 8-bit words.
\<close>

named_theorems relay_defs \<open>definitions that a component's proofs unfold together\<close>

type_synonym bytes = "8 word list"

section \<open>Array and string operations of JavaScript\<close>

text \<open>\<open>xs[i]\<close>: out of range is \<open>undefined\<close>.\<close>

fun js_at :: "'a list \<Rightarrow> nat \<Rightarrow> 'a option" where
  "js_at [] n = None"
| "js_at (x # xs) 0 = Some x"
| "js_at (x # xs) (Suc n) = js_at xs n"

lemma js_at_iff: "js_at xs n = (if n < length xs then Some (xs ! n) else None)"
  by (induction xs n rule: js_at.induct) auto

lemma js_at_Some_iff: "js_at xs n = Some x \<longleftrightarrow> n < length xs \<and> xs ! n = x"
  by (simp add: js_at_iff)

text \<open>\<open>input.startsWith(prefix)\<close>.\<close>

definition startsWith :: "string \<Rightarrow> string \<Rightarrow> bool" where
  "startsWith input pfx \<longleftrightarrow> take (length pfx) input = pfx"

lemma startsWith_prefix: "startsWith input pfx \<longleftrightarrow> prefix pfx input"
  by (metis append_take_drop_id append_eq_conv_conj prefixE prefixI startsWith_def)

lemma startsWith_Nil [simp]: "startsWith s []"
  by (simp add: startsWith_def)

lemma startsWith_refl [simp]: "startsWith s s"
  by (simp add: startsWith_def)

text \<open>\<open>s.split(c)\<close> for a one-character separator.\<close>

fun js_split :: "char \<Rightarrow> string \<Rightarrow> string list" where
  "js_split c [] = [[]]"
| "js_split c (x # xs) =
     (if x = c then [] # js_split c xs
      else (case js_split c xs of [] \<Rightarrow> [[x]] | y # ys \<Rightarrow> (x # y) # ys))"

lemma js_split_no_sep: "c \<notin> set s \<Longrightarrow> js_split c s = [s]"
  by (induction s) auto

lemma js_split_append: "c \<notin> set s \<Longrightarrow> js_split c (s @ c # t) = s # js_split c t"
  by (induction s) auto

text \<open>\<open>xs.join(sep)\<close>.\<close>

fun js_join :: "string \<Rightarrow> string list \<Rightarrow> string" where
  "js_join sep [] = []"
| "js_join sep [x] = x"
| "js_join sep (x # y # ys) = x @ sep @ js_join sep (y # ys)"

section \<open>Decimal printing\<close>

definition digit_char :: "nat \<Rightarrow> char" where
  "digit_char d = char_of (48 + d)"

fun nat_str :: "nat \<Rightarrow> string" where
  "nat_str n = (if n < 10 then [digit_char n] else nat_str (n div 10) @ [digit_char (n mod 10)])"

declare nat_str.simps [simp del]

text \<open>\<open>n.toString()\<close> of an integral number or of a bigint.\<close>

definition int_str :: "int \<Rightarrow> string" where
  "int_str i = (if i < 0 then CHR ''-'' # nat_str (nat (- i)) else nat_str (nat i))"

definition digit_val :: "char \<Rightarrow> nat option" where
  "digit_val c =
     (let n = of_char c :: nat
      in if 48 \<le> n \<and> n \<le> 57 then Some (n - 48)
         else if 97 \<le> n \<and> n \<le> 122 then Some (n - 87)
         else if 65 \<le> n \<and> n \<le> 90 then Some (n - 55)
         else None)"

lemma digit_val_digit_char [simp]: "d < 10 \<Longrightarrow> digit_val (digit_char d) = Some d"
  by (simp add: digit_val_def digit_char_def)

lemma digit_char_inject: "d < 10 \<Longrightarrow> e < 10 \<Longrightarrow> digit_char d = digit_char e \<longleftrightarrow> d = e"
  by (metis digit_val_digit_char option.inject)

text \<open>A run of digits in a base; \<open>None\<close> where some character is not a digit of the base.\<close>

fun digits_from :: "nat \<Rightarrow> nat \<Rightarrow> string \<Rightarrow> nat option" where
  "digits_from b acc [] = Some acc"
| "digits_from b acc (c # cs) =
     (case digit_val c of
        None \<Rightarrow> None
      | Some d \<Rightarrow> if d < b then digits_from b (acc * b + d) cs else None)"

lemma digits_from_append:
  "digits_from b acc (s @ t) =
     (case digits_from b acc s of None \<Rightarrow> None | Some n \<Rightarrow> digits_from b n t)"
  by (induction s arbitrary: acc) (auto split: option.splits)

lemma digits_from_nat_str [simp]: "digits_from 10 0 (nat_str n) = Some n"
proof (induction n rule: nat_str.induct)
  case (1 n)
  show ?case
  proof (cases "n < 10")
    case True
    then show ?thesis by (simp add: nat_str.simps [of n])
  next
    case False
    then have "digits_from 10 0 (nat_str n) = Some (n div 10 * 10 + n mod 10)"
      using 1 by (simp add: nat_str.simps [of n] digits_from_append)
    then show ?thesis by (simp del: div_mult_mod_eq add: div_mult_mod_eq [of n 10])
  qed
qed

lemma nat_str_inject [simp]: "nat_str m = nat_str n \<longleftrightarrow> m = n"
  by (metis digits_from_nat_str option.inject)

definition is_digit :: "char \<Rightarrow> bool" where
  "is_digit c \<longleftrightarrow> 48 \<le> (of_char c :: nat) \<and> (of_char c :: nat) \<le> 57"

lemma is_digit_digit_char [simp]: "d < 10 \<Longrightarrow> is_digit (digit_char d)"
  by (simp add: is_digit_def digit_char_def)

lemma nat_str_digits: "list_all is_digit (nat_str n)"
proof (induction n rule: nat_str.induct)
  case (1 n)
  then show ?case by (cases "n < 10") (simp_all add: nat_str.simps [of n])
qed

lemma nat_str_set: "c \<in> set (nat_str n) \<Longrightarrow> is_digit c"
  using nat_str_digits [of n] by (auto simp: list_all_iff)

lemma nat_str_not_Nil [simp]: "nat_str n \<noteq> []"
  by (subst nat_str.simps) auto

lemma non_digit_facts [simp]:
  "\<not> is_digit (CHR '':'')" "\<not> is_digit (CHR ''-'')" "\<not> is_digit (CHR ''.'')"
  "\<not> is_digit (CHR '','')" "\<not> is_digit (CHR ''['')" "\<not> is_digit (CHR '']'')"
  "\<not> is_digit (CHR ''e'')" "\<not> is_digit (CHR ''E'')" "\<not> is_digit (CHR ''x'')"
  "\<not> is_digit (CHR ''X'')" "\<not> is_digit (CHR ''o'')" "\<not> is_digit (CHR ''O'')"
  "\<not> is_digit (CHR ''b'')" "\<not> is_digit (CHR ''B'')" "\<not> is_digit (CHR ''+'')"
  "\<not> is_digit (CHR ''I'')"
  by (simp_all add: is_digit_def)

lemma colon_notin_nat_str [simp]: "CHR '':'' \<notin> set (nat_str n)"
  using nat_str_set non_digit_facts(1) by blast

lemma minus_notin_nat_str [simp]: "CHR ''-'' \<notin> set (nat_str n)"
  using nat_str_set non_digit_facts(2) by blast

lemma nat_str_hd_digit: "is_digit (hd (nat_str n))"
  by (rule nat_str_set [OF hd_in_set]) simp

lemma colon_notin_int_str [simp]: "CHR '':'' \<notin> set (int_str i)"
  by (auto simp: int_str_def)

lemma int_str_inject [simp]: "int_str i = int_str j \<longleftrightarrow> i = j"
proof -
  have "nat_str m \<noteq> CHR ''-'' # s" for m s
    by (metis list.set_intros(1) minus_notin_nat_str)
  then show ?thesis by (auto simp: int_str_def) (metis nat_str_inject)
qed

end
