(* ===== verification/Js_Values.thy ===== *)
theory Js_Values
  imports Relay_Prelude
begin

text \<open>
  JavaScript and Node operations the relay's code uses and that take more than a line: the
  conversion \<open>Number(s)\<close> of a string (the StringNumericLiteral grammar), \<open>Number.isSafeInteger\<close>
  of its result, the hexadecimal encoding and decoding of a \<open>Buffer\<close>, and \<open>JSON.stringify\<close> of
  strings, integers, arrays and objects. They are the language's and its runtime's documented
  behaviour, so they have no lines of the repository of their own; what the repository uses of
  them is what is here.
\<close>

section \<open>\<open>Number(s)\<close>\<close>

datatype js_num = JNaN | JInfinity bool | JFinite rat

definition is_js_space :: "char \<Rightarrow> bool" where
  "is_js_space c \<longleftrightarrow> (of_char c :: nat) \<in> {9, 10, 11, 12, 13, 32, 160}"

definition js_trim :: "string \<Rightarrow> string" where
  "js_trim s = rev (dropWhile is_js_space (rev (dropWhile is_js_space s)))"

definition digits_of :: "nat \<Rightarrow> string \<Rightarrow> nat option" where
  "digits_of b s = (if s = [] then None else digits_from b 0 s)"

text \<open>A possibly empty run of decimal digits, for the two sides of the decimal point.\<close>

definition digits_opt :: "string \<Rightarrow> nat option" where
  "digits_opt s = digits_from 10 0 s"

definition signed_exponent :: "string \<Rightarrow> int option" where
  "signed_exponent s =
     (case s of
        [] \<Rightarrow> None
      | c # cs \<Rightarrow>
          if c = CHR ''-'' then map_option (\<lambda>n. - int n) (digits_of 10 cs)
          else if c = CHR ''+'' then map_option int (digits_of 10 cs)
          else map_option int (digits_of 10 s))"

definition rat_pow10 :: "int \<Rightarrow> rat" where
  "rat_pow10 e = (if 0 \<le> e then 10 ^ nat e else 1 / 10 ^ nat (- e))"

text \<open>\<open>StrUnsignedDecimalLiteral\<close> without \<open>Infinity\<close>.\<close>

definition unsigned_decimal :: "string \<Rightarrow> rat option" where
  "unsigned_decimal s =
     (let man = takeWhile (\<lambda>c. c \<noteq> CHR ''e'' \<and> c \<noteq> CHR ''E'') s;
          rest = drop (length man) s;
          ip = takeWhile (\<lambda>c. c \<noteq> CHR ''.'') man;
          fp = drop (Suc (length ip)) man
      in if ip = [] \<and> fp = [] then None
         else case (digits_opt (ip @ fp), if rest = [] then Some 0 else signed_exponent (tl rest)) of
                (Some n, Some e) \<Rightarrow> Some (of_nat n * rat_pow10 (e - int (length fp)))
              | _ \<Rightarrow> None)"

definition decimal_literal :: "string \<Rightarrow> js_num" where
  "decimal_literal s =
     (if s = ''Infinity'' then JInfinity False
      else case unsigned_decimal s of None \<Rightarrow> JNaN | Some q \<Rightarrow> JFinite q)"

definition js_negate :: "js_num \<Rightarrow> js_num" where
  "js_negate v =
     (case v of JNaN \<Rightarrow> JNaN | JInfinity b \<Rightarrow> JInfinity (\<not> b) | JFinite q \<Rightarrow> JFinite (- q))"

definition js_Number :: "string \<Rightarrow> js_num" where
  "js_Number raw =
     (let s = js_trim raw in
      case s of
        [] \<Rightarrow> JFinite 0
      | c # cs \<Rightarrow>
          if c = CHR ''-'' then js_negate (decimal_literal cs)
          else if c = CHR ''+'' then decimal_literal cs
          else if c = CHR ''0'' \<and> cs \<noteq> [] \<and> hd cs \<in> set ''xXoObB'' then
            (let b = (if hd cs \<in> set ''xX'' then 16 else if hd cs \<in> set ''oO'' then 8 else 2)
             in case digits_of b (tl cs) of None \<Rightarrow> JNaN | Some n \<Rightarrow> JFinite (of_nat n))
          else decimal_literal s)"

subsection \<open>Integrality of the nearest double\<close>

fun bit_length :: "nat \<Rightarrow> nat" where
  "bit_length n = (if n = 0 then 0 else Suc (bit_length (n div 2)))"

declare bit_length.simps [simp del]

definition round_half_even :: "rat \<Rightarrow> int" where
  "round_half_even q =
     (let f = \<lfloor>q\<rfloor>; r = q - of_int f
      in if r < 1 / 2 then f else if 1 / 2 < r then f + 1 else if even f then f else f + 1)"

text \<open>
  The value of the double nearest to a non-negative \<open>q\<close>, where that double is an integer of at
  most 53 bits; \<open>None\<close> where it is not an integer or is not safe.
\<close>

definition nearest_safe :: "rat \<Rightarrow> int option" where
  "nearest_safe q =
     (if of_int \<lfloor>q\<rfloor> = q then (if q < 2 ^ 53 then Some \<lfloor>q\<rfloor> else None)
      else if q < 1 then
        (if 1 - 1 / 2 ^ 54 \<le> q then Some 1 else if q \<le> 1 / 2 ^ 1075 then Some 0 else None)
      else
        (let l = bit_length (nat \<lfloor>q\<rfloor>) in
         if 53 < l then None
         else
           (let m = round_half_even (q * 2 ^ (53 - l)) in
            if 2 ^ (53 - l) dvd m \<and> m div 2 ^ (53 - l) < 2 ^ 53
            then Some (m div 2 ^ (53 - l)) else None)))"

text \<open>\<open>Number.isSafeInteger(x)\<close>, with the integer where it holds.\<close>

definition safe_integer :: "js_num \<Rightarrow> int option" where
  "safe_integer v =
     (case v of
        JFinite q \<Rightarrow>
          (if q < 0 then map_option uminus (nearest_safe (- q)) else nearest_safe q)
      | _ \<Rightarrow> None)"

text \<open>
  \<open>Math.log10(x) < 10\<close> of a safe integer: \<open>NaN\<close> (false) below zero, \<open>-Infinity\<close> (true) at zero.
\<close>

definition log10_below_10 :: "int \<Rightarrow> bool" where
  "log10_below_10 x \<longleftrightarrow> 0 \<le> x \<and> x < 10 ^ 10"

subsection \<open>Reading back what \<open>toString\<close> prints\<close>

lemma is_digit_not_space: "is_digit c \<Longrightarrow> \<not> is_js_space c"
  by (auto simp: is_digit_def is_js_space_def)

lemma dropWhile_none: "(\<And>x. x \<in> set xs \<Longrightarrow> \<not> P x) \<Longrightarrow> dropWhile P xs = xs"
  by (cases xs) auto

lemma takeWhile_all: "(\<And>x. x \<in> set xs \<Longrightarrow> P x) \<Longrightarrow> takeWhile P xs = xs"
  by (rule takeWhile_eq_all_conv [THEN iffD2]) blast

lemma js_trim_digits:
  assumes "\<And>c. c \<in> set s \<Longrightarrow> is_digit c"
  shows "js_trim s = s"
proof -
  have "dropWhile is_js_space s = s" and "dropWhile is_js_space (rev s) = rev s"
    using assms by (auto intro!: dropWhile_none is_digit_not_space)
  then show ?thesis by (simp add: js_trim_def)
qed

lemma unsigned_decimal_nat_str [simp]: "unsigned_decimal (nat_str n) = Some (of_nat n)"
proof -
  have man: "takeWhile (\<lambda>c. c \<noteq> CHR ''e'' \<and> c \<noteq> CHR ''E'') (nat_str n) = nat_str n"
    by (rule takeWhile_all) (use nat_str_set non_digit_facts in blast)
  have ip: "takeWhile (\<lambda>c. c \<noteq> CHR ''.'') (nat_str n) = nat_str n"
    by (rule takeWhile_all) (use nat_str_set non_digit_facts in blast)
  show ?thesis
    by (simp add: unsigned_decimal_def man ip digits_opt_def rat_pow10_def)
qed

lemma decimal_literal_nat_str [simp]: "decimal_literal (nat_str n) = JFinite (of_nat n)"
proof -
  have "is_digit (hd (nat_str n))" by (rule nat_str_hd_digit)
  then have "nat_str n \<noteq> ''Infinity''" using non_digit_facts by (metis list.sel(1))
  then show ?thesis by (simp add: decimal_literal_def)
qed

lemma js_Number_nat_str [simp]: "js_Number (nat_str n) = JFinite (of_nat n)"
proof -
  have trim: "js_trim (nat_str n) = nat_str n"
    by (rule js_trim_digits) (rule nat_str_set)
  obtain c cs where s: "nat_str n = c # cs" by (cases "nat_str n") auto
  have dig: "is_digit x" if "x \<in> set (nat_str n)" for x using that by (rule nat_str_set)
  have c: "c \<noteq> CHR ''-''" "c \<noteq> CHR ''+''"
    using dig [of c] s non_digit_facts by auto
  have "\<not> (cs \<noteq> [] \<and> hd cs \<in> set ''xXoObB'')"
  proof
    assume a: "cs \<noteq> [] \<and> hd cs \<in> set ''xXoObB''"
    then have "is_digit (hd cs)" using dig [of "hd cs"] s by simp
    with a show False using non_digit_facts by auto
  qed
  with c trim have "js_Number (nat_str n) = decimal_literal (nat_str n)"
    unfolding js_Number_def Let_def s by auto
  then show ?thesis by simp
qed

lemma nearest_safe_of_nat: "n < 2 ^ 53 \<Longrightarrow> nearest_safe (of_nat n) = Some (int n)"
proof -
  assume "n < 2 ^ 53"
  then have "(of_nat n :: rat) < 2 ^ 53"
    by (metis of_nat_less_iff of_nat_numeral of_nat_power)
  then show ?thesis by (simp add: nearest_safe_def)
qed

lemma safe_integer_nat_str: "n < 2 ^ 53 \<Longrightarrow> safe_integer (js_Number (nat_str n)) = Some (int n)"
  by (simp add: safe_integer_def nearest_safe_of_nat)

lemma js_Number_int_str:
  assumes "0 \<le> i"
  shows "js_Number (int_str i) = JFinite (of_int i)"
  using assms by (simp add: int_str_def)

end
