(* ===== verification/Js_Encoding.thy ===== *)
theory Js_Encoding
  imports Js_Values
begin

text \<open>
  Encodings between strings and bytes or values: \<open>Buffer.from(s, 'hex')\<close> and
  \<open>buffer.toString('hex')\<close> (utils/transform.ts calls them \<open>toBuffer\<close> and \<open>fromBuffer\<close>),
  \<open>Buffer.from(s)\<close> (UTF-8), and \<open>JSON.stringify\<close> (\<open>toJSON\<close>). The two lemma groups say that the
  hexadecimal encoding is a bijection between buffers and lower-case hexadecimal strings of even
  length, and that \<open>JSON.stringify\<close> is injective on arrays of strings and integers.
\<close>

section \<open>Hexadecimal buffers\<close>

definition hex_val :: "char \<Rightarrow> nat option" where
  "hex_val c = (case digit_val c of None \<Rightarrow> None | Some d \<Rightarrow> if d < 16 then Some d else None)"

definition hex_digits :: string where
  "hex_digits = ''0123456789abcdef''"

definition hex_char :: "nat \<Rightarrow> char" where
  "hex_char d = hex_digits ! d"

definition byte_of :: "nat \<Rightarrow> nat \<Rightarrow> 8 word" where
  "byte_of h l = word_of_nat (16 * h + l)"

text \<open>
  \<open>Buffer.from(input, 'hex')\<close>: two characters per byte, and the result stops before the first
  pair that is not hexadecimal or is incomplete.
\<close>

fun toBuffer :: "string \<Rightarrow> bytes" where
  "toBuffer (a # b # s) =
     (case (hex_val a, hex_val b) of
        (Some h, Some l) \<Rightarrow> byte_of h l # toBuffer s
      | _ \<Rightarrow> [])"
| "toBuffer _ = []"

text \<open>\<open>input.toString('hex')\<close>.\<close>

definition byte_hex :: "8 word \<Rightarrow> string" where
  "byte_hex b = [hex_char (unat b div 16), hex_char (unat b mod 16)]"

definition fromBuffer :: "bytes \<Rightarrow> string" where
  "fromBuffer bs = concat (map byte_hex bs)"

definition lower_hex :: "string \<Rightarrow> bool" where
  "lower_hex s \<longleftrightarrow> list_all (\<lambda>c. c \<in> set hex_digits) s"

lemma lower_hex_simps [simp]:
  "lower_hex []" "lower_hex (c # s) \<longleftrightarrow> c \<in> set hex_digits \<and> lower_hex s"
  "lower_hex (s @ t) \<longleftrightarrow> lower_hex s \<and> lower_hex t"
  by (auto simp: lower_hex_def)

lemma lower_hex_take: "lower_hex s \<Longrightarrow> lower_hex (take n s)"
  by (metis append_take_drop_id lower_hex_simps(3))

lemma length_hex_digits [simp]: "length hex_digits = 16"
  by (simp add: hex_digits_def)

lemma hex_val_digits: "map hex_val hex_digits = map Some [0..<16]"
  by (simp add: hex_digits_def hex_val_def digit_val_def upt_conv_Cons)

lemma hex_val_hex_char [simp]: "d < 16 \<Longrightarrow> hex_val (hex_char d) = Some d"
  using arg_cong [OF hex_val_digits, of "\<lambda>xs. xs ! d"] by (simp add: hex_char_def)

lemma hex_char_lower: "d < 16 \<Longrightarrow> hex_char d \<in> set hex_digits"
  by (simp add: hex_char_def)

lemma lower_hex_val: "c \<in> set hex_digits \<Longrightarrow> \<exists>d<16. hex_val c = Some d \<and> hex_char d = c"
  by (metis hex_char_def hex_val_hex_char in_set_conv_nth length_hex_digits)

lemma lower_hex_valE:
  assumes "c \<in> set hex_digits"
  obtains d where "d < 16" "hex_val c = Some d" "hex_char d = c"
  using lower_hex_val [OF assms] by blast

lemma unat_byte_of [simp]: "h < 16 \<Longrightarrow> l < 16 \<Longrightarrow> unat (byte_of h l) = 16 * h + l"
  by (simp add: byte_of_def unat_of_nat del: of_nat_add of_nat_mult)

lemma byte_of_div_mod [simp]: "byte_of (unat b div 16) (unat b mod 16) = b"
  by (simp add: byte_of_def del: of_nat_add of_nat_mult)

lemma unat_byte_lt: "unat (b :: 8 word) < 256"
  using unsigned_less [of b, where 'a = nat] by simp

lemma toBuffer_byte_hex [simp]: "toBuffer (byte_hex b @ s) = b # toBuffer s"
proof -
  have "unat b div 16 < 16" "unat b mod 16 < 16"
    using unat_byte_lt [of b] by auto
  then show ?thesis by (simp add: byte_hex_def)
qed

lemma toBuffer_fromBuffer [simp]: "toBuffer (fromBuffer bs) = bs"
  by (induction bs) (simp_all add: fromBuffer_def)

lemma fromBuffer_Nil [simp]: "fromBuffer [] = []"
  by (simp add: fromBuffer_def)

lemma fromBuffer_Cons [simp]: "fromBuffer (b # bs) = byte_hex b @ fromBuffer bs"
  by (simp add: fromBuffer_def)

lemma fromBuffer_append [simp]: "fromBuffer (bs @ cs) = fromBuffer bs @ fromBuffer cs"
  by (simp add: fromBuffer_def)

lemma length_byte_hex [simp]: "length (byte_hex b) = 2"
  by (simp add: byte_hex_def)

lemma length_fromBuffer [simp]: "length (fromBuffer bs) = 2 * length bs"
  by (induction bs) simp_all

lemma byte_hex_inject [simp]: "byte_hex b = byte_hex c \<longleftrightarrow> b = c"
  by (metis append_Nil2 list.inject toBuffer_byte_hex)

lemma fromBuffer_inject [simp]: "fromBuffer bs = fromBuffer cs \<longleftrightarrow> bs = cs"
  by (metis toBuffer_fromBuffer)

lemma lower_hex_byte_hex [simp]: "lower_hex (byte_hex b)"
proof -
  have "unat b div 16 < 16" "unat b mod 16 < 16"
    using unat_byte_lt [of b] by auto
  then show ?thesis using hex_char_lower by (simp add: byte_hex_def)
qed

lemma lower_hex_fromBuffer [simp]: "lower_hex (fromBuffer bs)"
  by (induction bs) simp_all

lemma fromBuffer_toBuffer [simp]:
  assumes "lower_hex s" "even (length s)"
  shows "fromBuffer (toBuffer s) = s"
  using assms
proof (induction s rule: toBuffer.induct)
  case (1 a b s)
  note Cons = 1
  from Cons(2,3) have "a \<in> set hex_digits" "b \<in> set hex_digits"
    by auto
  then obtain h l where
    "h < 16" "hex_val a = Some h" "hex_char h = a" "l < 16" "hex_val b = Some l" "hex_char l = b"
    by (elim lower_hex_valE) metis
  moreover from this Cons have "fromBuffer (toBuffer s) = s" by simp
  ultimately show ?case by (simp add: byte_hex_def)
qed simp_all

lemma length_toBuffer:
  "lower_hex s \<Longrightarrow> even (length s) \<Longrightarrow> length (toBuffer s) = length s div 2"
  using length_fromBuffer [of "toBuffer s"] by simp

lemma toBuffer_inject:
  "lower_hex s \<Longrightarrow> even (length s) \<Longrightarrow> lower_hex t \<Longrightarrow> even (length t)
     \<Longrightarrow> toBuffer s = toBuffer t \<longleftrightarrow> s = t"
  by (metis fromBuffer_toBuffer)

lemma take_fromBuffer: "take (2 * n) (fromBuffer bs) = fromBuffer (take n bs)"
proof (induction bs arbitrary: n)
  case (Cons b bs)
  then show ?case by (cases n) simp_all
qed simp

section \<open>UTF-8 of a string\<close>

definition utf8_char :: "char \<Rightarrow> bytes" where
  "utf8_char c =
     (let n = of_char c :: nat
      in if n < 128 then [word_of_nat n]
         else [word_of_nat (192 + n div 64), word_of_nat (128 + n mod 64)])"

definition utf8 :: "string \<Rightarrow> bytes" where
  "utf8 s = concat (map utf8_char s)"

section \<open>\<open>JSON.stringify\<close>\<close>

datatype json =
    JNull
  | JBool bool
  | JNum int
  | JStr string
  | JArr "json list"
  | JObj "(string \<times> json) list"

definition json_char :: "char \<Rightarrow> string" where
  "json_char c =
     (let n = of_char c :: nat in
      if c = CHR 0x22 then [CHR 0x5C, CHR 0x22]
      else if c = CHR 0x5C then [CHR 0x5C, CHR 0x5C]
      else if n = 8 then [CHR 0x5C, CHR ''b'']
      else if n = 9 then [CHR 0x5C, CHR ''t'']
      else if n = 10 then [CHR 0x5C, CHR ''n'']
      else if n = 12 then [CHR 0x5C, CHR ''f'']
      else if n = 13 then [CHR 0x5C, CHR ''r'']
      else if n < 32 then CHR 0x5C # ''u00'' @ [hex_char (n div 16), hex_char (n mod 16)]
      else [c])"

definition json_string :: "string \<Rightarrow> string" where
  "json_string s = CHR 0x22 # concat (map json_char s) @ [CHR 0x22]"

fun stringify :: "json \<Rightarrow> string" where
  "stringify JNull = ''null''"
| "stringify (JBool b) = (if b then ''true'' else ''false'')"
| "stringify (JNum i) = int_str i"
| "stringify (JStr s) = json_string s"
| "stringify (JArr xs) = ''['' @ js_join '','' (map stringify xs) @ '']''"
| "stringify (JObj kvs) =
     ''{'' @ js_join '','' (map (\<lambda>(k, v). json_string k @ '':'' @ stringify v) kvs) @ ''}''"

end
