(* ===== verification/Nostr_Event.thy ===== *)
theory Nostr_Event
  imports Js_Encoding
begin

text \<open>
  The data model of the relay and the pure functions over events: constants/base.ts, @types/event.ts,
  @types/subscription.ts, utils/event.ts, utils/filter.ts, utils/proof-of-work.ts, utils/secret.ts.
  The cryptographic primitives (SHA-256, HMAC, Schnorr verification, public-key derivation) come from
  a package and from Node, and are parameters of the definitions that call them.
\<close>

section \<open>Constants\<close>

datatype EventKinds =
    SET_METADATA | TEXT_NOTE | RECOMMEND_SERVER | CONTACT_LIST | ENCRYPTED_DIRECT_MESSAGE
  | DELETE | REPOST | REACTION
  | CHANNEL_CREATION | CHANNEL_METADATA | CHANNEL_MESSAGE | CHANNEL_HIDE_MESSAGE
  | CHANNEL_MUTE_USER | CHANNEL_RESERVED_FIRST | CHANNEL_RESERVED_LAST
  | RELAY_INVITE | INVOICE_UPDATE | ZAP_REQUEST | ZAP_RECEIPT
  | REPLACEABLE_FIRST | REPLACEABLE_LAST | EPHEMERAL_FIRST | EPHEMERAL_LAST
  | PARAMETERIZED_REPLACEABLE_FIRST | PARAMETERIZED_REPLACEABLE_LAST | USER_APPLICATION_FIRST

fun kind_value :: "EventKinds \<Rightarrow> int" where
  "kind_value SET_METADATA = 0"
| "kind_value TEXT_NOTE = 1"
| "kind_value RECOMMEND_SERVER = 2"
| "kind_value CONTACT_LIST = 3"
| "kind_value ENCRYPTED_DIRECT_MESSAGE = 4"
| "kind_value DELETE = 5"
| "kind_value REPOST = 6"
| "kind_value REACTION = 7"
| "kind_value CHANNEL_CREATION = 40"
| "kind_value CHANNEL_METADATA = 41"
| "kind_value CHANNEL_MESSAGE = 42"
| "kind_value CHANNEL_HIDE_MESSAGE = 43"
| "kind_value CHANNEL_MUTE_USER = 44"
| "kind_value CHANNEL_RESERVED_FIRST = 45"
| "kind_value CHANNEL_RESERVED_LAST = 49"
| "kind_value RELAY_INVITE = 50"
| "kind_value INVOICE_UPDATE = 402"
| "kind_value ZAP_REQUEST = 9734"
| "kind_value ZAP_RECEIPT = 9735"
| "kind_value REPLACEABLE_FIRST = 10000"
| "kind_value REPLACEABLE_LAST = 19999"
| "kind_value EPHEMERAL_FIRST = 20000"
| "kind_value EPHEMERAL_LAST = 29999"
| "kind_value PARAMETERIZED_REPLACEABLE_FIRST = 30000"
| "kind_value PARAMETERIZED_REPLACEABLE_LAST = 39999"
| "kind_value USER_APPLICATION_FIRST = 40000"

datatype EventTags = EventTag | PubkeyTag | DeduplicationTag | ExpirationTag | InvoiceTag

fun tag_value :: "EventTags \<Rightarrow> string" where
  "tag_value EventTag = ''e''"
| "tag_value PubkeyTag = ''p''"
| "tag_value DeduplicationTag = ''d''"
| "tag_value ExpirationTag = ''expiration''"
| "tag_value InvoiceTag = ''bolt11''"

section \<open>Events, rows and filters\<close>

type_synonym tag = "string list"

text \<open>
  An event: the seven fields of the protocol, and the three metadata properties the code attaches
  under symbol keys, which \<open>JSON.stringify\<close> skips: the client's address
  (\<open>ContextMetadataKey\<close>), the expiration time and the deduplication key.
\<close>

record event =
  evt_id :: string
  pubkey :: string
  created_at :: int
  kind :: int
  tags :: "tag list"
  sig :: string
  content :: string
  ctx_address :: "string option"
  meta_expiration :: "int option"
  meta_deduplication :: "string list option"

text \<open>A row of the table \<open>events\<close>; \<open>event_deduplication\<close> is a \<open>jsonb\<close> column.\<close>

record dbevent =
  event_id :: bytes
  event_pubkey :: bytes
  event_kind :: int
  event_created_at :: int
  event_content :: string
  event_tags :: "tag list"
  event_signature :: bytes
  event_deduplication :: "json option"
  remote_address :: "string option"
  expires_at :: "int option"
  deleted_at :: "int option"

text \<open>
  A subscription filter; \<open>generic\<close> holds the entries whose keys start with \<open>#\<close>, in the order of
  \<open>Object.entries\<close>.
\<close>

record subfilter =
  ids :: "string list option"
  kinds :: "int list option"
  since :: "int option"
  until :: "int option"
  authors :: "string list option"
  limit :: "int option"
  generic :: "(string \<times> string list) list"

definition empty_filter :: subfilter where
  "empty_filter = \<lparr>ids = None, kinds = None, since = None, until = None, authors = None,
     limit = None, generic = []\<rparr>"

text \<open>A kind or an inclusive range of kinds, as settings write them.\<close>

datatype kind_spec = OneKind int | KindRange int int

section \<open>Identity, signature and relay keys\<close>

record crypto =
  sha256 :: "bytes \<Rightarrow> bytes"
  hmac_sha256 :: "string \<Rightarrow> string \<Rightarrow> bytes"
  schnorr_verify :: "string \<Rightarrow> string \<Rightarrow> string \<Rightarrow> bool"
  derive_public_key :: "string \<Rightarrow> string"

definition serializeEvent :: "event \<Rightarrow> json" where
  "serializeEvent e =
     JArr [JNum 0, JStr (pubkey e), JNum (created_at e), JNum (kind e),
           JArr (map (\<lambda>t. JArr (map JStr t)) (tags e)), JStr (content e)]"

definition getEventHash :: "crypto \<Rightarrow> event \<Rightarrow> string" where
  "getEventHash c e = fromBuffer (sha256 c (utf8 (stringify (serializeEvent e))))"

definition isEventIdValid :: "crypto \<Rightarrow> event \<Rightarrow> bool" where
  "isEventIdValid c e \<longleftrightarrow> evt_id e = getEventHash c e"

definition isEventSignatureValid :: "crypto \<Rightarrow> event \<Rightarrow> bool" where
  "isEventSignatureValid c e \<longleftrightarrow> schnorr_verify c (sig e) (evt_id e) (pubkey e)"

definition identifyEvent :: "crypto \<Rightarrow> event \<Rightarrow> event" where
  "identifyEvent c e = e\<lparr>evt_id := getEventHash c e\<rparr>"

definition toNostrEvent :: "dbevent \<Rightarrow> event" where
  "toNostrEvent r =
     \<lparr>evt_id = fromBuffer (event_id r), pubkey = fromBuffer (event_pubkey r),
      created_at = event_created_at r, kind = event_kind r, tags = event_tags r,
      sig = fromBuffer (event_signature r), content = event_content r,
      ctx_address = None, meta_expiration = None, meta_deduplication = None\<rparr>"

text \<open>
  \<open>deriveFromSecret\<close> throws where \<open>SECRET\<close> is unset or empty; \<open>getRelayPrivateKey\<close> keeps the
  first key it returns in \<open>privateKeyCache\<close>, and \<open>getPublicKey\<close> keeps one public key per
  private key. The environment variables \<open>SECRET\<close> and \<open>RELAY_PRIVATE_KEY\<close> are arguments.
\<close>

datatype js_error = JsError string | TypeErr string | PgError string

definition deriveFromSecret :: "crypto \<Rightarrow> string option \<Rightarrow> string \<Rightarrow> js_error + bytes" where
  "deriveFromSecret c SECRET purpose =
     (case SECRET of
        None \<Rightarrow> Inl (JsError ''SECRET environment variable not set'')
      | Some s \<Rightarrow> if s = [] then Inl (JsError ''SECRET environment variable not set'')
                  else Inr (hmac_sha256 c s purpose))"

definition truthy :: "string option \<Rightarrow> bool" where
  "truthy v \<longleftrightarrow> (case v of None \<Rightarrow> False | Some s \<Rightarrow> s \<noteq> [])"

definition getRelayPrivateKey ::
  "crypto \<Rightarrow> string option \<Rightarrow> string option \<Rightarrow> string option \<Rightarrow> string
     \<Rightarrow> (js_error + string) \<times> string option" where
  "getRelayPrivateKey c SECRET RELAY_PRIVATE_KEY cache secret =
     (if truthy cache then (Inr (the cache), cache)
      else if truthy RELAY_PRIVATE_KEY then (Inr (the RELAY_PRIVATE_KEY), RELAY_PRIVATE_KEY)
      else (case deriveFromSecret c SECRET secret of
              Inl err \<Rightarrow> (Inl err, cache)
            | Inr key \<Rightarrow> (Inr (fromBuffer key), Some (fromBuffer key))))"

definition getPublicKey :: "crypto \<Rightarrow> (string \<rightharpoonup> string) \<Rightarrow> string \<Rightarrow> string \<times> (string \<rightharpoonup> string)" where
  "getPublicKey c cache privkey =
     (case cache privkey of
        Some pk \<Rightarrow> (pk, cache)
      | None \<Rightarrow> (derive_public_key c privkey, cache(privkey \<mapsto> derive_public_key c privkey)))"

section \<open>Kinds\<close>

definition isEventKindOrRangeMatch :: "event \<Rightarrow> kind_spec \<Rightarrow> bool" where
  "isEventKindOrRangeMatch e item =
     (case item of
        OneKind k \<Rightarrow> k = kind e
      | KindRange a b \<Rightarrow> kind e \<ge> a \<and> kind e \<le> b)"

definition isReplaceableEvent :: "event \<Rightarrow> bool" where
  "isReplaceableEvent e \<longleftrightarrow>
     kind e = kind_value SET_METADATA \<or> kind e = kind_value CONTACT_LIST
     \<or> kind e = kind_value CHANNEL_METADATA
     \<or> (kind e \<ge> kind_value REPLACEABLE_FIRST \<and> kind e \<le> kind_value REPLACEABLE_LAST)"

definition isEphemeralEvent :: "event \<Rightarrow> bool" where
  "isEphemeralEvent e \<longleftrightarrow>
     kind e \<ge> kind_value EPHEMERAL_FIRST \<and> kind e \<le> kind_value EPHEMERAL_LAST"

definition isParameterizedReplaceableEvent :: "event \<Rightarrow> bool" where
  "isParameterizedReplaceableEvent e \<longleftrightarrow>
     kind e \<ge> kind_value PARAMETERIZED_REPLACEABLE_FIRST
     \<and> kind e \<le> kind_value PARAMETERIZED_REPLACEABLE_LAST"

definition isDeleteEvent :: "event \<Rightarrow> bool" where
  "isDeleteEvent e \<longleftrightarrow> kind e = kind_value DELETE"

section \<open>Matching a filter\<close>

definition is_letter :: "char \<Rightarrow> bool" where
  "is_letter c \<longleftrightarrow>
     (let n = of_char c :: nat in (97 \<le> n \<and> n \<le> 122) \<or> (65 \<le> n \<and> n \<le> 90))"

text \<open>The regular expression \<open>/^#[a-zA-Z]$/\<close>.\<close>

definition isGenericTagQuery :: "string \<Rightarrow> bool" where
  "isGenericTagQuery key =
     (case key of [h, c] \<Rightarrow> h = CHR ''#'' \<and> is_letter c | _ \<Rightarrow> False)"

fun tag_criteria_met :: "event \<Rightarrow> string \<times> string list \<Rightarrow> bool" where
  "tag_criteria_met e (key, criteria) =
     list_ex (\<lambda>tag. js_at tag 0 = map_option (\<lambda>c. [c]) (js_at key 1)
                    \<and> (case js_at tag 1 of None \<Rightarrow> False | Some v \<Rightarrow> v \<in> set criteria))
       (tags e)"

declare tag_criteria_met.simps [simp del]

definition isEventMatchingFilter :: "subfilter \<Rightarrow> event \<Rightarrow> bool" where
  "isEventMatchingFilter f e =
     (if (case ids f of None \<Rightarrow> False | Some xs \<Rightarrow> \<not> list_ex (startsWith (evt_id e)) xs)
      then False
      else if (case kinds f of None \<Rightarrow> False | Some ks \<Rightarrow> kind e \<notin> set ks)
      then False
      else if (case since f of None \<Rightarrow> False | Some s \<Rightarrow> created_at e < s)
      then False
      else if (case until f of None \<Rightarrow> False | Some u \<Rightarrow> created_at e > u)
      then False
      else if (case authors f of None \<Rightarrow> False | Some xs \<Rightarrow> \<not> list_ex (startsWith (pubkey e)) xs)
      then False
      else if list_ex (\<lambda>kc. \<not> tag_criteria_met e kc)
                (filter (\<lambda>kc. isGenericTagQuery (fst kc)) (generic f))
      then False
      else True)"

section \<open>Expiration\<close>

definition getEventExpiration :: "event \<Rightarrow> int option" where
  "getEventExpiration e =
     (case find (\<lambda>tag. length tag \<ge> 2 \<and> js_at tag 0 = Some (tag_value ExpirationTag)) (tags e) of
        None \<Rightarrow> None
      | Some tag \<Rightarrow>
          (case js_at tag 1 of
             None \<Rightarrow> None
           | Some rawExpirationTime \<Rightarrow>
               if rawExpirationTime = [] then None
               else (case safe_integer (js_Number rawExpirationTime) of
                       None \<Rightarrow> None
                     | Some expirationTime \<Rightarrow>
                         if log10_below_10 expirationTime then Some expirationTime else None)))"

definition isExpiredEvent :: "int \<Rightarrow> event \<Rightarrow> bool" where
  "isExpiredEvent now_ms e =
     (if tags e = [] then False
      else (case getEventExpiration e of
              None \<Rightarrow> False
            | Some expirationTime \<Rightarrow>
                if expirationTime = 0 then False else expirationTime \<le> now_ms div 1000))"

section \<open>Proof of work\<close>

text \<open>The loop \<open>while (b >>= 1) n++\<close>.\<close>

function msb_shifts :: "8 word \<Rightarrow> nat \<Rightarrow> nat" where
  "msb_shifts b n = (let b' = drop_bit 1 b in if b' \<noteq> 0 then msb_shifts b' (n + 1) else n)"
  by pat_completeness auto

lemma unat_shift1: "unat (drop_bit 1 (b :: 8 word)) = unat b div 2"
  by (simp add: drop_bit_Suc unat_div)

termination msb_shifts
proof (relation "measure (\<lambda>(b, n). unat b)")
  fix b b' :: "8 word" and n :: nat
  assume b': "b' = drop_bit 1 b" and "b' \<noteq> 0"
  then have "unat b \<noteq> 0" by (metis drop_bit_of_0 unsigned_0 unsigned_word_eqI)
  moreover have "unat b' = unat b div 2" by (simp only: b' unat_shift1)
  ultimately show "((b', n + 1), (b, n)) \<in> measure (\<lambda>(b, n). unat b)"
    by simp
qed simp

declare msb_shifts.simps [simp del]

definition msb :: "8 word \<Rightarrow> nat" where
  "msb b = (if b = 0 then 8 else 7 - msb_shifts b 0)"

fun zero_bits_from :: "nat \<Rightarrow> bytes \<Rightarrow> nat" where
  "zero_bits_from acc [] = acc"
| "zero_bits_from acc (b # hash) =
     (let bits = msb b in
      if bits \<noteq> 8 then acc + bits else zero_bits_from (acc + bits) hash)"

definition getLeadingZeroBits :: "bytes \<Rightarrow> nat" where
  "getLeadingZeroBits hash = zero_bits_from 0 hash"

definition getEventProofOfWork :: "string \<Rightarrow> nat" where
  "getEventProofOfWork eventId = getLeadingZeroBits (toBuffer eventId)"

definition getPubkeyProofOfWork :: "string \<Rightarrow> nat" where
  "getPubkeyProofOfWork pk = getLeadingZeroBits (toBuffer pk)"

section \<open>Lemmas: proof of work\<close>

text \<open>The loop counts the position of the highest set bit.\<close>

lemma msb_shifts_bounds:
  assumes "b \<noteq> 0"
  shows "\<exists>k. msb_shifts b n = n + k \<and> 2 ^ k \<le> unat b \<and> unat b < 2 ^ (k + 1)"
  using assms
proof (induction b n rule: msb_shifts.induct)
  case (1 b n)
  have half: "unat (drop_bit 1 b) = unat b div 2" by (rule unat_shift1)
  show ?case
  proof (cases "drop_bit 1 b = 0")
    case True
    then have "unat b div 2 = 0" using half by (simp only: True unsigned_0)
    moreover have "unat b \<noteq> 0" using 1 by (simp add: unat_eq_0)
    ultimately have "unat b = 1" by linarith
    moreover have "msb_shifts b n = n"
      using True by (simp only: msb_shifts.simps [of b n] Let_def) simp
    ultimately show ?thesis by (intro exI [of _ 0]) simp
  next
    case False
    then obtain k where k: "msb_shifts (drop_bit 1 b) (n + 1) = n + 1 + k"
      "2 ^ k \<le> unat b div 2" "unat b div 2 < 2 ^ (k + 1)"
      using 1 half by (metis (no_types, lifting))
    moreover have "msb_shifts b n = n + (k + 1)"
      using False k(1) by (simp only: msb_shifts.simps [of b n] Let_def) simp
    moreover have "2 ^ (k + 1) \<le> unat b" "unat b < 2 ^ (k + 1 + 1)"
      using k(2,3) by (simp_all add: less_mult_imp_div_less)
    ultimately show ?thesis by blast
  qed
qed

lemma msb_zero [simp]: "msb 0 = 8"
  by (simp add: msb_def)

lemma msb_bounds:
  assumes "b \<noteq> 0"
  shows "msb b \<le> 7 \<and> 2 ^ (7 - msb b) \<le> unat b \<and> unat b < 2 ^ Suc (7 - msb b)"
proof -
  obtain k where k: "msb_shifts b 0 = k" "2 ^ k \<le> unat b" "unat b < 2 ^ (k + 1)"
    using msb_shifts_bounds [OF assms, of 0] by auto
  have "(2::nat) ^ k < 2 ^ 8" using k(2) unat_byte_lt [of b] by simp
  then have "k < 8" using power_less_imp_less_exp [of "2::nat" k 8] by simp
  then show ?thesis using k assms by (simp add: msb_def)
qed

lemma msb_eq_8_iff [simp]: "msb b = 8 \<longleftrightarrow> b = 0"
  using msb_bounds [of b] by (cases "b = 0") auto

lemma msb_ge_4_iff: "4 \<le> msb b \<longleftrightarrow> unat b < 16"
proof (cases "b = 0")
  case False
  note bounds = msb_bounds [OF False]
  show ?thesis
  proof
    assume "4 \<le> msb b"
    then have "(2::nat) ^ Suc (7 - msb b) \<le> 2 ^ 4" by (intro power_increasing) auto
    then show "unat b < 16" using bounds by simp
  next
    assume "unat b < 16"
    then have "(2::nat) ^ (7 - msb b) < 2 ^ 4" using bounds by simp
    then have "7 - msb b < 4" using power_less_imp_less_exp [of "2::nat" "7 - msb b" 4] by simp
    then show "4 \<le> msb b" by simp
  qed
qed simp

text \<open>The bits of a byte and of a buffer, most significant first.\<close>

definition byte_bits :: "8 word \<Rightarrow> bool list" where
  "byte_bits b = map (bit b) (rev [0..<8])"

definition bits_of :: "bytes \<Rightarrow> bool list" where
  "bits_of bs = concat (map byte_bits bs)"

lemma leading_zeros_at:
  assumes "k < n" "P k" "\<And>j. k < j \<Longrightarrow> j < n \<Longrightarrow> \<not> P j"
  shows "takeWhile Not (map P (rev [0..<n])) = replicate (n - Suc k) False"
proof -
  have "[0..<n] = [0..<k] @ k # [Suc k..<n]"
    using assms(1) by (metis le_add1 less_imp_add_positive upt_add_eq_append upt_conv_Cons less_imp_le_nat le_add_diff_inverse zero_le)
  then have "map P (rev [0..<n]) = map P (rev [Suc k..<n]) @ P k # map P (rev [0..<k])"
    by simp
  moreover have "map P (rev [Suc k..<n]) = replicate (n - Suc k) False"
    using assms(3) by (auto intro!: nth_equalityI simp: rev_nth)
  ultimately show ?thesis using assms(2) by (simp add: takeWhile_append)
qed

lemma takeWhile_byte_bits:
  assumes "b \<noteq> 0"
  shows "length (takeWhile Not (byte_bits b)) = msb b"
proof -
  let ?k = "7 - msb b"
  have b: "msb b \<le> 7" "2 ^ ?k \<le> unat b" "unat b < 2 ^ (?k + 1)"
    using msb_bounds [OF assms] by simp_all
  have bits: "bit b j \<longleftrightarrow> odd (unat b div 2 ^ j)" for j
    using bit_unsigned_iff [of b j, where 'a = nat] bit_iff_odd [of "unat b" j] by simp
  have "unat b div 2 ^ ?k = 1"
    by (rule div_nat_eqI) (use b(2,3) in simp_all)
  then have "bit b ?k" by (simp add: bits)
  moreover have "\<not> bit b j" if "?k < j" "j < 8" for j
  proof -
    have "(2::nat) ^ (?k + 1) \<le> 2 ^ j" using that by (intro power_increasing) auto
    then have "unat b div 2 ^ j = 0" using b(3) by simp
    then show ?thesis by (simp add: bits)
  qed
  ultimately have "takeWhile Not (byte_bits b) = replicate (8 - Suc ?k) False"
    unfolding byte_bits_def by (intro leading_zeros_at) auto
  then show ?thesis using b(1) by simp
qed

lemma byte_bits_zero: "byte_bits 0 = replicate 8 False"
  by (auto simp: byte_bits_def intro!: nth_equalityI)

lemma length_byte_bits [simp]: "length (byte_bits b) = 8"
  by (simp add: byte_bits_def)

lemma zero_bits_from_spec:
  "zero_bits_from n bs = n + length (takeWhile Not (bits_of bs))"
proof (induction n bs rule: zero_bits_from.induct)
  case (1 n)
  show ?case by (simp add: bits_of_def)
next
  case (2 n b bs)
  show ?case
  proof (cases "b = 0")
    case True
    have "takeWhile Not (replicate 8 False @ xs) = replicate 8 False @ takeWhile Not xs" for xs
      by (rule takeWhile_append2) auto
    with 2 True show ?thesis by (simp add: bits_of_def byte_bits_zero)
  next
    case False
    have "length (takeWhile Not (byte_bits b)) < length (byte_bits b)"
      using takeWhile_byte_bits [OF False] msb_bounds [OF False] by simp
    then obtain x where "x \<in> set (byte_bits b)" "x"
      by (metis (full_types) nat_less_le takeWhile_eq_all_conv)
    then have "takeWhile Not (byte_bits b @ ys) = takeWhile Not (byte_bits b)" for ys
      by (intro takeWhile_append1) auto
    then show ?thesis using False takeWhile_byte_bits [OF False] by (simp add: bits_of_def)
  qed
qed

lemma getLeadingZeroBits_spec:
  "getLeadingZeroBits bs = length (takeWhile Not (bits_of bs))"
  by (simp add: getLeadingZeroBits_def zero_bits_from_spec)

lemma getLeadingZeroBits_Cons:
  "getLeadingZeroBits (b # bs) = (if b = 0 then 8 + getLeadingZeroBits bs else msb b)"
  by (simp add: getLeadingZeroBits_def zero_bits_from_spec [of 8] zero_bits_from_spec [of 0 bs])

lemma getLeadingZeroBits_Nil [simp]: "getLeadingZeroBits [] = 0"
  by (simp add: getLeadingZeroBits_def)

lemma hex_char_inject: "d < 16 \<Longrightarrow> e < 16 \<Longrightarrow> hex_char d = hex_char e \<longleftrightarrow> d = e"
  by (metis hex_val_hex_char option.inject)

lemma hex_char_0: "hex_char 0 = CHR ''0''"
  by (simp add: hex_char_def hex_digits_def)

lemma byte_hex_zero_digits:
  "hd (byte_hex b) = CHR ''0'' \<longleftrightarrow> unat b < 16"
  "byte_hex b = ''00'' \<longleftrightarrow> b = 0"
proof -
  have lt: "unat b div 16 < 16" "unat b mod 16 < 16"
    using unat_byte_lt [of b] by auto
  show "hd (byte_hex b) = CHR ''0'' \<longleftrightarrow> unat b < 16"
    using hex_char_inject [OF lt(1), of 0] by (auto simp: byte_hex_def hex_char_0)
  have "byte_hex 0 = ''00''" by (simp add: byte_hex_def hex_char_0)
  then show "byte_hex b = ''00'' \<longleftrightarrow> b = 0" by (metis byte_hex_inject)
qed

text \<open>A difficulty of \<open>4 * k\<close> bits is a run of \<open>k\<close> zeros in the hexadecimal string.\<close>

lemma getLeadingZeroBits_hex:
  "4 * k \<le> getLeadingZeroBits bs \<longleftrightarrow> prefix (replicate k (CHR ''0'')) (fromBuffer bs)"
proof (induction bs arbitrary: k)
  case Nil
  show ?case by (cases k) auto
next
  case (Cons b bs)
  obtain h l where hl: "byte_hex b = [h, l]" by (simp add: byte_hex_def)
  have dig: "h = CHR ''0'' \<longleftrightarrow> 4 \<le> msb b" "h = CHR ''0'' \<and> l = CHR ''0'' \<longleftrightarrow> b = 0"
    using byte_hex_zero_digits [of b] by (simp_all add: hl msb_ge_4_iff)
  consider "k = 0" | "k = 1" | m where "k = Suc (Suc m)"
    by (metis One_nat_def not0_implies_Suc)
  then show ?case
  proof cases
    case 2
    then show ?thesis using dig by (auto simp: getLeadingZeroBits_Cons hl)
  next
    case 3
    have "\<not> 4 * k \<le> msb b" if "b \<noteq> 0" using msb_bounds [OF that] 3 by simp
    then show ?thesis using dig(2) Cons [of m] 3
      by (auto simp: getLeadingZeroBits_Cons hl)
  qed simp
qed

section \<open>Lemmas: expiration\<close>

lemma safe_integer_getEventExpiration_int_str:
  "0 \<le> n \<Longrightarrow> n < 10 ^ 10 \<Longrightarrow> safe_integer (js_Number (int_str n)) = Some n"
  using safe_integer_nat_str [of "nat n"] by (simp add: int_str_def nat_less_iff)

lemma int_str_not_Nil [simp]: "int_str n \<noteq> []"
  by (simp add: int_str_def)

lemma find_skip: "(\<And>x. x \<in> set xs \<Longrightarrow> \<not> P x) \<Longrightarrow> find P (xs @ ys) = find P ys"
  by (induction xs) auto

lemma getEventExpiration_range:
  "getEventExpiration e = Some x \<Longrightarrow> 0 \<le> x \<and> x < 10 ^ 10"
  by (auto simp: getEventExpiration_def log10_below_10_def split: option.splits if_splits)

lemma getEventExpiration_no_tags [simp]: "tags e = [] \<Longrightarrow> getEventExpiration e = None"
  by (simp add: getEventExpiration_def)

lemma getEventExpiration_printed:
  assumes "tags e = pre @ (tag_value ExpirationTag # int_str n # rest) # post"
    and "\<And>t. t \<in> set pre \<Longrightarrow> length t < 2 \<or> hd t \<noteq> tag_value ExpirationTag"
    and "0 \<le> n" "n < 10 ^ 10"
  shows "getEventExpiration e = Some n"
proof -
  let ?P = "\<lambda>tag. length tag \<ge> 2 \<and> js_at tag 0 = Some (tag_value ExpirationTag)"
  have "\<not> ?P t" if "t \<in> set pre" for t
    using assms(2) [OF that] by (cases t) auto
  then have "find ?P (tags e) = Some (tag_value ExpirationTag # int_str n # rest)"
    by (subst assms(1), subst find_skip) auto
  then show ?thesis
    using safe_integer_getEventExpiration_int_str [OF assms(3,4)] assms(3,4)
    by (simp add: getEventExpiration_def log10_below_10_def)
qed

lemma isExpiredEvent_iff:
  "isExpiredEvent now_ms e \<longleftrightarrow>
     (\<exists>x. getEventExpiration e = Some x \<and> 0 < x \<and> x * 1000 \<le> now_ms)"
proof -
  have div: "x \<le> now_ms div 1000 \<longleftrightarrow> x * 1000 \<le> now_ms" for x :: int by linarith
  show ?thesis
  proof (cases "getEventExpiration e")
    case (Some x)
    then have "tags e \<noteq> []" "0 \<le> x" using getEventExpiration_range by fastforce+
    with Some show ?thesis by (auto simp: isExpiredEvent_def div)
  qed (auto simp: isExpiredEvent_def)
qed

section \<open>Lemmas: matching a filter\<close>

lemma isGenericTagQueryE:
  assumes "isGenericTagQuery key"
  obtains c where "key = [CHR ''#'', c]" "is_letter c"
  using assms by (auto simp: isGenericTagQuery_def split: list.splits)

lemma tag_criteria_met_iff:
  "tag_criteria_met e ([h, c], vs) \<longleftrightarrow>
     (\<exists>tag\<in>set (tags e). \<exists>v rest. tag = [c] # v # rest \<and> v \<in> set vs)"
proof -
  have "js_at tag 0 = Some [c] \<and> (case js_at tag 1 of None \<Rightarrow> False | Some v \<Rightarrow> v \<in> set vs)
        \<longleftrightarrow> (\<exists>v rest. tag = [c] # v # rest \<and> v \<in> set vs)" for tag
    by (cases tag rule: remdups_adj.cases) auto
  then show ?thesis by (simp add: tag_criteria_met.simps list_ex_iff)
qed

lemma isEventMatchingFilter_iff:
  "isEventMatchingFilter f e \<longleftrightarrow>
     (\<forall>xs. ids f = Some xs \<longrightarrow> (\<exists>p\<in>set xs. prefix p (evt_id e)))
     \<and> (\<forall>ks. kinds f = Some ks \<longrightarrow> kind e \<in> set ks)
     \<and> (\<forall>s. since f = Some s \<longrightarrow> s \<le> created_at e)
     \<and> (\<forall>u. until f = Some u \<longrightarrow> created_at e \<le> u)
     \<and> (\<forall>xs. authors f = Some xs \<longrightarrow> (\<exists>p\<in>set xs. prefix p (pubkey e)))
     \<and> (\<forall>(key, vs)\<in>set (generic f). isGenericTagQuery key \<longrightarrow> tag_criteria_met e (key, vs))"
  by (auto simp: isEventMatchingFilter_def list_ex_iff startsWith_prefix not_less
      split: option.splits if_splits)

lemma isEventMatchingFilter_empty [simp]: "isEventMatchingFilter empty_filter e"
  by (simp add: isEventMatchingFilter_iff empty_filter_def)

section \<open>Lemmas: kinds\<close>

lemmas kind_tests = isReplaceableEvent_def isEphemeralEvent_def isParameterizedReplaceableEvent_def
  isDeleteEvent_def

lemma kind_classes_disjoint:
  "\<not> (isReplaceableEvent e \<and> isEphemeralEvent e)"
  "\<not> (isReplaceableEvent e \<and> isDeleteEvent e)"
  "\<not> (isReplaceableEvent e \<and> isParameterizedReplaceableEvent e)"
  "\<not> (isEphemeralEvent e \<and> isDeleteEvent e)"
  "\<not> (isEphemeralEvent e \<and> isParameterizedReplaceableEvent e)"
  "\<not> (isDeleteEvent e \<and> isParameterizedReplaceableEvent e)"
  by (auto simp: kind_tests)

end
