(* ===== verification/Event_Store.thy ===== *)
theory Event_Store
  imports Nostr_Event
begin

text \<open>
  The two tables the event repository works on, with the constraints and the trigger the migrations
  give them, and the meaning of the SQL statement forms the repository sends: an insert that ignores
  conflicts, an insert with \<open>ON CONFLICT (...) WHERE ... DO UPDATE ... WHERE ...\<close>, an update, and
  a select with conditions, a left join, an order and a limit.

  \<open>event_id\<close> is unique; \<open>replaceable_events_idx\<close> is a partial unique index on (public key, kind,
  deduplication), and two \<open>NULL\<close> deduplications never conflict. Integer columns are 32 bits wide
  and text holds no NUL character: a value outside is an error of the statement. Rows are listed in
  the order they were inserted; a sort is stable.
\<close>

record tag_row =
  tr_event_id :: bytes
  tr_name :: string
  tr_value :: string

record event_db =
  events :: "dbevent list"
  tag_table :: "tag_row list"

definition empty_db :: event_db where
  "empty_db = \<lparr>events = [], tag_table = []\<rparr>"

section \<open>Constraints\<close>

definition int4 :: "int \<Rightarrow> bool" where
  "int4 i \<longleftrightarrow> - (2 ^ 31) \<le> i \<and> i < 2 ^ 31"

definition pg_text :: "string \<Rightarrow> bool" where
  "pg_text s \<longleftrightarrow> CHR 0x00 \<notin> set s"

definition row_ok :: "dbevent \<Rightarrow> bool" where
  "row_ok r \<longleftrightarrow>
     int4 (event_kind r) \<and> int4 (event_created_at r)
     \<and> (case expires_at r of None \<Rightarrow> True | Some x \<Rightarrow> int4 x)
     \<and> pg_text (event_content r) \<and> list_all (list_all pg_text) (event_tags r)"

text \<open>The predicate of the partial index \<open>replaceable_events_idx\<close>.\<close>

definition in_replaceable_index :: "int \<Rightarrow> bool" where
  "in_replaceable_index k \<longleftrightarrow>
     (k = 0 \<or> k = 3 \<or> k = 41 \<or> (k \<ge> 10000 \<and> k < 20000)) \<or> (k \<ge> 30000 \<and> k < 40000)"

definition index_conflict :: "dbevent \<Rightarrow> dbevent \<Rightarrow> bool" where
  "index_conflict r s \<longleftrightarrow>
     in_replaceable_index (event_kind r) \<and> in_replaceable_index (event_kind s)
     \<and> event_pubkey r = event_pubkey s \<and> event_kind r = event_kind s
     \<and> event_deduplication r = event_deduplication s \<and> event_deduplication r \<noteq> None"

definition has_event_id :: "bytes \<Rightarrow> event_db \<Rightarrow> bool" where
  "has_event_id i db \<longleftrightarrow> list_ex (\<lambda>r. event_id r = i) (events db)"

section \<open>The trigger \<open>process_event_tags\<close>\<close>

definition trim_quotes :: "string \<Rightarrow> string" where
  "trim_quotes s =
     rev (dropWhile (\<lambda>c. c = CHR 0x22) (rev (dropWhile (\<lambda>c. c = CHR 0x22) s)))"

text \<open>\<open>trim((tag_element->i)::text, '"')\<close> of a string element.\<close>

definition pg_tag_text :: "string \<Rightarrow> string" where
  "pg_tag_text s = trim_quotes (json_string s)"

definition tag_row_of :: "bytes \<Rightarrow> tag \<Rightarrow> tag_row option" where
  "tag_row_of i tag =
     (case (js_at tag 0, js_at tag 1) of
        (Some n, Some v) \<Rightarrow>
          if length (pg_tag_text n) = 1 \<and> pg_tag_text v \<noteq> []
          then Some \<lparr>tr_event_id = i, tr_name = pg_tag_text n, tr_value = pg_tag_text v\<rparr>
          else None
      | _ \<Rightarrow> None)"

definition tag_rows :: "dbevent \<Rightarrow> tag_row list" where
  "tag_rows r = List.map_filter (tag_row_of (event_id r)) (event_tags r)"

definition trigger_insert :: "dbevent \<Rightarrow> tag_row list \<Rightarrow> tag_row list" where
  "trigger_insert new tbl = tbl @ tag_rows new"

definition trigger_update :: "dbevent \<Rightarrow> dbevent \<Rightarrow> tag_row list \<Rightarrow> tag_row list" where
  "trigger_update old new tbl =
     filter (\<lambda>t. tr_event_id t \<noteq> event_id old) tbl @ tag_rows new"

section \<open>Statements that write\<close>

definition unique_violation :: js_error where
  "unique_violation = PgError
     (''duplicate key value violates unique constraint '' @ [CHR 0x22]
      @ ''events_event_id_unique'' @ [CHR 0x22])"

definition value_error :: js_error where
  "value_error = PgError ''value out of range or invalid for its type''"

definition insert_row :: "dbevent \<Rightarrow> event_db \<Rightarrow> event_db" where
  "insert_row row db =
     db\<lparr>events := events db @ [row], tag_table := trigger_insert row (tag_table db)\<rparr>"

definition update_rows ::
  "(dbevent \<Rightarrow> bool) \<Rightarrow> (dbevent \<Rightarrow> dbevent) \<Rightarrow> event_db \<Rightarrow> event_db" where
  "update_rows sel upd db =
     db\<lparr>events := map (\<lambda>r. if sel r then upd r else r) (events db),
        tag_table := fold (\<lambda>r. trigger_update r (upd r)) (filter sel (events db)) (tag_table db)\<rparr>"

text \<open>\<open>INSERT ... ON CONFLICT DO NOTHING\<close>: any unique constraint.\<close>

definition insert_ignore :: "dbevent \<Rightarrow> event_db \<Rightarrow> (js_error + nat) \<times> event_db" where
  "insert_ignore row db =
     (if \<not> row_ok row then (Inl value_error, db)
      else if has_event_id (event_id row) db \<or> list_ex (\<lambda>r. index_conflict r row) (events db)
      then (Inr 0, db)
      else (Inr 1, insert_row row db))"

text \<open>
  \<open>INSERT ... ON CONFLICT (event_pubkey, event_kind, event_deduplication) WHERE ... DO UPDATE SET
  ... WHERE events.event_created_at < ...\<close>: a conflict on the index updates the row where the
  condition holds; a conflict on \<open>event_id\<close> alone is an error.
\<close>

definition merged_row :: "dbevent \<Rightarrow> dbevent \<Rightarrow> dbevent" where
  "merged_row row r =
     row\<lparr>event_pubkey := event_pubkey r, event_kind := event_kind r,
         event_deduplication := event_deduplication r\<rparr>"

definition insert_or_merge :: "dbevent \<Rightarrow> event_db \<Rightarrow> (js_error + nat) \<times> event_db" where
  "insert_or_merge row db =
     (if \<not> row_ok row then (Inl value_error, db)
      else
        (case find (\<lambda>r. index_conflict r row) (events db) of
           None \<Rightarrow>
             (if has_event_id (event_id row) db then (Inl unique_violation, db)
              else (Inr 1, insert_row row db))
         | Some r \<Rightarrow>
             (if \<not> event_created_at r < event_created_at row then (Inr 0, db)
              else if event_id row \<noteq> event_id r \<and> has_event_id (event_id row) db
              then (Inl unique_violation, db)
              else (Inr 1, update_rows (\<lambda>r'. event_id r' = event_id r) (merged_row row) db))))"

section \<open>Statements that read\<close>

datatype sql_column = ColEventId | ColEventPubkey

fun column_value :: "sql_column \<Rightarrow> dbevent \<Rightarrow> bytes" where
  "column_value ColEventId r = event_id r"
| "column_value ColEventPubkey r = event_pubkey r"

text \<open>A pattern string bound to a \<open>bytea\<close> parameter in the text format \<open>\x...\<close>.\<close>

definition pg_hex_ok :: "string \<Rightarrow> bool" where
  "pg_hex_ok s \<longleftrightarrow> even (length s) \<and> list_all (\<lambda>c. hex_val c \<noteq> None) s"

datatype sql_cond =
    SqlFalse
  | SqlIn sql_column "bytes list"
  | SqlSubstrEq sql_column nat bytes
  | SqlSubstrBetween sql_column nat string string
  | SqlKindIn "int list"
  | SqlCreatedGe int
  | SqlCreatedLe int
  | SqlTag string string
  | SqlOr "sql_cond list"

datatype sql_order = OrderAsc | OrderDesc

record sql_query =
  q_where :: "sql_cond list"
  q_order :: sql_order
  q_limit :: int
  q_join_tags :: bool

text \<open>Byte strings compare lexicographically.\<close>

fun bytes_le :: "bytes \<Rightarrow> bytes \<Rightarrow> bool" where
  "bytes_le [] ys = True"
| "bytes_le (x # xs) [] = False"
| "bytes_le (x # xs) (y # ys) = (x < y \<or> (x = y \<and> bytes_le xs ys))"

text \<open>
  A condition on a row of \<open>events LEFT JOIN event_tags\<close>; the second component is \<open>NULL\<close> where the
  event has no tag row, and then a comparison with it is not true.
\<close>

fun eval_cond :: "sql_cond \<Rightarrow> dbevent \<times> tag_row option \<Rightarrow> bool" where
  "eval_cond SqlFalse rt = False"
| "eval_cond (SqlIn col vs) rt = (column_value col (fst rt) \<in> set vs)"
| "eval_cond (SqlSubstrEq col n v) rt = (take n (column_value col (fst rt)) = v)"
| "eval_cond (SqlSubstrBetween col n lo hi) rt =
     (bytes_le (toBuffer lo) (take n (column_value col (fst rt)))
      \<and> bytes_le (take n (column_value col (fst rt))) (toBuffer hi))"
| "eval_cond (SqlKindIn ks) rt = (event_kind (fst rt) \<in> set ks)"
| "eval_cond (SqlCreatedGe s) rt = (event_created_at (fst rt) \<ge> s)"
| "eval_cond (SqlCreatedLe u) rt = (event_created_at (fst rt) \<le> u)"
| "eval_cond (SqlTag n v) rt =
     (case snd rt of None \<Rightarrow> False | Some t \<Rightarrow> tr_name t = n \<and> tr_value t = v)"
| "eval_cond (SqlOr cs) rt = list_ex (\<lambda>c. eval_cond c rt) cs"

text \<open>The parameters of a condition that its column's type accepts.\<close>

fun cond_ok :: "sql_cond \<Rightarrow> bool" where
  "cond_ok (SqlSubstrBetween col n lo hi) = (pg_hex_ok lo \<and> pg_hex_ok hi)"
| "cond_ok (SqlKindIn ks) = list_all int4 ks"
| "cond_ok (SqlCreatedGe s) = int4 s"
| "cond_ok (SqlCreatedLe u) = int4 u"
| "cond_ok (SqlTag n v) = (pg_text n \<and> pg_text v)"
| "cond_ok (SqlOr cs) = list_all cond_ok cs"
| "cond_ok _ = True"

text \<open>
  Both \<open>events\<close> and \<open>event_tags\<close> have a column \<open>event_id\<close>, so a condition that names it without its table
  is ambiguous where the tables are joined, and PostgreSQL refuses the statement.
\<close>

fun names_event_id :: "sql_cond \<Rightarrow> bool" where
  "names_event_id (SqlIn col vs) = (col = ColEventId)"
| "names_event_id (SqlSubstrEq col n v) = (col = ColEventId)"
| "names_event_id (SqlSubstrBetween col n lo hi) = (col = ColEventId)"
| "names_event_id (SqlOr cs) = list_ex names_event_id cs"
| "names_event_id _ = False"

definition ambiguous :: "sql_query \<Rightarrow> bool" where
  "ambiguous q \<longleftrightarrow> q_join_tags q \<and> list_ex names_event_id (q_where q)"

definition query_ok :: "sql_query \<Rightarrow> bool" where
  "query_ok q \<longleftrightarrow> list_all cond_ok (q_where q) \<and> 0 \<le> q_limit q \<and> \<not> ambiguous q"

definition query_error :: "sql_query list \<Rightarrow> js_error" where
  "query_error qs =
     (if list_ex ambiguous qs
      then PgError (''column reference '' @ [CHR 0x22] @ ''event_id'' @ [CHR 0x22] @ '' is ambiguous'')
      else value_error)"

definition joined_rows :: "bool \<Rightarrow> event_db \<Rightarrow> (dbevent \<times> tag_row option) list" where
  "joined_rows join db =
     (if \<not> join then map (\<lambda>r. (r, None)) (events db)
      else concat (map (\<lambda>r.
             (case filter (\<lambda>t. tr_event_id t = event_id r) (tag_table db) of
                [] \<Rightarrow> [(r, None)]
              | ts \<Rightarrow> map (\<lambda>t. (r, Some t)) ts)) (events db)))"

definition where_rows :: "sql_query \<Rightarrow> event_db \<Rightarrow> dbevent list" where
  "where_rows q db =
     map fst (filter (\<lambda>rt. list_all (\<lambda>c. eval_cond c rt) (q_where q))
                (joined_rows (q_join_tags q) db))"

definition sort_rows :: "sql_order \<Rightarrow> dbevent list \<Rightarrow> dbevent list" where
  "sort_rows ord rows =
     (case ord of
        OrderAsc \<Rightarrow> sort_key event_created_at rows
      | OrderDesc \<Rightarrow> sort_key (\<lambda>r. - event_created_at r) rows)"

definition order_limit :: "sql_query \<Rightarrow> dbevent list \<Rightarrow> dbevent list" where
  "order_limit q rows = take (nat (q_limit q)) (sort_rows (q_order q) rows)"

text \<open>
  A select, or \<open>(select) UNION (select ...) ... ORDER BY ... LIMIT ...\<close>: with a union, the order
  and the limit of the first query stand after the last one and so apply to the whole, and equal
  rows are returned once.
\<close>

definition run_select :: "sql_query \<Rightarrow> sql_query list \<Rightarrow> event_db \<Rightarrow> js_error + dbevent list" where
  "run_select q subqueries db =
     (if \<not> list_all query_ok (q # subqueries) then Inl (query_error (q # subqueries))
      else if subqueries = [] then Inr (order_limit q (where_rows q db))
      else Inr (order_limit q
                  (remdups (where_rows q db
                     @ concat (map (\<lambda>s. order_limit s (where_rows s db)) subqueries)))))"

section \<open>The invariant of the tables\<close>

definition tags_of_id :: "bytes \<Rightarrow> tag_row list \<Rightarrow> tag_row list" where
  "tags_of_id i tbl = filter (\<lambda>t. tr_event_id t = i) tbl"

text \<open>
  Both unique constraints hold, every row is within its types, and the table of tags holds exactly
  the tag rows of the events.
\<close>

definition db_inv :: "event_db \<Rightarrow> bool" where
  "db_inv db \<longleftrightarrow>
     distinct (map event_id (events db))
     \<and> (\<forall>r\<in>set (events db). \<forall>s\<in>set (events db). index_conflict r s \<longrightarrow> r = s)
     \<and> (\<forall>r\<in>set (events db). row_ok r)
     \<and> (\<forall>r\<in>set (events db). tags_of_id (event_id r) (tag_table db) = tag_rows r)
     \<and> (\<forall>t\<in>set (tag_table db). \<exists>r\<in>set (events db). event_id r = tr_event_id t)"

lemma db_invI:
  assumes "distinct (map event_id (events db))"
    and "\<And>r s. r \<in> set (events db) \<Longrightarrow> s \<in> set (events db) \<Longrightarrow> index_conflict r s \<Longrightarrow> r = s"
    and "\<And>r. r \<in> set (events db) \<Longrightarrow> row_ok r"
    and "\<And>r. r \<in> set (events db) \<Longrightarrow> tags_of_id (event_id r) (tag_table db) = tag_rows r"
    and "\<And>t. t \<in> set (tag_table db) \<Longrightarrow> \<exists>r\<in>set (events db). event_id r = tr_event_id t"
  shows "db_inv db"
  using assms by (auto simp: db_inv_def)

lemma db_invD:
  assumes "db_inv db"
  shows "distinct (map event_id (events db))"
    and "r \<in> set (events db) \<Longrightarrow> s \<in> set (events db) \<Longrightarrow> index_conflict r s \<Longrightarrow> r = s"
    and "r \<in> set (events db) \<Longrightarrow> row_ok r"
    and "r \<in> set (events db) \<Longrightarrow> tags_of_id (event_id r) (tag_table db) = tag_rows r"
    and "t \<in> set (tag_table db) \<Longrightarrow> \<exists>r\<in>set (events db). event_id r = tr_event_id t"
  using assms by (auto simp: db_inv_def)

lemma db_inv_empty [simp]: "db_inv empty_db"
  by (simp add: db_inv_def empty_db_def)

lemma same_id_same_row:
  "db_inv db \<Longrightarrow> r \<in> set (events db) \<Longrightarrow> s \<in> set (events db) \<Longrightarrow> event_id r = event_id s \<Longrightarrow> r = s"
  by (metis db_invD(1) distinct_map inj_onD)

lemma index_conflict_sym: "index_conflict r s \<Longrightarrow> index_conflict s r"
  unfolding index_conflict_def by metis

lemma has_event_id_iff: "has_event_id i db \<longleftrightarrow> (\<exists>r\<in>set (events db). event_id r = i)"
  by (simp add: has_event_id_def list_ex_iff)

lemma tag_row_of_id: "tag_row_of i tag = Some t \<Longrightarrow> tr_event_id t = i"
  by (auto simp: tag_row_of_def split: option.splits if_splits)

lemma tag_rows_id: "t \<in> set (tag_rows r) \<Longrightarrow> tr_event_id t = event_id r"
  by (auto simp: tag_rows_def map_filter_def dest: tag_row_of_id)

lemma tags_of_id_append [simp]: "tags_of_id i (xs @ ys) = tags_of_id i xs @ tags_of_id i ys"
  by (simp add: tags_of_id_def)

lemma tags_of_id_tag_rows: "tags_of_id i (tag_rows r) = (if i = event_id r then tag_rows r else [])"
  using tag_rows_id by (auto simp: tags_of_id_def filter_empty_conv intro!: filter_True)

lemma tags_of_id_fresh:
  "db_inv db \<Longrightarrow> \<not> has_event_id i db \<Longrightarrow> tags_of_id i (tag_table db) = []"
  by (auto simp: tags_of_id_def filter_empty_conv has_event_id_iff dest: db_invD(5))

lemma insert_row_inv:
  assumes inv: "db_inv db" and ok: "row_ok row" and fresh: "\<not> has_event_id (event_id row) db"
    and free: "\<And>r. r \<in> set (events db) \<Longrightarrow> \<not> index_conflict r row"
  shows "db_inv (insert_row row db)"
proof (rule db_invI)
  show "distinct (map event_id (events (insert_row row db)))"
    using db_invD(1) [OF inv] fresh by (auto simp: insert_row_def has_event_id_iff)
next
  fix r s
  assume "r \<in> set (events (insert_row row db))" "s \<in> set (events (insert_row row db))"
    "index_conflict r s"
  then show "r = s"
    using free index_conflict_sym db_invD(2) [OF inv] by (auto simp: insert_row_def)
next
  fix r assume "r \<in> set (events (insert_row row db))"
  then show "row_ok r" using ok db_invD(3) [OF inv] by (auto simp: insert_row_def)
next
  fix r assume r: "r \<in> set (events (insert_row row db))"
  show "tags_of_id (event_id r) (tag_table (insert_row row db)) = tag_rows r"
  proof (cases "r = row")
    case True
    then show ?thesis using tags_of_id_fresh [OF inv fresh]
      by (simp add: insert_row_def trigger_insert_def tags_of_id_tag_rows)
  next
    case False
    then have "r \<in> set (events db)" using r by (auto simp: insert_row_def)
    moreover from this have "event_id r \<noteq> event_id row" using fresh by (auto simp: has_event_id_iff)
    ultimately show ?thesis using db_invD(4) [OF inv]
      by (simp add: insert_row_def trigger_insert_def tags_of_id_tag_rows)
  qed
next
  fix t assume "t \<in> set (tag_table (insert_row row db))"
  then show "\<exists>r\<in>set (events (insert_row row db)). event_id r = tr_event_id t"
    using db_invD(5) [OF inv] tag_rows_id by (fastforce simp: insert_row_def trigger_insert_def)
qed

text \<open>An update of rows that keeps every column a constraint or the trigger reads.\<close>

lemma tags_of_id_trigger_update:
  "tags_of_id i (trigger_update old new tbl) =
     (if i = event_id old then [] else tags_of_id i tbl)
     @ (if i = event_id new then tag_rows new else [])"
  by (auto simp: trigger_update_def tags_of_id_tag_rows)
     (auto simp: tags_of_id_def filter_empty_conv intro: filter_cong)

lemma tags_of_id_fold_update:
  assumes "distinct (map event_id rs)"
    and "\<And>r. event_id (upd r) = event_id r" "\<And>r. tag_rows (upd r) = tag_rows r"
    and "\<And>r. r \<in> set rs \<Longrightarrow> tags_of_id (event_id r) tbl = tag_rows r"
  shows "tags_of_id i (fold (\<lambda>r. trigger_update r (upd r)) rs tbl) = tags_of_id i tbl"
  using assms(1,4)
proof (induction rs arbitrary: tbl)
  case (Cons r rs)
  let ?tbl = "trigger_update r (upd r) tbl"
  have step: "tags_of_id j ?tbl = tags_of_id j tbl" for j
    using Cons.prems(2) by (simp add: tags_of_id_trigger_update assms(2,3))
  then show ?case using Cons by simp
qed simp

lemma set_fold_update:
  assumes "\<And>r. event_id (upd r) = event_id r"
    and "t \<in> set (fold (\<lambda>r. trigger_update r (upd r)) rs tbl)"
  shows "t \<in> set tbl \<or> (\<exists>r\<in>set rs. tr_event_id t = event_id r)"
  using assms(2)
proof (induction rs arbitrary: tbl)
  case (Cons r rs)
  then have "t \<in> set (trigger_update r (upd r) tbl) \<or> (\<exists>r\<in>set rs. tr_event_id t = event_id r)"
    by simp
  then show ?case using assms(1) tag_rows_id by (fastforce simp: trigger_update_def)
qed simp

lemma tags_of_id_update_rows:
  assumes inv: "db_inv db"
    and upd: "\<And>r. event_id (upd r) = event_id r" "\<And>r. tag_rows (upd r) = tag_rows r"
  shows "tags_of_id i (tag_table (update_rows sel upd db)) = tags_of_id i (tag_table db)"
proof -
  have "distinct (map event_id (filter sel (events db)))"
    using db_invD(1) [OF inv] by (rule distinct_map_filter)
  then have "tags_of_id i (fold (\<lambda>r. trigger_update r (upd r)) (filter sel (events db))
               (tag_table db)) = tags_of_id i (tag_table db)"
    using upd db_invD(4) [OF inv] by (intro tags_of_id_fold_update) auto
  then show ?thesis by (simp add: update_rows_def)
qed

lemma update_rows_inv:
  assumes inv: "db_inv db"
    and upd: "\<And>r. event_id (upd r) = event_id r" "\<And>r. tag_rows (upd r) = tag_rows r"
      "\<And>r s. index_conflict (upd r) s = index_conflict r s"
      "\<And>r s. index_conflict s (upd r) = index_conflict s r" "\<And>r. row_ok (upd r) = row_ok r"
  shows "db_inv (update_rows sel upd db)"
proof -
  let ?f = "\<lambda>r. if sel r then upd r else r"
  have id: "event_id (?f r) = event_id r" for r using upd(1) by simp
  then have ids: "map event_id (events (update_rows sel upd db)) = map event_id (events db)"
    by (simp add: update_rows_def)
  have ev: "set (events (update_rows sel upd db)) = ?f ` set (events db)"
    by (simp add: update_rows_def)
  note tags = tags_of_id_update_rows [OF inv upd(1,2)]
  show ?thesis
  proof (rule db_invI)
    show "distinct (map event_id (events (update_rows sel upd db)))"
      using db_invD(1) [OF inv] by (simp only: ids)
  next
    fix r s
    assume rs: "r \<in> set (events (update_rows sel upd db))"
      "s \<in> set (events (update_rows sel upd db))" and c: "index_conflict r s"
    from rs(1) [unfolded ev] obtain r' where r': "r = ?f r'" "r' \<in> set (events db)"
      by (rule imageE)
    from rs(2) [unfolded ev] obtain s' where s': "s = ?f s'" "s' \<in> set (events db)"
      by (rule imageE)
    have "index_conflict r' s'" using c r'(1) s'(1) upd(3,4) by (auto split: if_splits)
    then show "r = s" using db_invD(2) [OF inv] r' s' by blast
  next
    fix r assume "r \<in> set (events (update_rows sel upd db))"
    then show "row_ok r" using db_invD(3) [OF inv] upd(5) by (auto simp: update_rows_def)
  next
    fix r assume "r \<in> set (events (update_rows sel upd db))"
    then obtain r' where "r = ?f r'" "r' \<in> set (events db)" unfolding ev by (rule imageE)
    then show "tags_of_id (event_id r) (tag_table (update_rows sel upd db)) = tag_rows r"
      using db_invD(4) [OF inv] tags upd(1,2) by simp
  next
    fix t assume "t \<in> set (tag_table (update_rows sel upd db))"
    then have "t \<in> set (tag_table db) \<or> (\<exists>r\<in>set (events db). tr_event_id t = event_id r)"
      using set_fold_update [OF upd(1)] by (fastforce simp: update_rows_def)
    then obtain r where r: "r \<in> set (events db)" "event_id r = tr_event_id t"
      using db_invD(5) [OF inv] by metis
    then have "?f r \<in> set (events (update_rows sel upd db))" unfolding ev by (intro imageI)
    moreover have "event_id (?f r) = tr_event_id t" using id r(2) by (simp only:)
    ultimately show "\<exists>r\<in>set (events (update_rows sel upd db)). event_id r = tr_event_id t"
      by (rule bexI [rotated])
  qed
qed

text \<open>The update of an upsert replaces the one row it conflicts with.\<close>

lemma merged_row_conflict: "index_conflict r row \<Longrightarrow> merged_row row r = row"
  by (simp add: index_conflict_def merged_row_def)

definition replace_row :: "dbevent \<Rightarrow> dbevent \<Rightarrow> event_db \<Rightarrow> event_db" where
  "replace_row r row db =
     db\<lparr>events := map (\<lambda>r'. if r' = r then row else r') (events db),
        tag_table := trigger_update r row (tag_table db)\<rparr>"

lemma filter_eq_single:
  "distinct (map f xs) \<Longrightarrow> x \<in> set xs \<Longrightarrow> filter (\<lambda>y. f y = f x) xs = [x]"
proof (induction xs)
  case (Cons y ys)
  show ?case
  proof (cases "y = x")
    case True
    with Cons.prems have "f x \<notin> f ` set ys" by simp
    then have "\<forall>z\<in>set ys. f z \<noteq> f x" by (metis imageI)
    then have "filter (\<lambda>y. f y = f x) ys = []" by (simp add: filter_empty_conv)
    with True show ?thesis by simp
  next
    case False
    with Cons show ?thesis by auto
  qed
qed simp

lemma update_rows_merge:
  assumes inv: "db_inv db" and r: "r \<in> set (events db)" and c: "index_conflict r row"
  shows "update_rows (\<lambda>r'. event_id r' = event_id r) (merged_row row) db = replace_row r row db"
proof -
  have "filter (\<lambda>r'. event_id r' = event_id r) (events db) = [r]"
    using db_invD(1) [OF inv] r by (rule filter_eq_single)
  moreover have "map (\<lambda>r'. if event_id r' = event_id r then merged_row row r' else r') (events db)
      = map (\<lambda>r'. if r' = r then row else r') (events db)"
    using same_id_same_row [OF inv _ r] merged_row_conflict [OF c] by auto
  ultimately show ?thesis
    using merged_row_conflict [OF c] by (simp add: update_rows_def replace_row_def)
qed

lemma replace_row_ids:
  assumes inv: "db_inv db" and r: "r \<in> set (events db)"
    and fresh: "event_id row = event_id r \<or> \<not> has_event_id (event_id row) db"
  shows "\<And>s. s \<in> set (events db) \<Longrightarrow> s \<noteq> r \<Longrightarrow> event_id s \<noteq> event_id row \<and> event_id s \<noteq> event_id r"
    and "inj_on (\<lambda>r'. event_id (if r' = r then row else r')) (set (events db))"
proof -
  show other: "event_id s \<noteq> event_id row \<and> event_id s \<noteq> event_id r" if "s \<in> set (events db)" "s \<noteq> r" for s
    using fresh that same_id_same_row [OF inv _ r] by (auto simp: has_event_id_iff)
  show "inj_on (\<lambda>r'. event_id (if r' = r then row else r')) (set (events db))"
  proof (rule inj_onI)
    fix s t
    assume st: "s \<in> set (events db)" "t \<in> set (events db)"
      and eq: "event_id (if s = r then row else s) = event_id (if t = r then row else t)"
    show "s = t"
    proof (cases "s = r \<or> t = r")
      case True
      then show ?thesis using other [OF st(1)] other [OF st(2)] eq by (auto split: if_splits)
    next
      case False
      then show ?thesis using same_id_same_row [OF inv st] eq by simp
    qed
  qed
qed

lemma replace_row_mem:
  "s \<in> set (events (replace_row r row db)) \<Longrightarrow> s = row \<or> s \<in> set (events db) \<and> s \<noteq> r"
  by (auto simp: replace_row_def split: if_splits)

lemma replace_row_inv:
  assumes inv: "db_inv db" and ok: "row_ok row" and r: "r \<in> set (events db)"
    and c: "index_conflict r row"
    and fresh: "event_id row = event_id r \<or> \<not> has_event_id (event_id row) db"
  shows "db_inv (replace_row r row db)"
proof -
  note ids = replace_row_ids [OF inv r fresh]
  have no_conflict: "\<not> index_conflict s row" if "s \<in> set (events db)" "s \<noteq> r" for s
    using that c db_invD(2) [OF inv that(1) r] unfolding index_conflict_def by metis
  show ?thesis
  proof (rule db_invI)
    show "distinct (map event_id (events (replace_row r row db)))"
      using ids(2) db_invD(1) [OF inv]
      by (auto simp: replace_row_def distinct_map comp_def inj_on_def)
  next
    fix s t
    assume "s \<in> set (events (replace_row r row db))" "t \<in> set (events (replace_row r row db))"
      and st: "index_conflict s t"
    then show "s = t"
      using replace_row_mem no_conflict index_conflict_sym [OF st] db_invD(2) [OF inv] by blast
  next
    fix s assume "s \<in> set (events (replace_row r row db))"
    then show "row_ok s" using ok db_invD(3) [OF inv] replace_row_mem by blast
  next
    fix s assume "s \<in> set (events (replace_row r row db))"
    from replace_row_mem [OF this]
    show "tags_of_id (event_id s) (tag_table (replace_row r row db)) = tag_rows s"
      using fresh tags_of_id_fresh [OF inv] ids(1) db_invD(4) [OF inv]
      by (auto simp: replace_row_def tags_of_id_trigger_update)
  next
    fix t assume "t \<in> set (tag_table (replace_row r row db))"
    then have "t \<in> set (tag_table db) \<and> tr_event_id t \<noteq> event_id r \<or> tr_event_id t = event_id row"
      using tag_rows_id by (auto simp: replace_row_def trigger_update_def)
    then show "\<exists>s\<in>set (events (replace_row r row db)). event_id s = tr_event_id t"
      using db_invD(5) [OF inv] r by (fastforce simp: replace_row_def)
  qed
qed

section \<open>The statements keep the invariant\<close>

lemma insert_ignore_inv: "db_inv db \<Longrightarrow> db_inv (snd (insert_ignore row db))"
  by (auto simp: insert_ignore_def list_ex_iff intro: insert_row_inv)

lemma insert_or_merge_cases:
  assumes "db_inv db"
  obtains (invalid) "\<not> row_ok row" "insert_or_merge row db = (Inl value_error, db)"
    | (inserted) "row_ok row" "\<not> has_event_id (event_id row) db"
        "\<And>r. r \<in> set (events db) \<Longrightarrow> \<not> index_conflict r row"
        "insert_or_merge row db = (Inr 1, insert_row row db)"
    | (kept) r where "row_ok row" "r \<in> set (events db)" "index_conflict r row"
        "event_created_at row \<le> event_created_at r" "insert_or_merge row db = (Inr 0, db)"
    | (replaced) r where "row_ok row" "r \<in> set (events db)" "index_conflict r row"
        "event_created_at r < event_created_at row"
        "event_id row = event_id r \<or> \<not> has_event_id (event_id row) db"
        "insert_or_merge row db = (Inr 1, replace_row r row db)"
    | (duplicate_id) "row_ok row" "has_event_id (event_id row) db"
        "insert_or_merge row db = (Inl unique_violation, db)"
proof (cases "row_ok row")
  case False
  then show ?thesis using invalid by (simp add: insert_or_merge_def)
next
  case ok: True
  show ?thesis
  proof (cases "find (\<lambda>r. index_conflict r row) (events db)")
    case None
    then have free: "\<not> index_conflict r row" if "r \<in> set (events db)" for r
      using that by (auto simp: find_None_iff)
    show ?thesis
      using None ok free inserted duplicate_id
      by (cases "has_event_id (event_id row) db") (auto simp: insert_or_merge_def)
  next
    case (Some r)
    then have r: "r \<in> set (events db)" "index_conflict r row"
      by (auto simp: find_Some_iff)
    note merge = update_rows_merge [OF assms r]
    show ?thesis
      using Some ok r kept replaced duplicate_id merge
      by (cases "event_created_at r < event_created_at row";
          cases "event_id row \<noteq> event_id r \<and> has_event_id (event_id row) db")
         (auto simp: insert_or_merge_def)
  qed
qed

lemma insert_or_merge_inv:
  assumes "db_inv db"
  shows "db_inv (snd (insert_or_merge row db))"
  using assms
  by (cases rule: insert_or_merge_cases [OF assms, of row])
     (auto intro: insert_row_inv replace_row_inv)

end
