(* ===== verification/Event_Repository.thy ===== *)
theory Event_Repository
  imports Event_Store
begin

text \<open>
  repositories/event-repository.ts: the rows \<open>insert\<close> and \<open>upsert\<close> build from an event, the query
  \<open>findByFilters\<close> builds from filters, the logical deletion, and the interface
  \<open>IEventRepository\<close> the handlers call (@types/repositories.ts), which the constructors of the
  code receive and the definitions here take as a record of operations. The locale states what a
  client may rely on; it is interpreted on the repository at the end.
\<close>

section \<open>Rows\<close>

definition insert_row_of :: "event \<Rightarrow> dbevent" where
  "insert_row_of e =
     \<lparr>event_id = toBuffer (evt_id e), event_pubkey = toBuffer (pubkey e),
      event_kind = kind e, event_created_at = created_at e, event_content = content e,
      event_tags = tags e, event_signature = toBuffer (sig e), event_deduplication = None,
      remote_address = ctx_address e, expires_at = meta_expiration e, deleted_at = None\<rparr>"

definition deduplication_of :: "event \<Rightarrow> json" where
  "deduplication_of e =
     (case meta_deduplication e of
        None \<Rightarrow> JArr [JStr (pubkey e), JNum (kind e)]
      | Some ds \<Rightarrow> JArr (map JStr ds))"

definition upsert_row_of :: "event \<Rightarrow> dbevent" where
  "upsert_row_of e =
     \<lparr>event_id = toBuffer (evt_id e), event_pubkey = toBuffer (pubkey e),
      event_kind = kind e, event_created_at = created_at e, event_content = content e,
      event_tags = tags e, event_signature = toBuffer (sig e),
      event_deduplication = Some (deduplication_of e),
      remote_address = ctx_address e, expires_at = meta_expiration e, deleted_at = None\<rparr>"

section \<open>The query of a filter\<close>

datatype length_class = Exact | Even | Odd

definition groupByLengthSpec :: "string \<Rightarrow> length_class" where
  "groupByLengthSpec p =
     (if length p = 64 then Exact else if length p mod 2 = 0 then Even else Odd)"

definition of_class :: "length_class \<Rightarrow> string list \<Rightarrow> string list" where
  "of_class c ps = filter (\<lambda>p. groupByLengthSpec p = c) ps"

definition prefix_conds :: "sql_column \<Rightarrow> string list \<Rightarrow> sql_cond list" where
  "prefix_conds tableField ps =
     (if of_class Exact ps = [] then []
      else [SqlIn tableField (map toBuffer (of_class Exact ps))])
     @ map (\<lambda>p. SqlSubstrEq tableField (length p div 2) (toBuffer p)) (of_class Even ps)
     @ map (\<lambda>p. SqlSubstrBetween tableField (length p div 2 + 1) (p @ ''0'') (p @ ''f''))
         (of_class Odd ps)"

definition prefix_clause :: "sql_column \<Rightarrow> string list option \<Rightarrow> sql_cond list" where
  "prefix_clause tableField ps =
     (case ps of
        None \<Rightarrow> []
      | Some [] \<Rightarrow> [SqlFalse]
      | Some (x # xs) \<Rightarrow> [SqlOr (prefix_conds tableField (x # xs))])"

definition generic_tag_queries :: "subfilter \<Rightarrow> (string \<times> string list) list" where
  "generic_tag_queries f = filter (\<lambda>kc. isGenericTagQuery (fst kc)) (generic f)"

fun tag_clause :: "string \<times> string list \<Rightarrow> sql_cond" where
  "tag_clause (filterName, criteria) =
     (if criteria = [] then SqlFalse
      else SqlOr (map (\<lambda>criterion. SqlTag [filterName ! 1] criterion) criteria))"

definition filter_query :: "subfilter \<Rightarrow> sql_query" where
  "filter_query f =
     \<lparr>q_where =
        prefix_clause ColEventPubkey (authors f)
        @ prefix_clause ColEventId (ids f)
        @ (case kinds f of None \<Rightarrow> [] | Some ks \<Rightarrow> [SqlKindIn ks])
        @ (case since f of None \<Rightarrow> [] | Some s \<Rightarrow> [SqlCreatedGe s])
        @ (case until f of None \<Rightarrow> [] | Some u \<Rightarrow> [SqlCreatedLe u])
        @ map tag_clause (generic_tag_queries f),
      q_order = (case limit f of None \<Rightarrow> OrderAsc | Some n \<Rightarrow> OrderDesc),
      q_limit = (case limit f of None \<Rightarrow> 500 | Some n \<Rightarrow> n),
      q_join_tags = (generic_tag_queries f \<noteq> [])\<rparr>"

section \<open>Operations\<close>

definition findByFilters :: "subfilter list \<Rightarrow> event_db \<Rightarrow> js_error + dbevent list" where
  "findByFilters filters db =
     (case map filter_query filters of
        [] \<Rightarrow> Inl (JsError ''Filters cannot be empty'')
      | query # subqueries \<Rightarrow> run_select query subqueries db)"

text \<open>\<open>create\<close> turns an error of the insert into a count of 0.\<close>

definition create :: "event \<Rightarrow> event_db \<Rightarrow> nat \<times> event_db" where
  "create e db =
     (case insert_ignore (insert_row_of e) db of
        (Inr rowCount, db') \<Rightarrow> (rowCount, db')
      | (Inl err, db') \<Rightarrow> (0, db'))"

definition upsert :: "event \<Rightarrow> event_db \<Rightarrow> (js_error + nat) \<times> event_db" where
  "upsert e db = insert_or_merge (upsert_row_of e) db"

definition deleteByPubkeyAndIds ::
  "int \<Rightarrow> string \<Rightarrow> string list \<Rightarrow> event_db \<Rightarrow> (js_error + nat) \<times> event_db" where
  "deleteByPubkeyAndIds now pk eventIdsToDelete db =
     (let sel = (\<lambda>r. event_pubkey r = toBuffer pk
                    \<and> event_id r \<in> set (map toBuffer eventIdsToDelete)
                    \<and> deleted_at r = None)
      in (Inr (length (filter sel (events db))),
          update_rows sel (\<lambda>r. r\<lparr>deleted_at := Some now\<rparr>) db))"

section \<open>The interface and its contract\<close>

record 'db event_repository =
  repo_create :: "event \<Rightarrow> 'db \<Rightarrow> nat \<times> 'db"
  repo_upsert :: "event \<Rightarrow> 'db \<Rightarrow> (js_error + nat) \<times> 'db"
  repo_findByFilters :: "subfilter list \<Rightarrow> 'db \<Rightarrow> js_error + dbevent list"
  repo_deleteByPubkeyAndIds :: "int \<Rightarrow> string \<Rightarrow> string list \<Rightarrow> 'db \<Rightarrow> (js_error + nat) \<times> 'db"

definition EventRepository :: "event_db event_repository" where
  "EventRepository =
     \<lparr>repo_create = create, repo_upsert = upsert, repo_findByFilters = findByFilters,
      repo_deleteByPubkeyAndIds = deleteByPubkeyAndIds\<rparr>"

lemma EventRepository_simps [simp]:
  "repo_create EventRepository = create" "repo_upsert EventRepository = upsert"
  "repo_findByFilters EventRepository = findByFilters"
  "repo_deleteByPubkeyAndIds EventRepository = deleteByPubkeyAndIds"
  by (simp_all add: EventRepository_def)

text \<open>
  What the strategies rely on: \<open>inv\<close> is kept by every operation; a count is 0 or 1; with 0 or an
  error nothing changed, with 1 the event is stored; and a deletion keeps every stored event.
\<close>

locale event_store =
  fixes repo :: "'db event_repository"
    and inv :: "'db \<Rightarrow> bool"
    and stored :: "string \<Rightarrow> 'db \<Rightarrow> bool"
  assumes create_inv: "inv db \<Longrightarrow> inv (snd (repo_create repo e db))"
    and upsert_inv: "inv db \<Longrightarrow> inv (snd (repo_upsert repo e db))"
    and delete_inv: "inv db \<Longrightarrow> inv (snd (repo_deleteByPubkeyAndIds repo now pk eids db))"
    and create_none: "inv db \<Longrightarrow> fst (repo_create repo e db) = 0 \<Longrightarrow> snd (repo_create repo e db) = db"
    and create_some: "inv db \<Longrightarrow> fst (repo_create repo e db) \<noteq> 0
      \<Longrightarrow> fst (repo_create repo e db) = 1 \<and> stored (evt_id e) (snd (repo_create repo e db))"
    and upsert_none: "inv db \<Longrightarrow> repo_upsert repo e db = (Inr 0, db') \<Longrightarrow> db' = db"
    and upsert_error: "inv db \<Longrightarrow> repo_upsert repo e db = (Inl err, db') \<Longrightarrow> db' = db"
    and upsert_some: "inv db \<Longrightarrow> repo_upsert repo e db = (Inr n, db') \<Longrightarrow> n \<noteq> 0
      \<Longrightarrow> n = 1 \<and> stored (evt_id e) db'"
    and delete_stored: "inv db \<Longrightarrow> stored i db
      \<Longrightarrow> stored i (snd (repo_deleteByPubkeyAndIds repo now pk eids db))"
    and create_stored: "inv db \<Longrightarrow> stored i db \<Longrightarrow> stored i (snd (repo_create repo e db))"

section \<open>The repository satisfies it\<close>

lemma row_of_id [simp]:
  "event_id (insert_row_of e) = toBuffer (evt_id e)" "event_id (upsert_row_of e) = toBuffer (evt_id e)"
  by (simp_all add: insert_row_of_def upsert_row_of_def)

lemma has_event_id_insert_row [simp]:
  "has_event_id i (insert_row row db) \<longleftrightarrow> i = event_id row \<or> has_event_id i db"
  by (auto simp: has_event_id_iff insert_row_def)

lemma has_event_id_replace_row:
  "r \<in> set (events db) \<Longrightarrow> has_event_id (event_id row) (replace_row r row db)"
  by (force simp: has_event_id_iff replace_row_def)

lemma has_event_id_update_rows:
  assumes "\<And>r. event_id (upd r) = event_id r"
  shows "has_event_id i (update_rows sel upd db) \<longleftrightarrow> has_event_id i db"
  using assms by (auto simp: has_event_id_def update_rows_def list_ex_iff)

lemma create_cases:
  obtains (stored) "create e db = (1, insert_row (insert_row_of e) db)" "row_ok (insert_row_of e)"
      "\<not> has_event_id (toBuffer (evt_id e)) db"
    | (ignored) "create e db = (0, db)"
  by (cases "insert_ignore (insert_row_of e) db")
     (auto simp: create_def insert_ignore_def split: if_splits)

lemma create_inv_db: "db_inv db \<Longrightarrow> db_inv (snd (create e db))"
  using insert_ignore_inv [of db "insert_row_of e"]
  by (auto simp: create_def split: prod.splits sum.splits)

lemma upsert_inv_db: "db_inv db \<Longrightarrow> db_inv (snd (upsert e db))"
  by (simp add: upsert_def insert_or_merge_inv)

lemma mark_deleted_keeps [simp]:
  "event_id (r\<lparr>deleted_at := d\<rparr>) = event_id r"
  "tag_rows (r\<lparr>deleted_at := d\<rparr>) = tag_rows r"
  "row_ok (r\<lparr>deleted_at := d\<rparr>) = row_ok r"
  "index_conflict (r\<lparr>deleted_at := d\<rparr>) s = index_conflict r s"
  "index_conflict s (r\<lparr>deleted_at := d\<rparr>) = index_conflict s r"
  by (simp_all add: tag_rows_def row_ok_def index_conflict_def)

lemma delete_inv_db: "db_inv db \<Longrightarrow> db_inv (snd (deleteByPubkeyAndIds now pk eids db))"
  by (simp add: deleteByPubkeyAndIds_def Let_def update_rows_inv)

interpretation event_repo: event_store EventRepository db_inv
  "\<lambda>i db. has_event_id (toBuffer i) db"
proof unfold_locales
  fix db e
  assume "db_inv db"
  then show "db_inv (snd (repo_create EventRepository e db))" by (simp add: create_inv_db)
  show "db_inv (snd (repo_upsert EventRepository e db))"
    using \<open>db_inv db\<close> by (simp add: upsert_inv_db)
next
  fix db :: event_db and now pk eids i
  assume inv: "db_inv db"
  then show "db_inv (snd (repo_deleteByPubkeyAndIds EventRepository now pk eids db))"
    by (simp add: delete_inv_db)
  assume "has_event_id (toBuffer i) db"
  then show "has_event_id (toBuffer i)
      (snd (repo_deleteByPubkeyAndIds EventRepository now pk eids db))"
    by (simp add: deleteByPubkeyAndIds_def Let_def has_event_id_update_rows)
next
  fix db e
  assume "fst (repo_create EventRepository e db) = 0"
  then show "snd (repo_create EventRepository e db) = db"
    by (cases rule: create_cases [of e db]) auto
next
  fix db e
  assume "fst (repo_create EventRepository e db) \<noteq> 0"
  then show "fst (repo_create EventRepository e db) = 1
      \<and> has_event_id (toBuffer (evt_id e)) (snd (repo_create EventRepository e db))"
    by (cases rule: create_cases [of e db]) auto
next
  fix db e i
  assume "has_event_id (toBuffer i) db"
  then show "has_event_id (toBuffer i) (snd (repo_create EventRepository e db))"
    by (cases rule: create_cases [of e db]) auto
next
  fix db e db'
  assume "db_inv db" "repo_upsert EventRepository e db = (Inr 0, db')"
  then show "db' = db"
    by (cases rule: insert_or_merge_cases [of db "upsert_row_of e"]) (auto simp: upsert_def)
next
  fix db e err db'
  assume "db_inv db" "repo_upsert EventRepository e db = (Inl err, db')"
  then show "db' = db"
    by (cases rule: insert_or_merge_cases [of db "upsert_row_of e"]) (auto simp: upsert_def)
next
  fix db e n db'
  assume "db_inv db" "repo_upsert EventRepository e db = (Inr n, db')" "n \<noteq> 0"
  then show "n = 1 \<and> has_event_id (toBuffer (evt_id e)) db'"
    using has_event_id_replace_row [of _ db "upsert_row_of e"]
    by (cases rule: insert_or_merge_cases [of db "upsert_row_of e"]) (auto simp: upsert_def)
qed

end
