(* ===== verification/Relay_Messages.thy ===== *)
theory Relay_Messages
  imports Nostr_Event
begin

text \<open>
  Messages between a client and the relay (@types/messages.ts, utils/messages.ts), and the events a
  handler emits on its web socket adapter (constants/adapter.ts). An outgoing message is the value
  the adapter passes to \<open>JSON.stringify\<close>.
\<close>

datatype MessageType = REQ | EVENT | CLOSE | NOTICE | EOSE | OK

datatype outgoing =
    NoticeMessage string
  | OutgoingEventMessage string event
  | EndOfStoredEventsNotice string
  | CommandResult string bool string

datatype incoming =
    SubscribeMessage string "subfilter list"
  | IncomingEventMessage event "string option"
  | UnsubscribeMessage string

fun outgoing_type :: "outgoing \<Rightarrow> MessageType" where
  "outgoing_type (NoticeMessage n) = NOTICE"
| "outgoing_type (OutgoingEventMessage s e) = EVENT"
| "outgoing_type (EndOfStoredEventsNotice s) = EOSE"
| "outgoing_type (CommandResult i b m) = OK"

fun incoming_type :: "incoming \<Rightarrow> MessageType" where
  "incoming_type (SubscribeMessage s fs) = REQ"
| "incoming_type (IncomingEventMessage e s) = EVENT"
| "incoming_type (UnsubscribeMessage s) = CLOSE"

definition createNoticeMessage :: "string \<Rightarrow> outgoing" where
  "createNoticeMessage notice = NoticeMessage notice"

definition createOutgoingEventMessage :: "string \<Rightarrow> event \<Rightarrow> outgoing" where
  "createOutgoingEventMessage subscriptionId e = OutgoingEventMessage subscriptionId e"

definition createEndOfStoredEventsNoticeMessage :: "string \<Rightarrow> outgoing" where
  "createEndOfStoredEventsNoticeMessage subscriptionId = EndOfStoredEventsNotice subscriptionId"

definition createCommandResult :: "string \<Rightarrow> bool \<Rightarrow> string \<Rightarrow> outgoing" where
  "createCommandResult eventId successful message = CommandResult eventId successful message"

definition createSubscriptionMessage :: "string \<Rightarrow> subfilter list \<Rightarrow> incoming" where
  "createSubscriptionMessage subscriptionId filters = SubscribeMessage subscriptionId filters"

definition createRelayedEventMessage :: "event \<Rightarrow> string option \<Rightarrow> incoming" where
  "createRelayedEventMessage e secret =
     (if \<not> truthy secret then IncomingEventMessage e None else IncomingEventMessage e secret)"

lemmas create_message_defs [relay_defs] =
  createNoticeMessage_def createOutgoingEventMessage_def createEndOfStoredEventsNoticeMessage_def
  createCommandResult_def createSubscriptionMessage_def createRelayedEventMessage_def



text \<open>What a handler emits on the web socket adapter (\<open>WebSocketAdapterEvent\<close>).\<close>

datatype emission =
    EmitMessage outgoing
  | EmitBroadcast event
  | EmitSubscribe string "subfilter list"
  | EmitUnsubscribe string

text \<open>The replies with type \<open>OK\<close> among emissions, and the events broadcast.\<close>

fun command_results :: "emission list \<Rightarrow> (string \<times> bool \<times> string) list" where
  "command_results [] = []"
| "command_results (EmitMessage (CommandResult i b m) # es) = (i, b, m) # command_results es"
| "command_results (_ # es) = command_results es"

fun broadcasts :: "emission list \<Rightarrow> event list" where
  "broadcasts [] = []"
| "broadcasts (EmitBroadcast e # es) = e # broadcasts es"
| "broadcasts (_ # es) = broadcasts es"

fun messages :: "emission list \<Rightarrow> outgoing list" where
  "messages [] = []"
| "messages (EmitMessage m # es) = m # messages es"
| "messages (_ # es) = messages es"

lemma command_results_append [simp]:
  "command_results (xs @ ys) = command_results xs @ command_results ys"
  by (induction xs rule: command_results.induct) auto

lemma broadcasts_append [simp]: "broadcasts (xs @ ys) = broadcasts xs @ broadcasts ys"
  by (induction xs rule: broadcasts.induct) auto

lemma messages_append [simp]: "messages (xs @ ys) = messages xs @ messages ys"
  by (induction xs rule: messages.induct) auto

end
