(* ===== verification/Event_Strategies.thy ===== *)
theory Event_Strategies
  imports Event_Repository Relay_Messages
begin

text \<open>
  handlers/event-strategies/*.ts and factories/event-strategy-factory.ts: what the relay does with an
  accepted event. A strategy's \<open>execute\<close> gives what it emits on the web socket adapter, the error
  it rejects with, if it does, and the new state of the repository.
\<close>

type_synonym 'db outcome = "emission list \<times> js_error option \<times> 'db"

section \<open>Strategies\<close>

text \<open>The reply and the broadcast most strategies end with.\<close>

definition reply_of_count :: "event \<Rightarrow> nat \<Rightarrow> emission list" where
  "reply_of_count e count =
     EmitMessage (createCommandResult (evt_id e) True (if count \<noteq> 0 then '''' else ''duplicate:''))
     # (if count \<noteq> 0 then [EmitBroadcast e] else [])"

definition execute_default :: "'db event_repository \<Rightarrow> event \<Rightarrow> 'db \<Rightarrow> 'db outcome" where
  "execute_default repo e db =
     (case repo_create repo e db of (count, db') \<Rightarrow> (reply_of_count e count, None, db'))"

definition execute_ephemeral :: "event \<Rightarrow> 'db \<Rightarrow> 'db outcome" where
  "execute_ephemeral e db =
     ([EmitMessage (createCommandResult (evt_id e) True ''''), EmitBroadcast e], None, db)"

definition isValidETag :: "tag \<Rightarrow> bool" where
  "isValidETag tag \<longleftrightarrow>
     length tag \<ge> 2 \<and> js_at tag 0 = Some (tag_value EventTag)
     \<and> (case js_at tag 1 of None \<Rightarrow> False | Some v \<Rightarrow> length v = 64 \<and> lower_hex v)"

definition event_ids_to_delete :: "event \<Rightarrow> string list" where
  "event_ids_to_delete e =
     fold (\<lambda>tag eventIds. if isValidETag tag then eventIds @ [tag ! 1] else eventIds) (tags e) []"

definition execute_delete :: "'db event_repository \<Rightarrow> int \<Rightarrow> event \<Rightarrow> 'db \<Rightarrow> 'db outcome" where
  "execute_delete repo now e db =
     (let eventIdsToDelete = event_ids_to_delete e;
          (deleted, db1) =
            (if eventIdsToDelete \<noteq> []
             then repo_deleteByPubkeyAndIds repo now (pubkey e) eventIdsToDelete db
             else (Inr 0, db))
      in (case deleted of
            Inl err \<Rightarrow> ([], Some err, db1)
          | Inr _ \<Rightarrow>
              (case repo_create repo e db1 of
                 (count, db2) \<Rightarrow> (reply_of_count e count, None, db2))))"

definition deduplication_values :: "event \<Rightarrow> string list" where
  "deduplication_values e =
     (case find (\<lambda>tag. length tag \<ge> 2 \<and> js_at tag 0 = Some (tag_value DeduplicationTag)) (tags e) of
        None \<Rightarrow> ['''']
      | Some tag \<Rightarrow> drop 1 tag)"

definition execute_parameterized :: "'db event_repository \<Rightarrow> event \<Rightarrow> 'db \<Rightarrow> 'db outcome" where
  "execute_parameterized repo e db =
     (case repo_upsert repo (e\<lparr>meta_deduplication := Some (deduplication_values e)\<rparr>) db of
        (Inl err, db') \<Rightarrow> ([], Some err, db')
      | (Inr count, db') \<Rightarrow> (reply_of_count e count, None, db'))"

fun js_message :: "js_error \<Rightarrow> string" where
  "js_message (JsError m) = m"
| "js_message (TypeErr m) = m"
| "js_message (PgError m) = m"

definition duplicate_key_message :: string where
  "duplicate_key_message =
     ''duplicate key value violates unique constraint '' @ [CHR 0x22]
     @ ''events_event_id_unique'' @ [CHR 0x22]"

text \<open>
  The \<open>try\<close> block covers the emissions too, and an emission does not fail here, so the \<open>catch\<close>
  block handles the rejection of \<open>upsert\<close>.
\<close>

definition execute_replaceable :: "'db event_repository \<Rightarrow> event \<Rightarrow> 'db \<Rightarrow> 'db outcome" where
  "execute_replaceable repo e db =
     (case repo_upsert repo e db of
        (Inr count, db') \<Rightarrow> (reply_of_count e count, None, db')
      | (Inl err, db') \<Rightarrow>
          (if suffix duplicate_key_message (js_message err)
           then ([EmitMessage (createCommandResult (evt_id e) False
                    ''rejected: event already exists'')], None, db')
           else ([EmitMessage (createCommandResult (evt_id e) False ''error: '')], None, db')))"

section \<open>The factory\<close>

datatype event_strategy =
    ReplaceableEventStrategy | EphemeralEventStrategy | DeleteEventStrategy
  | ParameterizedReplaceableEventStrategy | DefaultEventStrategy

definition eventStrategyFactory :: "event \<Rightarrow> event_strategy" where
  "eventStrategyFactory e =
     (if isReplaceableEvent e then ReplaceableEventStrategy
      else if isEphemeralEvent e then EphemeralEventStrategy
      else if isDeleteEvent e then DeleteEventStrategy
      else if isParameterizedReplaceableEvent e then ParameterizedReplaceableEventStrategy
      else DefaultEventStrategy)"

fun execute ::
  "event_strategy \<Rightarrow> 'db event_repository \<Rightarrow> int \<Rightarrow> event \<Rightarrow> 'db \<Rightarrow> 'db outcome" where
  "execute ReplaceableEventStrategy repo now e db = execute_replaceable repo e db"
| "execute EphemeralEventStrategy repo now e db = execute_ephemeral e db"
| "execute DeleteEventStrategy repo now e db = execute_delete repo now e db"
| "execute ParameterizedReplaceableEventStrategy repo now e db = execute_parameterized repo e db"
| "execute DefaultEventStrategy repo now e db = execute_default repo e db"

section \<open>Lemmas: replies and broadcasts\<close>

lemmas execute_defs [relay_defs] = execute_default_def execute_ephemeral_def execute_delete_def
  execute_parameterized_def execute_replaceable_def

lemma reply_of_count_results [simp]:
  "command_results (reply_of_count e n) = [(evt_id e, True, if n \<noteq> 0 then '''' else ''duplicate:'')]"
  "broadcasts (reply_of_count e n) = (if n \<noteq> 0 then [e] else [])"
  by (simp_all add: reply_of_count_def createCommandResult_def)

lemma fold_valid_tags:
  "fold (\<lambda>tag eventIds. if isValidETag tag then eventIds @ [tag ! 1] else eventIds) ts acc
     = acc @ map (\<lambda>tag. tag ! 1) (filter isValidETag ts)"
  by (induction ts arbitrary: acc) auto

lemma event_ids_to_delete_filter:
  "event_ids_to_delete e = map (\<lambda>tag. tag ! 1) (filter isValidETag (tags e))"
  by (simp add: event_ids_to_delete_def fold_valid_tags)

lemma duplicate_key_message_eq [simp]: "js_message unique_violation = duplicate_key_message"
  by (simp add: unique_violation_def duplicate_key_message_def)

text \<open>
  An execution that ends normally replied once, and one that rejects emitted nothing; an event is
  broadcast at most once, together with an accepting reply.
\<close>

lemma execute_replies:
  assumes "execute strategy repo now e db = (ems, err, db')"
  shows "(err = None \<and> (\<exists>ok msg. command_results ems = [(evt_id e, ok, msg)])) \<or>
    (err \<noteq> None \<and> ems = [])"
  using assms
  by (cases strategy)
     (auto simp: relay_defs Let_def split: prod.splits sum.splits if_splits)

lemma execute_broadcast:
  assumes "execute strategy repo now e db = (ems, err, db')"
  shows "broadcasts ems = [] \<or> (broadcasts ems = [e] \<and> command_results ems = [(evt_id e, True, '''')])"
  using assms
  by (cases strategy)
     (auto simp: relay_defs Let_def split: prod.splits sum.splits if_splits)

section \<open>Lemmas: over any store\<close>

context event_store
begin

lemma create_cases_store:
  assumes "inv db"
  obtains (none) "repo_create repo e db = (0, db)"
    | (some) db' where "repo_create repo e db = (1, db')" "inv db'" "stored (evt_id e) db'"
proof (cases "repo_create repo e db")
  case (Pair n db')
  show ?thesis
  proof (cases "n = 0")
    case True
    then show ?thesis using none create_none [OF assms, of e] Pair by simp
  next
    case False
    then show ?thesis using some create_some [OF assms, of e] create_inv [OF assms, of e] Pair by simp
  qed
qed

lemma execute_inv:
  assumes "inv db" "execute strategy repo now e db = (ems, err, db')"
  shows "inv db'"
proof -
  have create: "inv db2" if "inv db1" "repo_create repo e db1 = (n, db2)" for db1 n db2
    using create_inv [OF that(1), of e] that(2) by simp
  have upsert: "inv db2" if "repo_upsert repo e' db = (n, db2)" for e' n db2
    using upsert_inv [OF assms(1), of e'] that by simp
  have delete: "inv db2" if "repo_deleteByPubkeyAndIds repo now pk eids db = (n, db2)" for pk eids n db2
    using delete_inv [OF assms(1), of now pk eids] that by simp
  show ?thesis
    using assms create upsert delete
    by (cases strategy)
       (auto simp: relay_defs Let_def split: prod.splits sum.splits if_splits, blast+)
qed

text \<open>What is broadcast is stored, ephemeral events apart, and what is stored stays stored.\<close>

lemma execute_broadcast_stored:
  assumes inv: "inv db" and run: "execute strategy repo now e db = (ems, err, db')"
    and b: "broadcasts ems \<noteq> []" "strategy \<noteq> EphemeralEventStrategy"
  shows "stored (evt_id e) db'"
proof -
  have create: "stored (evt_id e) db2"
    if "inv db1" "repo_create repo e db1 = (n, db2)" "n \<noteq> 0" for db1 n db2
    using create_some [OF that(1), of e] that(2,3) by simp
  have upsert: "stored (evt_id e') db2" if "repo_upsert repo e' db = (Inr n, db2)" "n \<noteq> 0" for e' n db2
    using upsert_some [OF inv that] by simp
  have delete: "inv db2" if "repo_deleteByPubkeyAndIds repo now pk eids db = (n, db2)" for pk eids n db2
    using delete_inv [OF inv, of now pk eids] that by simp
  have param: "stored (evt_id e) db2"
    if "repo_upsert repo (e\<lparr>meta_deduplication := d\<rparr>) db = (Inr n, db2)" "n \<noteq> 0" for d n db2
    using upsert [OF that] by simp
  show ?thesis
    using run b inv create upsert delete param
    by (cases strategy)
       (auto simp: relay_defs Let_def split: prod.splits sum.splits if_splits, blast+)
qed

lemma execute_error_unchanged:
  assumes inv: "inv db" and run: "execute strategy repo now e db = (ems, Some err, db')"
    and "strategy \<noteq> DeleteEventStrategy"
  shows "db' = db"
  using assms upsert_error [OF inv]
  by (cases strategy) (auto simp: relay_defs Let_def split: prod.splits sum.splits if_splits)

end

end
