(* ===== verification/User_Repository.thy ===== *)
theory User_Repository
  imports Event_Store
begin

text \<open>
  repositories/user-repository.ts over the table \<open>users\<close> of the migrations, with one row per public
  key. The migration \<open>20251125_022004_drop_payment_tables\<close> drops the table, and then every query
  on it is an error: the table is an \<open>option\<close>. Times are milliseconds.
\<close>

record user =
  usr_pubkey :: string
  isAdmitted :: bool
  balance :: int
  usr_createdAt :: int
  usr_updatedAt :: int

record dbuser =
  db_pubkey :: bytes
  is_admitted :: bool
  tos_accepted_at :: "int option"
  db_balance :: int
  db_created_at :: int
  db_updated_at :: int

type_synonym user_table = "dbuser list option"

definition missing_table :: js_error where
  "missing_table = PgError ''relation users does not exist''"

definition fromDBUser :: "dbuser \<Rightarrow> user" where
  "fromDBUser r =
     \<lparr>usr_pubkey = fromBuffer (db_pubkey r), isAdmitted = is_admitted r, balance = db_balance r,
      usr_createdAt = db_created_at r, usr_updatedAt = db_updated_at r\<rparr>"

definition findByPubkey :: "string \<Rightarrow> user_table \<Rightarrow> js_error + user option" where
  "findByPubkey pk users =
     (case users of
        None \<Rightarrow> Inl missing_table
      | Some rows \<Rightarrow>
          Inr (map_option fromDBUser (find (\<lambda>r. db_pubkey r = toBuffer pk) rows)))"

text \<open>
  The arguments \<open>isAdmitted\<close> and \<open>tosAcceptedAt\<close> of \<open>upsert\<close> may be \<open>undefined\<close>, which the query
  builder turns into the column's default on an insert and leaves out of an update. The row of a
  conflict keeps its public key, balance and creation time.
\<close>

definition new_user_row :: "int \<Rightarrow> string \<Rightarrow> bool option \<Rightarrow> int option \<Rightarrow> dbuser" where
  "new_user_row date pk admitted tos =
     \<lparr>db_pubkey = toBuffer pk,
      is_admitted = (case admitted of None \<Rightarrow> False | Some b \<Rightarrow> b),
      tos_accepted_at = tos, db_balance = 0, db_created_at = date, db_updated_at = date\<rparr>"

definition merge_user_row :: "int \<Rightarrow> bool option \<Rightarrow> int option \<Rightarrow> dbuser \<Rightarrow> dbuser" where
  "merge_user_row date admitted tos r =
     r\<lparr>is_admitted := (case admitted of None \<Rightarrow> is_admitted r | Some b \<Rightarrow> b),
       tos_accepted_at := (case tos of None \<Rightarrow> tos_accepted_at r | Some t \<Rightarrow> Some t),
       db_updated_at := date\<rparr>"

definition upsert_user ::
  "int \<Rightarrow> string \<Rightarrow> bool option \<Rightarrow> int option \<Rightarrow> user_table \<Rightarrow> (js_error + nat) \<times> user_table" where
  "upsert_user date pk admitted tos users =
     (case users of
        None \<Rightarrow> (Inl missing_table, None)
      | Some rows \<Rightarrow>
          if list_ex (\<lambda>r. db_pubkey r = toBuffer pk) rows
          then (Inr 1, Some (map (\<lambda>r. if db_pubkey r = toBuffer pk
                                      then merge_user_row date admitted tos r else r) rows))
          else (Inr 1, Some (rows @ [new_user_row date pk admitted tos])))"

definition getBalanceByPubkey :: "string \<Rightarrow> user_table \<Rightarrow> js_error + int" where
  "getBalanceByPubkey pk users =
     (case users of
        None \<Rightarrow> Inl missing_table
      | Some rows \<Rightarrow>
          (case find (\<lambda>r. db_pubkey r = toBuffer pk) rows of
             None \<Rightarrow> Inr 0
           | Some r \<Rightarrow> Inr (db_balance r)))"

text \<open>\<open>IUserRepository\<close>, as far as the message handlers call it.\<close>

record 'u user_repository =
  repo_findByPubkey :: "string \<Rightarrow> 'u \<Rightarrow> js_error + user option"

definition UserRepository :: "user_table user_repository" where
  "UserRepository = \<lparr>repo_findByPubkey = findByPubkey\<rparr>"

lemma UserRepository_simps [simp]: "repo_findByPubkey UserRepository = findByPubkey"
  by (simp add: UserRepository_def)

section \<open>Lemmas\<close>

definition users_inv :: "user_table \<Rightarrow> bool" where
  "users_inv users \<longleftrightarrow> (\<forall>rows. users = Some rows \<longrightarrow> distinct (map db_pubkey rows))"

lemma merge_user_row_pubkey [simp]:
  "db_pubkey (merge_user_row date admitted tos r) = db_pubkey r"
  "db_balance (merge_user_row date admitted tos r) = db_balance r"
  "db_created_at (merge_user_row date admitted tos r) = db_created_at r"
  by (simp_all add: merge_user_row_def)

lemma new_user_row_pubkey [simp]: "db_pubkey (new_user_row date pk admitted tos) = toBuffer pk"
  by (simp add: new_user_row_def)

lemma map_merge_pubkeys:
  "map db_pubkey (map (\<lambda>r. if P r then merge_user_row date admitted tos r else r) rows)
     = map db_pubkey rows"
  by (induction rows) auto

lemma upsert_user_inv:
  assumes "users_inv users"
  shows "users_inv (snd (upsert_user date pk admitted tos users))"
proof (cases users)
  case None
  then show ?thesis by (simp add: users_inv_def upsert_user_def)
next
  case (Some rows)
  then have rows: "distinct (map db_pubkey rows)" using assms by (simp add: users_inv_def)
  show ?thesis
  proof (cases "list_ex (\<lambda>r. db_pubkey r = toBuffer pk) rows")
    case True
    then have "snd (upsert_user date pk admitted tos users) =
        Some (map (\<lambda>r. if db_pubkey r = toBuffer pk then merge_user_row date admitted tos r else r)
          rows)"
      using Some by (simp add: upsert_user_def)
    then show ?thesis using rows by (simp add: users_inv_def map_merge_pubkeys del: map_map)
  next
    case False
    then show ?thesis using Some rows by (auto simp: users_inv_def upsert_user_def list_ex_iff)
  qed
qed

lemma find_map_if:
  assumes "\<And>r. key (f r) = key r"
  shows "find (\<lambda>r. key r = k) (map (\<lambda>r. if key r = k then f r else r) rows)
    = map_option f (find (\<lambda>r. key r = k) rows)"
  by (induction rows) (auto simp: assms)

lemma find_map_if_other:
  assumes "\<And>r. key (f r) = key r" "k' \<noteq> k"
  shows "find (\<lambda>r. key r = k') (map (\<lambda>r. if key r = k then f r else r) rows)
    = find (\<lambda>r. key r = k') rows"
  using assms(2) by (induction rows) (auto simp: assms(1))

lemma find_append: "find P (xs @ ys) = (case find P xs of None \<Rightarrow> find P ys | Some x \<Rightarrow> Some x)"
  by (induction xs) auto

lemma find_none_mem: "\<not> list_ex P xs \<Longrightarrow> find P xs = None"
  by (simp add: find_None_iff list_ex_iff)

lemma upsert_user_balance:
  "getBalanceByPubkey pk' (snd (upsert_user date pk admitted tos users))
     = getBalanceByPubkey pk' users"
proof (cases users)
  case (Some rows)
  show ?thesis
  proof (cases "list_ex (\<lambda>r. db_pubkey r = toBuffer pk) rows")
    case True
    then show ?thesis
      by (cases "toBuffer pk' = toBuffer pk")
         (simp_all add: Some upsert_user_def getBalanceByPubkey_def find_map_if find_map_if_other
            split: option.splits)
  next
    case False
    then show ?thesis
      by (auto simp: Some upsert_user_def getBalanceByPubkey_def find_append new_user_row_def
          find_none_mem split: option.splits)
  qed
qed (simp add: upsert_user_def getBalanceByPubkey_def)

lemma upsert_user_other:
  assumes "toBuffer pk' \<noteq> toBuffer pk"
  shows "findByPubkey pk' (snd (upsert_user date pk admitted tos users)) = findByPubkey pk' users"
  using assms
  by (cases users)
     (auto simp: upsert_user_def findByPubkey_def find_map_if_other find_append
        split: option.splits)

lemma upsert_user_admits:
  assumes "users = Some rows"
  obtains u where "findByPubkey pk (snd (upsert_user date pk (Some True) tos users)) = Inr (Some u)"
    "isAdmitted u"
proof (cases "find (\<lambda>r. db_pubkey r = toBuffer pk) rows")
  case None
  then have "\<not> list_ex (\<lambda>r. db_pubkey r = toBuffer pk) rows"
    by (simp add: find_None_iff list_ex_iff)
  then show ?thesis using that assms None
    by (simp add: upsert_user_def findByPubkey_def find_append fromDBUser_def new_user_row_def)
next
  case (Some r)
  then have "list_ex (\<lambda>r. db_pubkey r = toBuffer pk) rows"
    by (auto simp: find_Some_iff list_ex_length)
  then show ?thesis using that assms Some
    by (simp add: upsert_user_def findByPubkey_def find_map_if fromDBUser_def merge_user_row_def)
qed

end
