(* ===== verification/Redis_Cache.thy ===== *)
theory Redis_Cache
  imports Nostr_Event "HOL-Library.Multiset"
begin

text \<open>
  adapters/redis-adapter.ts over the client of the \<open>redis\<close> package (@types/cache.ts,
  cache/client.ts), and the interface \<open>ICacheAdapter\<close> (@types/adapters.ts) the rate limiter calls.

  The client and the server behind it are not part of the repository: a client is a record of the
  commands the adapter sends, over any type of server state. What the rate limiter needs of the
  sorted-set commands is the locale \<open>sorted_set_client\<close>; \<open>sorted_set_cache\<close> is the same contract for
  an adapter, and the sublocale says that \<open>RedisAdapter\<close> keeps it. The interpretation at the end
  runs the adapter on a store of association lists.
\<close>

record 'r cache_client =
  client_exists :: "string \<Rightarrow> 'r \<Rightarrow> (js_error + bool) \<times> 'r"
  client_get :: "string \<Rightarrow> 'r \<Rightarrow> (js_error + string option) \<times> 'r"
  client_set :: "string \<Rightarrow> string \<Rightarrow> 'r \<Rightarrow> (js_error + string) \<times> 'r"
  zRemRangeByScore :: "string \<Rightarrow> int \<Rightarrow> int \<Rightarrow> 'r \<Rightarrow> (js_error + nat) \<times> 'r"
  zRange :: "string \<Rightarrow> int \<Rightarrow> int \<Rightarrow> 'r \<Rightarrow> (js_error + string list) \<times> 'r"
  client_expire :: "string \<Rightarrow> int \<Rightarrow> 'r \<Rightarrow> (js_error + bool) \<times> 'r"
  zAdd :: "string \<Rightarrow> (js_num \<times> string) list \<Rightarrow> 'r \<Rightarrow> (js_error + nat) \<times> 'r"

section \<open>The adapter\<close>

text \<open>
  Every method awaits \<open>this.connection\<close> first: \<open>conn\<close> is the error that promise was rejected with,
  if it was.
\<close>

definition awaitConnection ::
  "js_error option \<Rightarrow> ('r \<Rightarrow> (js_error + 'a) \<times> 'r) \<Rightarrow> 'r \<Rightarrow> (js_error + 'a) \<times> 'r" where
  "awaitConnection conn act r = (case conn of Some err \<Rightarrow> (Inl err, r) | None \<Rightarrow> act r)"

text \<open>
  \<open>Boolean(this.client.exists(key))\<close> converts the promise, not its value: the result is \<open>true\<close>
  whatever the reply, and a rejection of that promise is not the method's.
\<close>

definition hasKey ::
  "js_error option \<Rightarrow> 'r cache_client \<Rightarrow> string \<Rightarrow> 'r \<Rightarrow> (js_error + bool) \<times> 'r" where
  "hasKey conn client key =
     awaitConnection conn (\<lambda>r. (Inr True, snd (client_exists client key r)))"

definition getKey ::
  "js_error option \<Rightarrow> 'r cache_client \<Rightarrow> string \<Rightarrow> 'r \<Rightarrow> (js_error + string option) \<times> 'r" where
  "getKey conn client key = awaitConnection conn (client_get client key)"

definition setKey ::
  "js_error option \<Rightarrow> 'r cache_client \<Rightarrow> string \<Rightarrow> string \<Rightarrow> 'r \<Rightarrow> (js_error + bool) \<times> 'r" where
  "setKey conn client key val =
     awaitConnection conn (\<lambda>r.
       (case client_set client key val r of
          (Inl err, r') \<Rightarrow> (Inl err, r')
        | (Inr reply, r') \<Rightarrow> (Inr (reply = ''OK''), r')))"

definition removeRangeByScoreFromSortedSet ::
  "js_error option \<Rightarrow> 'r cache_client \<Rightarrow> string \<Rightarrow> int \<Rightarrow> int \<Rightarrow> 'r \<Rightarrow> (js_error + nat) \<times> 'r" where
  "removeRangeByScoreFromSortedSet conn client key mn mx =
     awaitConnection conn (zRemRangeByScore client key mn mx)"

definition getRangeFromSortedSet ::
  "js_error option \<Rightarrow> 'r cache_client \<Rightarrow> string \<Rightarrow> int \<Rightarrow> int \<Rightarrow> 'r
     \<Rightarrow> (js_error + string list) \<times> 'r" where
  "getRangeFromSortedSet conn client key mn mx = awaitConnection conn (zRange client key mn mx)"

definition setKeyExpiry ::
  "js_error option \<Rightarrow> 'r cache_client \<Rightarrow> string \<Rightarrow> int \<Rightarrow> 'r \<Rightarrow> (js_error + unit) \<times> 'r" where
  "setKeyExpiry conn client key expiry =
     awaitConnection conn (\<lambda>r.
       (case client_expire client key expiry r of
          (Inl err, r') \<Rightarrow> (Inl err, r')
        | (Inr reply, r') \<Rightarrow> (Inr (), r')))"

definition addToSortedSet ::
  "js_error option \<Rightarrow> 'r cache_client \<Rightarrow> string \<Rightarrow> (string \<times> string) list \<Rightarrow> 'r
     \<Rightarrow> (js_error + nat) \<times> 'r" where
  "addToSortedSet conn client key entries =
     awaitConnection conn
       (zAdd client key (map (\<lambda>(val, score). (js_Number score, val)) entries))"

text \<open>\<open>ICacheAdapter\<close>, and the class that implements it.\<close>

record 'r cache_adapter =
  cache_getKey :: "string \<Rightarrow> 'r \<Rightarrow> (js_error + string option) \<times> 'r"
  cache_hasKey :: "string \<Rightarrow> 'r \<Rightarrow> (js_error + bool) \<times> 'r"
  cache_setKey :: "string \<Rightarrow> string \<Rightarrow> 'r \<Rightarrow> (js_error + bool) \<times> 'r"
  cache_add :: "string \<Rightarrow> (string \<times> string) list \<Rightarrow> 'r \<Rightarrow> (js_error + nat) \<times> 'r"
  cache_remove :: "string \<Rightarrow> int \<Rightarrow> int \<Rightarrow> 'r \<Rightarrow> (js_error + nat) \<times> 'r"
  cache_range :: "string \<Rightarrow> int \<Rightarrow> int \<Rightarrow> 'r \<Rightarrow> (js_error + string list) \<times> 'r"
  cache_expiry :: "string \<Rightarrow> int \<Rightarrow> 'r \<Rightarrow> (js_error + unit) \<times> 'r"

definition RedisAdapter :: "js_error option \<Rightarrow> 'r cache_client \<Rightarrow> 'r cache_adapter" where
  "RedisAdapter conn client =
     \<lparr>cache_getKey = getKey conn client, cache_hasKey = hasKey conn client,
      cache_setKey = setKey conn client, cache_add = addToSortedSet conn client,
      cache_remove = removeRangeByScoreFromSortedSet conn client,
      cache_range = getRangeFromSortedSet conn client,
      cache_expiry = setKeyExpiry conn client\<rparr>"

lemma RedisAdapter_simps [simp]:
  "cache_getKey (RedisAdapter conn client) = getKey conn client"
  "cache_hasKey (RedisAdapter conn client) = hasKey conn client"
  "cache_setKey (RedisAdapter conn client) = setKey conn client"
  "cache_add (RedisAdapter conn client) = addToSortedSet conn client"
  "cache_remove (RedisAdapter conn client) = removeRangeByScoreFromSortedSet conn client"
  "cache_range (RedisAdapter conn client) = getRangeFromSortedSet conn client"
  "cache_expiry (RedisAdapter conn client) = setKeyExpiry conn client"
  by (simp_all add: RedisAdapter_def)

section \<open>Contracts\<close>

text \<open>
  \<open>members r key\<close> is the sorted set at \<open>key\<close>: its members with their scores. The laws are those of
  the commands ZREMRANGEBYSCORE, ZADD with one member, ZRANGE 0 -1 and EXPIRE with a positive time.
\<close>

locale sorted_set_client =
  fixes client :: "'r cache_client"
    and members :: "'r \<Rightarrow> string \<Rightarrow> string \<rightharpoonup> int"
  assumes zrem: "\<exists>n r'. zRemRangeByScore client key mn mx r = (Inr n, r')
      \<and> members r' = (members r)(key := (\<lambda>m. case members r key m of None \<Rightarrow> None
          | Some s \<Rightarrow> if mn \<le> s \<and> s \<le> mx then None else Some s))"
    and zadd: "\<exists>n r'. zAdd client key [(JFinite (of_int s), m)] r = (Inr n, r')
      \<and> members r' = (members r)(key := (members r key)(m \<mapsto> s))"
    and zrange: "\<exists>xs. zRange client key 0 (- 1) r = (Inr xs, r)
      \<and> distinct xs \<and> set xs = dom (members r key)"
    and expire: "0 < n \<Longrightarrow> \<exists>b r'. client_expire client key n r = (Inr b, r') \<and> members r' = members r"

locale sorted_set_cache =
  fixes cache :: "'r cache_adapter"
    and members :: "'r \<Rightarrow> string \<Rightarrow> string \<rightharpoonup> int"
  assumes remove: "\<exists>n r'. cache_remove cache key mn mx r = (Inr n, r')
      \<and> members r' = (members r)(key := (\<lambda>m. case members r key m of None \<Rightarrow> None
          | Some s \<Rightarrow> if mn \<le> s \<and> s \<le> mx then None else Some s))"
    and add: "js_Number v = JFinite (of_int s) \<Longrightarrow> \<exists>n r'. cache_add cache key [(m, v)] r = (Inr n, r')
      \<and> members r' = (members r)(key := (members r key)(m \<mapsto> s))"
    and range: "\<exists>xs. cache_range cache key 0 (- 1) r = (Inr xs, r)
      \<and> distinct xs \<and> set xs = dom (members r key)"
    and expiry: "0 < n \<Longrightarrow> \<exists>r'. cache_expiry cache key n r = (Inr (), r') \<and> members r' = members r"

sublocale sorted_set_client \<subseteq> adapter: sorted_set_cache "RedisAdapter None client" members
proof unfold_locales
  fix key mn mx r
  show "\<exists>n r'. cache_remove (RedisAdapter None client) key mn mx r = (Inr n, r')
      \<and> members r' = (members r)(key := (\<lambda>m. case members r key m of None \<Rightarrow> None
          | Some s \<Rightarrow> if mn \<le> s \<and> s \<le> mx then None else Some s))"
    using zrem by (simp add: removeRangeByScoreFromSortedSet_def awaitConnection_def)
next
  fix v s key m r
  assume "js_Number v = JFinite (of_int s)"
  then show "\<exists>n r'. cache_add (RedisAdapter None client) key [(m, v)] r = (Inr n, r')
      \<and> members r' = (members r)(key := (members r key)(m \<mapsto> s))"
    using zadd by (simp add: addToSortedSet_def awaitConnection_def)
next
  fix key r
  show "\<exists>xs. cache_range (RedisAdapter None client) key 0 (- 1) r = (Inr xs, r)
      \<and> distinct xs \<and> set xs = dom (members r key)"
    using zrange by (simp add: getRangeFromSortedSet_def awaitConnection_def)
next
  fix n :: int and key r
  assume "0 < n"
  then obtain b r' where "client_expire client key n r = (Inr b, r')" "members r' = members r"
    using expire by blast
  then show "\<exists>r'. cache_expiry (RedisAdapter None client) key n r = (Inr (), r')
      \<and> members r' = members r"
    by (simp add: setKeyExpiry_def awaitConnection_def)
qed

section \<open>A store that keeps the contract\<close>

type_synonym alist_store = "string \<Rightarrow> (string \<times> int) list"

text \<open>The scores a client sends are numbers; the store keeps their integral part.\<close>

definition score_of :: "js_num \<Rightarrow> int option" where
  "score_of v = (case v of JFinite q \<Rightarrow> Some \<lfloor>q\<rfloor> | _ \<Rightarrow> None)"

definition store_add :: "(js_num \<times> string) \<Rightarrow> (string \<times> int) list \<Rightarrow> (string \<times> int) list" where
  "store_add vm zs =
     (case score_of (fst vm) of None \<Rightarrow> zs | Some s \<Rightarrow> AList.update (snd vm) s zs)"

definition alist_client :: "alist_store cache_client" where
  "alist_client =
     \<lparr>client_exists = (\<lambda>key r. (Inr (r key \<noteq> []), r)),
      client_get = (\<lambda>key r. (Inr None, r)),
      client_set = (\<lambda>key v r. (Inr ''OK'', r)),
      zRemRangeByScore = (\<lambda>key mn mx r.
        (Inr (length (filter (\<lambda>(m, s). mn \<le> s \<and> s \<le> mx) (r key))),
         r(key := filter (\<lambda>(m, s). \<not> (mn \<le> s \<and> s \<le> mx)) (AList.clearjunk (r key))))),
      zRange = (\<lambda>key start stop r.
        (Inr (map fst (sort_key snd (AList.clearjunk (r key)))), r)),
      client_expire = (\<lambda>key n r. if 0 < n then (Inr True, r) else (Inr True, r(key := []))),
      zAdd = (\<lambda>key ms r. (Inr (length ms), r(key := fold store_add ms (r key))))\<rparr>"

lemma map_of_filter_score:
  "distinct (map fst zs) \<Longrightarrow>
     map_of (filter (\<lambda>(m, s). \<not> P s) zs) m =
       (case map_of zs m of None \<Rightarrow> None | Some s \<Rightarrow> if P s then None else Some s)"
  by (induction zs) (force simp: map_of_eq_None_iff split: option.splits)+

interpretation alist_redis: sorted_set_client alist_client "\<lambda>r key. map_of (r key)"
proof unfold_locales
  fix key :: string and mn mx :: int and r :: alist_store
  have "map_of (filter (\<lambda>(m, s). \<not> (mn \<le> s \<and> s \<le> mx)) (AList.clearjunk (r key))) m
      = (case map_of (r key) m of None \<Rightarrow> None
         | Some s \<Rightarrow> if mn \<le> s \<and> s \<le> mx then None else Some s)" for m
    using map_of_filter_score [OF distinct_clearjunk, of "\<lambda>s. mn \<le> s \<and> s \<le> mx" "r key" m]
    by (simp only: map_of_clearjunk)
  moreover have "zRemRangeByScore alist_client key mn mx r =
      (Inr (length (filter (\<lambda>(m, s). mn \<le> s \<and> s \<le> mx) (r key))),
       r(key := filter (\<lambda>(m, s). \<not> (mn \<le> s \<and> s \<le> mx)) (AList.clearjunk (r key))))"
    by (simp add: alist_client_def)
  ultimately show "\<exists>n r'. zRemRangeByScore alist_client key mn mx r = (Inr n, r')
      \<and> (\<lambda>key. map_of (r' key)) = (\<lambda>key. map_of (r key))(key := (\<lambda>m. case map_of (r key) m of
          None \<Rightarrow> None | Some s \<Rightarrow> if mn \<le> s \<and> s \<le> mx then None else Some s))"
    by (intro exI conjI, blast) (simp add: fun_eq_iff)
next
  fix key m :: string and s :: int and r :: alist_store
  show "\<exists>n r'. zAdd alist_client key [(JFinite (of_int s), m)] r = (Inr n, r')
      \<and> (\<lambda>key. map_of (r' key)) = (\<lambda>key. map_of (r key))(key := (map_of (r key))(m \<mapsto> s))"
  proof (intro exI conjI)
    show "zAdd alist_client key [(JFinite (of_int s), m)] r
        = (Inr 1, r(key := AList.update m s (r key)))"
      by (simp add: alist_client_def store_add_def score_of_def)
  qed (simp add: update_conv' fun_eq_iff)
next
  fix key :: string and r :: alist_store
  show "\<exists>xs. zRange alist_client key 0 (- 1) r = (Inr xs, r)
      \<and> distinct xs \<and> set xs = dom (map_of (r key))"
  proof (intro exI conjI)
    let ?zs = "AList.clearjunk (r key)"
    show "zRange alist_client key 0 (- 1) r = (Inr (map fst (sort_key snd ?zs)), r)"
      by (simp add: alist_client_def)
    have "mset (map fst (sort_key snd ?zs)) = mset (map fst ?zs)" by simp
    then show "distinct (map fst (sort_key snd ?zs))"
      using distinct_clearjunk mset_eq_imp_distinct_iff by blast
    show "set (map fst (sort_key snd ?zs)) = dom (map_of (r key))"
      by (simp add: dom_map_of_conv_image_fst dom_clearjunk)
  qed
next
  fix n :: int and key and r :: alist_store
  assume "0 < n"
  then show "\<exists>b r'. client_expire alist_client key n r = (Inr b, r')
      \<and> (\<lambda>key. map_of (r' key)) = (\<lambda>key. map_of (r key))"
    by (auto simp: alist_client_def)
qed

end
