(* ===== verification/Relay_Settings.thy ===== *)
theory Relay_Settings
  imports Nostr_Event
begin

text \<open>
  The settings of @types/settings.ts, as the components read them. A property that may be absent is
  an \<open>option\<close>; \<open>settings.limits?.event ?? {}\<close> is \<open>event_limits_of\<close>, with the record whose
  properties are all absent in the place of \<open>{}\<close>. In \<open>mir_limits\<close> the outer option is the
  presence of \<open>limits\<close>, the inner one that of \<open>limits.event\<close>; \<open>set_workers_count\<close> is
  \<open>workers?.count\<close> and \<open>set_mirrors\<close> is \<open>mirroring?.static\<close>.
\<close>

record rate_limit =
  rl_period :: int
  rl_rate :: int

record event_rate_limit = rate_limit +
  rl_kinds :: "kind_spec list option"

record content_limits =
  cl_kinds :: "kind_spec list option"
  cl_maxLength :: "int option"

text \<open>\<open>content?: ContentLimits | ContentLimits[]\<close>.\<close>

datatype content_setting = OneContent content_limits | ManyContent "content_limits list"

record created_at_limits =
  maxNegativeDelta :: "int option"
  maxPositiveDelta :: "int option"

record event_id_limits =
  id_minLeadingZeroBits :: "int option"

record pubkey_limits =
  pk_minBalance :: "int option"
  pk_minLeadingZeroBits :: "int option"
  pk_whitelist :: "string list option"
  pk_blacklist :: "string list option"

record kind_limits =
  k_whitelist :: "kind_spec list option"
  k_blacklist :: "kind_spec list option"

record event_whitelists =
  wl_pubkeys :: "string list option"
  wl_ipAddresses :: "string list option"

record event_limits =
  lim_eventId :: "event_id_limits option"
  lim_pubkey :: "pubkey_limits option"
  lim_kind :: "kind_limits option"
  lim_createdAt :: "created_at_limits option"
  lim_content :: "content_setting option"
  lim_rateLimits :: "event_rate_limit list option"
  lim_whitelists :: "event_whitelists option"

record client_subscription_limits =
  maxSubscriptions :: "int option"
  maxFilters :: "int option"
  maxFilterValues :: "int option"
  maxLimit :: "int option"
  minPrefixLength :: "int option"
  maxSubscriptionIdLength :: "int option"

record ip_limits =
  ip_rateLimits :: "rate_limit list option"
  ip_whitelist :: "string list option"

record client_limits =
  cl_subscription :: "client_subscription_limits option"

record all_limits =
  lim_invoice :: "ip_limits option"
  lim_admissionCheck :: "ip_limits option"
  lim_connection :: "ip_limits option"
  lim_client :: "client_limits option"
  lim_event :: "event_limits option"
  lim_message :: "ip_limits option"

record fee_schedule =
  fee_enabled :: bool
  fee_amount :: int
  fee_pubkeys :: "string list option"
  fee_event_kinds :: "kind_spec list option"

text \<open>\<open>feeSchedules\<close>: its own properties, in their order.\<close>

record payments =
  pay_enabled :: bool
  pay_schedules :: "(string \<times> fee_schedule list) list"

record mirror_settings =
  mir_address :: string
  mir_filters :: "subfilter list option"
  mir_secret :: "string option"
  mir_limits :: "event_limits option option"
  mir_skipAdmissionCheck :: bool

record settings =
  info_relay_url :: string
  info_name :: string
  info_description :: string
  info_pubkey :: string
  info_contact :: string
  set_payments :: "payments option"
  net_remoteIpHeader :: "string option"
  net_remote_ip_header :: "string option"
  net_maxPayloadSize :: "int option"
  set_limits :: "all_limits option"
  set_workers_count :: "int option"
  set_mirrors :: "mirror_settings list option"

definition no_event_limits :: event_limits where
  "no_event_limits = \<lparr>lim_eventId = None, lim_pubkey = None, lim_kind = None,
     lim_createdAt = None, lim_content = None, lim_rateLimits = None, lim_whitelists = None\<rparr>"

definition no_ip_limits :: ip_limits where
  "no_ip_limits = \<lparr>ip_rateLimits = None, ip_whitelist = None\<rparr>"

text \<open>\<open>feeSchedules.admission\<close>.\<close>

definition pay_admission :: "payments \<Rightarrow> fee_schedule list option" where
  "pay_admission p = map_of (pay_schedules p) ''admission''"

text \<open>\<open>settings.limits?.event ?? {}\<close> and its siblings.\<close>

definition event_limits_of :: "settings \<Rightarrow> event_limits" where
  "event_limits_of s =
     (case Option.bind (set_limits s) lim_event of None \<Rightarrow> no_event_limits | Some l \<Rightarrow> l)"

definition message_limits_of :: "settings \<Rightarrow> ip_limits" where
  "message_limits_of s =
     (case Option.bind (set_limits s) lim_message of None \<Rightarrow> no_ip_limits | Some l \<Rightarrow> l)"

definition connection_limits_of :: "settings \<Rightarrow> ip_limits" where
  "connection_limits_of s =
     (case Option.bind (set_limits s) lim_connection of None \<Rightarrow> no_ip_limits | Some l \<Rightarrow> l)"

definition subscription_limits_of :: "settings \<Rightarrow> client_subscription_limits option" where
  "subscription_limits_of s =
     Option.bind (Option.bind (set_limits s) lim_client) cl_subscription"

text \<open>
  \<open>typeof x !== 'undefined' && x > 0\<close>: the guard of most limits, with the limit where it holds.
\<close>

definition positive_limit :: "int option \<Rightarrow> int option" where
  "positive_limit x = (case x of None \<Rightarrow> None | Some n \<Rightarrow> if n > 0 then Some n else None)"

lemma positive_limit_Some [simp]: "positive_limit x = Some n \<longleftrightarrow> x = Some n \<and> 0 < n"
  by (auto simp: positive_limit_def split: option.splits)

lemma positive_limit_None [simp]: "positive_limit x = None \<longleftrightarrow> (\<forall>n. x = Some n \<longrightarrow> n \<le> 0)"
  by (auto simp: positive_limit_def split: option.splits)

text \<open>\<open>typeof xs !== 'undefined' && xs.length > 0\<close>.\<close>

definition nonempty_list :: "'a list option \<Rightarrow> 'a list" where
  "nonempty_list x = (case x of None \<Rightarrow> [] | Some xs \<Rightarrow> xs)"

lemma nonempty_list_simps [simp]: "nonempty_list None = []" "nonempty_list (Some xs) = xs"
  by (simp_all add: nonempty_list_def)

end
