(* ===== verification/Rate_Limiter.thy ===== *)
theory Rate_Limiter
  imports Redis_Cache Relay_Settings
begin

text \<open>
  utils/sliding-window-rate-limiter.ts: \<open>SlidingWindowRateLimiter.hit\<close> over the cache adapter, and
  the interface \<open>IRateLimiter\<close> (@types/utils.ts) the handlers call. The lemmas say which hits a
  call counts.
\<close>

section \<open>The limiter\<close>

text \<open>Addition of JavaScript numbers, as far as no double is rounded.\<close>

fun js_add :: "js_num \<Rightarrow> js_num \<Rightarrow> js_num" where
  "js_add (JFinite p) (JFinite q) = JFinite (p + q)"
| "js_add (JInfinity b) (JInfinity c) = (if b = c then JInfinity b else JNaN)"
| "js_add (JInfinity b) (JFinite q) = JInfinity b"
| "js_add (JFinite p) (JInfinity b) = JInfinity b"
| "js_add JNaN v = JNaN"
| "js_add v JNaN = JNaN"

text \<open>\<open>x > n\<close>; \<open>JInfinity True\<close> is the negative infinity.\<close>

fun js_greater :: "js_num \<Rightarrow> int \<Rightarrow> bool" where
  "js_greater (JFinite q) n = (of_int n < q)"
| "js_greater (JInfinity negative) n = (\<not> negative)"
| "js_greater JNaN n = False"

text \<open>\<open>Number(timestampAndStep.split(':')[1])\<close>; \<open>Number(undefined)\<close> is \<open>NaN\<close>.\<close>

definition entry_step :: "string \<Rightarrow> js_num" where
  "entry_step timestampAndStep =
     (case js_at (js_split (CHR '':'') timestampAndStep) 1 of
        None \<Rightarrow> JNaN
      | Some s \<Rightarrow> js_Number s)"

definition entry_of :: "int \<Rightarrow> int \<Rightarrow> string" where
  "entry_of timestamp step = int_str timestamp @ '':'' @ int_str step"

text \<open>
  The four commands are sent in this order, each whatever the others reply; \<open>Promise.all\<close> rejects
  when one of them does.
\<close>

definition hit ::
  "'r cache_adapter \<Rightarrow> int \<Rightarrow> string \<Rightarrow> int \<Rightarrow> rate_limit \<Rightarrow> 'r \<Rightarrow> (js_error + bool) \<times> 'r" where
  "hit cache timestamp key step options r0 =
     (let period = rl_period options;
          (removed, r1) = cache_remove cache key 0 (timestamp - period) r0;
          (added, r2) = cache_add cache key [(entry_of timestamp step, int_str timestamp)] r1;
          (range, r3) = cache_range cache key 0 (- 1) r2;
          (expiry, r4) = cache_expiry cache key period r3
      in (case (removed, added, range, expiry) of
            (Inr _, Inr _, Inr entries, Inr _) \<Rightarrow>
              (let hits = foldl (\<lambda>acc e. js_add acc (entry_step e)) (JFinite 0) entries
               in (Inr (js_greater hits (rl_rate options)), r4))
          | (Inl err, _, _, _) \<Rightarrow> (Inl err, r4)
          | (_, Inl err, _, _) \<Rightarrow> (Inl err, r4)
          | (_, _, Inl err, _) \<Rightarrow> (Inl err, r4)
          | (_, _, _, Inl err) \<Rightarrow> (Inl err, r4)))"

text \<open>The interface: a limiter's \<open>hit\<close>, with the reading of the clock it makes as an argument.\<close>

record 'r rate_limiter =
  rl_hit :: "int \<Rightarrow> string \<Rightarrow> int \<Rightarrow> rate_limit \<Rightarrow> 'r \<Rightarrow> (js_error + bool) \<times> 'r"

definition SlidingWindowRateLimiter :: "'r cache_adapter \<Rightarrow> 'r rate_limiter" where
  "SlidingWindowRateLimiter cache = \<lparr>rl_hit = hit cache\<rparr>"

lemma SlidingWindowRateLimiter_hit [simp]: "rl_hit (SlidingWindowRateLimiter cache) = hit cache"
  by (simp add: SlidingWindowRateLimiter_def)

section \<open>Entries\<close>

lemma entry_step_entry_of [simp]:
  "0 \<le> step \<Longrightarrow> entry_step (entry_of timestamp step) = JFinite (of_int step)"
  by (simp add: entry_step_def entry_of_def js_split_append js_split_no_sep js_Number_int_str)

lemma entry_of_inject [simp]: "entry_of t s = entry_of t' s' \<longleftrightarrow> t = t' \<and> s = s'"
proof
  assume eq: "entry_of t s = entry_of t' s'"
  have "js_split (CHR '':'') (entry_of t s) = [int_str t, int_str s]" for t s
    by (simp add: entry_of_def js_split_append js_split_no_sep)
  then have "[int_str t, int_str s] = [int_str t', int_str s']" using eq by metis
  then show "t = t' \<and> s = s'" by simp
qed simp

lemma foldl_entries:
  assumes "\<And>e. e \<in> set entries \<Longrightarrow> entry_step e = JFinite (of_int (val e))"
  shows "foldl (\<lambda>acc e. js_add acc (entry_step e)) (JFinite (of_int n)) entries
    = JFinite (of_int (n + sum_list (map val entries)))"
  using assms
proof (induction entries arbitrary: n)
  case (Cons e es)
  from Cons.IH [of "n + val e"] Cons.prems show ?case by (simp add: algebra_simps)
qed simp

section \<open>The window\<close>

text \<open>
  \<open>window hits lo\<close> is the set of the hits after \<open>lo\<close>, and \<open>window_map\<close> the sorted set that holds
  them: two hits of the same millisecond and step are one member.
\<close>

definition window :: "(int \<times> int) list \<Rightarrow> int \<Rightarrow> (int \<times> int) set" where
  "window hs lo = {h \<in> set hs. lo < fst h}"

definition holds_window ::
  "(string \<rightharpoonup> int) \<Rightarrow> (int \<times> int) list \<Rightarrow> int \<Rightarrow> bool" where
  "holds_window m hs lo \<longleftrightarrow>
     (\<forall>e t. m e = Some t \<longleftrightarrow> (\<exists>s. (t, s) \<in> window hs lo \<and> e = entry_of t s))"

lemma window_simps [simp]:
  "window [] lo = {}"
  "window (h # hs) lo = (if lo < fst h then insert h (window hs lo) else window hs lo)"
  by (auto simp: window_def)

lemma holds_window_dom:
  "holds_window m hs lo \<Longrightarrow> dom m = (\<lambda>(t, s). entry_of t s) ` window hs lo"
  by (auto simp: holds_window_def dom_def image_iff)

fun run_hits ::
  "'r rate_limiter \<Rightarrow> string \<Rightarrow> rate_limit \<Rightarrow> (int \<times> int) list \<Rightarrow> 'r \<Rightarrow> 'r" where
  "run_hits limiter key options [] r = r"
| "run_hits limiter key options ((t, s) # hs) r =
     run_hits limiter key options hs (snd (rl_hit limiter t key s options r))"

lemma run_hits_append:
  "run_hits limiter key options (xs @ ys) r = run_hits limiter key options ys (run_hits limiter key options xs r)"
  by (induction xs arbitrary: r) auto

text \<open>The bucket after a hit: the entries outside the period are removed and the hit is added.\<close>

lemma holds_window_hit:
  assumes "holds_window m hs lo" "\<And>h. h \<in> set hs \<Longrightarrow> 0 \<le> fst h" "0 < p" "lo \<le> t - p"
  shows "holds_window ((\<lambda>e. case m e of None \<Rightarrow> None | Some x \<Rightarrow> if 0 \<le> x \<and> x \<le> t - p then None else Some x)
      (entry_of t s \<mapsto> t)) (hs @ [(t, s)]) (t - p)"
  unfolding holds_window_def
proof (intro allI)
  fix e x
  let ?W = "window (hs @ [(t, s)]) (t - p)"
  have W: "(x, y) \<in> ?W \<longleftrightarrow> (x, y) = (t, s) \<or> (x, y) \<in> window hs lo \<and> t - p < x" for y
    using assms(3,4) by (auto simp: window_def)
  have nonneg: "0 \<le> x" if "(x, y) \<in> window hs lo" for y
    using assms(2) that by (force simp: window_def)
  have old: "m e = Some x \<longleftrightarrow> (\<exists>y. (x, y) \<in> window hs lo \<and> e = entry_of x y)"
    using assms(1) unfolding holds_window_def by blast
  have "((\<lambda>e. case m e of None \<Rightarrow> None | Some x \<Rightarrow> if 0 \<le> x \<and> x \<le> t - p then None else Some x)
      (entry_of t s \<mapsto> t)) e = Some x \<longleftrightarrow> (e = entry_of t s \<and> x = t)
        \<or> (e \<noteq> entry_of t s \<and> m e = Some x \<and> \<not> (0 \<le> x \<and> x \<le> t - p))"
    by (auto split: option.splits if_splits)
  also have "\<dots> \<longleftrightarrow> (\<exists>y. (x, y) \<in> ?W \<and> e = entry_of x y)"
  proof (cases "e = entry_of t s")
    case True
    then show ?thesis by (auto simp: W)
  next
    case False
    then show ?thesis using nonneg by (auto simp: W old)
  qed
  finally show "((\<lambda>e. case m e of None \<Rightarrow> None | Some x \<Rightarrow> if 0 \<le> x \<and> x \<le> t - p then None else Some x)
      (entry_of t s \<mapsto> t)) e = Some x \<longleftrightarrow> (\<exists>y. (x, y) \<in> ?W \<and> e = entry_of x y)" .
qed

text \<open>The sum over the entries of a bucket is the sum of the steps of the hits it holds.\<close>

lemma sum_of_bucket:
  assumes "holds_window m hs lo" "distinct entries" "set entries = dom m" "\<And>h. h \<in> set hs \<Longrightarrow> 0 \<le> snd h"
  shows "foldl (\<lambda>acc e. js_add acc (entry_step e)) (JFinite 0) entries = JFinite (of_int (\<Sum>h\<in>window hs lo. snd h))"
proof -
  have inj: "inj_on (\<lambda>(t, s). entry_of t s) (window hs lo)" by (auto simp: inj_on_def)
  define val where "val e = (THE y. \<exists>x. e = entry_of x y)" for e
  have val: "val (entry_of x y) = y" for x y by (auto simp: val_def)
  define n where "n = (\<Sum>h\<in>window hs lo. snd h)"
  have "sum_list (map val entries) = sum val (set entries)"
    using assms(2) by (simp add: sum_list_distinct_conv_sum_set)
  also have "\<dots> = sum val ((\<lambda>(t, s). entry_of t s) ` window hs lo)"
    using holds_window_dom [OF assms(1)] assms(3) by simp
  also have "\<dots> = n"
    using val unfolding n_def by (subst sum.reindex [OF inj]) (auto intro!: sum.cong)
  finally have total: "sum_list (map val entries) = n" .
  have "entry_step e = JFinite (of_int (val e))" if e: "e \<in> set entries" for e
  proof -
    obtain x y where "(x, y) \<in> window hs lo" "e = entry_of x y"
      using e holds_window_dom [OF assms(1)] assms(3) by auto
    then show ?thesis using assms(4) val by (force simp: window_def)
  qed
  from foldl_entries [OF this, of entries 0] show ?thesis by (simp add: total n_def)
qed

context sorted_set_cache
begin

lemma hit_members:
  assumes "0 < rl_period options" "0 \<le> timestamp"
  obtains entries r' where
    "hit cache timestamp key step options r =
       (Inr (js_greater (foldl (\<lambda>acc e. js_add acc (entry_step e)) (JFinite 0) entries)
          (rl_rate options)), r')"
    "distinct entries" "set entries = dom (members r' key)"
    "members r' key = (\<lambda>m. case members r key m of None \<Rightarrow> None
       | Some s \<Rightarrow> if 0 \<le> s \<and> s \<le> timestamp - rl_period options then None else Some s)
       (entry_of timestamp step \<mapsto> timestamp)"
    "\<And>k. k \<noteq> key \<Longrightarrow> members r' k = members r k"
proof -
  obtain n r1 where r1: "cache_remove cache key 0 (timestamp - rl_period options) r = (Inr n, r1)"
    "members r1 = (members r)(key := (\<lambda>m. case members r key m of None \<Rightarrow> None
       | Some s \<Rightarrow> if 0 \<le> s \<and> s \<le> timestamp - rl_period options then None else Some s))"
    using remove by blast
  obtain n' r2 where
    r2: "cache_add cache key [(entry_of timestamp step, int_str timestamp)] r1 = (Inr n', r2)"
      "members r2 = (members r1)(key := (members r1 key)(entry_of timestamp step \<mapsto> timestamp))"
    using add [OF js_Number_int_str [OF assms(2)]] by blast
  obtain xs where xs: "cache_range cache key 0 (- 1) r2 = (Inr xs, r2)" "distinct xs"
    "set xs = dom (members r2 key)"
    using range by blast
  obtain r3 where r3: "cache_expiry cache key (rl_period options) r2 = (Inr (), r3)"
    "members r3 = members r2"
    using expiry [OF assms(1)] by blast
  show ?thesis
    by (rule that [of xs r3]) (use r1 r2 xs r3 in \<open>simp_all add: hit_def\<close>)
qed

lemma hit_window:
  assumes opts: "0 < rl_period options" and times: "\<And>h. h \<in> set hs \<Longrightarrow> 0 \<le> fst h"
    and steps: "\<And>h. h \<in> set hs \<Longrightarrow> 0 \<le> snd h" and t: "0 \<le> t" "0 \<le> s"
    and lo: "lo \<le> t - rl_period options"
    and before: "holds_window (members r key) hs lo"
  shows "\<exists>r'. hit cache t key s options r =
      (Inr (rl_rate options < (\<Sum>h\<in>window (hs @ [(t, s)]) (t - rl_period options). snd h)), r')
    \<and> holds_window (members r' key) (hs @ [(t, s)]) (t - rl_period options)
    \<and> (\<forall>k. k \<noteq> key \<longrightarrow> members r' k = members r k)"
proof -
  obtain entries r' where r': "hit cache t key s options r =
       (Inr (js_greater (foldl (\<lambda>acc e. js_add acc (entry_step e)) (JFinite 0) entries)
          (rl_rate options)), r')"
    "distinct entries" "set entries = dom (members r' key)"
    "members r' key = (\<lambda>m. case members r key m of None \<Rightarrow> None
       | Some s \<Rightarrow> if 0 \<le> s \<and> s \<le> t - rl_period options then None else Some s)
       (entry_of t s \<mapsto> t)"
    "\<And>k. k \<noteq> key \<Longrightarrow> members r' k = members r k"
    by (rule hit_members [OF opts t(1), of key s r]) blast
  have holds: "holds_window (members r' key) (hs @ [(t, s)]) (t - rl_period options)"
    unfolding r'(4) by (rule holds_window_hit [OF before times opts lo])
  define n where "n = (\<Sum>h\<in>window (hs @ [(t, s)]) (t - rl_period options). snd h)"
  have "foldl (\<lambda>acc e. js_add acc (entry_step e)) (JFinite 0) entries = JFinite (of_int n)"
    unfolding n_def by (rule sum_of_bucket [OF holds r'(2,3)]) (use steps t(2) in auto)
  then have "hit cache t key s options r = (Inr (rl_rate options < n), r')"
    by (simp add: r'(1))
  then show ?thesis using r'(5) holds unfolding n_def by blast
qed

lemma run_hits_window:
  assumes opts: "0 < rl_period options" and sorted: "sorted (map fst hs)"
    and times: "\<And>h. h \<in> set hs \<Longrightarrow> 0 \<le> fst h \<and> 0 \<le> snd h"
    and empty: "members r key = Map.empty" and later: "\<And>h. h \<in> set hs \<Longrightarrow> fst h \<le> t"
  shows "\<exists>lo\<le>t - rl_period options.
    holds_window (members (run_hits (SlidingWindowRateLimiter cache) key options hs r) key) hs lo"
  using sorted times later
proof (induction hs arbitrary: t rule: rev_induct)
  case Nil
  then show ?case using empty by (auto simp: holds_window_def window_def)
next
  case (snoc h hs)
  obtain u s where h: "h = (u, s)" by (cases h)
  have "\<exists>lo\<le>u - rl_period options.
      holds_window (members (run_hits (SlidingWindowRateLimiter cache) key options hs r) key) hs lo"
    using snoc by (intro snoc.IH) (auto simp: sorted_append h)
  then obtain lo where lo: "lo \<le> u - rl_period options"
    "holds_window (members (run_hits (SlidingWindowRateLimiter cache) key options hs r) key) hs lo"
    by blast
  have "u \<le> t" using snoc.prems(3) [of h] h by simp
  then show ?case
    using hit_window [OF opts, of hs u s lo _ key] lo snoc.prems(2) h
    by (intro exI [of _ "u - rl_period options"]) (fastforce simp: run_hits_append)
qed

lemma hit_after_hits:
  assumes "0 < rl_period options" "sorted (map fst hs)"
    and "\<And>h. h \<in> set hs \<Longrightarrow> 0 \<le> fst h \<and> 0 \<le> snd h \<and> fst h \<le> t" "0 \<le> t" "0 \<le> s"
    and "members r key = Map.empty"
  shows "fst (hit cache t key s options (run_hits (SlidingWindowRateLimiter cache) key options hs r))
    = Inr (rl_rate options < (\<Sum>h\<in>window (hs @ [(t, s)]) (t - rl_period options). snd h))"
proof -
  obtain lo where "lo \<le> t - rl_period options"
    "holds_window (members (run_hits (SlidingWindowRateLimiter cache) key options hs r) key) hs lo"
    using run_hits_window [OF assms(1,2), of r key t] assms(3,6) by blast
  then show ?thesis
    using hit_window [OF assms(1), of hs t s lo _ key] assms(3-5) by fastforce
qed

end

text \<open>The adapter over a client that keeps the contract.\<close>

context sorted_set_client
begin

lemma adapter_cache: "sorted_set_cache (RedisAdapter None client) members"
  by (rule adapter.sorted_set_cache_axioms)

end

end
