(* ===== verification/Event_Handler.thy ===== *)
theory Event_Handler
  imports Event_Strategies User_Repository Rate_Limiter
begin

text \<open>
  handlers/event-message-handler.ts: the guards an EVENT message passes, in the order of
  \<open>handleMessage\<close>, and the strategy it ends with. The state a handler works on is the event
  repository's, the user repository's and the rate limiter's; the readings of the clock it makes are
  arguments. A method that rejects or throws gives an error.
\<close>

section \<open>The state and the constructor's arguments\<close>

record ('db, 'u, 'r) store =
  st_events :: "'db"
  st_users :: "'u"
  st_cache :: "'r"

text \<open>
  \<open>env_relay_pubkey\<close> is what \<open>getRelayPublicKey()\<close> returns or the error it throws;
  \<open>env_address\<close> is \<open>webSocket.getClientAddress()\<close>.
\<close>

record ('db, 'u, 'r) handler_env =
  env_crypto :: crypto
  env_settings :: settings
  env_relay_pubkey :: "js_error + string"
  env_address :: string
  env_events :: "'db event_repository"
  env_users :: "'u user_repository"
  env_limiter :: "'r rate_limiter"

text \<open>
  Readings of the clock: in \<open>isExpiredEvent\<close>, in the n-th \<open>hit\<close>, in \<open>canAcceptEvent\<close> and in the
  deletion, in milliseconds.
\<close>

record clock_readings =
  at_expiry :: int
  at_hit :: "nat \<Rightarrow> int"
  at_accept :: int
  at_delete :: int

text \<open>\<open>getRelayPublicKey\<close>, with the two caches of utils/event.ts.\<close>

definition getRelayPublicKey ::
  "crypto \<Rightarrow> string option \<Rightarrow> string option \<Rightarrow> settings \<Rightarrow> string option \<Rightarrow> (string \<rightharpoonup> string)
     \<Rightarrow> (js_error + string) \<times> string option \<times> (string \<rightharpoonup> string)" where
  "getRelayPublicKey c SECRET RELAY_PRIVATE_KEY s privateKeyCache publicKeyCache =
     (case getRelayPrivateKey c SECRET RELAY_PRIVATE_KEY privateKeyCache (info_relay_url s) of
        (Inl err, cache) \<Rightarrow> (Inl err, cache, publicKeyCache)
      | (Inr relayPrivkey, cache) \<Rightarrow>
          (case getPublicKey c publicKeyCache relayPrivkey of
             (pk, pcache) \<Rightarrow> (Inr pk, cache, pcache)))"

section \<open>Guards\<close>

definition isEventValid :: "crypto \<Rightarrow> event \<Rightarrow> string option" where
  "isEventValid c e =
     (if \<not> isEventIdValid c e then Some ''invalid: event id does not match''
      else if \<not> isEventSignatureValid c e
      then Some ''invalid: event signature verification failed''
      else None)"

definition addExpirationMetadata :: "event \<Rightarrow> event" where
  "addExpirationMetadata e =
     (case getEventExpiration e of
        None \<Rightarrow> e
      | Some eventExpiration \<Rightarrow>
          if eventExpiration = 0 then e else e\<lparr>meta_expiration := Some eventExpiration\<rparr>)"

subsection \<open>\<open>isRateLimited\<close>\<close>

text \<open>\<open>toString(kinds)\<close>: a template literal joins an array with commas.\<close>

fun kind_spec_str :: "kind_spec \<Rightarrow> string" where
  "kind_spec_str (OneKind k) = int_str k"
| "kind_spec_str (KindRange a b) = ''['' @ js_join '','' [int_str a, int_str b] @ '']''"

definition kinds_str :: "kind_spec list \<Rightarrow> string" where
  "kinds_str ks = ''['' @ js_join '','' (map kind_spec_str ks) @ '']''"

definition event_rate_key :: "event \<Rightarrow> event_rate_limit \<Rightarrow> string" where
  "event_rate_key e l =
     (case rl_kinds l of
        Some ks \<Rightarrow> pubkey e @ '':events:'' @ int_str (rl_period l) @ '':'' @ kinds_str ks
      | None \<Rightarrow> pubkey e @ '':events:'' @ int_str (rl_period l))"

definition rate_limit_applies :: "event \<Rightarrow> event_rate_limit \<Rightarrow> bool" where
  "rate_limit_applies e l \<longleftrightarrow>
     (case rl_kinds l of None \<Rightarrow> True | Some ks \<Rightarrow> list_ex (isEventKindOrRangeMatch e) ks)"

definition rate_of :: "event_rate_limit \<Rightarrow> rate_limit" where
  "rate_of l = \<lparr>rl_period = rl_period l, rl_rate = rl_rate l\<rparr>"

text \<open>
  The loop over \<open>rateLimits\<close>: every limit that applies is hit, also after one is exceeded; \<open>n\<close>
  counts the hits made.
\<close>

fun hit_event_limits ::
  "'r rate_limiter \<Rightarrow> (nat \<Rightarrow> int) \<Rightarrow> event \<Rightarrow> nat \<Rightarrow> bool \<Rightarrow> event_rate_limit list \<Rightarrow> 'r
     \<Rightarrow> (js_error + bool) \<times> 'r" where
  "hit_event_limits limiter clock e n limited [] r = (Inr limited, r)"
| "hit_event_limits limiter clock e n limited (l # ls) r =
     (if \<not> rate_limit_applies e l then hit_event_limits limiter clock e n limited ls r
      else (case rl_hit limiter (clock n) (event_rate_key e l) 1 (rate_of l) r of
              (Inl err, r') \<Rightarrow> (Inl err, r')
            | (Inr isRateLimited, r') \<Rightarrow>
                hit_event_limits limiter clock e (Suc n) (isRateLimited \<or> limited) ls r'))"

definition isRateLimited ::
  "('db, 'u, 'r) handler_env \<Rightarrow> (nat \<Rightarrow> int) \<Rightarrow> event \<Rightarrow> 'r \<Rightarrow> (js_error + bool) \<times> 'r" where
  "isRateLimited env clock e r =
     (case env_relay_pubkey env of
        Inl err \<Rightarrow> (Inl err, r)
      | Inr relay \<Rightarrow>
          if relay = pubkey e then (Inr False, r)
          else
            (let limits = event_limits_of (env_settings env);
                 whitelists = lim_whitelists limits
             in if nonempty_list (lim_rateLimits limits) = [] then (Inr False, r)
                else if pubkey e \<in> set (nonempty_list (Option.bind whitelists wl_pubkeys))
                then (Inr False, r)
                else if env_address env \<in> set (nonempty_list (Option.bind whitelists wl_ipAddresses))
                then (Inr False, r)
                else hit_event_limits (env_limiter env) clock e 0 False
                       (nonempty_list (lim_rateLimits limits)) r))"

subsection \<open>\<open>canAcceptEvent\<close>\<close>

definition content_too_long :: "event \<Rightarrow> content_limits \<Rightarrow> bool" where
  "content_too_long e l \<longleftrightarrow>
     (case positive_limit (cl_maxLength l) of
        None \<Rightarrow> False
      | Some n \<Rightarrow> int (length (content e)) > n
          \<and> (case cl_kinds l of None \<Rightarrow> True | Some ks \<Rightarrow> list_ex (isEventKindOrRangeMatch e) ks))"

definition content_reason :: "event \<Rightarrow> content_limits \<Rightarrow> string" where
  "content_reason e l =
     ''rejected: content is longer than '' @ int_str (the (cl_maxLength l)) @ '' bytes''"

definition check_content :: "event \<Rightarrow> event_limits \<Rightarrow> string option" where
  "check_content e limits =
     (case lim_content limits of
        Some (ManyContent ls) \<Rightarrow> map_option (content_reason e) (find (content_too_long e) ls)
      | Some (OneContent l) \<Rightarrow> if content_too_long e l then Some (content_reason e l) else None
      | None \<Rightarrow> None)"

definition check_created_at :: "int \<Rightarrow> event \<Rightarrow> event_limits \<Rightarrow> string option" where
  "check_created_at now e limits =
     (let future = positive_limit (Option.bind (lim_createdAt limits) maxPositiveDelta);
          past = positive_limit (Option.bind (lim_createdAt limits) maxNegativeDelta)
      in if future \<noteq> None \<and> created_at e > now + the future
         then Some (''rejected: created_at is more than '' @ int_str (the future)
                    @ '' seconds in the future'')
         else if past \<noteq> None \<and> created_at e < now - the past
         then Some (''rejected: created_at is more than '' @ int_str (the past)
                    @ '' seconds in the past'')
         else None)"

definition check_pow :: "event \<Rightarrow> event_limits \<Rightarrow> string option" where
  "check_pow e limits =
     (let bits = positive_limit (Option.bind (lim_eventId limits) id_minLeadingZeroBits);
          pk_bits = positive_limit (Option.bind (lim_pubkey limits) pk_minLeadingZeroBits)
      in if bits \<noteq> None \<and> int (getEventProofOfWork (evt_id e)) < the bits
         then Some (''pow: difficulty '' @ nat_str (getEventProofOfWork (evt_id e)) @ ''<''
                    @ int_str (the bits))
         else if pk_bits \<noteq> None \<and> int (getPubkeyProofOfWork (pubkey e)) < the pk_bits
         then Some (''pow: pubkey difficulty '' @ nat_str (getPubkeyProofOfWork (pubkey e)) @ ''<''
                    @ int_str (the pk_bits))
         else None)"

definition check_pubkey :: "event \<Rightarrow> event_limits \<Rightarrow> string option" where
  "check_pubkey e limits =
     (let whitelist = nonempty_list (Option.bind (lim_pubkey limits) pk_whitelist);
          blacklist = nonempty_list (Option.bind (lim_pubkey limits) pk_blacklist)
      in if whitelist \<noteq> [] \<and> \<not> list_ex (startsWith (pubkey e)) whitelist
         then Some ''blocked: pubkey not allowed''
         else if blacklist \<noteq> [] \<and> list_ex (startsWith (pubkey e)) blacklist
         then Some ''blocked: pubkey not allowed''
         else None)"

definition check_kind :: "event \<Rightarrow> event_limits \<Rightarrow> string option" where
  "check_kind e limits =
     (let whitelist = nonempty_list (Option.bind (lim_kind limits) k_whitelist);
          blacklist = nonempty_list (Option.bind (lim_kind limits) k_blacklist);
          reason = ''blocked: event kind '' @ int_str (kind e) @ '' not allowed''
      in if whitelist \<noteq> [] \<and> \<not> list_ex (isEventKindOrRangeMatch e) whitelist then Some reason
         else if blacklist \<noteq> [] \<and> list_ex (isEventKindOrRangeMatch e) blacklist then Some reason
         else None)"

fun first_reason :: "string option list \<Rightarrow> string option" where
  "first_reason [] = None"
| "first_reason (Some reason # rs) = Some reason"
| "first_reason (None # rs) = first_reason rs"

definition canAcceptEvent ::
  "('db, 'u, 'r) handler_env \<Rightarrow> int \<Rightarrow> event \<Rightarrow> js_error + string option" where
  "canAcceptEvent env now_ms e =
     (case env_relay_pubkey env of
        Inl err \<Rightarrow> Inl err
      | Inr relay \<Rightarrow>
          if relay = pubkey e then Inr None
          else
            (let now = now_ms div 1000;
                 limits = event_limits_of (env_settings env)
             in Inr (first_reason
                  [check_content e limits, check_created_at now e limits, check_pow e limits,
                   check_pubkey e limits, check_kind e limits])))"

subsection \<open>\<open>isUserAdmitted\<close>\<close>

definition isApplicableFee :: "event \<Rightarrow> fee_schedule \<Rightarrow> bool" where
  "isApplicableFee e feeSchedule \<longleftrightarrow>
     fee_enabled feeSchedule
     \<and> \<not> list_ex (startsWith (pubkey e)) (nonempty_list (fee_pubkeys feeSchedule))
     \<and> \<not> list_ex (isEventKindOrRangeMatch e) (nonempty_list (fee_event_kinds feeSchedule))"

definition min_balance :: "settings \<Rightarrow> int" where
  "min_balance s =
     (case Option.bind (lim_pubkey (event_limits_of s)) pk_minBalance of None \<Rightarrow> 0 | Some n \<Rightarrow> n)"

definition payments_enabled :: "settings \<Rightarrow> bool" where
  "payments_enabled s \<longleftrightarrow> (case set_payments s of None \<Rightarrow> False | Some p \<Rightarrow> pay_enabled p)"

definition admission_fees :: "settings \<Rightarrow> fee_schedule list" where
  "admission_fees s = nonempty_list (Option.bind (set_payments s) pay_admission)"

definition isUserAdmitted ::
  "('db, 'u, 'r) handler_env \<Rightarrow> event \<Rightarrow> 'u \<Rightarrow> js_error + string option" where
  "isUserAdmitted env e users =
     (let s = env_settings env in
      if \<not> payments_enabled s then Inr None
      else
        (case env_relay_pubkey env of
           Inl err \<Rightarrow> Inl err
         | Inr relay \<Rightarrow>
             if relay = pubkey e then Inr None
             else if filter (isApplicableFee e) (admission_fees s) = [] then Inr None
             else
               (case repo_findByPubkey (env_users env) (pubkey e) users of
                  Inl err \<Rightarrow> Inl err
                | Inr None \<Rightarrow> Inr (Some ''blocked: pubkey not admitted'')
                | Inr (Some u) \<Rightarrow>
                    if \<not> isAdmitted u then Inr (Some ''blocked: pubkey not admitted'')
                    else if min_balance s > 0 \<and> balance u < min_balance s
                    then Inr (Some ''blocked: insufficient balance'')
                    else Inr None)))"

section \<open>\<open>handleMessage\<close>\<close>

definition reject :: "event \<Rightarrow> string \<Rightarrow> emission list" where
  "reject e reason = [EmitMessage (createCommandResult (evt_id e) False reason)]"

text \<open>
  \<open>eventStrategyFactory\<close> returns a strategy with an \<open>execute\<close> for every event, so the branch
  \<open>error: event not supported\<close> has no counterpart. What the strategy emitted before it rejected
  comes before the reply of the \<open>catch\<close> block. The result is what was emitted, the error
  \<open>handleMessage\<close> rejects with, if it does, and the new state.
\<close>

definition handle_event ::
  "('db, 'u, 'r) handler_env \<Rightarrow> clock_readings \<Rightarrow> event \<Rightarrow> string option \<Rightarrow> ('db, 'u, 'r) store
     \<Rightarrow> emission list \<times> js_error option \<times> ('db, 'u, 'r) store" where
  "handle_event env clk raw address st =
     (let e0 = raw\<lparr>ctx_address := address\<rparr> in
      case isEventValid (env_crypto env) e0 of
        Some reason \<Rightarrow> (reject e0 reason, None, st)
      | None \<Rightarrow>
          if isExpiredEvent (at_expiry clk) e0 then (reject e0 ''event is expired'', None, st)
          else
            (let e = addExpirationMetadata e0 in
             case isRateLimited env (at_hit clk) e (st_cache st) of
               (Inl err, cache) \<Rightarrow> ([], Some err, st\<lparr>st_cache := cache\<rparr>)
             | (Inr True, cache) \<Rightarrow>
                 (reject e ''rate-limited: slow down'', None, st\<lparr>st_cache := cache\<rparr>)
             | (Inr False, cache) \<Rightarrow>
                 (let st1 = st\<lparr>st_cache := cache\<rparr> in
                  case canAcceptEvent env (at_accept clk) e of
                    Inl err \<Rightarrow> ([], Some err, st1)
                  | Inr (Some reason) \<Rightarrow> (reject e reason, None, st1)
                  | Inr None \<Rightarrow>
                      (case isUserAdmitted env e (st_users st1) of
                         Inl err \<Rightarrow> ([], Some err, st1)
                       | Inr (Some reason) \<Rightarrow> (reject e reason, None, st1)
                       | Inr None \<Rightarrow>
                           (case execute (eventStrategyFactory e) (env_events env) (at_delete clk) e
                                   (st_events st1) of
                              (ems, None, db) \<Rightarrow> (ems, None, st1\<lparr>st_events := db\<rparr>)
                            | (ems, Some err, db) \<Rightarrow>
                                (ems @ reject e ''error: unable to process event'', None,
                                 st1\<lparr>st_events := db\<rparr>))))))"

end
