(* ===== verification/Event_Guards.thy ===== *)
theory Event_Guards
  imports Event_Handler
begin

text \<open>
  What the guards of \<open>EventMessageHandler\<close> accept, as properties of the event and the settings, and
  what a run of \<open>handleMessage\<close> can do: one reply, an effect only after every guard has passed, and
  the invariant of the repository. The lemmas on the rate limits count the hits the limiter holds.
\<close>

section \<open>Acceptance\<close>

lemma first_reason_None [simp]: "first_reason rs = None \<longleftrightarrow> (\<forall>r\<in>set rs. r = None)"
  by (induction rs rule: first_reason.induct) auto

lemma isEventValid_None:
  "isEventValid c e = None \<longleftrightarrow> isEventIdValid c e \<and> isEventSignatureValid c e"
  by (simp add: isEventValid_def)

lemma content_too_long_iff:
  "content_too_long e l \<longleftrightarrow>
     (\<exists>n. cl_maxLength l = Some n \<and> 0 < n \<and> n < int (length (content e)))
     \<and> (\<forall>ks. cl_kinds l = Some ks \<longrightarrow> (\<exists>k\<in>set ks. isEventKindOrRangeMatch e k))"
  by (auto simp: content_too_long_def list_ex_iff split: option.splits)

text \<open>The content limits of the settings, a single one or an array of them.\<close>

definition content_limit_list :: "event_limits \<Rightarrow> content_limits list" where
  "content_limit_list limits =
     (case lim_content limits of None \<Rightarrow> [] | Some (OneContent l) \<Rightarrow> [l] | Some (ManyContent ls) \<Rightarrow> ls)"

lemma check_content_None:
  "check_content e limits = None \<longleftrightarrow> (\<forall>l\<in>set (content_limit_list limits). \<not> content_too_long e l)"
  by (auto simp: check_content_def content_limit_list_def find_None_iff
      split: option.splits content_setting.splits)

lemma check_created_at_None:
  "check_created_at now e limits = None \<longleftrightarrow>
     (\<forall>d. Option.bind (lim_createdAt limits) maxPositiveDelta = Some d \<longrightarrow> 0 < d
        \<longrightarrow> created_at e \<le> now + d)
     \<and> (\<forall>d. Option.bind (lim_createdAt limits) maxNegativeDelta = Some d \<longrightarrow> 0 < d
        \<longrightarrow> now - d \<le> created_at e)"
  by (auto simp: check_created_at_def Let_def positive_limit_def not_less split: option.splits)

lemma check_pow_None:
  "check_pow e limits = None \<longleftrightarrow>
     (\<forall>n. Option.bind (lim_eventId limits) id_minLeadingZeroBits = Some n
        \<longrightarrow> n \<le> int (getEventProofOfWork (evt_id e)))
     \<and> (\<forall>n. Option.bind (lim_pubkey limits) pk_minLeadingZeroBits = Some n
        \<longrightarrow> n \<le> int (getPubkeyProofOfWork (pubkey e)))"
  by (auto simp: check_pow_def Let_def positive_limit_def not_less split: option.splits)

lemma check_pubkey_None:
  "check_pubkey e limits = None \<longleftrightarrow>
     (\<forall>ps. Option.bind (lim_pubkey limits) pk_whitelist = Some ps \<longrightarrow> ps \<noteq> []
        \<longrightarrow> (\<exists>p\<in>set ps. prefix p (pubkey e)))
     \<and> (\<forall>ps. Option.bind (lim_pubkey limits) pk_blacklist = Some ps
        \<longrightarrow> (\<forall>p\<in>set ps. \<not> prefix p (pubkey e)))"
  by (cases "Option.bind (lim_pubkey limits) pk_whitelist";
      cases "Option.bind (lim_pubkey limits) pk_blacklist")
     (auto simp: check_pubkey_def Let_def list_ex_iff startsWith_prefix)

lemma check_kind_None:
  "check_kind e limits = None \<longleftrightarrow>
     (\<forall>ks. Option.bind (lim_kind limits) k_whitelist = Some ks \<longrightarrow> ks \<noteq> []
        \<longrightarrow> (\<exists>k\<in>set ks. isEventKindOrRangeMatch e k))
     \<and> (\<forall>ks. Option.bind (lim_kind limits) k_blacklist = Some ks
        \<longrightarrow> (\<forall>k\<in>set ks. \<not> isEventKindOrRangeMatch e k))"
  by (cases "Option.bind (lim_kind limits) k_whitelist";
      cases "Option.bind (lim_kind limits) k_blacklist")
     (auto simp: check_kind_def Let_def list_ex_iff)

lemma canAcceptEvent_None:
  assumes "env_relay_pubkey env = Inr relay"
  shows "canAcceptEvent env now_ms e = Inr None \<longleftrightarrow> relay = pubkey e \<or>
    (let limits = event_limits_of (env_settings env); now = now_ms div 1000 in
       check_content e limits = None \<and> check_created_at now e limits = None
       \<and> check_pow e limits = None \<and> check_pubkey e limits = None \<and> check_kind e limits = None)"
  using assms by (simp add: canAcceptEvent_def Let_def)

lemma isUserAdmitted_None:
  assumes "env_relay_pubkey env = Inr relay" "payments_enabled (env_settings env)"
  shows "isUserAdmitted env e users = Inr None \<longleftrightarrow> relay = pubkey e
    \<or> (\<forall>f\<in>set (admission_fees (env_settings env)). \<not> isApplicableFee e f)
    \<or> (\<exists>u. repo_findByPubkey (env_users env) (pubkey e) users = Inr (Some u) \<and> isAdmitted u
         \<and> (min_balance (env_settings env) \<le> 0 \<or> min_balance (env_settings env) \<le> balance u))"
  using assms
  by (auto simp: isUserAdmitted_def Let_def filter_empty_conv not_less
      split: sum.splits option.splits if_splits)

section \<open>The rate limits\<close>

text \<open>
  With a limiter that holds, for every limit that applies, the hits made before, each such limit
  counts this event, whether or not an earlier one is exceeded, and the event is limited exactly if
  some window holds more than its rate.
\<close>

definition window_count :: "(int \<times> int) list \<Rightarrow> int \<Rightarrow> rate_limit \<Rightarrow> int" where
  "window_count hs now l = (\<Sum>h\<in>window (hs @ [(now, 1)]) (now - rl_period l). snd h)"

lemma rate_of_simps [simp]: "rl_period (rate_of l) = rl_period l" "rl_rate (rate_of l) = rl_rate l"
  by (simp_all add: rate_of_def)

context sorted_set_cache
begin

lemma hit_event_limits_exact:
  fixes ls :: "event_rate_limit list" and e :: event
  defines "applied \<equiv> filter (rate_limit_applies e) ls"
  assumes "distinct (map (event_rate_key e) applied)"
    and "\<And>l. l \<in> set applied \<Longrightarrow> 0 < rl_period l
      \<and> holds_window (members r (event_rate_key e l)) (hist (event_rate_key e l)) (lo l)
      \<and> (\<forall>i. lo l \<le> clock i - rl_period l)"
    and "\<And>k h. h \<in> set (hist k) \<Longrightarrow> 0 \<le> fst h \<and> 0 \<le> snd h" and "\<And>i. 0 \<le> clock i"
  shows "\<exists>r'. hit_event_limits (SlidingWindowRateLimiter cache) clock e n b ls r =
      (Inr (b \<or> (\<exists>i<length applied. rl_rate (applied ! i) <
          window_count (hist (event_rate_key e (applied ! i))) (clock (n + i)) (rate_of (applied ! i)))), r')
    \<and> (\<forall>i<length applied. holds_window (members r' (event_rate_key e (applied ! i)))
          (hist (event_rate_key e (applied ! i)) @ [(clock (n + i), 1)])
          (clock (n + i) - rl_period (applied ! i)))
    \<and> (\<forall>k. k \<notin> event_rate_key e ` set applied \<longrightarrow> members r' k = members r k)"
  using assms(2,3) unfolding applied_def
proof (induction ls arbitrary: n b r)
  case (Cons l ls)
  show ?case
  proof (cases "rate_limit_applies e l")
    case False
    then show ?thesis using Cons by simp
  next
    case True
    let ?key = "event_rate_key e l" and ?t = "clock n"
    let ?over = "rl_rate l < window_count (hist ?key) ?t (rate_of l)"
    have l: "0 < rl_period l" "holds_window (members r ?key) (hist ?key) (lo l)"
      "lo l \<le> ?t - rl_period l"
      using Cons.prems(2) [of l] True by auto
    obtain r1 where r1: "hit cache ?t ?key 1 (rate_of l) r = (Inr ?over, r1)"
      "holds_window (members r1 ?key) (hist ?key @ [(?t, 1)]) (?t - rl_period l)"
      "\<And>k. k \<noteq> ?key \<Longrightarrow> members r1 k = members r k"
      using hit_window [of "rate_of l" "hist ?key" ?t 1 "lo l" r ?key] l assms(4,5)
      by (auto simp: window_count_def)
    let ?rest = "filter (rate_limit_applies e) ls"
    have fresh: "?key \<notin> event_rate_key e ` set ?rest" "distinct (map (event_rate_key e) ?rest)"
      using Cons.prems(1) True by auto
    have "0 < rl_period l' \<and> holds_window (members r1 (event_rate_key e l'))
        (hist (event_rate_key e l')) (lo l') \<and> (\<forall>i. lo l' \<le> clock i - rl_period l')"
      if "l' \<in> set ?rest" for l'
    proof -
      have "event_rate_key e l' \<noteq> ?key" using fresh(1) imageI [OF that, of "event_rate_key e"] by metis
      then show ?thesis using Cons.prems(2) [of l'] that True r1(3) by simp
    qed
    from Cons.IH [OF fresh(2) this, of "Suc n" "?over \<or> b"] obtain r' where r':
      "hit_event_limits (SlidingWindowRateLimiter cache) clock e (Suc n) (?over \<or> b) ls r1 =
        (Inr ((?over \<or> b) \<or> (\<exists>i<length ?rest. rl_rate (?rest ! i) <
          window_count (hist (event_rate_key e (?rest ! i))) (clock (Suc n + i)) (rate_of (?rest ! i)))), r')"
      "\<forall>i<length ?rest. holds_window (members r' (event_rate_key e (?rest ! i)))
          (hist (event_rate_key e (?rest ! i)) @ [(clock (Suc n + i), 1)])
          (clock (Suc n + i) - rl_period (?rest ! i))"
      "\<forall>k. k \<notin> event_rate_key e ` set ?rest \<longrightarrow> members r' k = members r1 k"
      by auto
    have "members r' ?key = members r1 ?key" using r'(3) fresh(1) by blast
    then show ?thesis
      using True r1 r' by (simp add: All_less_Suc2 Ex_less_Suc2 disj_ac)
  qed
qed simp

end

section \<open>A run of \<open>handleMessage\<close>\<close>

lemma reject_simps [simp]:
  "command_results (reject e reason) = [(evt_id e, False, reason)]" "broadcasts (reject e reason) = []"
  by (simp_all add: reject_def relay_defs)

lemma addExpirationMetadata_simps [simp]:
  "evt_id (addExpirationMetadata e) = evt_id e" "pubkey (addExpirationMetadata e) = pubkey e"
  "kind (addExpirationMetadata e) = kind e" "tags (addExpirationMetadata e) = tags e"
  "created_at (addExpirationMetadata e) = created_at e" "content (addExpirationMetadata e) = content e"
  "sig (addExpirationMetadata e) = sig e"
  by (simp_all add: addExpirationMetadata_def split: option.splits)

text \<open>The event as the strategy receives it.\<close>

definition prepared :: "event \<Rightarrow> string option \<Rightarrow> event" where
  "prepared raw address = addExpirationMetadata (raw\<lparr>ctx_address := address\<rparr>)"

lemma prepared_simps [simp]:
  "evt_id (prepared raw address) = evt_id raw" "pubkey (prepared raw address) = pubkey raw"
  "kind (prepared raw address) = kind raw" "tags (prepared raw address) = tags raw"
  "created_at (prepared raw address) = created_at raw" "content (prepared raw address) = content raw"
  "sig (prepared raw address) = sig raw"
  by (simp_all add: prepared_def)

text \<open>The five guards.\<close>

definition admits ::
  "('db, 'u, 'r) handler_env \<Rightarrow> clock_readings \<Rightarrow> event \<Rightarrow> string option \<Rightarrow> ('db, 'u, 'r) store \<Rightarrow> bool"
where
  "admits env clk raw address st \<longleftrightarrow>
     isEventIdValid (env_crypto env) raw \<and> isEventSignatureValid (env_crypto env) raw
     \<and> \<not> isExpiredEvent (at_expiry clk) raw
     \<and> fst (isRateLimited env (at_hit clk) (prepared raw address) (st_cache st)) = Inr False
     \<and> canAcceptEvent env (at_accept clk) (prepared raw address) = Inr None
     \<and> isUserAdmitted env (prepared raw address) (st_users st) = Inr None"

lemma context_irrelevant [simp]:
  "isEventIdValid c (raw\<lparr>ctx_address := address\<rparr>) = isEventIdValid c raw"
  "isEventSignatureValid c (raw\<lparr>ctx_address := address\<rparr>) = isEventSignatureValid c raw"
  "isExpiredEvent now (raw\<lparr>ctx_address := address\<rparr>) = isExpiredEvent now raw"
  by (simp_all add: isEventIdValid_def getEventHash_def serializeEvent_def isEventSignatureValid_def
      isExpiredEvent_def getEventExpiration_def)

lemma isEventValid_context [simp]:
  "isEventValid c (raw\<lparr>ctx_address := address\<rparr>) = isEventValid c raw"
  by (simp add: isEventValid_def)

text \<open>The first of the guards that stops the event, and the limiter's state after them.\<close>

definition guard_result ::
  "('db, 'u, 'r) handler_env \<Rightarrow> clock_readings \<Rightarrow> event \<Rightarrow> string option \<Rightarrow> ('db, 'u, 'r) store
     \<Rightarrow> (js_error + string option) \<times> 'r" where
  "guard_result env clk raw address st =
     (let e = prepared raw address in
      if isEventValid (env_crypto env) raw \<noteq> None
      then (Inr (isEventValid (env_crypto env) raw), st_cache st)
      else if isExpiredEvent (at_expiry clk) raw then (Inr (Some ''event is expired''), st_cache st)
      else (case isRateLimited env (at_hit clk) e (st_cache st) of
              (Inl err, cache) \<Rightarrow> (Inl err, cache)
            | (Inr True, cache) \<Rightarrow> (Inr (Some ''rate-limited: slow down''), cache)
            | (Inr False, cache) \<Rightarrow>
                (if canAcceptEvent env (at_accept clk) e \<noteq> Inr None
                 then (canAcceptEvent env (at_accept clk) e, cache)
                 else (isUserAdmitted env e (st_users st), cache))))"

lemma reject_prepared [simp]:
  "reject (raw\<lparr>ctx_address := address\<rparr>) m = reject raw m" "reject (prepared raw address) m = reject raw m"
  by (simp_all add: reject_def)

lemma handle_event_guards:
  "handle_event env clk raw address st =
     (case guard_result env clk raw address st of
        (Inl err, cache) \<Rightarrow> ([], Some err, st\<lparr>st_cache := cache\<rparr>)
      | (Inr (Some reason), cache) \<Rightarrow> (reject raw reason, None, st\<lparr>st_cache := cache\<rparr>)
      | (Inr None, cache) \<Rightarrow>
          (case execute (eventStrategyFactory (prepared raw address)) (env_events env)
                  (at_delete clk) (prepared raw address) (st_events st) of
             (ems, err, db) \<Rightarrow>
               (if err = None then ems else ems @ reject raw ''error: unable to process event'', None,
                st\<lparr>st_cache := cache, st_events := db\<rparr>)))"
  by (auto simp: handle_event_def guard_result_def Let_def prepared_def [symmetric]
      split: option.splits sum.splits prod.splits bool.splits)

lemma guard_result_admits:
  "fst (guard_result env clk raw address st) = Inr None \<longleftrightarrow> admits env clk raw address st"
  by (auto simp: guard_result_def admits_def Let_def isEventValid_None
      split: prod.splits sum.splits bool.splits)

lemma guard_result_cache:
  "admits env clk raw address st \<Longrightarrow> snd (guard_result env clk raw address st)
     = snd (isRateLimited env (at_hit clk) (prepared raw address) (st_cache st))"
  by (auto simp: guard_result_def admits_def Let_def isEventValid_None
      split: prod.splits sum.splits bool.splits)

text \<open>
  Either the guards pass and the strategy runs on the prepared event, or nothing is stored and the
  reply, if there is one, is a rejection.
\<close>

lemma handle_event_cases:
  obtains (admitted) ems err db where "admits env clk raw address st"
      "execute (eventStrategyFactory (prepared raw address)) (env_events env) (at_delete clk)
         (prepared raw address) (st_events st) = (ems, err, db)"
      "handle_event env clk raw address st =
         (if err = None then ems else ems @ reject raw ''error: unable to process event'', None,
          st\<lparr>st_cache := snd (isRateLimited env (at_hit clk) (prepared raw address) (st_cache st)),
             st_events := db\<rparr>)"
    | (rejected) reason cache where "\<not> admits env clk raw address st"
      "handle_event env clk raw address st = (reject raw reason, None, st\<lparr>st_cache := cache\<rparr>)"
    | (failed) err cache where "\<not> admits env clk raw address st"
      "handle_event env clk raw address st = ([], Some err, st\<lparr>st_cache := cache\<rparr>)"
proof -
  obtain res cache where g: "guard_result env clk raw address st = (res, cache)"
    by (cases "guard_result env clk raw address st")
  consider err where "res = Inl err" | reason where "res = Inr (Some reason)" | "res = Inr None"
    by (metis option.exhaust sum.exhaust)
  then show ?thesis
  proof cases
    case 1
    then show ?thesis using failed g guard_result_admits [of env clk raw address st]
      by (simp add: handle_event_guards)
  next
    case 2
    then show ?thesis using rejected g guard_result_admits [of env clk raw address st]
      by (simp add: handle_event_guards)
  next
    case 3
    then have adm: "admits env clk raw address st"
      using g guard_result_admits [of env clk raw address st] by simp
    obtain ems err db where ex: "execute (eventStrategyFactory (prepared raw address))
        (env_events env) (at_delete clk) (prepared raw address) (st_events st) = (ems, err, db)"
      by (metis prod_cases3)
    show ?thesis
      using 3 g ex guard_result_cache [OF adm] by (intro admitted [OF adm ex]) (simp add: handle_event_guards)
  qed
qed

text \<open>The consequences for replies, broadcasts and the state.\<close>

lemma handle_event_replies:
  assumes "handle_event env clk raw address st = (ems, err, st')"
  shows "(err = None \<and> (\<exists>ok msg. command_results ems = [(evt_id raw, ok, msg)]))
    \<or> (err \<noteq> None \<and> ems = [])"
proof (cases rule: handle_event_cases [of env clk raw address st])
  case (admitted ems' err' db)
  then show ?thesis using assms execute_replies [OF admitted(2)] by (auto split: if_splits)
qed (use assms in auto)

lemma handle_event_broadcast:
  assumes "handle_event env clk raw address st = (ems, err, st')" "broadcasts ems \<noteq> []"
  shows "broadcasts ems = [prepared raw address]" "command_results ems = [(evt_id raw, True, [])]"
    and "err = None"
proof -
  have "broadcasts ems = [prepared raw address] \<and> command_results ems = [(evt_id raw, True, [])]
      \<and> err = None"
  proof (cases rule: handle_event_cases [of env clk raw address st])
    case (admitted ems' err' db)
    then show ?thesis
      using assms execute_broadcast [OF admitted(2)] execute_replies [OF admitted(2)]
      by (auto split: if_splits)
  qed (use assms in auto)
  then show "broadcasts ems = [prepared raw address]"
    "command_results ems = [(evt_id raw, True, [])]" "err = None" by blast+
qed

lemma handle_event_effect:
  assumes "handle_event env clk raw address st = (ems, err, st')"
    and "st_events st' \<noteq> st_events st \<or> broadcasts ems \<noteq> []
      \<or> (\<exists>i msg. (i, True, msg) \<in> set (command_results ems))"
  shows "admits env clk raw address st"
  by (cases rule: handle_event_cases [of env clk raw address st]) (use assms in auto)

lemma handle_event_users:
  "handle_event env clk raw address st = (ems, err, st') \<Longrightarrow> st_users st' = st_users st"
  by (cases rule: handle_event_cases [of env clk raw address st]) auto

text \<open>A run of the handler never changes the client's subscriptions.\<close>

lemma execute_emits:
  assumes "execute strategy repo now e db = (ems, err, db')" "em \<in> set ems"
  shows "(\<exists>ok m. em = EmitMessage (CommandResult (evt_id e) ok m)) \<or> em = EmitBroadcast e"
  using assms
  by (cases strategy)
     (auto simp: relay_defs Let_def reply_of_count_def
       split: prod.splits sum.splits if_splits)

lemma handle_event_emits:
  assumes "handle_event env clk raw address st = (ems, err, st')" "em \<in> set ems"
  shows "(\<exists>ok m. em = EmitMessage (CommandResult (evt_id raw) ok m))
    \<or> em = EmitBroadcast (prepared raw address)"
proof (cases rule: handle_event_cases [of env clk raw address st])
  case (admitted ems' err' db)
  then show ?thesis
    using assms execute_emits [OF admitted(2), of em]
    by (auto simp: reject_def relay_defs split: if_splits)
qed (use assms in \<open>auto simp: reject_def relay_defs\<close>)

context event_store
begin

lemma handle_event_inv:
  assumes "env_events env = repo" "inv (st_events st)"
    and "handle_event env clk raw address st = (ems, err, st')"
  shows "inv (st_events st')"
proof (cases rule: handle_event_cases [of env clk raw address st])
  case (admitted ems' err' db)
  then show ?thesis using assms execute_inv [OF assms(2), of _ "at_delete clk"] by auto
qed (use assms in auto)

lemma handle_event_stored:
  assumes "env_events env = repo" "inv (st_events st)"
    and "handle_event env clk raw address st = (ems, err, st')" "broadcasts ems \<noteq> []"
    and "\<not> isEphemeralEvent raw"
  shows "stored (evt_id raw) (st_events st')"
proof (cases rule: handle_event_cases [of env clk raw address st])
  case (admitted ems' err' db)
  have b: "broadcasts ems' \<noteq> []" using admitted(3) assms(3,4) by (auto split: if_splits)
  have "eventStrategyFactory (prepared raw address) \<noteq> EphemeralEventStrategy"
    using assms(5) by (auto simp: eventStrategyFactory_def isEphemeralEvent_def)
  then have "stored (evt_id (prepared raw address)) db"
    using execute_broadcast_stored [OF assms(2) admitted(2) [unfolded assms(1)] b] by blast
  then show ?thesis using admitted(3) assms(3) by auto
qed (use assms in auto)

end

end
