(* ===== verification/Mirroring.thy ===== *)
theory Mirroring
  imports Event_Guards
begin

text \<open>
  app/static-mirroring-worker.ts: a process that subscribes to another relay, stores the events of it
  that pass this relay's guards, and passes on to it the events this relay broadcasts. The
  repositories, the settings and the relay's key are those of the EVENT handler's environment.
\<close>

section \<open>Settings\<close>

text \<open>
  \<open>mergeDeepRight(limits, overrides)\<close> of two \<open>EventLimits\<close>: objects are merged by property; any
  other value of the right one, arrays included, replaces that of the left one.
\<close>

definition right_of :: "'a option \<Rightarrow> 'a option \<Rightarrow> 'a option" where
  "right_of l r = (case r of None \<Rightarrow> l | Some x \<Rightarrow> Some x)"

definition merge_with :: "('a \<Rightarrow> 'a \<Rightarrow> 'a) \<Rightarrow> 'a option \<Rightarrow> 'a option \<Rightarrow> 'a option" where
  "merge_with g l r =
     (case (l, r) of (Some x, Some y) \<Rightarrow> Some (g x y) | (_, None) \<Rightarrow> l | (None, _) \<Rightarrow> r)"

definition merge_content_limits :: "content_limits \<Rightarrow> content_limits \<Rightarrow> content_limits" where
  "merge_content_limits l r =
     \<lparr>cl_kinds = right_of (cl_kinds l) (cl_kinds r), cl_maxLength = right_of (cl_maxLength l) (cl_maxLength r)\<rparr>"

fun merge_content :: "content_setting \<Rightarrow> content_setting \<Rightarrow> content_setting" where
  "merge_content (OneContent l) (OneContent r) = OneContent (merge_content_limits l r)"
| "merge_content l r = r"

definition merge_event_limits :: "event_limits \<Rightarrow> event_limits \<Rightarrow> event_limits" where
  "merge_event_limits l r =
     \<lparr>lim_eventId = merge_with (\<lambda>x y.
        \<lparr>id_minLeadingZeroBits = right_of (id_minLeadingZeroBits x) (id_minLeadingZeroBits y)\<rparr>)
        (lim_eventId l) (lim_eventId r),
      lim_pubkey = merge_with (\<lambda>x y.
        \<lparr>pk_minBalance = right_of (pk_minBalance x) (pk_minBalance y),
         pk_minLeadingZeroBits = right_of (pk_minLeadingZeroBits x) (pk_minLeadingZeroBits y),
         pk_whitelist = right_of (pk_whitelist x) (pk_whitelist y),
         pk_blacklist = right_of (pk_blacklist x) (pk_blacklist y)\<rparr>)
        (lim_pubkey l) (lim_pubkey r),
      lim_kind = merge_with (\<lambda>x y.
        \<lparr>k_whitelist = right_of (k_whitelist x) (k_whitelist y),
         k_blacklist = right_of (k_blacklist x) (k_blacklist y)\<rparr>)
        (lim_kind l) (lim_kind r),
      lim_createdAt = merge_with (\<lambda>x y.
        \<lparr>maxNegativeDelta = right_of (maxNegativeDelta x) (maxNegativeDelta y),
         maxPositiveDelta = right_of (maxPositiveDelta x) (maxPositiveDelta y)\<rparr>)
        (lim_createdAt l) (lim_createdAt r),
      lim_content = merge_with merge_content (lim_content l) (lim_content r),
      lim_rateLimits = right_of (lim_rateLimits l) (lim_rateLimits r),
      lim_whitelists = merge_with (\<lambda>x y.
        \<lparr>wl_pubkeys = right_of (wl_pubkeys x) (wl_pubkeys y),
         wl_ipAddresses = right_of (wl_ipAddresses x) (wl_ipAddresses y)\<rparr>)
        (lim_whitelists l) (lim_whitelists r)\<rparr>"

text \<open>\<open>path(['mirroring', 'static', process.env.MIRROR_INDEX], settings)\<close>, the index in decimal.\<close>

definition mirror_config :: "settings \<Rightarrow> string \<Rightarrow> mirror_settings option" where
  "mirror_config s index =
     (case set_mirrors s of
        None \<Rightarrow> None
      | Some ms \<Rightarrow> map_of (zip (map nat_str [0..<length ms]) ms) index)"

section \<open>State\<close>

text \<open>
  The socket to the other relay: whether its \<open>readyState\<close> is \<open>OPEN\<close>, the subscription of its closure
  and what was sent on it. \<open>mr_timers\<close> counts the pending reconnections; \<open>mr_to_primary\<close> holds the
  events handed to \<open>process.send\<close>, whose \<open>source\<close> is always the mirror's address.
\<close>

record mirror_socket =
  ms_open :: bool
  ms_subscriptionId :: string
  ms_sent :: "incoming list"

record mirror =
  mr_config :: mirror_settings
  mr_client :: "mirror_socket option"
  mr_since :: int
  mr_timers :: nat
  mr_to_primary :: "event list"

definition new_mirror_socket :: "string \<Rightarrow> mirror_socket" where
  "new_mirror_socket uuid = \<lparr>ms_open = False, ms_subscriptionId = ''mirror-'' @ uuid, ms_sent = []\<rparr>"

text \<open>\<open>run\<close>; without the settings of a mirror, reading its address throws.\<close>

definition type_error :: js_error where
  "type_error = JsError ''TypeError: Cannot read properties of undefined''"

definition mirror_run :: "settings \<Rightarrow> string \<Rightarrow> int \<Rightarrow> string \<Rightarrow> js_error + mirror" where
  "mirror_run s index now uuid =
     (case mirror_config s index of
        None \<Rightarrow> Inl type_error
      | Some config \<Rightarrow>
          Inr \<lparr>mr_config = config, mr_client = Some (new_mirror_socket uuid),
               mr_since = now div 1000 - 60 * 10, mr_timers = 0, mr_to_primary = []\<rparr>)"

section \<open>Guards\<close>

definition mirror_canAcceptEvent ::
  "('db, 'u, 'r) handler_env \<Rightarrow> mirror_settings \<Rightarrow> int \<Rightarrow> event \<Rightarrow> js_error + bool" where
  "mirror_canAcceptEvent env config now_ms e =
     (case env_relay_pubkey env of
        Inl err \<Rightarrow> Inl err
      | Inr relay \<Rightarrow>
          if relay = pubkey e then Inr False
          else
            (case mir_limits config of
               None \<Rightarrow> Inl type_error
             | Some event_limits \<Rightarrow>
                 (let now = now_ms div 1000;
                      eventLimits = event_limits_of (env_settings env);
                      eventLimitOverrides = (case event_limits of None \<Rightarrow> no_event_limits | Some l \<Rightarrow> l);
                      limits = merge_event_limits eventLimits eventLimitOverrides
                  in if check_content e limits \<noteq> None then Inr False
                     else if check_created_at now e limits \<noteq> None then Inr False
                     else if check_pow e limits \<noteq> None then Inr False
                     else if check_pubkey e limits \<noteq> None then Inr False
                     else if check_kind e limits \<noteq> None then Inr False
                     else Inr True)))"

definition mirror_isUserAdmitted ::
  "('db, 'u, 'r) handler_env \<Rightarrow> mirror_settings \<Rightarrow> event \<Rightarrow> 'u \<Rightarrow> js_error + bool" where
  "mirror_isUserAdmitted env config e users =
     (let s = env_settings env in
      if mir_skipAdmissionCheck config then Inr True
      else if \<not> payments_enabled s then Inr True
      else if filter (isApplicableFee e) (admission_fees s) = [] then Inr True
      else
        (case repo_findByPubkey (env_users env) (pubkey e) users of
           Inl err \<Rightarrow> Inl err
         | Inr None \<Rightarrow> Inr False
         | Inr (Some u) \<Rightarrow>
             if \<not> isAdmitted u then Inr False
             else if min_balance s \<noteq> 0 \<and> balance u < min_balance s then Inr False
             else Inr True))"

section \<open>The socket's events\<close>

text \<open>
  What arrives from the other relay: text that is not JSON or not an array, another message than one
  for a subscription, or an event for a subscription. The code asserts the type of the event; it does
  not check it against a schema.
\<close>

datatype remote_message = Unreadable | NotAnEvent | RemoteEvent string event

record mirror_clock =
  mc_expiry :: int
  mc_accept :: int
  mc_since :: int

definition mirror_onOpen :: "mirror \<Rightarrow> mirror" where
  "mirror_onOpen m =
     (case mr_client m of
        None \<Rightarrow> m
      | Some sock \<Rightarrow>
          (let filters = nonempty_list (mir_filters (mr_config m));
               opened = sock\<lparr>ms_open := True\<rparr>
           in m\<lparr>mr_client := Some
                (if filters = [] then opened
                 else opened\<lparr>ms_sent := ms_sent opened @ [createSubscriptionMessage (ms_subscriptionId sock)
                        (map (\<lambda>f. f\<lparr>since := Some (mr_since m)\<rparr>) filters)]\<rparr>)\<rparr>))"

text \<open>
  The guards of the socket's listener, in its order: the event to store, with its expiration, or
  \<open>None\<close> where the listener returns or throws.
\<close>

definition mirror_accepts ::
  "('db, 'u, 'r) handler_env \<Rightarrow> mirror_settings \<Rightarrow> mirror_clock \<Rightarrow> event \<Rightarrow> 'u \<Rightarrow> event option" where
  "mirror_accepts env config clk e users =
     (if \<not> list_ex (\<lambda>f. isEventMatchingFilter f e) (nonempty_list (mir_filters config)) then None
      else if \<not> isEventIdValid (env_crypto env) e \<or> \<not> isEventSignatureValid (env_crypto env) e then None
      else if isExpiredEvent (mc_expiry clk) e then None
      else
        (let event = addExpirationMetadata e in
         case mirror_canAcceptEvent env config (mc_accept clk) event of
           Inr True \<Rightarrow>
             (case mirror_isUserAdmitted env config event users of Inr True \<Rightarrow> Some event | _ \<Rightarrow> None)
         | _ \<Rightarrow> None))"

definition mirror_receive ::
  "('db, 'u, 'r) handler_env \<Rightarrow> bool \<Rightarrow> mirror_clock \<Rightarrow> remote_message \<Rightarrow> 'u \<Rightarrow> 'db \<Rightarrow> mirror
     \<Rightarrow> mirror \<times> 'db" where
  "mirror_receive env is_worker clk message users db m =
     (case (message, mr_client m) of
        (RemoteEvent subscriptionId e, Some sock) \<Rightarrow>
          if subscriptionId \<noteq> ms_subscriptionId sock then (m, db)
          else
            (case mirror_accepts env (mr_config m) clk e users of
               None \<Rightarrow> (m, db)
             | Some event \<Rightarrow>
                 (case repo_create (env_events env) event db of
                    (inserted, db') \<Rightarrow>
                      (m\<lparr>mr_since := mc_since clk div 1000 - 30,
                         mr_to_primary := (if inserted \<noteq> 0 \<and> is_worker then mr_to_primary m @ [event]
                                           else mr_to_primary m)\<rparr>, db')))
      | _ \<Rightarrow> (m, db))"

text \<open>The socket closes; five seconds later its listeners are removed and a new one is made.\<close>

definition mirror_onClose :: "mirror \<Rightarrow> mirror" where
  "mirror_onClose m =
     m\<lparr>mr_client := map_option (\<lambda>sock. sock\<lparr>ms_open := False\<rparr>) (mr_client m), mr_timers := mr_timers m + 1\<rparr>"

definition mirror_reconnect :: "string \<Rightarrow> mirror \<Rightarrow> mirror" where
  "mirror_reconnect uuid m = m\<lparr>mr_client := Some (new_mirror_socket uuid), mr_timers := mr_timers m - 1\<rparr>"

section \<open>Messages of the primary process\<close>

definition mirror_onMessage :: "event \<Rightarrow> string option \<Rightarrow> mirror \<Rightarrow> mirror" where
  "mirror_onMessage e source m =
     (case mr_client m of
        None \<Rightarrow> m
      | Some sock \<Rightarrow>
          if source = Some (mir_address (mr_config m)) \<or> \<not> ms_open sock then m
          else m\<lparr>mr_client := Some (sock\<lparr>ms_sent := ms_sent sock
                   @ [createRelayedEventMessage e (mir_secret (mr_config m))]\<rparr>)\<rparr>)"

definition mirror_close :: "mirror \<Rightarrow> mirror" where
  "mirror_close m = m\<lparr>mr_client := map_option (\<lambda>sock. sock\<lparr>ms_open := False\<rparr>) (mr_client m)\<rparr>"

section \<open>The mirror's guards and the relay's\<close>

text \<open>The relay's environment under the limits a mirror merges.\<close>

definition mirror_limits :: "settings \<Rightarrow> mirror_settings \<Rightarrow> event_limits" where
  "mirror_limits s config = merge_event_limits (event_limits_of s)
     (case mir_limits config of Some (Some l) \<Rightarrow> l | _ \<Rightarrow> no_event_limits)"

definition with_event_limits :: "event_limits \<Rightarrow> settings \<Rightarrow> settings" where
  "with_event_limits l s = s\<lparr>set_limits := Some ((case set_limits s of
     None \<Rightarrow> \<lparr>lim_invoice = None, lim_admissionCheck = None, lim_connection = None, lim_client = None,
               lim_event = None, lim_message = None\<rparr> | Some ls \<Rightarrow> ls)\<lparr>lim_event := Some l\<rparr>)\<rparr>"

lemma event_limits_of_with [simp]: "event_limits_of (with_event_limits l s) = l"
  by (simp add: event_limits_of_def with_event_limits_def)

lemma right_of_None [simp]: "right_of l None = l"
  by (simp add: right_of_def)

lemma merge_with_None [simp]: "merge_with g l None = l"
  by (cases l) (simp_all add: merge_with_def)

lemma merge_no_limits [simp]: "merge_event_limits l no_event_limits = l"
  by (simp add: merge_event_limits_def no_event_limits_def)

lemma mirror_accepts_SomeD:
  assumes "mirror_accepts env config clk e users = Some event"
  shows "event = addExpirationMetadata e" "isEventIdValid (env_crypto env) e"
    "isEventSignatureValid (env_crypto env) e" "\<not> isExpiredEvent (mc_expiry clk) e"
    "list_ex (\<lambda>f. isEventMatchingFilter f e) (nonempty_list (mir_filters config))"
    "mirror_canAcceptEvent env config (mc_accept clk) event = Inr True"
    "mirror_isUserAdmitted env config event users = Inr True"
  using assms by (simp_all add: mirror_accepts_def Let_def split: if_splits sum.splits bool.splits)

lemma mirror_receive_cases:
  obtains (ignored) "mirror_receive env is_worker clk message users db m = (m, db)"
    | (taken) sock e event n db' where "message = RemoteEvent (ms_subscriptionId sock) e" "mr_client m = Some sock"
        "mirror_accepts env (mr_config m) clk e users = Some event" "repo_create (env_events env) event db = (n, db')"
        "mirror_receive env is_worker clk message users db m =
          (m\<lparr>mr_since := mc_since clk div 1000 - 30,
             mr_to_primary := (if n \<noteq> 0 \<and> is_worker then mr_to_primary m @ [event] else mr_to_primary m)\<rparr>, db')"
proof (cases message)
  case (RemoteEvent i e)
  show ?thesis
  proof (cases "mr_client m")
    case (Some sock)
    show ?thesis
    proof (cases "i = ms_subscriptionId sock \<and> mirror_accepts env (mr_config m) clk e users \<noteq> None")
      case True
      obtain n db' where "repo_create (env_events env) (the (mirror_accepts env (mr_config m) clk e users)) db = (n, db')"
        by fastforce
      then show ?thesis using taken True RemoteEvent Some by (auto simp: mirror_receive_def)
    qed (use ignored RemoteEvent Some in \<open>auto simp: mirror_receive_def split: option.splits\<close>)
  qed (use ignored RemoteEvent in \<open>simp add: mirror_receive_def\<close>)
qed (use ignored in \<open>simp_all add: mirror_receive_def\<close>)

end
