(* ===== verification/App_Primary.thy ===== *)
theory App_Primary
  imports Event_Handler "HOL-Library.Multiset"
begin

text \<open>
  app/app.ts: the primary process forks the workers, passes the messages of one on to the others and
  starts a worker that crashed again. \<open>cluster.fork\<close> gives each worker a new number;
  \<open>pr_workers\<close> joins \<open>cluster.workers\<close> with the environment the map \<open>this.workers\<close> keeps of each,
  and \<open>pr_timers\<close> holds what the pending timers will find there for their dead worker.
\<close>

type_synonym worker_env = "(string \<times> string) list"

record primary =
  pr_workers :: "(nat \<times> worker_env) list"
  pr_next :: nat
  pr_timers :: "worker_env option list"

section \<open>\<open>run\<close>\<close>

text \<open>
  How often \<open>for (let i = 0; i < count; i++)\<close> turns, \<open>None\<close> where it never ends.
\<close>

fun loop_count :: "js_num \<Rightarrow> nat option" where
  "loop_count JNaN = Some 0"
| "loop_count (JInfinity negative) = (if negative then Some 0 else None)"
| "loop_count (JFinite q) = Some (nat \<lceil>q\<rceil>)"

definition worker_count :: "string option \<Rightarrow> settings \<Rightarrow> nat \<Rightarrow> nat option" where
  "worker_count WORKER_COUNT s cpus =
     (if truthy WORKER_COUNT then loop_count (js_Number (the WORKER_COUNT))
      else (case set_workers_count s of
              Some n \<Rightarrow> if n \<noteq> 0 then Some (nat n) else Some cpus
            | None \<Rightarrow> Some cpus))"

definition client_env :: "nat \<Rightarrow> worker_env" where
  "client_env i = [(''WORKER_TYPE'', ''worker''), (''WORKER_INDEX'', nat_str i)]"

definition maintenance_worker_env :: worker_env where
  "maintenance_worker_env = [(''WORKER_TYPE'', ''maintenance'')]"

definition mirror_worker_env :: "nat \<Rightarrow> worker_env" where
  "mirror_worker_env i = [(''WORKER_TYPE'', ''static-mirroring''), (''MIRROR_INDEX'', nat_str i)]"

definition worker_envs :: "string option \<Rightarrow> settings \<Rightarrow> nat \<Rightarrow> worker_env list option" where
  "worker_envs WORKER_COUNT s cpus =
     map_option (\<lambda>n. map client_env [0..<n] @ [maintenance_worker_env]
                       @ map mirror_worker_env [0..<length (nonempty_list (set_mirrors s))])
       (worker_count WORKER_COUNT s cpus)"

definition createWorker :: "worker_env \<Rightarrow> primary \<Rightarrow> primary" where
  "createWorker env p =
     p\<lparr>pr_workers := pr_workers p @ [(pr_next p, env)], pr_next := pr_next p + 1\<rparr>"

definition no_workers :: primary where
  "no_workers = \<lparr>pr_workers = [], pr_next = 1, pr_timers = []\<rparr>"

text \<open>
  \<open>run\<close>: a paid relay without a secret exits with code 1; a loop that does not end gives \<open>None\<close>.
\<close>

definition primary_run :: "string option \<Rightarrow> string option \<Rightarrow> settings \<Rightarrow> nat \<Rightarrow> (nat + primary) option" where
  "primary_run SECRET WORKER_COUNT s cpus =
     (if payments_enabled s \<and> (SECRET = None \<or> SECRET = Some '''' \<or> SECRET = Some ''changeme'') then Some (Inl 1)
      else map_option (\<lambda>envs. Inr (fold createWorker envs no_workers)) (worker_envs WORKER_COUNT s cpus))"

section \<open>Messages and exits\<close>

definition onClusterMessage :: "nat \<Rightarrow> 'm \<Rightarrow> primary \<Rightarrow> (nat \<times> 'm) list" where
  "onClusterMessage source message p =
     map (\<lambda>(k, env). (k, message)) (filter (\<lambda>(k, env). source \<noteq> k) (pr_workers p))"

definition onClusterExit :: "nat \<Rightarrow> int \<Rightarrow> string \<Rightarrow> primary \<Rightarrow> primary" where
  "onClusterExit deadWorker code signal p =
     (let p' = p\<lparr>pr_workers := filter (\<lambda>(k, env). k \<noteq> deadWorker) (pr_workers p)\<rparr> in
      if code = 0 \<or> signal = ''SIGINT'' then p'
      else p'\<lparr>pr_timers := pr_timers p @ [map_of (pr_workers p) deadWorker]\<rparr>)"

text \<open>The oldest timer fires.\<close>

definition restart_worker :: "primary \<Rightarrow> js_error + primary" where
  "restart_worker p =
     (case pr_timers p of
        [] \<Rightarrow> Inr p
      | None # timers \<Rightarrow> Inl (JsError ''Mistakes were made'')
      | Some workerEnv # timers \<Rightarrow> Inr (createWorker workerEnv (p\<lparr>pr_timers := timers\<rparr>)))"

section \<open>Crashes and restarts\<close>

inductive primary_step :: "primary \<Rightarrow> primary \<Rightarrow> bool" where
  crash: "(k, env) \<in> set (pr_workers p) \<Longrightarrow> code \<noteq> 0 \<Longrightarrow> signal \<noteq> ''SIGINT''
    \<Longrightarrow> primary_step p (onClusterExit k code signal p)"
| fire: "restart_worker p = Inr p' \<Longrightarrow> primary_step p p'"

fun fire_timers :: "nat \<Rightarrow> primary \<Rightarrow> js_error + primary" where
  "fire_timers 0 p = Inr p"
| "fire_timers (Suc n) p = (case restart_worker p of Inl err \<Rightarrow> Inl err | Inr p' \<Rightarrow> fire_timers n p')"

definition primary_ok :: "worker_env list \<Rightarrow> primary \<Rightarrow> bool" where
  "primary_ok envs p \<longleftrightarrow>
     distinct (map fst (pr_workers p)) \<and> (\<forall>(k, env)\<in>set (pr_workers p). k < pr_next p)
     \<and> None \<notin> set (pr_timers p)
     \<and> mset (map snd (pr_workers p)) + mset (map the (pr_timers p)) = mset envs"

lemma createWorker_ok: "primary_ok envs p \<Longrightarrow> primary_ok (env # envs) (createWorker env p)"
  by (auto simp: primary_ok_def createWorker_def less_Suc_eq)

lemma fold_createWorker_ok:
  "primary_ok envs' p \<Longrightarrow> primary_ok (rev envs @ envs') (fold createWorker envs p)"
  by (induction envs arbitrary: p envs') (auto dest: createWorker_ok)

lemma primary_ok_mset: "mset envs = mset envs' \<Longrightarrow> primary_ok envs p = primary_ok envs' p"
  by (simp add: primary_ok_def)

lemma started_ok: "primary_ok envs (fold createWorker envs no_workers)"
proof -
  have "primary_ok (rev envs @ []) (fold createWorker envs no_workers)"
    by (rule fold_createWorker_ok) (simp add: primary_ok_def no_workers_def)
  then show ?thesis using primary_ok_mset [of envs "rev envs @ []"] by simp
qed

lemma remove_key_mset:
  assumes "distinct (map fst xs)" "(k, v) \<in> set xs"
  shows "mset (map snd xs) = add_mset v (mset (map snd (filter (\<lambda>(k', _). k' \<noteq> k) xs)))"
  using assms
proof (induction xs)
  case (Cons x xs)
  show ?case
  proof (cases "fst x = k")
    case True
    then have "filter (\<lambda>(k', _). k' \<noteq> k) xs = xs"
      using Cons.prems(1) by (auto simp: filter_id_conv image_iff)
    moreover have "x = (k, v)" using Cons.prems True by (force simp: image_iff)
    ultimately show ?thesis by (simp del: mset_filter)
  next
    case False
    then show ?thesis using Cons by (auto simp: case_prod_beta add_mset_commute)
  qed
qed simp

lemma crash_ok:
  assumes ok: "primary_ok envs p" and live: "(k, env) \<in> set (pr_workers p)" and "code \<noteq> 0" "signal \<noteq> ''SIGINT''"
  shows "primary_ok envs (onClusterExit k code signal p)"
proof -
  have "map_of (pr_workers p) k = Some env"
    using ok live by (simp add: primary_ok_def)
  moreover have "mset (map snd (pr_workers p))
      = add_mset env (mset (map snd (filter (\<lambda>(k', _). k' \<noteq> k) (pr_workers p))))"
    using ok live by (intro remove_key_mset) (simp_all add: primary_ok_def)
  moreover have "distinct (map fst (filter (\<lambda>(k', _). k' \<noteq> k) (pr_workers p)))"
    using ok by (simp add: primary_ok_def distinct_map_filter)
  ultimately show ?thesis
    using ok assms(3,4) by (auto simp: primary_ok_def onClusterExit_def)
qed

lemma restart_ok: "primary_ok envs p \<Longrightarrow> restart_worker p = Inr p' \<Longrightarrow> primary_ok envs p'"
  by (fastforce simp: restart_worker_def primary_ok_def createWorker_def less_Suc_eq split: list.splits option.splits)

lemma primary_step_ok: "primary_step p p' \<Longrightarrow> primary_ok envs p \<Longrightarrow> primary_ok envs p'"
  by (induction rule: primary_step.induct) (auto intro: crash_ok restart_ok)

lemma fire_timers_ok:
  assumes "primary_ok envs p"
  shows "\<exists>p'. fire_timers (length (pr_timers p)) p = Inr p' \<and> pr_timers p' = [] \<and> primary_ok envs p'"
  using assms
proof (induction "pr_timers p" arbitrary: p)
  case (Cons t timers)
  obtain env where env: "t = Some env"
    using Cons.hyps(2) Cons.prems by (cases t) (auto simp: primary_ok_def dest: sym)
  let ?p = "createWorker env (p\<lparr>pr_timers := timers\<rparr>)"
  have run: "restart_worker p = Inr ?p" using Cons.hyps(2) env by (simp add: restart_worker_def flip: Cons.hyps(2))
  have timers: "pr_timers ?p = timers" by (simp add: createWorker_def)
  have "\<exists>p'. fire_timers (length (pr_timers ?p)) ?p = Inr p' \<and> pr_timers p' = [] \<and> primary_ok envs p'"
    using Cons.hyps(1) [of ?p] restart_ok [OF Cons.prems run] timers by simp
  then show ?case using run timers by (simp flip: Cons.hyps(2))
qed auto

end
