(* ===== verification/Event_Query.thy ===== *)
theory Event_Query
  imports Event_Repository
begin

text \<open>
  The query of \<open>findByFilters\<close> against the filter it was built from: the SQL conditions on
  identifiers and authors say what \<open>startsWith\<close> says, a filter without tag queries selects the
  rows \<open>isEventMatchingFilter\<close> accepts, a filter with one tag query does so on values that
  \<open>jsonb\<close> prints without escapes, and the limits of the code: two tag queries select nothing, and
  the first filter's limit bounds a union.
\<close>

section \<open>Prefix conditions\<close>

lemma bytes_le_between:
  assumes "length x \<le> Suc (length q)"
  shows "bytes_le (q @ [a]) x \<and> bytes_le x (q @ [b]) \<longleftrightarrow> (\<exists>c. x = q @ [c] \<and> a \<le> c \<and> c \<le> b)"
  using assms
proof (induction q arbitrary: x)
  case Nil
  then show ?case by (cases x) (auto simp: le_less)
next
  case (Cons y q)
  then show ?case by (cases x) auto
qed

lemma lower_hex_set: "lower_hex s \<Longrightarrow> c \<in> set s \<Longrightarrow> c \<in> set hex_digits"
  by (simp add: lower_hex_def list_all_iff)

lemma toBuffer_snoc_pair:
  assumes "lower_hex q" "even (length q)" "hex_val a = Some h" "hex_val b = Some l"
  shows "toBuffer (q @ [a, b]) = toBuffer q @ [byte_of h l]"
  using assms(1,2)
proof (induction q rule: toBuffer.induct)
  case (1 x y s)
  have x: "x \<in> set hex_digits" and y: "y \<in> set hex_digits"
    using "1.prems"(1) by simp_all
  obtain hx where hx: "hex_val x = Some hx" using lower_hex_val [OF x] by blast
  obtain hy where hy: "hex_val y = Some hy" using lower_hex_val [OF y] by blast
  have "toBuffer (s @ [a, b]) = toBuffer s @ [byte_of h l]"
    using "1.IH" [OF _ hx hy] "1.prems" by simp
  then show ?case by (simp add: hx hy)
qed (simp_all add: assms(3,4))

lemma byte_of_le_iff:
  "h < 16 \<Longrightarrow> l < 16 \<Longrightarrow> h' < 16 \<Longrightarrow> l' < 16
     \<Longrightarrow> byte_of h l \<le> byte_of h' l' \<longleftrightarrow> 16 * h + l \<le> 16 * h' + l'"
  by (simp add: word_le_nat_alt)

lemma nibble_between:
  assumes "h < 16"
  shows "byte_of h 0 \<le> b \<and> b \<le> byte_of h 15 \<longleftrightarrow> unat b div 16 = h"
proof -
  have "byte_of h 0 \<le> b \<and> b \<le> byte_of h 15 \<longleftrightarrow> 16 * h \<le> unat b \<and> unat b \<le> 16 * h + 15"
    using assms by (simp add: word_le_nat_alt)
  then show ?thesis by auto
qed

lemma prefix_fromBuffer_even:
  assumes "lower_hex p" "even (length p)"
  shows "take (length p div 2) bs = toBuffer p \<longleftrightarrow> prefix p (fromBuffer bs)"
proof -
  have "prefix p (fromBuffer bs) \<longleftrightarrow> take (length p) (fromBuffer bs) = p"
    using startsWith_prefix startsWith_def by blast
  also have "\<dots> \<longleftrightarrow> fromBuffer (take (length p div 2) bs) = p"
    using take_fromBuffer [of "length p div 2" bs] assms(2) by simp
  also have "\<dots> \<longleftrightarrow> take (length p div 2) bs = toBuffer p"
    using assms by (metis fromBuffer_toBuffer toBuffer_fromBuffer)
  finally show ?thesis by simp
qed

lemma prefix_snoc_byte:
  assumes "length q = 2 * m"
  shows "prefix (q @ [hex_char h]) (fromBuffer bs) \<longleftrightarrow>
    m < length bs \<and> fromBuffer (take m bs) = q \<and> hex_char (unat (bs ! m) div 16) = hex_char h"
proof (cases "m < length bs")
  case True
  then have bs: "bs = take m bs @ bs ! m # drop (Suc m) bs"
    by (rule id_take_nth_drop)
  have "prefix (q @ [hex_char h]) (fromBuffer (take m bs @ bs ! m # drop (Suc m) bs))
      \<longleftrightarrow> fromBuffer (take m bs) = q \<and> hex_char (unat (bs ! m) div 16) = hex_char h"
    using assms True by (auto simp: byte_hex_def prefix_def append_eq_append_conv)
  then show ?thesis using True by (simp only: bs [symmetric]) simp
next
  case False
  then have "length (fromBuffer bs) < length (q @ [hex_char h])" using assms by simp
  then have "\<not> prefix (q @ [hex_char h]) (fromBuffer bs)"
    using prefix_length_le by fastforce
  then show ?thesis using False by blast
qed

lemma take_Suc_snoc:
  assumes "length q = m"
  shows "(\<exists>b. take (Suc m) bs = q @ [b] \<and> P b) \<longleftrightarrow> m < length bs \<and> take m bs = q \<and> P (bs ! m)"
proof
  assume "\<exists>b. take (Suc m) bs = q @ [b] \<and> P b"
  then obtain b where b: "take (Suc m) bs = q @ [b]" "P b" by blast
  then have "length (take (Suc m) bs) = Suc m" using assms by simp
  then have "m < length bs" by simp
  then show "m < length bs \<and> take m bs = q \<and> P (bs ! m)"
    using b by (simp add: take_Suc_conv_app_nth)
qed (simp add: take_Suc_conv_app_nth)

text \<open>A buffer starts with some bytes and a nibble exactly if its text starts with theirs.\<close>

lemma prefix_nibble:
  assumes "lower_hex q" "length q = 2 * m" "h < 16"
  shows "prefix (q @ [hex_char h]) (fromBuffer bs)
    \<longleftrightarrow> m < length bs \<and> take m bs = toBuffer q \<and> unat (bs ! m) div 16 = h"
proof -
  have fb: "fromBuffer (take m bs) = q \<longleftrightarrow> take m bs = toBuffer q"
    using assms(1,2) by (metis dvd_triv_left fromBuffer_toBuffer toBuffer_fromBuffer)
  have nib: "hex_char (unat b div 16) = hex_char h \<longleftrightarrow> unat b div 16 = h" for b :: "8 word"
    using unat_byte_lt [of b] assms(3) by (intro hex_char_inject) auto
  show ?thesis unfolding prefix_snoc_byte [OF assms(2)] fb nib by blast
qed

lemma prefix_fromBuffer_odd:
  assumes "lower_hex p" "odd (length p)"
  shows "bytes_le (toBuffer (p @ ''0'')) (take (length p div 2 + 1) bs)
         \<and> bytes_le (take (length p div 2 + 1) bs) (toBuffer (p @ ''f''))
         \<longleftrightarrow> prefix p (fromBuffer bs)"
proof -
  obtain q c where p: "p = q @ [c]" using assms(2) by (cases p rule: rev_cases) auto
  have q: "lower_hex q" "even (length q)" using assms p by auto
  define m where "m = length q div 2"
  have lq: "length q = 2 * m" using q(2) m_def by simp
  obtain h where h: "h < 16" "hex_val c = Some h" "hex_char h = c"
    using lower_hex_set [OF assms(1)] lower_hex_val p by force
  have val: "hex_val (CHR ''0'') = Some 0" "hex_val (CHR ''f'') = Some 15"
    by (simp_all add: hex_val_def digit_val_def)
  have bounds: "toBuffer (p @ ''0'') = toBuffer q @ [byte_of h 0]"
    "toBuffer (p @ ''f'') = toBuffer q @ [byte_of h 15]"
    using toBuffer_snoc_pair [OF q h(2)] val by (simp_all add: p)
  have len: "length (toBuffer q) = m" using length_toBuffer [OF q] m_def by simp
  have n: "length p div 2 + 1 = Suc m" using lq by (simp add: p)
  have "bytes_le (toBuffer (p @ ''0'')) (take (Suc m) bs)
        \<and> bytes_le (take (Suc m) bs) (toBuffer (p @ ''f''))
        \<longleftrightarrow> (\<exists>b. take (Suc m) bs = toBuffer q @ [b] \<and> unat b div 16 = h)"
    unfolding bounds using nibble_between [OF h(1)] bytes_le_between [of "take (Suc m) bs" "toBuffer q"]
    by (simp add: len)
  also have "\<dots> \<longleftrightarrow> prefix (q @ [hex_char h]) (fromBuffer bs)"
    unfolding take_Suc_snoc [OF len] prefix_nibble [OF q(1) lq h(1)] by (rule refl)
  also have "q @ [hex_char h] = p" by (simp add: p h(3))
  finally show ?thesis by (simp only: n)
qed

section \<open>The conditions of a filter\<close>

definition hex_prefixes :: "string list option \<Rightarrow> bool" where
  "hex_prefixes ps \<longleftrightarrow> (case ps of None \<Rightarrow> True | Some xs \<Rightarrow> list_all lower_hex xs)"

text \<open>What the message schema guarantees of \<open>ids\<close> and \<open>authors\<close>.\<close>

definition hex_filter :: "subfilter \<Rightarrow> bool" where
  "hex_filter f \<longleftrightarrow> hex_prefixes (ids f) \<and> hex_prefixes (authors f)"

text \<open>The rows of events whose identifiers and public keys are 32 bytes, as the schema requires.\<close>

definition sized_row :: "dbevent \<Rightarrow> bool" where
  "sized_row r \<longleftrightarrow> length (event_id r) = 32 \<and> length (event_pubkey r) = 32"

lemma sized_row_column: "sized_row r \<Longrightarrow> length (column_value col r) = 32"
  by (cases col) (simp_all add: sized_row_def)

lemma of_class_mem: "p \<in> set (of_class c ps) \<longleftrightarrow> p \<in> set ps \<and> groupByLengthSpec p = c"
  by (auto simp: of_class_def)

lemma of_class_empty: "of_class c ps = [] \<longleftrightarrow> (\<forall>p\<in>set ps. groupByLengthSpec p \<noteq> c)"
  by (auto simp: of_class_def filter_empty_conv)

text \<open>What the condition generated for one prefix asks of the value of its column.\<close>

definition prefix_test :: "bytes \<Rightarrow> string \<Rightarrow> bool" where
  "prefix_test v p \<longleftrightarrow>
     (case groupByLengthSpec p of
        Exact \<Rightarrow> v = toBuffer p
      | Even \<Rightarrow> take (length p div 2) v = toBuffer p
      | Odd \<Rightarrow> bytes_le (toBuffer (p @ ''0'')) (take (length p div 2 + 1) v)
               \<and> bytes_le (take (length p div 2 + 1) v) (toBuffer (p @ ''f'')))"

lemma prefix_test_iff:
  assumes "lower_hex p" "length v = 32"
  shows "prefix_test v p \<longleftrightarrow> prefix p (fromBuffer v)"
proof (cases "groupByLengthSpec p")
  case Exact
  then show ?thesis using prefix_fromBuffer_even [of p v] assms
    by (simp add: prefix_test_def groupByLengthSpec_def split: if_splits)
next
  case Even
  then show ?thesis using prefix_fromBuffer_even [of p v] assms
    by (simp add: prefix_test_def groupByLengthSpec_def even_iff_mod_2_eq_zero split: if_splits)
next
  case Odd
  then show ?thesis using prefix_fromBuffer_odd [of p v] assms
    by (simp add: prefix_test_def groupByLengthSpec_def even_iff_mod_2_eq_zero split: if_splits)
qed

lemma list_ex_prefix_conds:
  "list_ex (\<lambda>c. eval_cond c (r, t)) (prefix_conds col ps) \<longleftrightarrow> (\<exists>p\<in>set ps. prefix_test (column_value col r) p)"
proof -
  have exact: "list_ex (\<lambda>c. eval_cond c (r, t)) (if of_class Exact ps = [] then []
          else [SqlIn col (map toBuffer (of_class Exact ps))])
      \<longleftrightarrow> (\<exists>p\<in>set (of_class Exact ps). column_value col r = toBuffer p)"
    by (cases "of_class Exact ps") auto
  have split: "(\<exists>p\<in>set ps. prefix_test v p) \<longleftrightarrow> (\<exists>p\<in>set (of_class Exact ps). prefix_test v p)
      \<or> (\<exists>p\<in>set (of_class Even ps). prefix_test v p) \<or> (\<exists>p\<in>set (of_class Odd ps). prefix_test v p)" for v
  proof -
    have "groupByLengthSpec p = Exact \<or> groupByLengthSpec p = Even \<or> groupByLengthSpec p = Odd" for p
      by (cases "groupByLengthSpec p") simp_all
    then show ?thesis unfolding Bex_def of_class_mem by blast
  qed
  show ?thesis
    unfolding split prefix_conds_def list_ex_append exact
    unfolding list_ex_iff set_map bex_simps(7) eval_cond.simps fst_conv
    by (intro arg_cong2 [where f = "(\<or>)"] bex_cong refl) (simp_all add: of_class_mem prefix_test_def)
qed

lemma eval_prefix_conds:
  assumes "list_all lower_hex ps" "length (column_value col r) = 32"
  shows "list_ex (\<lambda>c. eval_cond c (r, t)) (prefix_conds col ps)
    \<longleftrightarrow> (\<exists>p\<in>set ps. prefix p (fromBuffer (column_value col r)))"
  using assms by (simp add: list_ex_prefix_conds list_all_iff prefix_test_iff cong: bex_cong)

lemma eval_prefix_clause:
  assumes "hex_prefixes ps" "length (column_value col r) = 32"
  shows "list_all (\<lambda>c. eval_cond c (r, t)) (prefix_clause col ps)
    \<longleftrightarrow> (\<forall>xs. ps = Some xs \<longrightarrow> (\<exists>p\<in>set xs. prefix p (fromBuffer (column_value col r))))"
proof (cases ps)
  case (Some xs)
  then show ?thesis
    using assms eval_prefix_conds [of xs col r t]
    by (cases xs) (simp_all add: prefix_clause_def hex_prefixes_def)
qed (simp add: prefix_clause_def)

lemma generic_tag_queries_mem:
  "kc \<in> set (generic_tag_queries f) \<longleftrightarrow> kc \<in> set (generic f) \<and> isGenericTagQuery (fst kc)"
  by (auto simp: generic_tag_queries_def)

text \<open>All conditions but those on tags say that the event matches all of the filter but its tags.\<close>

lemma eval_filter_query:
  assumes hex: "hex_filter f" and r: "sized_row r"
  shows "list_all (\<lambda>c. eval_cond c (r, t)) (q_where (filter_query f)) \<longleftrightarrow>
    isEventMatchingFilter (f\<lparr>generic := []\<rparr>) (toNostrEvent r)
    \<and> (\<forall>kc\<in>set (generic_tag_queries f). eval_cond (tag_clause kc) (r, t))"
proof -
  have ps: "hex_prefixes (ids f)" "hex_prefixes (authors f)"
    using hex by (simp_all add: hex_filter_def)
  show ?thesis
    using eval_prefix_clause [OF ps(1) sized_row_column [OF r, of ColEventId], of t]
      eval_prefix_clause [OF ps(2) sized_row_column [OF r, of ColEventPubkey], of t]
    by (auto simp: filter_query_def isEventMatchingFilter_iff toNostrEvent_def list_all_iff
        split: option.splits)
qed

lemma isEventMatchingFilter_generic:
  "isEventMatchingFilter f e \<longleftrightarrow>
     isEventMatchingFilter (f\<lparr>generic := []\<rparr>) e
     \<and> (\<forall>kc\<in>set (generic_tag_queries f). tag_criteria_met e kc)"
  by (auto simp: isEventMatchingFilter_iff generic_tag_queries_mem)

lemma where_rows_no_tags:
  assumes "hex_filter f" "generic_tag_queries f = []" "\<forall>r\<in>set (events db). sized_row r"
  shows "where_rows (filter_query f) db =
    filter (\<lambda>r. isEventMatchingFilter f (toNostrEvent r)) (events db)"
proof -
  have "list_all (\<lambda>c. eval_cond c (r, None)) (q_where (filter_query f))
      \<longleftrightarrow> isEventMatchingFilter f (toNostrEvent r)" if "r \<in> set (events db)" for r
    using eval_filter_query [OF assms(1), of r None] assms(2,3) that
      isEventMatchingFilter_generic [of f "toNostrEvent r"] by simp
  moreover have "q_join_tags (filter_query f) = False"
    using assms(2) by (simp add: filter_query_def)
  ultimately show ?thesis
    by (simp add: where_rows_def joined_rows_def filter_map comp_def cong: filter_cong)
qed

lemma findByFilters_no_tags:
  assumes "hex_filter f" "generic_tag_queries f = []" "query_ok (filter_query f)"
    and "\<forall>r\<in>set (events db). sized_row r"
  shows "findByFilters [f] db = Inr (order_limit (filter_query f)
    (filter (\<lambda>r. isEventMatchingFilter f (toNostrEvent r)) (events db)))"
  using where_rows_no_tags [OF assms(1,2,4)] assms(3)
  by (simp add: findByFilters_def run_select_def)

section \<open>Tag queries\<close>

text \<open>Text that \<open>jsonb\<close> prints as it is, between quotes.\<close>

definition plain_text :: "string \<Rightarrow> bool" where
  "plain_text v \<longleftrightarrow> v \<noteq> [] \<and> list_all (\<lambda>c. json_char c = [c]) v"

definition plain_filter :: "subfilter \<Rightarrow> bool" where
  "plain_filter f \<longleftrightarrow> list_all (\<lambda>kc. list_all plain_text (snd kc)) (generic_tag_queries f)"

lemma json_char_cases: "json_char c = [c] \<or> CHR 0x5C \<in> set (json_char c)"
  by (auto simp: json_char_def Let_def)

lemma json_char_quote_backslash [simp]:
  "json_char (CHR 0x22) \<noteq> [CHR 0x22]" "json_char (CHR 0x5C) \<noteq> [CHR 0x5C]"
  by (simp_all add: json_char_def)

lemma letter_plain: "is_letter c \<Longrightarrow> plain_text [c]"
  by (auto simp: plain_text_def is_letter_def json_char_def Let_def)

lemma plain_no_backslash: "plain_text v \<Longrightarrow> CHR 0x5C \<notin> set v"
  by (auto simp: plain_text_def list_all_iff)

lemma trim_quotes_mem: "c \<noteq> CHR 0x22 \<Longrightarrow> c \<in> set s \<Longrightarrow> c \<in> set (trim_quotes s)"
proof -
  have keep: "c \<in> set (dropWhile (\<lambda>c. c = CHR 0x22) xs)" if "c \<noteq> CHR 0x22" "c \<in> set xs" for xs
    using that by (induction xs) auto
  show "c \<noteq> CHR 0x22 \<Longrightarrow> c \<in> set s \<Longrightarrow> c \<in> set (trim_quotes s)"
    by (simp add: trim_quotes_def keep)
qed

lemma trim_quotes_plain:
  assumes "CHR 0x22 \<notin> set v"
  shows "trim_quotes (CHR 0x22 # v @ [CHR 0x22]) = v"
proof -
  have stop: "dropWhile (\<lambda>c. c = CHR 0x22) xs = xs" if "CHR 0x22 \<notin> set xs" for xs
    using that by (cases xs) auto
  have "dropWhile (\<lambda>c. c = CHR 0x22) (v @ [CHR 0x22]) = (if v = [] then [] else v @ [CHR 0x22])"
    using assms by (cases v) auto
  then show ?thesis using assms stop [of "rev v"] by (simp add: trim_quotes_def)
qed

lemma pg_tag_text_plain:
  assumes "plain_text v"
  shows "pg_tag_text w = v \<longleftrightarrow> w = v"
proof -
  have same: "pg_tag_text w = w" if "list_all (\<lambda>c. json_char c = [c]) w"
  proof -
    have "concat (map json_char w) = w" using that by (induction w) auto
    moreover have "CHR 0x22 \<notin> set w" using that by (auto simp: list_all_iff)
    ultimately show ?thesis
      using trim_quotes_plain [of w] by (simp add: pg_tag_text_def json_string_def)
  qed
  have esc: "CHR 0x5C \<in> set (pg_tag_text w)" if w: "\<not> list_all (\<lambda>c. json_char c = [c]) w"
  proof -
    obtain c where "c \<in> set w" "json_char c \<noteq> [c]"
      using w unfolding list_all_iff by blast
    then have "CHR 0x5C \<in> set (json_string w)"
      using json_char_cases [of c] by (auto simp: json_string_def)
    then show ?thesis by (simp add: pg_tag_text_def trim_quotes_mem)
  qed
  show ?thesis
  proof (cases "list_all (\<lambda>c. json_char c = [c]) w")
    case False
    moreover have "w \<noteq> v" using False assms by (auto simp: plain_text_def)
    ultimately show ?thesis using esc plain_no_backslash [OF assms] by auto
  qed (simp add: same)
qed

lemma tag_rows_iff:
  assumes "plain_text [c]" "list_all plain_text vs"
  shows "(\<exists>t\<in>set (tag_rows r). tr_name t = [c] \<and> tr_value t \<in> set vs)
    \<longleftrightarrow> tag_criteria_met (toNostrEvent r) ([h, c], vs)"
proof -
  have vs: "pg_tag_text v \<in> set vs \<longleftrightarrow> v \<in> set vs" for v
  proof -
    have "pg_tag_text v = x \<longleftrightarrow> v = x" if "x \<in> set vs" for x
      using pg_tag_text_plain [of x v] assms(2) that unfolding list_all_iff by blast
    then show ?thesis by metis
  qed
  have ne: "pg_tag_text v \<noteq> []" if "v \<in> set vs" for v
    using vs [of v] that assms(2) unfolding list_all_iff plain_text_def by metis
  have one: "pg_tag_text n = [c] \<longleftrightarrow> n = [c]" for n
    using pg_tag_text_plain [OF assms(1)] .
  have row: "(\<exists>t. tag_row_of (event_id r) tag = Some t \<and> tr_name t = [c] \<and> tr_value t \<in> set vs)
      \<longleftrightarrow> (\<exists>v rest. tag = [c] # v # rest \<and> v \<in> set vs)" (is "?L \<longleftrightarrow> ?R") for tag
  proof
    assume ?L
    then obtain n v where "js_at tag 0 = Some n" "js_at tag 1 = Some v" "pg_tag_text n = [c]"
      "pg_tag_text v \<in> set vs"
      by (auto simp: tag_row_of_def split: option.splits if_splits)
    then show ?R using vs one by (cases tag rule: remdups_adj.cases) auto
  next
    assume ?R
    then obtain v rest where v: "tag = [c] # v # rest" "v \<in> set vs" by blast
    have "pg_tag_text [c] = [c]" using one by blast
    then show ?L using ne [OF v(2)] vs [of v] v by (simp add: tag_row_of_def)
  qed
  have "(\<exists>t\<in>set (tag_rows r). tr_name t = [c] \<and> tr_value t \<in> set vs) \<longleftrightarrow>
      (\<exists>tag\<in>set (event_tags r). \<exists>t. tag_row_of (event_id r) tag = Some t
         \<and> tr_name t = [c] \<and> tr_value t \<in> set vs)"
    by (force simp: tag_rows_def map_filter_def)
  then show ?thesis
    by (simp only: row tag_criteria_met_iff) (simp add: toNostrEvent_def)
qed

lemma joined_rows_tags:
  "(r, t) \<in> set (joined_rows True db) \<longleftrightarrow> r \<in> set (events db) \<and>
     (case t of None \<Rightarrow> tags_of_id (event_id r) (tag_table db) = []
      | Some t' \<Rightarrow> t' \<in> set (tags_of_id (event_id r) (tag_table db)))"
proof -
  have "(r, t) \<in> set (case tags_of_id (event_id r') (tag_table db) of [] \<Rightarrow> [(r', None)]
          | ts \<Rightarrow> map (\<lambda>t. (r', Some t)) ts)
      \<longleftrightarrow> r = r' \<and> (case t of None \<Rightarrow> tags_of_id (event_id r) (tag_table db) = []
        | Some t' \<Rightarrow> t' \<in> set (tags_of_id (event_id r) (tag_table db)))" for r'
    by (auto split: list.splits option.splits)
  then show ?thesis by (auto simp: joined_rows_def tags_of_id_def)
qed

section \<open>What a query selects\<close>

lemma where_rows_iff:
  "r \<in> set (where_rows q db) \<longleftrightarrow>
     (\<exists>t. (r, t) \<in> set (joined_rows (q_join_tags q) db)
        \<and> list_all (\<lambda>c. eval_cond c (r, t)) (q_where q))"
  by (auto simp: where_rows_def image_iff)

lemma joined_rows_mem: "(r, t) \<in> set (joined_rows join db) \<Longrightarrow> r \<in> set (events db)"
  using joined_rows_tags [of r t db] by (cases join) (auto simp: joined_rows_def)

lemma filter_query_join [simp]: "q_join_tags (filter_query f) \<longleftrightarrow> generic_tag_queries f \<noteq> []"
  by (simp add: filter_query_def)

lemma generic_tag_key:
  assumes "(key, vs) \<in> set (generic_tag_queries f)"
  obtains c where "key = [CHR ''#'', c]" "plain_text [c]"
proof -
  have "isGenericTagQuery key" using assms generic_tag_queries_mem [of "(key, vs)" f] by simp
  then obtain c where "key = [CHR ''#'', c]" "is_letter c" by (rule isGenericTagQueryE)
  then show ?thesis using that letter_plain by blast
qed

lemma eval_tag_clause:
  "eval_cond (tag_clause ([h, c], vs)) (r, t) \<longleftrightarrow>
     (\<exists>t'. t = Some t' \<and> tr_name t' = [c] \<and> tr_value t' \<in> set vs)"
  by (cases t) (auto simp: list_ex_iff)

text \<open>A row the query selects matches the filter, and is stored.\<close>

lemma where_rows_sound:
  assumes inv: "db_inv db" and sized: "\<forall>r\<in>set (events db). sized_row r"
    and f: "hex_filter f" "plain_filter f" and r: "r \<in> set (where_rows (filter_query f) db)"
  shows "r \<in> set (events db) \<and> isEventMatchingFilter f (toNostrEvent r)"
proof -
  obtain t where t: "(r, t) \<in> set (joined_rows (generic_tag_queries f \<noteq> []) db)"
    "list_all (\<lambda>c. eval_cond c (r, t)) (q_where (filter_query f))"
    using r unfolding where_rows_iff filter_query_join by blast
  then have mem: "r \<in> set (events db)" using joined_rows_mem by blast
  note conds = eval_filter_query [OF f(1), of r t] t(2) sized mem
  have "tag_criteria_met (toNostrEvent r) kc" if kc: "kc \<in> set (generic_tag_queries f)" for kc
  proof -
    obtain key vs where kv: "kc = (key, vs)" by (cases kc)
    obtain c where c: "key = [CHR ''#'', c]" "plain_text [c]" using generic_tag_key kc kv by metis
    have vs: "list_all plain_text vs"
      using f(2) kc unfolding plain_filter_def list_all_iff kv by fastforce
    have "eval_cond (tag_clause kc) (r, t)" using conds kc by blast
    then obtain t' where t': "t = Some t'" "tr_name t' = [c]" "tr_value t' \<in> set vs"
      unfolding kv c(1) eval_tag_clause by blast
    have "generic_tag_queries f \<noteq> []" using kc by auto
    then have "t' \<in> set (tags_of_id (event_id r) (tag_table db))"
      using t(1) t'(1) joined_rows_tags [of r t db] by simp
    then have "t' \<in> set (tag_rows r)" using db_invD(4) [OF inv mem] by simp
    then show ?thesis unfolding kv c(1) using tag_rows_iff [OF c(2) vs, of r "CHR ''#''"] t'(2,3) by blast
  qed
  then show ?thesis using conds isEventMatchingFilter_generic by blast
qed

text \<open>With at most one tag query the converse holds too.\<close>

lemma where_rows_complete:
  assumes inv: "db_inv db" and sized: "\<forall>r\<in>set (events db). sized_row r"
    and f: "hex_filter f" "plain_filter f" and one: "length (generic_tag_queries f) \<le> 1"
    and r: "r \<in> set (events db)" "isEventMatchingFilter f (toNostrEvent r)"
  shows "r \<in> set (where_rows (filter_query f) db)"
proof (cases "generic_tag_queries f")
  case Nil
  then show ?thesis using where_rows_no_tags [OF f(1) _ sized] r by simp
next
  case (Cons kc rest)
  then have gen: "generic_tag_queries f = [kc]" using one by simp
  obtain key vs where kv: "kc = (key, vs)" by (cases kc)
  have mem: "(key, vs) \<in> set (generic_tag_queries f)" by (simp add: gen kv)
  obtain c where c: "key = [CHR ''#'', c]" "plain_text [c]" by (rule generic_tag_key [OF mem])
  have vs: "list_all plain_text vs" using f(2) by (simp add: plain_filter_def gen kv)
  have "tag_criteria_met (toNostrEvent r) ([CHR ''#'', c], vs)"
    using r(2) mem unfolding isEventMatchingFilter_generic [of f] c(1) by blast
  then obtain t where t: "t \<in> set (tag_rows r)" "tr_name t = [c]" "tr_value t \<in> set vs"
    unfolding tag_rows_iff [OF c(2) vs, of r "CHR ''#''", symmetric] by blast
  have "(r, Some t) \<in> set (joined_rows True db)"
    using t(1) db_invD(4) [OF inv r(1)] r(1) by (simp add: joined_rows_tags)
  moreover have "eval_cond (tag_clause kc) (r, Some t)"
    unfolding kv c(1) eval_tag_clause using t by blast
  moreover have "isEventMatchingFilter (f\<lparr>generic := []\<rparr>) (toNostrEvent r)"
    using r(2) isEventMatchingFilter_generic by blast
  ultimately show ?thesis
    using eval_filter_query [OF f(1), of r "Some t"] sized r(1) unfolding where_rows_iff
    by (intro exI [of _ "Some t"]) (simp add: gen)
qed

text \<open>Two tag queries with different letters compare one joined tag with both.\<close>

lemma where_rows_two_tags:
  assumes "(key, vs) \<in> set (generic_tag_queries f)" "(key', vs') \<in> set (generic_tag_queries f)"
    "key \<noteq> key'"
  shows "where_rows (filter_query f) db = []"
proof -
  obtain c where k: "key = [CHR ''#'', c]" by (rule generic_tag_key [OF assms(1)])
  obtain c' where k': "key' = [CHR ''#'', c']" by (rule generic_tag_key [OF assms(2)])
  have "c \<noteq> c'" using k k' assms(3) by simp
  then have "\<not> (eval_cond (tag_clause (key, vs)) (r, t) \<and> eval_cond (tag_clause (key', vs')) (r, t))"
    for r t
    unfolding k k' eval_tag_clause by auto
  moreover have "tag_clause (key, vs) \<in> set (q_where (filter_query f))"
    "tag_clause (key', vs') \<in> set (q_where (filter_query f))"
    using assms(1,2) by (auto simp: filter_query_def simp del: tag_clause.simps)
  ultimately have "r \<notin> set (where_rows (filter_query f) db)" for r
    unfolding where_rows_iff list_all_iff by blast
  then show ?thesis by (cases "where_rows (filter_query f) db") auto
qed

section \<open>What \<open>findByFilters\<close> returns\<close>

lemma sort_rows_set [simp]: "set (sort_rows ord rows) = set rows"
  by (cases ord) (simp_all add: sort_rows_def)

lemma length_sort_rows [simp]: "length (sort_rows ord rows) = length rows"
  by (cases ord) (simp_all add: sort_rows_def)

lemma order_limit_set: "set (order_limit q rows) \<subseteq> set rows"
  using set_take_subset [of _ "sort_rows (q_order q) rows"] by (auto simp: order_limit_def)

lemma order_limit_length: "length (order_limit q rows) \<le> nat (q_limit q)"
  by (simp add: order_limit_def)

fun in_order :: "sql_order \<Rightarrow> int \<Rightarrow> int \<Rightarrow> bool" where
  "in_order OrderAsc x y = (x \<le> y)"
| "in_order OrderDesc x y = (y \<le> x)"

lemma sort_rows_sorted:
  "sorted_wrt (\<lambda>r s. in_order ord (event_created_at r) (event_created_at s)) (sort_rows ord rows)"
proof (cases ord)
  case OrderAsc
  then show ?thesis using sorted_sort_key [of event_created_at rows]
    by (simp add: sort_rows_def sorted_map)
next
  case OrderDesc
  then show ?thesis using sorted_sort_key [of "\<lambda>r. - event_created_at r" rows]
    by (simp add: sort_rows_def sorted_map)
qed

lemma order_limit_sorted:
  "sorted_wrt (\<lambda>r s. in_order (q_order q) (event_created_at r) (event_created_at s))
     (order_limit q rows)"
  unfolding order_limit_def by (rule sorted_wrt_take [OF sort_rows_sorted])

lemma run_select_shape:
  assumes "run_select q qs db = Inr rows"
  obtains xs where "rows = order_limit q xs"
    "\<And>r. r \<in> set xs \<Longrightarrow> \<exists>s\<in>set (q # qs). r \<in> set (where_rows s db)"
proof -
  have sub: "\<exists>s\<in>set (q # qs). r \<in> set (where_rows s db)"
    if "r \<in> set (remdups (where_rows q db
          @ concat (map (\<lambda>s. order_limit s (where_rows s db)) qs)))" for r
    using that order_limit_set by fastforce
  show ?thesis
  proof (cases "qs = []")
    case True
    then show ?thesis using assms that [of "where_rows q db"]
      by (simp add: run_select_def split: if_splits)
  next
    case False
    then have "rows = order_limit q (remdups (where_rows q db
          @ concat (map (\<lambda>s. order_limit s (where_rows s db)) qs)))"
      using assms by (simp add: run_select_def split: if_splits)
    then show ?thesis using sub by (rule that)
  qed
qed

lemma findByFilters_sound:
  assumes inv: "db_inv db" and sized: "\<forall>r\<in>set (events db). sized_row r"
    and fs: "\<And>f. f \<in> set fs \<Longrightarrow> hex_filter f \<and> plain_filter f"
    and rows: "findByFilters fs db = Inr rows" and r: "r \<in> set rows"
  shows "r \<in> set (events db) \<and> (\<exists>f\<in>set fs. isEventMatchingFilter f (toNostrEvent r))"
proof -
  obtain f fs' where fs': "fs = f # fs'"
    using rows by (cases fs) (simp_all add: findByFilters_def)
  then have "run_select (filter_query f) (map filter_query fs') db = Inr rows"
    using rows by (simp add: findByFilters_def)
  then obtain xs where xs: "rows = order_limit (filter_query f) xs"
    "\<And>r. r \<in> set xs \<Longrightarrow> \<exists>s\<in>set (filter_query f # map filter_query fs'). r \<in> set (where_rows s db)"
    by (rule run_select_shape) blast
  then have "r \<in> set xs" using r order_limit_set by blast
  from xs(2) [OF this] obtain g where "g \<in> set fs" "r \<in> set (where_rows (filter_query g) db)"
    by (auto simp: fs')
  then show ?thesis using where_rows_sound [OF inv sized] fs by blast
qed

lemma findByFilters_one:
  assumes "query_ok (filter_query f)"
  shows "findByFilters [f] db = Inr (order_limit (filter_query f) (where_rows (filter_query f) db))"
  using assms by (simp add: findByFilters_def run_select_def)

end
