(* ===== verification/Subscribe_Handler.thy ===== *)
theory Subscribe_Handler
  imports Event_Query Relay_Messages Relay_Settings
begin

text \<open>
  handlers/subscribe-message-handler.ts and handlers/unsubscribe-message-handler.ts: the limits on a
  subscription, and the answer to a REQ message from the event repository. The client's
  subscriptions are a \<open>Map\<close>: an association list in the order of insertion, one entry per key.
\<close>

type_synonym subscriptions = "(string \<times> subfilter list) list"

section \<open>Structural equality\<close>

text \<open>\<open>equals\<close> of two filters: the order of an object's keys does not matter.\<close>

definition filter_equals :: "subfilter \<Rightarrow> subfilter \<Rightarrow> bool" where
  "filter_equals f g \<longleftrightarrow>
     ids f = ids g \<and> kinds f = kinds g \<and> since f = since g \<and> until f = until g
     \<and> authors f = authors g \<and> limit f = limit g \<and> set (generic f) = set (generic g)"

definition filters_equal :: "subfilter list \<Rightarrow> subfilter list \<Rightarrow> bool" where
  "filters_equal fs gs \<longleftrightarrow> list_all2 filter_equals fs gs"

text \<open>\<open>uniqWith(equals, xs)\<close>: an item stays unless an equal one stays before it.\<close>

definition uniq_step :: "('a \<Rightarrow> 'a \<Rightarrow> bool) \<Rightarrow> 'a list \<Rightarrow> 'a \<Rightarrow> 'a list" where
  "uniq_step eq result x = (if list_ex (eq x) result then result else result @ [x])"

definition uniqWith :: "('a \<Rightarrow> 'a \<Rightarrow> bool) \<Rightarrow> 'a list \<Rightarrow> 'a list" where
  "uniqWith eq xs = foldl (uniq_step eq) [] xs"

section \<open>\<open>canSubscribe\<close>\<close>

definition too_many_subscriptions :: "int \<Rightarrow> string" where
  "too_many_subscriptions n =
     ''Too many subscriptions: Number of subscriptions must be less than or equal to '' @ int_str n"

definition or_zero :: "int option \<Rightarrow> int" where
  "or_zero x = (case x of None \<Rightarrow> 0 | Some n \<Rightarrow> n)"

definition canSubscribe ::
  "settings \<Rightarrow> subscriptions \<Rightarrow> string \<Rightarrow> subfilter list \<Rightarrow> js_error + string option" where
  "canSubscribe s subs subscriptionId filters =
     (let existing = map_of subs subscriptionId;
          has_existing = (case existing of None \<Rightarrow> False | Some gs \<Rightarrow> gs \<noteq> []);
          limits = subscription_limits_of s;
          max_subs = or_zero (Option.bind limits maxSubscriptions);
          max_filters = or_zero (Option.bind limits maxFilters)
      in if has_existing \<and> filters_equal filters (the existing)
         then Inr (Some (''Duplicate subscription '' @ subscriptionId @ '': Ignoring''))
         else if max_subs > 0 \<and> \<not> has_existing \<and> int (length subs) + 1 > max_subs
         then Inr (Some (too_many_subscriptions max_subs))
         else if max_filters > 0 \<and> int (length filters) > max_filters
         then Inr (Some (''Too many filters: Number of filters per susbscription must be less then or equal to ''
                         @ int_str max_filters))
         else
           (case limits of
              None \<Rightarrow> Inl (TypeErr ''Cannot read properties of undefined (reading maxSubscriptionIdLength)'')
            | Some l \<Rightarrow>
                (case maxSubscriptionIdLength l of
                   None \<Rightarrow> Inr None
                 | Some n \<Rightarrow>
                     if int (length subscriptionId) > n
                     then Inr (Some (''Subscription ID too long: Subscription ID must be less or equal to ''
                                     @ int_str n))
                     else Inr None)))"

section \<open>\<open>fetchAndSend\<close>\<close>

definition isClientSubscribedToEvent :: "subfilter list \<Rightarrow> event \<Rightarrow> bool" where
  "isClientSubscribedToEvent filters e \<longleftrightarrow> list_ex (\<lambda>f. isEventMatchingFilter f e) filters"

definition fetchAndSend ::
  "'db event_repository \<Rightarrow> string \<Rightarrow> subfilter list \<Rightarrow> 'db \<Rightarrow> emission list \<times> js_error option" where
  "fetchAndSend repo subscriptionId filters db =
     (case repo_findByFilters repo filters db of
        Inl err \<Rightarrow> ([], Some err)
      | Inr rows \<Rightarrow>
          (let es = filter (isClientSubscribedToEvent filters)
                      (map toNostrEvent (filter (\<lambda>r. deleted_at r = None) rows))
           in (map (\<lambda>e. EmitMessage (createOutgoingEventMessage subscriptionId e)) es
               @ [EmitMessage (createEndOfStoredEventsNoticeMessage subscriptionId)], None)))"

definition handle_subscribe ::
  "settings \<Rightarrow> 'db event_repository \<Rightarrow> subscriptions \<Rightarrow> string \<Rightarrow> subfilter list \<Rightarrow> 'db
     \<Rightarrow> emission list \<times> js_error option" where
  "handle_subscribe s repo subs subscriptionId raw_filters db =
     (let filters = uniqWith filter_equals raw_filters in
      case canSubscribe s subs subscriptionId filters of
        Inl err \<Rightarrow> ([], Some err)
      | Inr (Some reason) \<Rightarrow>
          ([EmitMessage (createNoticeMessage (''Subscription rejected: '' @ reason))], None)
      | Inr None \<Rightarrow>
          (case fetchAndSend repo subscriptionId filters db of
             (ems, err) \<Rightarrow> (EmitSubscribe subscriptionId filters # ems, err)))"

definition handle_unsubscribe :: "string \<Rightarrow> emission list" where
  "handle_unsubscribe subscriptionId = [EmitUnsubscribe subscriptionId]"

section \<open>Lemmas\<close>

lemma filter_equals_refl [simp]: "filter_equals f f"
  by (simp add: filter_equals_def)

lemma filter_equals_matching:
  assumes "filter_equals f g"
  shows "isEventMatchingFilter f e \<longleftrightarrow> isEventMatchingFilter g e"
  using assms by (simp add: isEventMatchingFilter_iff filter_equals_def)

lemma uniq_foldl_subset: "set (foldl (uniq_step eq) acc xs) \<subseteq> set acc \<union> set xs"
proof (induction xs arbitrary: acc)
  case (Cons x xs)
  have "set (uniq_step eq acc x) \<subseteq> set acc \<union> {x}" by (auto simp: uniq_step_def)
  then show ?case using Cons.IH [of "uniq_step eq acc x"] by auto
qed simp

lemma uniq_foldl_acc: "set acc \<subseteq> set (foldl (uniq_step eq) acc xs)"
proof (induction xs arbitrary: acc)
  case (Cons x xs)
  have "set acc \<subseteq> set (uniq_step eq acc x)" by (auto simp: uniq_step_def)
  then show ?case using Cons.IH [of "uniq_step eq acc x"] by simp
qed simp

lemma uniq_foldl_covers:
  assumes "\<And>x. eq x x" "x \<in> set xs"
  shows "\<exists>y\<in>set (foldl (uniq_step eq) acc xs). eq x y"
  using assms(2)
proof (induction xs arbitrary: acc)
  case (Cons z zs)
  have z: "\<exists>y\<in>set (uniq_step eq acc z). eq z y"
    using assms(1) by (auto simp: uniq_step_def list_ex_iff)
  show ?case
  proof (cases "x = z")
    case True
    then show ?thesis using z uniq_foldl_acc [of "uniq_step eq acc z" eq zs] by auto
  next
    case False
    then show ?thesis using Cons by simp
  qed
qed simp

lemma uniqWith_set:
  assumes "\<And>x. eq x x"
  shows "set (uniqWith eq xs) \<subseteq> set xs" "\<And>x. x \<in> set xs \<Longrightarrow> \<exists>y\<in>set (uniqWith eq xs). eq x y"
  using uniq_foldl_subset [of eq "[]" xs] uniq_foldl_covers [of eq, OF assms]
  by (auto simp: uniqWith_def)

lemma uniqWith_single [simp]: "uniqWith eq [x] = [x]"
  by (simp add: uniqWith_def uniq_step_def)

text \<open>Dropping equal filters does not change which events a client is subscribed to.\<close>

lemma isClientSubscribedToEvent_uniq:
  "isClientSubscribedToEvent (uniqWith filter_equals fs) e \<longleftrightarrow> isClientSubscribedToEvent fs e"
proof -
  note u = uniqWith_set [where eq = filter_equals and xs = fs, OF filter_equals_refl]
  show ?thesis
    using u filter_equals_matching unfolding isClientSubscribedToEvent_def list_ex_iff by blast
qed

lemma canSubscribe_bound:
  assumes "canSubscribe s subs i fs = Inr None" "subscription_limits_of s = Some l"
    "maxSubscriptions l = Some n" "0 < n"
  shows "(\<exists>gs. map_of subs i = Some gs) \<or> int (length subs) < n"
  using assms
  by (auto simp: canSubscribe_def Let_def or_zero_def split: option.splits if_splits)

lemma canSubscribe_limits:
  assumes "canSubscribe s subs i fs = Inr None"
  obtains l where "subscription_limits_of s = Some l"
    "\<And>n. maxFilters l = Some n \<Longrightarrow> 0 < n \<Longrightarrow> int (length fs) \<le> n"
    "\<And>n. maxSubscriptionIdLength l = Some n \<Longrightarrow> int (length i) \<le> n"
  using assms
  by (auto simp: canSubscribe_def Let_def or_zero_def split: option.splits if_splits)

text \<open>
  The shapes of an answer: an error, a notice, the subscription followed by an error of the query,
  or the subscription, the events and the end of stored events.
\<close>

lemma handle_subscribe_cases:
  obtains (failed) err where "canSubscribe s subs i (uniqWith filter_equals fs) = Inl err"
      "handle_subscribe s repo subs i fs db = ([], Some err)"
    | (rejected) reason where "canSubscribe s subs i (uniqWith filter_equals fs) = Inr (Some reason)"
      "handle_subscribe s repo subs i fs db =
         ([EmitMessage (NoticeMessage (''Subscription rejected: '' @ reason))], None)"
    | (query_failed) err where "canSubscribe s subs i (uniqWith filter_equals fs) = Inr None"
      "repo_findByFilters repo (uniqWith filter_equals fs) db = Inl err"
      "handle_subscribe s repo subs i fs db = ([EmitSubscribe i (uniqWith filter_equals fs)], Some err)"
    | (answered) rows where "canSubscribe s subs i (uniqWith filter_equals fs) = Inr None"
      "repo_findByFilters repo (uniqWith filter_equals fs) db = Inr rows"
      "handle_subscribe s repo subs i fs db =
         (EmitSubscribe i (uniqWith filter_equals fs)
          # map (\<lambda>e. EmitMessage (OutgoingEventMessage i e))
              (filter (isClientSubscribedToEvent (uniqWith filter_equals fs))
                (map toNostrEvent (filter (\<lambda>r. deleted_at r = None) rows)))
          @ [EmitMessage (EndOfStoredEventsNotice i)], None)"
proof (cases "canSubscribe s subs i (uniqWith filter_equals fs)")
  case (Inl err)
  then show ?thesis using failed by (simp add: handle_subscribe_def Let_def)
next
  case (Inr reason)
  then show ?thesis
    using rejected query_failed answered
    by (cases reason; cases "repo_findByFilters repo (uniqWith filter_equals fs) db")
       (simp_all add: handle_subscribe_def fetchAndSend_def Let_def relay_defs)
qed

text \<open>The stored events of an answer, over the repository of the model.\<close>

fun sent_events :: "emission list \<Rightarrow> (string \<times> event) list" where
  "sent_events [] = []"
| "sent_events (EmitMessage (OutgoingEventMessage i e) # ems) = (i, e) # sent_events ems"
| "sent_events (_ # ems) = sent_events ems"

lemma sent_events_append [simp]: "sent_events (xs @ ys) = sent_events xs @ sent_events ys"
  by (induction xs rule: sent_events.induct) auto

lemma sent_events_map [simp]:
  "sent_events (map (\<lambda>e. EmitMessage (OutgoingEventMessage i e)) es) = map (\<lambda>e. (i, e)) es"
  by (induction es) auto

lemma findByFilters_mem:
  assumes "findByFilters fs db = Inr rows" "r \<in> set rows"
  shows "r \<in> set (events db)"
proof -
  obtain f fs' where fs': "fs = f # fs'"
    using assms by (cases fs) (simp_all add: findByFilters_def)
  then have "run_select (filter_query f) (map filter_query fs') db = Inr rows"
    using assms(1) by (simp add: findByFilters_def)
  then obtain xs where xs: "rows = order_limit (filter_query f) xs"
    "\<And>r. r \<in> set xs \<Longrightarrow> \<exists>s\<in>set (filter_query f # map filter_query fs'). r \<in> set (where_rows s db)"
    by (rule run_select_shape) blast
  then have "r \<in> set xs" using assms(2) order_limit_set by blast
  from xs(2) [OF this] show ?thesis using joined_rows_mem unfolding where_rows_iff by blast
qed

lemma handle_subscribe_sound:
  assumes "handle_subscribe s EventRepository subs i fs db = (ems, err)" "(j, e) \<in> set (sent_events ems)"
  shows "j = i \<and> (\<exists>r\<in>set (events db). deleted_at r = None \<and> e = toNostrEvent r)
    \<and> (\<exists>f\<in>set fs. isEventMatchingFilter f e)"
proof (cases rule: handle_subscribe_cases [of s subs i fs EventRepository db])
  case (answered rows)
  then have "j = i" "\<exists>r\<in>set rows. deleted_at r = None \<and> e = toNostrEvent r"
    "isClientSubscribedToEvent (uniqWith filter_equals fs) e"
    using assms by auto
  then show ?thesis
    using findByFilters_mem answered(2) isClientSubscribedToEvent_uniq [of fs e]
    by (auto simp: isClientSubscribedToEvent_def list_ex_iff)
qed (use assms in auto)

lemma order_limit_all:
  assumes "int (length rows) \<le> q_limit q"
  shows "set (order_limit q rows) = set rows"
  using assms by (simp add: order_limit_def)

text \<open>One filter without more than one tag query, and a limit the matches fit in.\<close>

lemma handle_subscribe_complete:
  assumes ok: "canSubscribe s subs i [f] = Inr None" "query_ok (filter_query f)"
    and db: "db_inv db" "\<forall>r\<in>set (events db). sized_row r"
    and f: "hex_filter f" "plain_filter f" "length (generic_tag_queries f) \<le> 1"
    and fits: "int (length (where_rows (filter_query f) db)) \<le> q_limit (filter_query f)"
  obtains es where "handle_subscribe s EventRepository subs i [f] db =
      (EmitSubscribe i [f] # map (\<lambda>e. EmitMessage (OutgoingEventMessage i e)) es
       @ [EmitMessage (EndOfStoredEventsNotice i)], None)"
    "set es = {toNostrEvent r |r. r \<in> set (events db) \<and> deleted_at r = None
       \<and> isEventMatchingFilter f (toNostrEvent r)}"
proof -
  let ?rows = "order_limit (filter_query f) (where_rows (filter_query f) db)"
  let ?es = "filter (isClientSubscribedToEvent [f])
    (map toNostrEvent (filter (\<lambda>r. deleted_at r = None) ?rows))"
  have "set ?rows = set (where_rows (filter_query f) db)" by (rule order_limit_all [OF fits])
  moreover have "r \<in> set (where_rows (filter_query f) db) \<longleftrightarrow>
      r \<in> set (events db) \<and> isEventMatchingFilter f (toNostrEvent r)" for r
    using where_rows_sound [OF db f(1,2)] where_rows_complete [OF db f] by blast
  ultimately have "set ?es = {toNostrEvent r |r. r \<in> set (events db) \<and> deleted_at r = None
      \<and> isEventMatchingFilter f (toNostrEvent r)}"
    by (auto simp: isClientSubscribedToEvent_def)
  moreover have "handle_subscribe s EventRepository subs i [f] db =
      (EmitSubscribe i [f] # map (\<lambda>e. EmitMessage (OutgoingEventMessage i e)) ?es
       @ [EmitMessage (EndOfStoredEventsNotice i)], None)"
    using ok findByFilters_one [OF ok(2), of db]
    by (simp add: handle_subscribe_def fetchAndSend_def Let_def relay_defs)
  ultimately show ?thesis by (rule that [rotated])
qed

section \<open>Identifiers beside a tag query\<close>

lemma names_prefix_conds:
  assumes "ps \<noteq> []"
  shows "list_ex names_event_id (prefix_conds ColEventId ps)"
proof -
  obtain p where "p \<in> set ps" using assms by (cases ps) auto
  then have "p \<in> set (of_class Exact ps) \<or> p \<in> set (of_class Even ps) \<or> p \<in> set (of_class Odd ps)"
    by (cases "groupByLengthSpec p") (simp_all add: of_class_def)
  then show ?thesis by (auto simp: prefix_conds_def list_ex_iff bex_Un)
qed

lemma ambiguous_filter:
  assumes "ids f = Some (x # xs)" "generic_tag_queries f \<noteq> []"
  shows "ambiguous (filter_query f)"
  using assms names_prefix_conds [of "x # xs"] by (simp add: ambiguous_def filter_query_def prefix_clause_def)

lemma findByFilters_ambiguous:
  assumes "f \<in> set fs" "ids f = Some (x # xs)" "generic_tag_queries f \<noteq> []"
  shows "findByFilters fs db
    = Inl (PgError (''column reference '' @ [CHR 0x22] @ ''event_id'' @ [CHR 0x22] @ '' is ambiguous''))"
proof -
  have amb: "list_ex ambiguous (map filter_query fs)"
    using assms(1) ambiguous_filter [OF assms(2,3)] by (auto simp: list_ex_iff)
  then have "\<not> list_all query_ok (map filter_query fs)" by (auto simp: list_ex_iff list_all_iff query_ok_def)
  with amb assms(1) show ?thesis
    by (cases fs) (simp_all add: findByFilters_def run_select_def query_error_def)
qed

lemma handle_subscribe_ambiguous:
  assumes "canSubscribe s subs i (uniqWith filter_equals fs) = Inr None"
    and f: "f \<in> set fs" "ids f = Some (x # xs)" "generic_tag_queries f \<noteq> []"
  shows "handle_subscribe s EventRepository subs i fs db = ([EmitSubscribe i (uniqWith filter_equals fs)],
    Some (PgError (''column reference '' @ [CHR 0x22] @ ''event_id'' @ [CHR 0x22] @ '' is ambiguous'')))"
proof -
  obtain g where g: "g \<in> set (uniqWith filter_equals fs)" "filter_equals f g"
    using uniqWith_set(2) [where eq = filter_equals, OF filter_equals_refl f(1)] by blast
  have "set (generic_tag_queries g) = set (generic_tag_queries f)"
    using g(2) by (auto simp: filter_equals_def generic_tag_queries_def)
  then have "ids g = Some (x # xs)" "generic_tag_queries g \<noteq> []"
    using g(2) f(2,3) by (auto simp: filter_equals_def)
  from findByFilters_ambiguous [OF g(1) this, of db] show ?thesis
    using assms(1) by (simp add: handle_subscribe_def fetchAndSend_def relay_defs)
qed

end
