(* ===== verification/Node_Address.thy ===== *)
theory Node_Address
  imports Js_Values
begin

text \<open>
  Which texts Node's \<open>new SocketAddress\<close> takes for an address of a family; another one makes it throw.
  These are the numeric addresses that \<open>inet_pton\<close> reads, for version 6 with an optional zone.
\<close>

definition ipv4_octet :: "string \<Rightarrow> bool" where
  "ipv4_octet p \<longleftrightarrow> p \<noteq> [] \<and> list_all is_digit p \<and> (length p = 1 \<or> hd p \<noteq> CHR ''0'')
     \<and> (case digits_from 10 0 p of None \<Rightarrow> False | Some n \<Rightarrow> n \<le> 255)"

definition ipv4_address :: "string \<Rightarrow> bool" where
  "ipv4_address s \<longleftrightarrow> (let ps = js_split (CHR ''.'') s in length ps = 4 \<and> list_all ipv4_octet ps)"

definition hex_group :: "string \<Rightarrow> bool" where
  "hex_group g \<longleftrightarrow> g \<noteq> [] \<and> length g \<le> 4 \<and> digits_from 16 0 g \<noteq> None"

text \<open>How many groups of 16 bits there are; the last one may be a version 4 address, for two.\<close>

fun count_groups :: "bool \<Rightarrow> string list \<Rightarrow> nat option" where
  "count_groups tail [] = Some 0"
| "count_groups tail [g] = (if hex_group g then Some 1 else if tail \<and> ipv4_address g then Some 2 else None)"
| "count_groups tail (g # gs) = (if hex_group g then map_option Suc (count_groups tail gs) else None)"

definition groups_of :: "bool \<Rightarrow> string \<Rightarrow> nat option" where
  "groups_of tail s = (if s = [] then Some 0 else count_groups tail (js_split (CHR '':'') s))"

text \<open>The two sides of the first double colon.\<close>

fun double_colon :: "string \<Rightarrow> (string \<times> string) option" where
  "double_colon (c # d # s) =
     (if c = CHR '':'' \<and> d = CHR '':'' then Some ([], s)
      else map_option (\<lambda>(l, r). (c # l, r)) (double_colon (d # s)))"
| "double_colon _ = None"

definition ipv6_address :: "string \<Rightarrow> bool" where
  "ipv6_address s \<longleftrightarrow>
     (case double_colon s of
        None \<Rightarrow> groups_of True s = Some 8
      | Some (l, r) \<Rightarrow>
          (case (groups_of False l, groups_of True r) of (Some a, Some b) \<Rightarrow> a + b \<le> 7 | _ \<Rightarrow> False))"

text \<open>The family is 6 exactly for a text with a colon.\<close>

definition socket_address_ok :: "string \<Rightarrow> bool" where
  "socket_address_ok address \<longleftrightarrow>
     (if CHR '':'' \<in> set address then ipv6_address (takeWhile (\<lambda>c. c \<noteq> CHR ''%'') address)
      else ipv4_address address)"

text \<open>Addresses of both families, and texts that are none.\<close>

lemma socket_address_examples:
  "list_all socket_address_ok [''1.2.3.4'', ''::1'', ''2001:db8::7'']"
  "list_all (\<lambda>a. \<not> socket_address_ok a) [''unknown'', ''1.2.3.256'', ''1:2:3'']"
  by code_simp+

end
