(* ===== verification/Web_Socket.thy ===== *)
theory Web_Socket
  imports Subscribe_Handler Rate_Limiter Node_Address
begin

text \<open>
  adapters/web-socket-adapter.ts, adapters/web-socket-server-adapter.ts and utils/http.ts: the state
  of one client's socket and its adapter, the operations the adapter runs on the socket's and its
  own events, and the server adapter that owns the sockets. The listeners an event emitter holds are
  part of the state, because closing a socket removes them: afterwards an emission has no effect.
\<close>

section \<open>The address of a request\<close>

text \<open>\<open>headers\<close> is \<open>request.headers\<close>; an undefined header name reads the property \<open>undefined\<close>.\<close>

definition getRemoteAddress :: "(string \<rightharpoonup> string) \<Rightarrow> string \<Rightarrow> settings \<Rightarrow> string" where
  "getRemoteAddress headers remoteAddress s =
     (let header = (case net_remote_ip_header s of
                      Some h \<Rightarrow> h
                    | None \<Rightarrow> (case net_remoteIpHeader s of Some h \<Rightarrow> h | None \<Rightarrow> ''undefined''));
          result = (case headers header of Some a \<Rightarrow> a | None \<Rightarrow> remoteAddress)
      in hd (js_split (CHR '','') result))"

section \<open>Rate limits on addresses\<close>

text \<open>The loop over \<open>rateLimits\<close>: every limit is hit; \<open>n\<close> counts the hits made.\<close>

fun hit_address_limits ::
  "'r rate_limiter \<Rightarrow> (nat \<Rightarrow> int) \<Rightarrow> (rate_limit \<Rightarrow> string) \<Rightarrow> nat \<Rightarrow> bool \<Rightarrow> rate_limit list \<Rightarrow> 'r
     \<Rightarrow> (js_error + bool) \<times> 'r" where
  "hit_address_limits limiter clock key n limited [] r = (Inr limited, r)"
| "hit_address_limits limiter clock key n limited (l # ls) r =
     (case rl_hit limiter (clock n) (key l) 1 l r of
        (Inl err, r') \<Rightarrow> (Inl err, r')
      | (Inr isRateLimited, r') \<Rightarrow>
          hit_address_limits limiter clock key (Suc n) (isRateLimited \<or> limited) ls r')"

definition message_rate_key :: "string \<Rightarrow> rate_limit \<Rightarrow> string" where
  "message_rate_key client l = client @ '':message:'' @ int_str (rl_period l)"

definition connection_rate_key :: "string \<Rightarrow> rate_limit \<Rightarrow> string" where
  "connection_rate_key remoteAddress l = remoteAddress @ '':connection:'' @ int_str (rl_period l)"

text \<open>\<open>WebSocketAdapter.isRateLimited\<close>.\<close>

definition message_isRateLimited ::
  "settings \<Rightarrow> 'r rate_limiter \<Rightarrow> (nat \<Rightarrow> int) \<Rightarrow> string \<Rightarrow> 'r \<Rightarrow> (js_error + bool) \<times> 'r" where
  "message_isRateLimited s limiter clock client r =
     (let limits = message_limits_of s in
      if nonempty_list (ip_rateLimits limits) = []
         \<or> client \<in> set (nonempty_list (ip_whitelist limits))
      then (Inr False, r)
      else hit_address_limits limiter clock (message_rate_key client) 0 False
             (nonempty_list (ip_rateLimits limits)) r)"

text \<open>\<open>isRateLimited\<close> of handlers/request-handlers/rate-limiter-middleware.ts.\<close>

definition connection_isRateLimited ::
  "settings \<Rightarrow> 'r rate_limiter \<Rightarrow> (nat \<Rightarrow> int) \<Rightarrow> string \<Rightarrow> 'r \<Rightarrow> (js_error + bool) \<times> 'r" where
  "connection_isRateLimited s limiter clock remoteAddress r =
     (let limits = connection_limits_of s in
      case ip_rateLimits limits of
        None \<Rightarrow> (Inr False, r)
      | Some rateLimits \<Rightarrow>
          if remoteAddress \<in> set (nonempty_list (ip_whitelist limits)) then (Inr False, r)
          else hit_address_limits limiter clock (connection_rate_key remoteAddress) 0 False
                 rateLimits r)"

section \<open>One client\<close>

text \<open>
  \<open>ws_open\<close>: the socket's \<open>readyState\<close> is \<open>OPEN\<close>; \<open>ws_adapted\<close>: the server adapter has an adapter
  for the socket; \<open>ws_listening\<close>: the adapter's and the socket's listeners are attached;
  \<open>ws_sent\<close> and \<open>ws_pings\<close>: what was handed to the open socket.
\<close>

record ws_client =
  ws_address :: string
  ws_open :: bool
  ws_adapted :: bool
  ws_listening :: bool
  ws_alive :: bool
  ws_subscriptions :: subscriptions
  ws_sent :: "outgoing list"
  ws_pings :: nat

text \<open>A connected socket before and after its adapter is constructed.\<close>

definition new_socket :: "string \<Rightarrow> ws_client" where
  "new_socket addr =
     \<lparr>ws_address = addr, ws_open = True, ws_adapted = False, ws_listening = False,
      ws_alive = False, ws_subscriptions = [], ws_sent = [], ws_pings = 0\<rparr>"

definition construct_adapter :: "ws_client \<Rightarrow> ws_client" where
  "construct_adapter c =
     c\<lparr>ws_adapted := True, ws_listening := True, ws_alive := True, ws_subscriptions := []\<rparr>"

text \<open>
  A socket whose adapter cannot be constructed, because its address is none: the error goes to the
  process, and the socket stays as it is.
\<close>

definition accept_socket :: "string \<Rightarrow> ws_client" where
  "accept_socket addr =
     (if socket_address_ok addr then construct_adapter (new_socket addr) else new_socket addr)"

definition sendMessage :: "outgoing \<Rightarrow> ws_client \<Rightarrow> ws_client" where
  "sendMessage m c = (if \<not> ws_open c then c else c\<lparr>ws_sent := ws_sent c @ [m]\<rparr>)"

definition close_socket :: "ws_client \<Rightarrow> ws_client" where
  "close_socket c = c\<lparr>ws_open := False\<rparr>"

definition onSubscribed :: "string \<Rightarrow> subfilter list \<Rightarrow> ws_client \<Rightarrow> ws_client" where
  "onSubscribed subscriptionId filters c =
     c\<lparr>ws_subscriptions := AList.update subscriptionId filters (ws_subscriptions c)\<rparr>"

definition onUnsubscribed :: "string \<Rightarrow> ws_client \<Rightarrow> ws_client" where
  "onUnsubscribed subscriptionId c =
     c\<lparr>ws_subscriptions := AList.delete subscriptionId (ws_subscriptions c)\<rparr>"

definition onSendEvent :: "event \<Rightarrow> ws_client \<Rightarrow> ws_client" where
  "onSendEvent e c =
     fold (\<lambda>(subscriptionId, filters) c'.
             if list_ex (\<lambda>f. isEventMatchingFilter f e) filters
             then sendMessage (createOutgoingEventMessage subscriptionId e) c' else c')
       (ws_subscriptions c) c"

definition onHeartbeat :: "ws_client \<Rightarrow> ws_client" where
  "onHeartbeat c =
     (if \<not> ws_alive c \<and> ws_subscriptions c = [] then close_socket c
      else c\<lparr>ws_alive := False, ws_pings := (if ws_open c then ws_pings c + 1 else ws_pings c)\<rparr>)"

definition onClientPong :: "ws_client \<Rightarrow> ws_client" where
  "onClientPong c = c\<lparr>ws_alive := True\<rparr>"

definition onClientPing :: "ws_client \<Rightarrow> ws_client" where
  "onClientPing c = c\<lparr>ws_alive := True\<rparr>"

definition onClientClose :: "ws_client \<Rightarrow> ws_client" where
  "onClientClose c = c\<lparr>ws_alive := False, ws_subscriptions := [], ws_listening := False\<rparr>"

text \<open>A listener of the adapter or of the socket runs only while it is attached.\<close>

definition emit_on :: "(ws_client \<Rightarrow> ws_client) \<Rightarrow> ws_client \<Rightarrow> ws_client" where
  "emit_on listener c = (if ws_listening c then listener c else c)"

section \<open>The server adapter\<close>

text \<open>
  The open and closing sockets of the server, by connection number; \<open>srv_listening\<close>: the server
  adapter's own listeners are attached; \<open>srv_to_primary\<close>: the events handed to \<open>process.send\<close>.
\<close>

record ws_server =
  srv_clients :: "(nat \<times> ws_client) list"
  srv_listening :: bool
  srv_to_primary :: "event list"

definition map_clients :: "(ws_client \<Rightarrow> ws_client) \<Rightarrow> ws_server \<Rightarrow> ws_server" where
  "map_clients g srv = srv\<lparr>srv_clients := map (\<lambda>(k, c). (k, g c)) (srv_clients srv)\<rparr>"

definition map_client :: "nat \<Rightarrow> (ws_client \<Rightarrow> ws_client) \<Rightarrow> ws_server \<Rightarrow> ws_server" where
  "map_client k g srv =
     srv\<lparr>srv_clients := map (\<lambda>(k', c). (k', if k' = k then g c else c)) (srv_clients srv)\<rparr>"

definition server_onBroadcast :: "event \<Rightarrow> ws_server \<Rightarrow> ws_server" where
  "server_onBroadcast e =
     map_clients (\<lambda>c. if \<not> ws_open c then c else if \<not> ws_adapted c then c
                      else emit_on (onSendEvent e) c)"

definition server_emit_broadcast :: "event \<Rightarrow> ws_server \<Rightarrow> ws_server" where
  "server_emit_broadcast e srv = (if srv_listening srv then server_onBroadcast e srv else srv)"

definition server_onHeartbeat :: "ws_server \<Rightarrow> ws_server" where
  "server_onHeartbeat = map_clients (\<lambda>c. if ws_adapted c then emit_on onHeartbeat c else c)"

definition getConnectedClients :: "ws_server \<Rightarrow> nat" where
  "getConnectedClients srv = length (filter (\<lambda>(k, c). ws_open c) (srv_clients srv))"

text \<open>
  \<open>close\<close> removes the server adapter's listeners; its sockets are terminated when the HTTP server
  has closed.
\<close>

definition server_close :: "ws_server \<Rightarrow> ws_server" where
  "server_close srv = srv\<lparr>srv_listening := False\<rparr>"

definition server_terminate_all :: "ws_server \<Rightarrow> ws_server" where
  "server_terminate_all = map_clients close_socket"

text \<open>\<open>WebSocketAdapter.onBroadcast\<close>; a worker of the cluster has \<open>process.send\<close>.\<close>

definition adapter_onBroadcast :: "bool \<Rightarrow> event \<Rightarrow> ws_server \<Rightarrow> ws_server" where
  "adapter_onBroadcast is_worker e srv =
     (let srv1 = server_emit_broadcast e srv in
      if is_worker then srv1\<lparr>srv_to_primary := srv_to_primary srv1 @ [e]\<rparr> else srv1)"

text \<open>What an emission on the adapter of connection \<open>k\<close> does.\<close>

definition listening_at :: "nat \<Rightarrow> ws_server \<Rightarrow> bool" where
  "listening_at k srv =
     (case map_of (srv_clients srv) k of None \<Rightarrow> False | Some c \<Rightarrow> ws_listening c)"

fun emit :: "bool \<Rightarrow> nat \<Rightarrow> emission \<Rightarrow> ws_server \<Rightarrow> ws_server" where
  "emit is_worker k (EmitMessage m) srv = map_client k (emit_on (sendMessage m)) srv"
| "emit is_worker k (EmitBroadcast e) srv =
     (if listening_at k srv then adapter_onBroadcast is_worker e srv else srv)"
| "emit is_worker k (EmitSubscribe i fs) srv = map_client k (emit_on (onSubscribed i fs)) srv"
| "emit is_worker k (EmitUnsubscribe i) srv = map_client k (emit_on (onUnsubscribed i)) srv"

definition emit_all :: "bool \<Rightarrow> nat \<Rightarrow> emission list \<Rightarrow> ws_server \<Rightarrow> ws_server" where
  "emit_all is_worker k ems srv = fold (emit is_worker k) ems srv"

section \<open>Lemmas: what a client is sent\<close>

lemma sendMessage_simps [simp]:
  "ws_open (sendMessage m c) = ws_open c" "ws_subscriptions (sendMessage m c) = ws_subscriptions c"
  "ws_alive (sendMessage m c) = ws_alive c" "ws_listening (sendMessage m c) = ws_listening c"
  "ws_adapted (sendMessage m c) = ws_adapted c" "ws_address (sendMessage m c) = ws_address c"
  "ws_pings (sendMessage m c) = ws_pings c"
  by (simp_all add: sendMessage_def)

definition matching_subscriptions :: "event \<Rightarrow> subscriptions \<Rightarrow> string list" where
  "matching_subscriptions e subs =
     map fst (filter (\<lambda>(i, fs). \<exists>f\<in>set fs. isEventMatchingFilter f e) subs)"

lemma fold_send:
  "fold (\<lambda>(i, fs) c'. if list_ex (\<lambda>f. isEventMatchingFilter f e) fs
           then sendMessage (createOutgoingEventMessage i e) c' else c') subs c
     = (if ws_open c
        then c\<lparr>ws_sent := ws_sent c
               @ map (\<lambda>i. OutgoingEventMessage i e) (matching_subscriptions e subs)\<rparr>
        else c)"
proof (induction subs arbitrary: c)
  case Nil
  then show ?case by (simp add: matching_subscriptions_def)
next
  case (Cons p subs)
  then show ?case
    by (cases p) (auto simp: matching_subscriptions_def sendMessage_def list_ex_iff
        createOutgoingEventMessage_def)
qed

lemma onSendEvent_eq:
  "onSendEvent e c =
     (if ws_open c
      then c\<lparr>ws_sent := ws_sent c
             @ map (\<lambda>i. OutgoingEventMessage i e) (matching_subscriptions e (ws_subscriptions c))\<rparr>
      else c)"
  by (simp add: onSendEvent_def fold_send)

lemma onSendEvent_simps [simp]:
  "ws_open (onSendEvent e c) = ws_open c" "ws_subscriptions (onSendEvent e c) = ws_subscriptions c"
  "ws_alive (onSendEvent e c) = ws_alive c" "ws_listening (onSendEvent e c) = ws_listening c"
  "ws_adapted (onSendEvent e c) = ws_adapted c" "ws_address (onSendEvent e c) = ws_address c"
  by (simp_all add: onSendEvent_eq)

lemma hit_address_limits_result:
  assumes "\<And>n l r. \<exists>b r'. rl_hit limiter (clock n) (key l) 1 l r = (Inr b, r')"
  shows "\<exists>b r'. hit_address_limits limiter clock key n limited ls r = (Inr b, r')"
proof (induction ls arbitrary: n limited r)
  case (Cons l ls)
  obtain b r' where "rl_hit limiter (clock n) (key l) 1 l r = (Inr b, r')" using assms by blast
  then show ?case using Cons.IH [of "Suc n" "b \<or> limited" r'] by simp
qed simp

section \<open>Lemmas: client and server operations\<close>

lemma map_of_map_clients:
  "map_of (map (\<lambda>(k, c). (k, g k c)) cs) k = map_option (g k) (map_of cs k)"
  by (induction cs) auto

lemma map_of_map_client:
  "map_of (srv_clients (map_client k g srv)) k' =
     (if k' = k then map_option g (map_of (srv_clients srv) k) else map_of (srv_clients srv) k')"
  using map_of_map_clients [of "\<lambda>k' c. if k' = k then g c else c" "srv_clients srv" k']
  by (simp add: map_client_def option.map_ident)

lemma map_of_map_clients' [simp]:
  "map_of (srv_clients (map_clients g srv)) k = map_option g (map_of (srv_clients srv) k)"
  by (simp add: map_clients_def map_of_map_clients [of "\<lambda>k. g"])

lemma map_client_keys [simp]:
  "map fst (srv_clients (map_client k g srv)) = map fst (srv_clients srv)"
  "map fst (srv_clients (map_clients g srv)) = map fst (srv_clients srv)"
  by (simp_all add: map_client_def map_clients_def case_prod_beta comp_def)

lemma server_simps [simp]:
  "srv_listening (map_client k g srv) = srv_listening srv"
  "srv_listening (map_clients g srv) = srv_listening srv"
  "srv_to_primary (map_client k g srv) = srv_to_primary srv"
  "srv_to_primary (map_clients g srv) = srv_to_primary srv"
  by (simp_all add: map_client_def map_clients_def)

text \<open>A broadcast sends the event, once per matching subscription, to every open client.\<close>

lemma server_onBroadcast_client:
  assumes "map_of (srv_clients srv) k = Some c"
  shows "map_of (srv_clients (server_onBroadcast e srv)) k =
    Some (if ws_open c \<and> ws_adapted c \<and> ws_listening c
          then c\<lparr>ws_sent := ws_sent c
                 @ map (\<lambda>i. OutgoingEventMessage i e) (matching_subscriptions e (ws_subscriptions c))\<rparr>
          else c)"
  using assms by (simp add: server_onBroadcast_def emit_on_def onSendEvent_eq)

text \<open>A socket whose adapter could not be constructed is neither pinged nor closed nor sent anything.\<close>

lemma unadapted_socket_is_left_alone:
  assumes "map_of (srv_clients srv) k = Some (new_socket addr)"
  shows "map_of (srv_clients (server_onHeartbeat srv)) k = Some (new_socket addr)"
    "map_of (srv_clients (server_onBroadcast e srv)) k = Some (new_socket addr)"
    "emit_on g (new_socket addr) = new_socket addr"
  using assms by (simp_all add: server_onHeartbeat_def server_onBroadcast_def emit_on_def new_socket_def)

end
