(* ===== verification/Schemas.thy ===== *)
theory Schemas
  imports Event_Query Relay_Messages
begin

text \<open>
  schemas/*.ts: what the Joi schemas accept, as functions from a JSON value to the message the code
  then works with. \<open>validateSchema\<close> converts nothing (\<open>convert: false\<close>), so an accepted value is
  passed on as it is. A string is non-empty unless the schema allows the empty string, a number is a
  safe integer where \<open>multiple(1)\<close> asks for it, and an object has no key the schema does not name.
\<close>

section \<open>base-schema.ts\<close>

definition lower_hex_between :: "nat \<Rightarrow> nat \<Rightarrow> json \<Rightarrow> string option" where
  "lower_hex_between lo hi j =
     (case j of
        JStr s \<Rightarrow> if lower_hex s \<and> lo \<le> length s \<and> length s \<le> hi then Some s else None
      | _ \<Rightarrow> None)"

definition prefixSchema :: "json \<Rightarrow> string option" where
  "prefixSchema = lower_hex_between 4 64"

definition idSchema :: "json \<Rightarrow> string option" where
  "idSchema = lower_hex_between 64 64"

definition pubkeySchema :: "json \<Rightarrow> string option" where
  "pubkeySchema = lower_hex_between 64 64"

definition signatureSchema :: "json \<Rightarrow> string option" where
  "signatureSchema = lower_hex_between 128 128"

text \<open>\<open>Schema.number().min(0).multiple(1)\<close>; an unsafe number is an error.\<close>

definition natural_number :: "json \<Rightarrow> int option" where
  "natural_number j =
     (case j of JNum n \<Rightarrow> if 0 \<le> n \<and> n < 2 ^ 53 then Some n else None | _ \<Rightarrow> None)"

definition kindSchema :: "json \<Rightarrow> int option" where
  "kindSchema = natural_number"

definition createdAtSchema :: "json \<Rightarrow> int option" where
  "createdAtSchema j =
     (case natural_number j of
        None \<Rightarrow> None
      | Some n \<Rightarrow> if log10_below_10 n then Some n else None)"

definition subscriptionSchema :: "json \<Rightarrow> string option" where
  "subscriptionSchema j = (case j of JStr s \<Rightarrow> if s \<noteq> [] then Some s else None | _ \<Rightarrow> None)"

definition any_string :: "json \<Rightarrow> string option" where
  "any_string j = (case j of JStr s \<Rightarrow> Some s | _ \<Rightarrow> None)"

definition array_of :: "(json \<Rightarrow> 'a option) \<Rightarrow> json \<Rightarrow> 'a list option" where
  "array_of item j = (case j of JArr xs \<Rightarrow> those (map item xs) | _ \<Rightarrow> None)"

text \<open>\<open>[<string>, <string> 0..*]\<close>\<close>

definition tagSchema :: "json \<Rightarrow> tag option" where
  "tagSchema j =
     (case j of
        JArr (JStr identifier # values) \<Rightarrow>
          if identifier = [] then None
          else map_option ((#) identifier) (those (map any_string values))
      | _ \<Rightarrow> None)"

section \<open>event-schema.ts\<close>

definition event_keys :: "string list" where
  "event_keys = [''id'', ''pubkey'', ''created_at'', ''kind'', ''tags'', ''content'', ''sig'']"

definition eventSchema :: "json \<Rightarrow> event option" where
  "eventSchema j =
     (case j of
        JObj kvs \<Rightarrow>
          if \<not> set (map fst kvs) \<subseteq> set event_keys then None
          else
            (case (Option.bind (map_of kvs ''id'') idSchema,
                   Option.bind (map_of kvs ''pubkey'') pubkeySchema,
                   Option.bind (map_of kvs ''created_at'') createdAtSchema,
                   Option.bind (map_of kvs ''kind'') kindSchema,
                   Option.bind (map_of kvs ''tags'') (array_of tagSchema),
                   Option.bind (map_of kvs ''content'') any_string,
                   Option.bind (map_of kvs ''sig'') signatureSchema) of
               (Some i, Some p, Some c, Some k, Some ts, Some x, Some s) \<Rightarrow>
                 Some \<lparr>evt_id = i, pubkey = p, created_at = c, kind = k, tags = ts, sig = s,
                       content = x, ctx_address = None, meta_expiration = None,
                       meta_deduplication = None\<rparr>
             | _ \<Rightarrow> None)
      | _ \<Rightarrow> None)"

section \<open>filter-schema.ts\<close>

text \<open>The pattern \<open>/^#[a-z]$/\<close> of the other keys of a filter.\<close>

definition filter_keys :: "string list" where
  "filter_keys = [''ids'', ''authors'', ''kinds'', ''since'', ''until'', ''limit'']"

definition is_tag_key :: "string \<Rightarrow> bool" where
  "is_tag_key key \<longleftrightarrow>
     (case key of
        [h, c] \<Rightarrow> h = CHR ''#'' \<and> 97 \<le> (of_char c :: nat) \<and> (of_char c :: nat) \<le> 122
      | _ \<Rightarrow> False)"

definition criterion_string :: "json \<Rightarrow> string option" where
  "criterion_string j =
     (case j of JStr s \<Rightarrow> if s \<noteq> [] \<and> length s \<le> 1024 then Some s else None | _ \<Rightarrow> None)"

text \<open>An optional key: absent, present and accepted, or an error.\<close>

definition optional_key :: "(string \<times> json) list \<Rightarrow> string \<Rightarrow> (json \<Rightarrow> 'a option) \<Rightarrow> 'a option option" where
  "optional_key kvs key schema =
     (case map_of kvs key of
        None \<Rightarrow> Some None
      | Some j \<Rightarrow> map_option Some (schema j))"

definition tag_entries :: "(string \<times> json) list \<Rightarrow> (string \<times> string list) list option" where
  "tag_entries kvs =
     those (map (\<lambda>(key, j). map_option (Pair key) (array_of criterion_string j))
              (filter (\<lambda>(key, j). key \<notin> set filter_keys) kvs))"

definition filterSchema :: "json \<Rightarrow> subfilter option" where
  "filterSchema j =
     (case j of
        JObj kvs \<Rightarrow>
          if \<not> list_all (\<lambda>(key, j). key \<in> set filter_keys \<or> is_tag_key key) kvs then None
          else
            (case (optional_key kvs ''ids'' (array_of prefixSchema),
                   optional_key kvs ''authors'' (array_of prefixSchema),
                   optional_key kvs ''kinds'' (array_of kindSchema),
                   optional_key kvs ''since'' createdAtSchema,
                   optional_key kvs ''until'' createdAtSchema,
                   optional_key kvs ''limit'' natural_number,
                   tag_entries kvs) of
               (Some i, Some a, Some k, Some s, Some u, Some l, Some g) \<Rightarrow>
                 Some \<lparr>ids = i, kinds = k, since = s, until = u, authors = a, limit = l, generic = g\<rparr>
             | _ \<Rightarrow> None)
      | _ \<Rightarrow> None)"

section \<open>message-schema.ts\<close>

definition eventMessageSchema :: "json list \<Rightarrow> incoming option" where
  "eventMessageSchema items =
     (case items of
        [JStr t, j] \<Rightarrow>
          if t = ''EVENT'' then map_option (\<lambda>e. IncomingEventMessage e None) (eventSchema j) else None
      | _ \<Rightarrow> None)"

definition reqMessageSchema :: "json list \<Rightarrow> incoming option" where
  "reqMessageSchema items =
     (case items of
        JStr t # JStr subscriptionId # j # js \<Rightarrow>
          if t = ''REQ'' \<and> subscriptionId \<noteq> [] \<and> length subscriptionId \<le> 256 \<and> length items \<le> 12
          then map_option (SubscribeMessage subscriptionId) (those (map filterSchema (j # js)))
          else None
      | _ \<Rightarrow> None)"

definition closeMessageSchema :: "json list \<Rightarrow> incoming option" where
  "closeMessageSchema items =
     (case items of
        [JStr t, j] \<Rightarrow>
          if t = ''CLOSE'' then map_option UnsubscribeMessage (subscriptionSchema j) else None
      | _ \<Rightarrow> None)"

definition messageSchema :: "json \<Rightarrow> incoming option" where
  "messageSchema j =
     (case j of
        JArr items \<Rightarrow>
          (case items of
             JStr t # rest \<Rightarrow>
               if t = ''EVENT'' then eventMessageSchema items
               else if t = ''REQ'' then reqMessageSchema items
               else if t = ''CLOSE'' then closeMessageSchema items
               else None
           | _ \<Rightarrow> None)
      | _ \<Rightarrow> None)"

section \<open>What an accepted message satisfies\<close>

definition event_wf :: "event \<Rightarrow> bool" where
  "event_wf e \<longleftrightarrow>
     lower_hex (evt_id e) \<and> length (evt_id e) = 64 \<and> lower_hex (pubkey e) \<and> length (pubkey e) = 64
     \<and> lower_hex (sig e) \<and> length (sig e) = 128
     \<and> 0 \<le> created_at e \<and> created_at e < 10 ^ 10 \<and> 0 \<le> kind e \<and> kind e < 2 ^ 53
     \<and> (\<forall>t\<in>set (tags e). t \<noteq> [] \<and> hd t \<noteq> [])
     \<and> ctx_address e = None \<and> meta_expiration e = None \<and> meta_deduplication e = None"

definition filter_wf :: "subfilter \<Rightarrow> bool" where
  "filter_wf f \<longleftrightarrow>
     hex_filter f
     \<and> (\<forall>n. since f = Some n \<longrightarrow> 0 \<le> n \<and> n < 10 ^ 10) \<and> (\<forall>n. until f = Some n \<longrightarrow> 0 \<le> n \<and> n < 10 ^ 10)
     \<and> (\<forall>n. limit f = Some n \<longrightarrow> 0 \<le> n)
     \<and> (\<forall>(key, vs)\<in>set (generic f). is_tag_key key \<and> [] \<notin> set vs)"

lemma those_Some: "those xs = Some ys \<longleftrightarrow> xs = map Some ys"
proof (induction xs arbitrary: ys)
  case (Cons x xs)
  then show ?case by (cases x; cases ys) (auto split: option.splits)
qed auto

lemma lower_hex_between_Some:
  "lower_hex_between lo hi j = Some s \<longleftrightarrow> j = JStr s \<and> lower_hex s \<and> lo \<le> length s \<and> length s \<le> hi"
  by (auto simp: lower_hex_between_def split: json.splits if_splits)

lemma natural_number_Some: "natural_number j = Some n \<longleftrightarrow> j = JNum n \<and> 0 \<le> n \<and> n < 2 ^ 53"
  by (auto simp: natural_number_def split: json.splits if_splits)

lemma createdAtSchema_Some: "createdAtSchema j = Some n \<longleftrightarrow> j = JNum n \<and> 0 \<le> n \<and> n < 10 ^ 10"
  by (auto simp: createdAtSchema_def natural_number_def log10_below_10_def
      split: json.splits if_splits)

lemma array_of_Some: "array_of item j = Some ys \<longleftrightarrow> (\<exists>xs. j = JArr xs \<and> map item xs = map Some ys)"
  by (auto simp: array_of_def those_Some split: json.splits)

lemma map_Some_mem: "map f xs = map Some ys \<Longrightarrow> y \<in> set ys \<Longrightarrow> \<exists>x\<in>set xs. f x = Some y"
  by (metis (no_types, lifting) imageE image_eqI list.set_map)

lemma tagSchema_wf: "tagSchema j = Some t \<Longrightarrow> t \<noteq> [] \<and> hd t \<noteq> []"
  by (auto simp: tagSchema_def split: json.splits list.splits if_splits)

lemma eventSchema_wf:
  assumes "eventSchema j = Some e"
  shows "event_wf e"
proof -
  have tags: "t \<noteq> [] \<and> hd t \<noteq> []" if "array_of tagSchema jt = Some ts" "t \<in> set ts" for jt ts t
    using that tagSchema_wf map_Some_mem unfolding array_of_Some by metis
  show ?thesis
    using assms
    by (auto dest: tags simp: eventSchema_def event_wf_def idSchema_def pubkeySchema_def signatureSchema_def
        kindSchema_def lower_hex_between_Some natural_number_Some createdAtSchema_Some
        split: json.splits if_splits option.splits bind_splits)
qed

lemma is_tag_key_generic: "is_tag_key key \<Longrightarrow> isGenericTagQuery key"
  by (auto simp: is_tag_key_def isGenericTagQuery_def is_letter_def split: list.splits)

lemma optional_prefixes:
  assumes "optional_key kvs key (array_of prefixSchema) = Some ps"
  shows "hex_prefixes ps"
proof -
  have "list_all lower_hex xs" if "array_of prefixSchema x = Some xs" for x xs
    using that map_Some_mem unfolding array_of_Some list_all_iff prefixSchema_def
    by (metis lower_hex_between_Some)
  then show ?thesis
    using assms by (auto simp: optional_key_def hex_prefixes_def split: option.splits)
qed

lemma optional_key_Some:
  "optional_key kvs key schema = Some (Some n) \<Longrightarrow> (\<And>x m. schema x = Some m \<Longrightarrow> P m) \<Longrightarrow> P n"
  by (auto simp: optional_key_def split: option.splits)

lemma tag_entries_wf:
  assumes "tag_entries kvs = Some g" "(key, vs) \<in> set g"
    and "list_all (\<lambda>(key, j). key \<in> set filter_keys \<or> is_tag_key key) kvs"
  shows "is_tag_key key \<and> [] \<notin> set vs"
proof -
  have "map (\<lambda>(key, j). map_option (Pair key) (array_of criterion_string j))
      (filter (\<lambda>(key, j). key \<notin> set filter_keys) kvs) = map Some g"
    using assms(1) by (simp add: tag_entries_def those_Some)
  from map_Some_mem [OF this assms(2)] obtain x where
    x: "(key, x) \<in> set kvs" "key \<notin> set filter_keys" "array_of criterion_string x = Some vs"
    by auto
  have "criterion_string z \<noteq> Some []" for z
    by (auto simp: criterion_string_def split: json.splits if_splits)
  then have "[] \<notin> set vs"
    using x(3) map_Some_mem unfolding array_of_Some by metis
  then show ?thesis using assms(3) x(1,2) by (auto simp: list_all_iff)
qed

lemma filterSchema_wf:
  assumes "filterSchema j = Some f"
  shows "filter_wf f"
proof -
  obtain kvs i a k s u l g where j: "j = JObj kvs"
    "list_all (\<lambda>(key, j). key \<in> set filter_keys \<or> is_tag_key key) kvs"
    "optional_key kvs ''ids'' (array_of prefixSchema) = Some i"
    "optional_key kvs ''authors'' (array_of prefixSchema) = Some a"
    "optional_key kvs ''since'' createdAtSchema = Some s"
    "optional_key kvs ''until'' createdAtSchema = Some u"
    "optional_key kvs ''limit'' natural_number = Some l" "tag_entries kvs = Some g"
    "f = \<lparr>ids = i, kinds = k, since = s, until = u, authors = a, limit = l, generic = g\<rparr>"
    using assms by (auto simp: filterSchema_def split: json.splits if_splits option.splits)
  have "0 \<le> n \<and> n < 10 ^ 10" if "s = Some n \<or> u = Some n" for n
    using that j(5,6) optional_key_Some [of kvs _ createdAtSchema n "\<lambda>n. 0 \<le> n \<and> n < 10 ^ 10"]
    by (auto simp: createdAtSchema_Some)
  moreover have "0 \<le> n" if "l = Some n" for n
    using that j(7) optional_key_Some [of kvs _ natural_number n "\<lambda>n. 0 \<le> n"] by (auto simp: natural_number_Some)
  ultimately show ?thesis
    using optional_prefixes j(3,4) tag_entries_wf [OF j(8) _ j(2)] unfolding filter_wf_def hex_filter_def j(9) by auto
qed

lemma messageSchema_event:
  "messageSchema j = Some (IncomingEventMessage e secret) \<Longrightarrow> event_wf e \<and> secret = None"
  by (auto simp: messageSchema_def eventMessageSchema_def reqMessageSchema_def closeMessageSchema_def
      split: json.splits list.splits if_splits dest: eventSchema_wf)

lemma messageSchema_subscribe:
  assumes "messageSchema j = Some (SubscribeMessage i fs)"
  shows "i \<noteq> [] \<and> length i \<le> 256 \<and> fs \<noteq> [] \<and> length fs \<le> 10 \<and> (\<forall>f\<in>set fs. filter_wf f)"
proof -
  obtain x js where js: "i \<noteq> []" "length i \<le> 256" "length js \<le> 9"
    "map filterSchema (x # js) = map Some fs"
    using assms
    by (auto simp: messageSchema_def eventMessageSchema_def reqMessageSchema_def closeMessageSchema_def
        those_Some simp del: those.simps split: json.splits list.splits if_splits)
  have "length fs = length (x # js)" using js(4) by (metis length_map)
  moreover have "filter_wf f" if "f \<in> set fs" for f
    using map_Some_mem [OF js(4) that] filterSchema_wf by blast
  moreover have "fs \<noteq> []" using calculation(1) by auto
  ultimately show ?thesis using js by simp
qed

lemma messageSchema_unsubscribe:
  "messageSchema j = Some (UnsubscribeMessage i) \<Longrightarrow> i \<noteq> []"
  by (auto simp: messageSchema_def eventMessageSchema_def reqMessageSchema_def closeMessageSchema_def
      subscriptionSchema_def split: json.splits list.splits if_splits option.splits)

section \<open>Every well-formed event is accepted\<close>

definition json_of_event :: "event \<Rightarrow> json" where
  "json_of_event e =
     JObj [(''id'', JStr (evt_id e)), (''pubkey'', JStr (pubkey e)),
           (''created_at'', JNum (created_at e)), (''kind'', JNum (kind e)),
           (''tags'', JArr (map (\<lambda>t. JArr (map JStr t)) (tags e))),
           (''content'', JStr (content e)), (''sig'', JStr (sig e))]"

lemma tagSchema_json: "t \<noteq> [] \<Longrightarrow> hd t \<noteq> [] \<Longrightarrow> tagSchema (JArr (map JStr t)) = Some t"
proof (cases t)
  case (Cons i vs)
  assume "hd t \<noteq> []"
  have "map any_string (map JStr vs) = map Some vs" by (simp add: any_string_def)
  then have "those (map any_string (map JStr vs)) = Some vs" by (simp only: those_Some)
  then show ?thesis using \<open>hd t \<noteq> []\<close> by (simp add: Cons tagSchema_def)
qed simp

lemma eventSchema_json:
  assumes "event_wf e"
  shows "eventSchema (json_of_event e) = Some e"
proof -
  have "map tagSchema (map (\<lambda>t. JArr (map JStr t)) (tags e)) = map Some (tags e)"
    using assms tagSchema_json by (auto simp: event_wf_def)
  then have "array_of tagSchema (JArr (map (\<lambda>t. JArr (map JStr t)) (tags e))) = Some (tags e)"
    unfolding array_of_Some by blast
  moreover have "idSchema (JStr (evt_id e)) = Some (evt_id e)"
    "pubkeySchema (JStr (pubkey e)) = Some (pubkey e)" "signatureSchema (JStr (sig e)) = Some (sig e)"
    "createdAtSchema (JNum (created_at e)) = Some (created_at e)"
    "kindSchema (JNum (kind e)) = Some (kind e)" "any_string (JStr (content e)) = Some (content e)"
    using assms
    by (simp_all add: event_wf_def idSchema_def pubkeySchema_def signatureSchema_def kindSchema_def
        lower_hex_between_Some createdAtSchema_Some natural_number_Some any_string_def)
  ultimately show ?thesis
    using assms by (simp add: eventSchema_def json_of_event_def event_keys_def event_wf_def)
qed

end
