(* ===== verification/Relay_System.thy ===== *)
theory Relay_System
  imports Event_Guards Web_Socket Schemas
begin

text \<open>
  A worker of the relay: the sockets, the stores behind the repositories and the rate limiter, and
  the messages in flight. factories/message-handler-factory.ts chooses the handler of a message and
  factories/websocket-adapter-factory.ts, factories/worker-factory.ts and app/worker.ts put the
  parts together.

  The code of a worker runs in turns of an event loop. A turn here is a step: a message arrives
  (\<open>onClientMessage\<close> up to its first \<open>await\<close>), a message is handled (from there to the end of its
  work on the stores, together with what the handler emits before its next \<open>await\<close>), one later
  emission of a handler is delivered, a socket event, a heartbeat, a message of the primary process.
  Handled messages and deliveries of different handlers interleave freely, the emissions of one
  handler keep their order, and a socket may close at any moment in between.
\<close>

section \<open>State\<close>

record ('db, 'u, 'r) relay =
  r_server :: ws_server
  r_store :: "('db, 'u, 'r) store"
  r_inbox :: "(nat \<times> bytes) list"
  r_pending :: "(nat \<times> emission list) list"

text \<open>
  \<open>rt_parse\<close> is \<open>JSON.parse\<close> of the message's text or the message of its \<open>SyntaxError\<close>; an integral
  number is the only kind of number it gives, because every schema rejects another one.
  \<open>rt_joi_message\<close> is the text of Joi's \<open>ValidationError\<close> for a value.
\<close>

record ('db, 'u, 'r) runtime =
  rt_env :: "('db, 'u, 'r) handler_env"
  rt_is_worker :: bool
  rt_parse :: "bytes \<Rightarrow> string + json"
  rt_joi_message :: "json \<Rightarrow> string"

definition attemptValidation ::
  "('db, 'u, 'r) runtime \<Rightarrow> bytes \<Rightarrow> string + incoming" where
  "attemptValidation rt raw =
     (case rt_parse rt raw of
        Inl err \<Rightarrow> Inl err
      | Inr j \<Rightarrow> (case messageSchema j of None \<Rightarrow> Inl (rt_joi_message rt j) | Some m \<Rightarrow> Inr m))"

section \<open>Handling a message\<close>

text \<open>
  \<open>messageHandlerFactory\<close> and the handler's \<open>handleMessage\<close>. The third component tells how many of
  the emissions happen before the handler's first \<open>await\<close>.
\<close>

definition handle_incoming ::
  "('db, 'u, 'r) runtime \<Rightarrow> clock_readings \<Rightarrow> ws_client \<Rightarrow> incoming \<Rightarrow> ('db, 'u, 'r) store
     \<Rightarrow> emission list \<times> js_error option \<times> nat \<times> ('db, 'u, 'r) store" where
  "handle_incoming rt clk c m st =
     (let env = (rt_env rt)\<lparr>env_address := ws_address c\<rparr> in
      case m of
        IncomingEventMessage e secret \<Rightarrow>
          (case handle_event env clk e (Some (ws_address c)) st of
             (ems, err, st') \<Rightarrow> (ems, err, 0, st'))
      | SubscribeMessage subscriptionId filters \<Rightarrow>
          (case handle_subscribe (env_settings env) (env_events env) (ws_subscriptions c)
                  subscriptionId filters (st_events st) of
             (ems, err) \<Rightarrow> (ems, err, 1, st))
      | UnsubscribeMessage subscriptionId \<Rightarrow> (handle_unsubscribe subscriptionId, None, 1, st))"

text \<open>
  \<open>onClientMessage\<close> after \<open>this.alive = true\<close>. An error other than a validation error is logged and
  the client hears nothing.
\<close>

definition onClientMessage ::
  "('db, 'u, 'r) runtime \<Rightarrow> (nat \<Rightarrow> int) \<Rightarrow> clock_readings \<Rightarrow> nat \<Rightarrow> bytes \<Rightarrow> ('db, 'u, 'r) relay
     \<Rightarrow> ('db, 'u, 'r) relay" where
  "onClientMessage rt mclk clk k raw relay =
     (case map_of (srv_clients (r_server relay)) k of
        None \<Rightarrow> relay
      | Some c \<Rightarrow>
          (case message_isRateLimited (env_settings (rt_env rt)) (env_limiter (rt_env rt)) mclk
                  (ws_address c) (st_cache (r_store relay)) of
             (Inl err, cache) \<Rightarrow> relay\<lparr>r_store := (r_store relay)\<lparr>st_cache := cache\<rparr>\<rparr>
           | (Inr True, cache) \<Rightarrow>
               relay\<lparr>r_store := (r_store relay)\<lparr>st_cache := cache\<rparr>,
                     r_server := map_client k (sendMessage (createNoticeMessage ''rate limited''))
                                   (r_server relay)\<rparr>
           | (Inr False, cache) \<Rightarrow>
               (case attemptValidation rt raw of
                  Inl err \<Rightarrow>
                    relay\<lparr>r_store := (r_store relay)\<lparr>st_cache := cache\<rparr>,
                          r_server := map_client k
                            (sendMessage (createNoticeMessage (''invalid: '' @ err))) (r_server relay)\<rparr>
                | Inr m \<Rightarrow>
                    (case handle_incoming rt clk c m ((r_store relay)\<lparr>st_cache := cache\<rparr>) of
                       (ems, err, n, st) \<Rightarrow>
                         relay\<lparr>r_store := st,
                               r_server := emit_all (rt_is_worker rt) k (take n ems) (r_server relay),
                               r_pending := r_pending relay @ [(k, drop n ems)]\<rparr>))))"

text \<open>\<open>WebSocketServerAdapter.onConnection\<close>: a limited connection is terminated.\<close>

definition onConnection ::
  "('db, 'u, 'r) runtime \<Rightarrow> (nat \<Rightarrow> int) \<Rightarrow> nat \<Rightarrow> (string \<rightharpoonup> string) \<Rightarrow> string
     \<Rightarrow> ('db, 'u, 'r) relay \<Rightarrow> ('db, 'u, 'r) relay" where
  "onConnection rt clock k headers peer relay =
     (let s = env_settings (rt_env rt);
          addr = getRemoteAddress headers peer s;
          (limited, cache) = connection_isRateLimited s (env_limiter (rt_env rt)) clock addr
                               (st_cache (r_store relay));
          c = (case limited of
                 Inl err \<Rightarrow> new_socket addr
               | Inr True \<Rightarrow> close_socket (new_socket addr)
               | Inr False \<Rightarrow> accept_socket addr)
      in relay\<lparr>r_store := (r_store relay)\<lparr>st_cache := cache\<rparr>,
               r_server := (r_server relay)\<lparr>srv_clients := srv_clients (r_server relay) @ [(k, c)]\<rparr>\<rparr>)"

section \<open>Steps\<close>

definition with_server ::
  "(ws_server \<Rightarrow> ws_server) \<Rightarrow> ('db, 'u, 'r) relay \<Rightarrow> ('db, 'u, 'r) relay" where
  "with_server g relay = relay\<lparr>r_server := g (r_server relay)\<rparr>"

text \<open>\<open>AppWorker.onMessage\<close>: what the primary process sends is emitted on the server adapter.\<close>

definition worker_onMessage :: "event \<Rightarrow> ('db, 'u, 'r) relay \<Rightarrow> ('db, 'u, 'r) relay" where
  "worker_onMessage e = with_server (server_emit_broadcast e)"

text \<open>
  \<open>peer_ok\<close> is what is known of the events other workers send. A closed socket stays in the list:
  no operation reads it again, because its listeners are gone.
\<close>

inductive relay_step ::
  "('db, 'u, 'r) runtime \<Rightarrow> (event \<Rightarrow> bool) \<Rightarrow> ('db, 'u, 'r) relay \<Rightarrow> ('db, 'u, 'r) relay \<Rightarrow> bool"
  for rt peer_ok where
  connect: "k \<notin> fst ` set (srv_clients (r_server relay))
     \<Longrightarrow> relay_step rt peer_ok relay (onConnection rt clock k headers peer relay)"
| receive: "map_of (srv_clients (r_server relay)) k = Some c \<Longrightarrow> ws_listening c \<Longrightarrow> ws_open c
     \<Longrightarrow> relay_step rt peer_ok relay
           (relay\<lparr>r_server := map_client k (\<lambda>c. c\<lparr>ws_alive := True\<rparr>) (r_server relay),
                  r_inbox := r_inbox relay @ [(k, raw)]\<rparr>)"
| handle: "(k, raw) \<in> set (r_inbox relay)
     \<Longrightarrow> relay_step rt peer_ok relay
           (onClientMessage rt mclk clk k raw (relay\<lparr>r_inbox := remove1 (k, raw) (r_inbox relay)\<rparr>))"
| deliver: "r_pending relay = before @ (k, em # ems) # after
     \<Longrightarrow> relay_step rt peer_ok relay
           (relay\<lparr>r_server := emit (rt_is_worker rt) k em (r_server relay),
                  r_pending := before @ (k, ems) # after\<rparr>)"
| pong: "relay_step rt peer_ok relay (with_server (map_client k (emit_on onClientPong)) relay)"
| ping: "relay_step rt peer_ok relay (with_server (map_client k (emit_on onClientPing)) relay)"
| closing: "relay_step rt peer_ok relay (with_server (map_client k close_socket) relay)"
| closed: "map_of (srv_clients (r_server relay)) k = Some c \<Longrightarrow> \<not> ws_open c
     \<Longrightarrow> relay_step rt peer_ok relay (with_server (map_client k (emit_on onClientClose)) relay)"
| heartbeat: "relay_step rt peer_ok relay (with_server server_onHeartbeat relay)"
| peer_event: "peer_ok e \<Longrightarrow> relay_step rt peer_ok relay (worker_onMessage e relay)"
| close_server: "relay_step rt peer_ok relay (with_server server_close relay)"
| terminate: "\<not> srv_listening (r_server relay)
     \<Longrightarrow> relay_step rt peer_ok relay (with_server server_terminate_all relay)"

inductive_cases relay_stepE: "relay_step rt peer_ok relay relay'"

definition initial_relay :: "('db, 'u, 'r) store \<Rightarrow> ('db, 'u, 'r) relay" where
  "initial_relay st =
     \<lparr>r_server = \<lparr>srv_clients = [], srv_listening = True, srv_to_primary = []\<rparr>,
      r_store = st, r_inbox = [], r_pending = []\<rparr>"

inductive reachable ::
  "('db, 'u, 'r) runtime \<Rightarrow> (event \<Rightarrow> bool) \<Rightarrow> ('db, 'u, 'r) store \<Rightarrow> ('db, 'u, 'r) relay \<Rightarrow> bool"
  for rt peer_ok st where
  start: "reachable rt peer_ok st (initial_relay st)"
| step: "reachable rt peer_ok st relay \<Longrightarrow> relay_step rt peer_ok relay relay'
     \<Longrightarrow> reachable rt peer_ok st relay'"

text \<open>An invariant that every step keeps holds in every reachable state.\<close>

lemma reachable_invariant:
  assumes "reachable rt peer_ok st relay" "I (initial_relay st)"
    and "\<And>relay relay'. I relay \<Longrightarrow> relay_step rt peer_ok relay relay' \<Longrightarrow> I relay'"
  shows "I relay"
  using assms(1) by (induction rule: reachable.induct) (use assms(2,3) in blast)+

section \<open>Steps seen from one client\<close>

text \<open>
  A property of clients that the constructors establish and every client operation keeps holds of
  every client, whatever the messages.
\<close>

definition all_clients :: "(ws_client \<Rightarrow> bool) \<Rightarrow> ws_server \<Rightarrow> bool" where
  "all_clients P srv \<longleftrightarrow> (\<forall>k c. (k, c) \<in> set (srv_clients srv) \<longrightarrow> P c)"

lemma all_clients_map_client:
  "all_clients P srv \<Longrightarrow> (\<And>c. P c \<Longrightarrow> P (g c)) \<Longrightarrow> all_clients P (map_client k g srv)"
  by (auto simp: all_clients_def map_client_def)

lemma all_clients_map_clients:
  "all_clients P srv \<Longrightarrow> (\<And>c. P c \<Longrightarrow> P (g c)) \<Longrightarrow> all_clients P (map_clients g srv)"
  by (auto simp: all_clients_def map_clients_def)

lemma all_clients_primary [simp]:
  "all_clients P (srv\<lparr>srv_to_primary := es\<rparr>) = all_clients P srv"
  "all_clients P (srv\<lparr>srv_listening := b\<rparr>) = all_clients P srv"
  by (simp_all add: all_clients_def)

lemma all_clients_server_emit:
  assumes "all_clients P srv" "\<And>c. P c \<Longrightarrow> P (emit_on (onSendEvent e) c)"
  shows "all_clients P (server_emit_broadcast e srv)"
  unfolding server_emit_broadcast_def server_onBroadcast_def
  using assms by (auto intro!: all_clients_map_clients)

lemma all_clients_broadcast:
  assumes "all_clients P srv" "\<And>c. P c \<Longrightarrow> P (emit_on (onSendEvent e) c)"
  shows "all_clients P (adapter_onBroadcast w e srv)"
  using all_clients_server_emit [OF assms] by (simp add: adapter_onBroadcast_def Let_def)

end
