(* ===== verification/Relay_Invariants.thy ===== *)
theory Relay_Invariants
  imports Relay_System
begin

text \<open>
  Invariants of a worker in every reachable state. The locale \<open>relay_invariant\<close> is the contract of
  an invariant made of a property \<open>P\<close> of every client, \<open>S\<close> of the stores and \<open>Q\<close> of the emissions
  in flight; it is interpreted on the worker the factories build, once for the subscriptions a client
  may hold and once for the authenticity of what clients are sent.
\<close>

section \<open>Emissions on the adapter itself\<close>

fun own_emit :: "emission \<Rightarrow> ws_client \<Rightarrow> ws_client" where
  "own_emit (EmitMessage m) c = sendMessage m c"
| "own_emit (EmitBroadcast e) c = c"
| "own_emit (EmitSubscribe i fs) c = onSubscribed i fs c"
| "own_emit (EmitUnsubscribe i) c = onUnsubscribed i c"

lemma own_emit_listening [simp]: "ws_listening (own_emit em c) = ws_listening c"
  by (cases em) (simp_all add: onSubscribed_def onUnsubscribed_def)

lemma own_emit_eqs:
  "own_emit (EmitMessage m) = sendMessage m" "own_emit (EmitSubscribe i fs) = onSubscribed i fs"
  "own_emit (EmitUnsubscribe i) = onUnsubscribed i"
  by (rule ext, simp)+

lemma emit_own: "broadcasts [em] = [] \<Longrightarrow> emit w k em srv = map_client k (emit_on (own_emit em)) srv"
  by (cases em) (simp_all add: own_emit_eqs)

lemma map_client_comp: "map_client k g (map_client k h srv) = map_client k (\<lambda>c. g (h c)) srv"
  by (simp add: map_client_def comp_def case_prod_beta)

lemma map_client_id [simp]: "map_client k (\<lambda>c. c) srv = srv"
  by (simp add: map_client_def case_prod_beta)

lemma emit_on_fold:
  "emit_on (fold own_emit ems) (emit_on (own_emit em) c) = emit_on (fold own_emit (em # ems)) c"
  by (simp add: emit_on_def)

lemma emit_all_own:
  "broadcasts ems = [] \<Longrightarrow> emit_all w k ems srv = map_client k (emit_on (fold own_emit ems)) srv"
proof (induction ems arbitrary: srv)
  case Nil
  have "emit_on (\<lambda>c. c) = (\<lambda>c. c)" by (auto simp: emit_on_def)
  then show ?case by (simp add: emit_all_def id_def)
next
  case (Cons em ems)
  then have rest: "broadcasts ems = []" and "broadcasts [em] = []"
    using broadcasts_append [of "[em]" ems] by simp_all
  then have em: "emit w k em srv = map_client k (emit_on (own_emit em)) srv" by (simp only: emit_own)
  have "emit_all w k (em # ems) srv = emit_all w k ems (emit w k em srv)"
    by (simp add: emit_all_def)
  also have "\<dots> = map_client k (emit_on (fold own_emit ems)) (map_client k (emit_on (own_emit em)) srv)"
    unfolding Cons.IH [OF rest] em ..
  also have "\<dots> = map_client k (emit_on (fold own_emit (em # ems))) srv"
    unfolding map_client_comp emit_on_fold ..
  finally show ?case .
qed

section \<open>Keys\<close>

definition distinct_keys :: "ws_server \<Rightarrow> bool" where
  "distinct_keys srv \<longleftrightarrow> distinct (map fst (srv_clients srv))"

lemma distinct_keys_simps [simp]:
  "distinct_keys (map_client k g srv) = distinct_keys srv"
  "distinct_keys (map_clients g srv) = distinct_keys srv"
  "distinct_keys (srv\<lparr>srv_to_primary := es\<rparr>) = distinct_keys srv"
  "distinct_keys (srv\<lparr>srv_listening := b\<rparr>) = distinct_keys srv"
  by (simp_all add: distinct_keys_def)

lemma distinct_keys_server_emit [simp]: "distinct_keys (server_emit_broadcast e srv) = distinct_keys srv"
  by (simp add: server_emit_broadcast_def server_onBroadcast_def)

lemma distinct_keys_emit [simp]: "distinct_keys (emit w k em srv) = distinct_keys srv"
  by (cases em) (simp_all add: adapter_onBroadcast_def Let_def)

lemma all_clients_at:
  assumes "distinct_keys srv" "all_clients P srv" "map_of (srv_clients srv) k = Some c" "P (g c)"
  shows "all_clients P (map_client k g srv)"
proof -
  have "c' = c" if "(k, c') \<in> set (srv_clients srv)" for c'
    using assms(1,3) that by (simp add: distinct_keys_def)
  then show ?thesis using assms(2,4) by (auto simp: all_clients_def map_client_def)
qed

section \<open>What is handed to the primary process\<close>

lemma to_primary_simps [simp]:
  "srv_to_primary (map_client k g srv) = srv_to_primary srv"
  "srv_to_primary (map_clients h srv) = srv_to_primary srv"
  by (simp_all add: map_client_def map_clients_def)

lemma to_primary_server_ops [simp]:
  "srv_to_primary (server_emit_broadcast e srv) = srv_to_primary srv"
  "srv_to_primary (server_onHeartbeat srv) = srv_to_primary srv"
  "srv_to_primary (server_close srv) = srv_to_primary srv"
  "srv_to_primary (server_terminate_all srv) = srv_to_primary srv"
  by (simp_all add: server_emit_broadcast_def server_onBroadcast_def server_onHeartbeat_def server_close_def
      server_terminate_all_def)

lemma to_primary_emit:
  "srv_to_primary (emit w k em srv) = srv_to_primary srv @ (if w \<and> listening_at k srv then broadcasts [em] else [])"
  by (cases em) (simp_all add: adapter_onBroadcast_def Let_def)

section \<open>The contract of an invariant\<close>

locale relay_invariant =
  fixes rt :: "('db, 'u, 'r) runtime"
    and peer_ok :: "event \<Rightarrow> bool"
    and S :: "('db, 'u, 'r) store \<Rightarrow> bool"
    and P :: "ws_client \<Rightarrow> bool"
    and Q :: "emission \<Rightarrow> bool"
  assumes new: "P (new_socket a)"
    and construct: "P (construct_adapter (new_socket a))"
    and close: "P c \<Longrightarrow> P (close_socket c)"
    and alive: "P c \<Longrightarrow> P (c\<lparr>ws_alive := b\<rparr>)"
    and pings: "P c \<Longrightarrow> P (c\<lparr>ws_pings := p\<rparr>)"
    and closed: "P c \<Longrightarrow> P (onClientClose c)"
    and notice: "P c \<Longrightarrow> P (sendMessage (NoticeMessage text) c)"
    and late: "Q em \<Longrightarrow> P c \<Longrightarrow> ws_listening c \<Longrightarrow> P (own_emit em c)"
    and event: "Q (EmitBroadcast e) \<Longrightarrow> P c \<Longrightarrow> P (onSendEvent e c)"
    and peer: "peer_ok e \<Longrightarrow> Q (EmitBroadcast e)"
    and cache: "S st \<Longrightarrow> S (st\<lparr>st_cache := r\<rparr>)"
    and handled: "S st \<Longrightarrow> P c \<Longrightarrow> messageSchema j = Some m
      \<Longrightarrow> handle_incoming rt clk c m st = (ems, err, n, st')
      \<Longrightarrow> S st' \<and> broadcasts (take n ems) = [] \<and> P (emit_on (fold own_emit (take n ems)) c)
          \<and> (\<forall>em\<in>set (drop n ems). Q em)"
begin

definition holds :: "('db, 'u, 'r) relay \<Rightarrow> bool" where
  "holds relay \<longleftrightarrow>
     distinct_keys (r_server relay) \<and> all_clients P (r_server relay) \<and> S (r_store relay)
     \<and> (\<forall>(k, ems)\<in>set (r_pending relay). \<forall>em\<in>set ems. Q em)"

lemma P_emit_on: "P c \<Longrightarrow> (ws_listening c \<Longrightarrow> P (g c)) \<Longrightarrow> P (emit_on g c)"
  by (simp add: emit_on_def)

lemma all_clients_emit:
  assumes "Q em" "all_clients P srv"
  shows "all_clients P (emit w k em srv)"
proof (cases "broadcasts [em] = []")
  case True
  have "all_clients P (map_client k (emit_on (own_emit em)) srv)"
    by (rule all_clients_map_client [OF assms(2)]) (auto simp: emit_on_def intro: late [OF assms(1)])
  then show ?thesis by (simp only: emit_own [OF True])
next
  case False
  then obtain e where e: "em = EmitBroadcast e" by (cases em) auto
  then have "P (emit_on (onSendEvent e) c)" if "P c" for c
    using event assms(1) that by (auto simp: emit_on_def)
  then show ?thesis using all_clients_broadcast [OF assms(2)] assms(2) e by simp
qed

lemma holds_server:
  assumes "holds relay" "distinct_keys (g (r_server relay)) = distinct_keys (r_server relay)"
    "all_clients P (r_server relay) \<Longrightarrow> all_clients P (g (r_server relay))"
  shows "holds (with_server g relay)"
  using assms by (simp add: holds_def with_server_def)

lemma holds_client:
  "holds relay \<Longrightarrow> (\<And>c. P c \<Longrightarrow> P (g c)) \<Longrightarrow> holds (with_server (map_client k g) relay)"
  by (rule holds_server) (auto intro: all_clients_map_client)

lemma handled_holds:
  assumes h: "holds relay" and k: "map_of (srv_clients (r_server relay)) k = Some c"
    and m: "attemptValidation rt raw = Inr m"
    and run: "handle_incoming rt clk c m ((r_store relay)\<lparr>st_cache := r\<rparr>) = (ems, err, n, st')"
  shows "S st'" "\<forall>em\<in>set (drop n ems). Q em"
    "all_clients P (emit_all (rt_is_worker rt) k (take n ems) (r_server relay))"
    "distinct_keys (emit_all (rt_is_worker rt) k (take n ems) (r_server relay))"
proof -
  obtain j where j: "messageSchema j = Some m"
    using m by (auto simp: attemptValidation_def split: sum.splits option.splits)
  have "S ((r_store relay)\<lparr>st_cache := r\<rparr>)" "P c"
    using h cache map_of_SomeD [OF k] by (auto simp: holds_def all_clients_def)
  note res = handled [OF this j run]
  show "S st'" "\<forall>em\<in>set (drop n ems). Q em" using res by blast+
  show "all_clients P (emit_all (rt_is_worker rt) k (take n ems) (r_server relay))"
    using res h k by (auto simp: emit_all_own holds_def intro: all_clients_at)
  show "distinct_keys (emit_all (rt_is_worker rt) k (take n ems) (r_server relay))"
    using res h by (simp add: emit_all_own holds_def)
qed

lemma onClientMessage_holds:
  assumes h: "holds relay"
  shows "holds (onClientMessage rt mclk clk k raw relay)"
proof (cases "map_of (srv_clients (r_server relay)) k")
  case None
  then show ?thesis using h by (simp add: onClientMessage_def)
next
  case (Some c)
  obtain lim r where lim: "message_isRateLimited (env_settings (rt_env rt)) (env_limiter (rt_env rt))
      mclk (ws_address c) (st_cache (r_store relay)) = (lim, r)"
    by fastforce
  let ?st = "(r_store relay)\<lparr>st_cache := r\<rparr>"
  have st: "S ?st" using h cache by (simp add: holds_def)
  have note_ok: "holds (relay\<lparr>r_store := ?st, r_server := map_client k
      (sendMessage (createNoticeMessage m)) (r_server relay)\<rparr>)" for m
    using h st notice by (auto simp: holds_def relay_defs intro: all_clients_map_client)
  consider err where "lim = Inl err" | "lim = Inr True" | "lim = Inr False"
    by (metis (full_types) sum.exhaust)
  then show ?thesis
  proof cases
    case 1
    then show ?thesis using Some lim h st by (simp add: onClientMessage_def holds_def)
  next
    case 2
    then show ?thesis using Some lim note_ok by (simp add: onClientMessage_def)
  next
    case 3
    show ?thesis
    proof (cases "attemptValidation rt raw")
      case (Inl err)
      then show ?thesis using Some lim 3 note_ok by (simp add: onClientMessage_def)
    next
      case (Inr m)
      obtain ems err n st' where run: "handle_incoming rt clk c m ?st = (ems, err, n, st')"
        by (metis prod_cases4)
      show ?thesis
        using handled_holds [OF h Some Inr run] Some lim 3 Inr run h by (auto simp: onClientMessage_def holds_def)
    qed
  qed
qed

lemma onConnection_holds:
  assumes "holds relay" "k \<notin> fst ` set (srv_clients (r_server relay))"
  shows "holds (onConnection rt clock k headers peer relay)"
proof -
  obtain lim r where lim: "connection_isRateLimited (env_settings (rt_env rt))
      (env_limiter (rt_env rt)) clock (getRemoteAddress headers peer (env_settings (rt_env rt)))
      (st_cache (r_store relay)) = (lim, r)"
    by fastforce
  have "P (case lim of Inl err \<Rightarrow> new_socket a | Inr True \<Rightarrow> close_socket (new_socket a)
      | Inr False \<Rightarrow> accept_socket a)" for a
    using new construct close by (auto simp: accept_socket_def split: sum.splits bool.splits)
  then show ?thesis
    using assms cache lim
    by (auto simp: onConnection_def Let_def holds_def distinct_keys_def all_clients_def)
qed

lemma step_holds:
  assumes "relay_step rt peer_ok relay relay'" "holds relay"
  shows "holds relay'"
  using assms
proof (cases rule: relay_step.cases)
  case (connect k clock headers peer)
  then show ?thesis using assms(2) onConnection_holds by simp
next
  case (receive k c raw)
  have "holds (with_server (map_client k (\<lambda>c. c\<lparr>ws_alive := True\<rparr>)) relay)"
    using assms(2) alive by (rule holds_client)
  then show ?thesis using receive by (simp add: holds_def with_server_def)
next
  case (handle k raw mclk clk)
  have "holds (relay\<lparr>r_inbox := remove1 (k, raw) (r_inbox relay)\<rparr>)"
    using assms(2) by (simp add: holds_def)
  then show ?thesis using handle onClientMessage_holds by simp
next
  case (deliver before k em ems after)
  have "Q em" using assms(2) deliver by (auto simp: holds_def)
  then show ?thesis
    using assms(2) deliver all_clients_emit by (auto simp: holds_def)
next
  case (pong k)
  then show ?thesis
    using assms(2) alive by (auto intro!: holds_client P_emit_on simp: onClientPong_def)
next
  case (ping k)
  then show ?thesis
    using assms(2) alive by (auto intro!: holds_client P_emit_on simp: onClientPing_def)
next
  case (closing k)
  then show ?thesis using assms(2) close by (auto intro: holds_client)
next
  case (closed k c)
  then show ?thesis
    using assms(2) relay_invariant.closed [OF relay_invariant_axioms]
    by (auto intro!: holds_client P_emit_on)
next
  case heartbeat
  have "P (if ws_adapted c then emit_on onHeartbeat c else c)" if "P c" for c
    using that close pings alive by (auto simp: emit_on_def onHeartbeat_def)
  then show ?thesis
    using heartbeat assms(2)
    by (auto simp: server_onHeartbeat_def intro!: holds_server all_clients_map_clients)
next
  case (peer_event e)
  have "P (emit_on (onSendEvent e) c)" if "P c" for c
    using that event peer peer_event by (auto simp: emit_on_def)
  then show ?thesis
    using peer_event assms(2)
    by (auto simp: worker_onMessage_def intro!: holds_server all_clients_server_emit)
next
  case close_server
  then show ?thesis using assms(2) by (auto simp: server_close_def intro!: holds_server)
next
  case terminate
  then show ?thesis
    using assms(2) close
    by (auto simp: server_terminate_all_def intro!: holds_server all_clients_map_clients)
qed

text \<open>The stores may be shared: other processes leave them in a state that is as good.\<close>

lemma holds_store: "holds (relay\<lparr>r_store := st\<rparr>) \<Longrightarrow> S st' \<Longrightarrow> holds (relay\<lparr>r_store := st'\<rparr>)"
  by (simp add: holds_def)

text \<open>A step hands only events to the primary process that are known to be fit for a broadcast.\<close>

lemma onClientMessage_to_primary:
  assumes h: "holds relay"
  shows "srv_to_primary (r_server (onClientMessage rt mclk clk k raw relay)) = srv_to_primary (r_server relay)"
proof -
  have "broadcasts (take n ems) = []"
    if "map_of (srv_clients (r_server relay)) k = Some c" "attemptValidation rt raw = Inr m"
      "handle_incoming rt clk c m ((r_store relay)\<lparr>st_cache := r\<rparr>) = (ems, err, n, st')" for c m r ems err n st'
  proof -
    from that(2) obtain j where j: "messageSchema j = Some m"
      by (auto simp: attemptValidation_def split: sum.splits option.splits)
    have "P c" "S ((r_store relay)\<lparr>st_cache := r\<rparr>)"
      using h map_of_SomeD [OF that(1)] cache by (auto simp: holds_def all_clients_def)
    then show ?thesis using handled j that(3) by blast
  qed
  then show ?thesis
    by (auto simp: onClientMessage_def emit_all_own split: option.splits prod.splits sum.splits bool.splits)
qed

lemma step_to_primary:
  assumes "relay_step rt peer_ok relay relay'" "holds relay"
  shows "\<exists>es. srv_to_primary (r_server relay') = srv_to_primary (r_server relay) @ es
    \<and> (\<forall>e\<in>set es. Q (EmitBroadcast e))"
  using assms
proof (cases rule: relay_step.cases)
  case (handle k raw mclk clk)
  have "holds (relay\<lparr>r_inbox := remove1 (k, raw) (r_inbox relay)\<rparr>)"
    using assms(2) by (simp add: holds_def)
  from onClientMessage_to_primary [OF this] show ?thesis using handle(1) by simp
next
  case (deliver before k em ems after)
  have "Q em" using assms(2) deliver(2) by (auto simp: holds_def)
  moreover have "em = EmitBroadcast e" if "e \<in> set (broadcasts [em])" for e
    using that by (cases em) auto
  ultimately show ?thesis using deliver(1) by (auto simp: to_primary_emit)
qed (simp_all add: onConnection_def Let_def case_prod_beta with_server_def worker_onMessage_def)

lemma reachable_holds:
  assumes "reachable rt peer_ok st relay" "S st"
  shows "holds relay"
proof (rule reachable_invariant [OF assms(1)])
  show "holds (initial_relay st)"
    using assms(2) by (simp add: holds_def initial_relay_def distinct_keys_def all_clients_def)
qed (use step_holds in blast)

lemma reachable_client:
  assumes "reachable rt peer_ok st relay" "S st" "(k, c) \<in> set (srv_clients (r_server relay))"
  shows "P c"
  using reachable_holds [OF assms(1,2)] assms(3) by (auto simp: holds_def all_clients_def)

lemma reachable_store: "reachable rt peer_ok st relay \<Longrightarrow> S st \<Longrightarrow> S (r_store relay)"
  using reachable_holds by (simp add: holds_def)

end

end
