(* ===== verification/Relay_Safety.thy ===== *)
theory Relay_Safety
  imports Relay_Invariants
begin

text \<open>
  The invariants of the worker that factories/worker-factory.ts and factories/rate-limiter-factory.ts
  build: \<open>worker_runtime\<close> puts the repositories of the model and a rate limiter behind the handlers.
  First the subscriptions a client holds, then the authenticity of the events in the store, in
  flight and sent.
\<close>

definition worker_runtime ::
  "crypto \<Rightarrow> settings \<Rightarrow> js_error + string \<Rightarrow> 'r rate_limiter \<Rightarrow> bool \<Rightarrow> (bytes \<Rightarrow> string + json)
     \<Rightarrow> (json \<Rightarrow> string) \<Rightarrow> (event_db, user_table, 'r) runtime" where
  "worker_runtime cr s relay_pubkey limiter is_worker parse joi_message =
     \<lparr>rt_env = \<lparr>env_crypto = cr, env_settings = s, env_relay_pubkey = relay_pubkey,
        env_address = [], env_events = EventRepository, env_users = UserRepository,
        env_limiter = limiter\<rparr>,
      rt_is_worker = is_worker, rt_parse = parse, rt_joi_message = joi_message\<rparr>"

section \<open>Subscriptions\<close>

text \<open>Emissions that do not change a subscription.\<close>

fun keeps_subscriptions :: "emission \<Rightarrow> bool" where
  "keeps_subscriptions (EmitSubscribe i fs) = False"
| "keeps_subscriptions (EmitUnsubscribe i) = False"
| "keeps_subscriptions em = True"

definition subscriptions_bounded :: "settings \<Rightarrow> subscriptions \<Rightarrow> bool" where
  "subscriptions_bounded s subs \<longleftrightarrow>
     (\<forall>l n. subscription_limits_of s = Some l \<longrightarrow> maxSubscriptions l = Some n \<longrightarrow> 0 < n
        \<longrightarrow> int (length subs) \<le> n)"

definition client_ok :: "settings \<Rightarrow> ws_client \<Rightarrow> bool" where
  "client_ok s c \<longleftrightarrow>
     distinct (map fst (ws_subscriptions c)) \<and> subscriptions_bounded s (ws_subscriptions c)
     \<and> (\<not> ws_listening c \<longrightarrow> ws_subscriptions c = [])"

lemma client_ok_fields:
  assumes "ws_subscriptions c' = ws_subscriptions c" "ws_listening c' = ws_listening c"
  shows "client_ok s c' = client_ok s c"
  using assms by (simp add: client_ok_def)

lemma subscriptions_bounded_Nil [simp]: "subscriptions_bounded s []"
  by (simp add: subscriptions_bounded_def)

lemma length_update:
  "length (AList.update k v al) = (if k \<in> fst ` set al then length al else Suc (length al))"
  by (induction al) auto

lemma length_delete_le: "length (AList.delete k al) \<le> length al"
  by (simp add: AList.delete_eq)

lemma onSubscribed_ok:
  assumes "client_ok s c" "canSubscribe s (ws_subscriptions c) i fs = Inr None" "ws_listening c"
  shows "client_ok s (onSubscribed i fs c)"
proof -
  have "int (length (AList.update i fs (ws_subscriptions c))) \<le> n"
    if "subscription_limits_of s = Some l" "maxSubscriptions l = Some n" "0 < n" for l n
  proof -
    have "int (length (ws_subscriptions c)) \<le> n"
      using assms(1) that by (simp add: client_ok_def subscriptions_bounded_def)
    moreover have "i \<in> fst ` set (ws_subscriptions c) \<or> int (length (ws_subscriptions c)) < n"
      using canSubscribe_bound [OF assms(2) that] by (force dest: map_of_SomeD)
    ultimately show ?thesis by (auto simp: length_update)
  qed
  then show ?thesis
    using assms(1,3)
    by (simp add: client_ok_def onSubscribed_def subscriptions_bounded_def distinct_update)
qed

lemma onUnsubscribed_ok:
  assumes "client_ok s c"
  shows "client_ok s (onUnsubscribed i c)"
proof -
  have "int (length (AList.delete i (ws_subscriptions c))) \<le> int (length (ws_subscriptions c))"
    by (simp add: length_delete_le)
  then have "subscriptions_bounded s (AList.delete i (ws_subscriptions c))"
    using assms order_trans unfolding client_ok_def subscriptions_bounded_def by blast
  then show ?thesis
    using assms by (auto simp: client_ok_def onUnsubscribed_def distinct_delete)
qed

lemma handle_event_keeps:
  assumes "handle_event env clk e addr st = (ems, err, st')"
  shows "\<forall>em\<in>set ems. keeps_subscriptions em"
  using handle_event_emits [OF assms] by fastforce

lemma handle_subscribe_first:
  assumes "handle_subscribe s repo subs i fs db = (ems, err)"
  shows "broadcasts ems = []" "\<forall>em\<in>set (drop 1 ems). keeps_subscriptions em"
    and "take 1 ems = [] \<or> (\<exists>m. take 1 ems = [EmitMessage (NoticeMessage m)])
      \<or> (\<exists>gs. take 1 ems = [EmitSubscribe i gs] \<and> canSubscribe s subs i gs = Inr None)"
proof -
  have none: "broadcasts (map (\<lambda>e. EmitMessage (OutgoingEventMessage i e)) es) = []" for es
    by (induction es) auto
  show "broadcasts ems = []" "\<forall>em\<in>set (drop 1 ems). keeps_subscriptions em"
    "take 1 ems = [] \<or> (\<exists>m. take 1 ems = [EmitMessage (NoticeMessage m)])
      \<or> (\<exists>gs. take 1 ems = [EmitSubscribe i gs] \<and> canSubscribe s subs i gs = Inr None)"
    by (cases rule: handle_subscribe_cases [of s subs i fs repo db]; use assms none in auto)+
qed

lemma handle_incoming_cases:
  assumes "handle_incoming rt clk c m st = (ems, err, n, st')"
  obtains (event) e secret where "m = IncomingEventMessage e secret" "n = 0"
      "handle_event ((rt_env rt)\<lparr>env_address := ws_address c\<rparr>) clk e (Some (ws_address c)) st
         = (ems, err, st')"
    | (subscribe) i fs where "m = SubscribeMessage i fs" "n = 1" "st' = st"
      "handle_subscribe (env_settings (rt_env rt)) (env_events (rt_env rt)) (ws_subscriptions c)
         i fs (st_events st) = (ems, err)"
    | (unsubscribe) i where "m = UnsubscribeMessage i" "n = 1" "st' = st" "ems = [EmitUnsubscribe i]"
  using assms
  by (cases m) (auto simp: handle_incoming_def Let_def handle_unsubscribe_def split: prod.splits)

interpretation subscription_limits: relay_invariant
  "worker_runtime cr s relay_pubkey limiter is_worker parse joi_message" "\<lambda>e. True"
  "\<lambda>st. db_inv (st_events st)" "client_ok s" keeps_subscriptions
  for cr s relay_pubkey and limiter :: "'r rate_limiter" and is_worker parse joi_message
proof unfold_locales
  fix st :: "(event_db, user_table, 'r) store" and c j m clk ems err n st'
  assume st: "db_inv (st_events st)" and c: "client_ok s c"
    and run: "handle_incoming (worker_runtime cr s relay_pubkey limiter is_worker parse joi_message)
      clk c m st = (ems, err, n, st')"
  show "db_inv (st_events st') \<and> broadcasts (take n ems) = []
      \<and> client_ok s (emit_on (fold own_emit (take n ems)) c)
      \<and> (\<forall>em\<in>set (drop n ems). keeps_subscriptions em)"
    using run
  proof (cases rule: handle_incoming_cases)
    case (event e secret)
    have "db_inv (st_events st')"
      using event_repo.handle_event_inv [OF _ st event(3)] by (simp add: worker_runtime_def)
    then show ?thesis
      using event(2) c handle_event_keeps [OF event(3)] by (simp add: emit_on_def)
  next
    case (subscribe i fs)
    note first = handle_subscribe_first [OF subscribe(4)]
    have "broadcasts (take 1 ems) = []" using first(3) by auto
    moreover have "client_ok s (emit_on (fold own_emit (take 1 ems)) c)"
      using first(3) c onSubscribed_ok [of s c i]
      by (auto simp: emit_on_def worker_runtime_def client_ok_fields [of "sendMessage _ c" c])
    ultimately show ?thesis using first(2) st subscribe(2,3) by simp
  next
    case (unsubscribe i)
    then show ?thesis using st c onUnsubscribed_ok by (simp add: emit_on_def)
  qed
next
  fix em and c :: ws_client
  assume "keeps_subscriptions em" "client_ok s c"
  then show "client_ok s (own_emit em c)"
    by (cases em) (simp_all add: client_ok_fields [of "sendMessage _ c" c])
qed (simp_all add: client_ok_def new_socket_def construct_adapter_def close_socket_def
    onClientClose_def)

section \<open>Authenticity\<close>

text \<open>The identifier is the hash of the event and the signature verifies.\<close>

definition authentic :: "crypto \<Rightarrow> event \<Rightarrow> bool" where
  "authentic cr e \<longleftrightarrow> isEventIdValid cr e \<and> isEventSignatureValid cr e"

text \<open>What is left of an event in a row: the seven fields of the protocol.\<close>

definition core_event :: "event \<Rightarrow> event" where
  "core_event e = e\<lparr>ctx_address := None, meta_expiration := None, meta_deduplication := None\<rparr>"

lemma authentic_core: "authentic cr (core_event e) \<longleftrightarrow> authentic cr e"
  by (simp add: authentic_def core_event_def isEventIdValid_def getEventHash_def serializeEvent_def
      isEventSignatureValid_def)

lemma core_prepared: "core_event (prepared e addr) = core_event e"
  by (simp add: core_event_def prepared_def addExpirationMetadata_def split: option.splits)

lemma core_deduplication [simp]: "core_event (e\<lparr>meta_deduplication := d\<rparr>) = core_event e"
  by (simp add: core_event_def)

definition hex_fields :: "event \<Rightarrow> bool" where
  "hex_fields e \<longleftrightarrow> lower_hex (evt_id e) \<and> even (length (evt_id e))
     \<and> lower_hex (pubkey e) \<and> even (length (pubkey e)) \<and> lower_hex (sig e) \<and> even (length (sig e))"

lemma event_wf_hex: "event_wf e \<Longrightarrow> hex_fields e"
  by (simp add: event_wf_def hex_fields_def)

lemma hex_fields_prepared [simp]:
  "hex_fields (prepared e addr) = hex_fields e"
  "hex_fields (e\<lparr>meta_deduplication := d\<rparr>) = hex_fields e"
  by (simp_all add: hex_fields_def)

lemma toNostrEvent_row:
  assumes "hex_fields e"
  shows "toNostrEvent (insert_row_of e) = core_event e" "toNostrEvent (upsert_row_of e) = core_event e"
  using assms
  by (simp_all add: toNostrEvent_def insert_row_of_def upsert_row_of_def core_event_def hex_fields_def)

text \<open>A strategy adds at most the row of its event; what the other rows say is unchanged.\<close>

definition extends_rows :: "event \<Rightarrow> event_db \<Rightarrow> event_db \<Rightarrow> bool" where
  "extends_rows e db db' \<longleftrightarrow>
     (\<forall>r\<in>set (events db'). (\<exists>r0\<in>set (events db). toNostrEvent r = toNostrEvent r0)
        \<or> toNostrEvent r = core_event e)"

lemma extends_rows_refl [simp]: "extends_rows e db db"
  by (auto simp: extends_rows_def)

lemma extends_rows_trans:
  "extends_rows e db db1 \<Longrightarrow> extends_rows e db1 db2 \<Longrightarrow> extends_rows e db db2"
  unfolding extends_rows_def by metis

lemma create_extends:
  assumes "hex_fields e"
  shows "extends_rows e db (snd (create e db))"
  using toNostrEvent_row [OF assms]
  by (cases rule: create_cases [of e db]) (auto simp: extends_rows_def insert_row_def)

lemma upsert_extends:
  assumes "hex_fields e" "db_inv db"
  shows "extends_rows e db (snd (upsert e db))"
  using toNostrEvent_row [OF assms(1)]
  by (cases rule: insert_or_merge_cases [OF assms(2), of "upsert_row_of e"])
     (auto simp: upsert_def extends_rows_def insert_row_def replace_row_def)

lemma toNostrEvent_deleted [simp]: "toNostrEvent (r\<lparr>deleted_at := d\<rparr>) = toNostrEvent r"
  by (simp add: toNostrEvent_def)

lemma delete_extends: "extends_rows e db (snd (deleteByPubkeyAndIds now pk eids db))"
  by (force simp: deleteByPubkeyAndIds_def Let_def extends_rows_def update_rows_def)

lemma extends_rows_core: "core_event e = core_event e' \<Longrightarrow> extends_rows e db db' = extends_rows e' db db'"
  by (simp add: extends_rows_def)

lemma execute_extends:
  assumes hex: "hex_fields e" and inv: "db_inv db"
    and run: "execute strategy EventRepository now e db = (ems, err, db')"
  shows "extends_rows e db db'"
proof -
  have create: "extends_rows e db1 db2" if "create e db1 = (n, db2)" for db1 n db2
    using create_extends [OF hex, of db1] that by simp
  have upsert: "extends_rows e db db2" if "upsert e db = (n, db2)" for n db2
    using upsert_extends [OF hex inv] that by simp
  have param: "extends_rows e db db2" if "upsert (e\<lparr>meta_deduplication := d\<rparr>) db = (n, db2)" for d n db2
    using upsert_extends [of "e\<lparr>meta_deduplication := d\<rparr>" db] hex inv that
      extends_rows_core [of "e\<lparr>meta_deduplication := d\<rparr>" e] by simp
  have delete: "extends_rows e db db2" if "deleteByPubkeyAndIds now pk eids db = (n, db2)" for pk eids n db2
    using delete_extends [of e db now pk eids] that by simp
  show ?thesis
    using run create upsert param delete
    by (cases strategy)
       (auto simp: relay_defs Let_def split: prod.splits sum.splits if_splits,
        (meson extends_rows_trans)+)
qed

definition authentic_rows :: "crypto \<Rightarrow> event_db \<Rightarrow> bool" where
  "authentic_rows cr db \<longleftrightarrow> (\<forall>r\<in>set (events db). authentic cr (toNostrEvent r))"

lemma extends_rows_authentic:
  "extends_rows e db db' \<Longrightarrow> authentic_rows cr db \<Longrightarrow> authentic cr e \<Longrightarrow> authentic_rows cr db'"
  unfolding extends_rows_def authentic_rows_def by (metis authentic_core)

lemma handle_event_authentic:
  assumes "env_events env = EventRepository" "event_wf e" "db_inv (st_events st)"
    "authentic_rows (env_crypto env) (st_events st)"
    and run: "handle_event env clk e addr st = (ems, err, st')"
  shows "authentic_rows (env_crypto env) (st_events st')"
    and "em \<in> set ems \<Longrightarrow> (\<exists>i ok m. em = EmitMessage (CommandResult i ok m))
      \<or> (\<exists>e'. em = EmitBroadcast e' \<and> authentic (env_crypto env) e')"
proof -
  show "authentic_rows (env_crypto env) (st_events st')"
  proof (cases rule: handle_event_cases [of env clk e addr st])
    case (admitted ems' err' db)
    have "extends_rows (prepared e addr) (st_events st) db"
      using execute_extends [OF _ assms(3) admitted(2) [unfolded assms(1)]] event_wf_hex [OF assms(2)]
      by simp
    moreover have "authentic (env_crypto env) (prepared e addr)"
      using admitted(1) authentic_core core_prepared unfolding admits_def authentic_def by metis
    ultimately show ?thesis using admitted(3) run assms(4) extends_rows_authentic by auto
  qed (use run assms(4) in auto)
  assume em: "em \<in> set ems"
  show "(\<exists>i ok m. em = EmitMessage (CommandResult i ok m))
      \<or> (\<exists>e'. em = EmitBroadcast e' \<and> authentic (env_crypto env) e')"
  proof (cases "broadcasts ems = []")
    case True
    then have "em \<noteq> EmitBroadcast e'" for e'
      using em by (metis append_is_Nil_conv broadcasts.simps(2) broadcasts_append list.distinct(1) split_list)
    then show ?thesis using handle_event_emits [OF run em] by blast
  next
    case False
    then have "admits env clk e addr st" using handle_event_effect [OF run] by blast
    then have "authentic (env_crypto env) (prepared e addr)"
      using authentic_core core_prepared unfolding admits_def authentic_def by metis
    then show ?thesis using handle_event_emits [OF run em] by blast
  qed
qed

text \<open>An outgoing message carries authentic events only.\<close>

definition message_ok :: "crypto \<Rightarrow> outgoing \<Rightarrow> bool" where
  "message_ok cr m \<longleftrightarrow> (\<forall>i e. m = OutgoingEventMessage i e \<longrightarrow> authentic cr e)"

definition emission_ok :: "crypto \<Rightarrow> emission \<Rightarrow> bool" where
  "emission_ok cr em \<longleftrightarrow>
     (\<forall>m. em = EmitMessage m \<longrightarrow> message_ok cr m) \<and> (\<forall>e. em = EmitBroadcast e \<longrightarrow> authentic cr e)"

definition sent_ok :: "crypto \<Rightarrow> ws_client \<Rightarrow> bool" where
  "sent_ok cr c \<longleftrightarrow> (\<forall>m\<in>set (ws_sent c). message_ok cr m)"

lemma sent_ok_send: "sent_ok cr c \<Longrightarrow> message_ok cr m \<Longrightarrow> sent_ok cr (sendMessage m c)"
  by (simp add: sent_ok_def sendMessage_def)

lemma sent_ok_event: "sent_ok cr c \<Longrightarrow> authentic cr e \<Longrightarrow> sent_ok cr (onSendEvent e c)"
  by (auto simp: sent_ok_def onSendEvent_eq message_ok_def)

lemma sent_ok_own: "emission_ok cr em \<Longrightarrow> sent_ok cr c \<Longrightarrow> sent_ok cr (own_emit em c)"
  by (cases em)
     (auto simp: emission_ok_def sent_ok_send, simp_all add: sent_ok_def onSubscribed_def onUnsubscribed_def)

lemma sent_ok_fold:
  "(\<And>em. em \<in> set ems \<Longrightarrow> emission_ok cr em) \<Longrightarrow> sent_ok cr c \<Longrightarrow> sent_ok cr (fold own_emit ems c)"
  by (induction ems arbitrary: c) (auto intro: sent_ok_own)

lemma handle_subscribe_authentic:
  assumes "authentic_rows cr db" "handle_subscribe s EventRepository subs i fs db = (ems, err)"
    "em \<in> set ems"
  shows "emission_ok cr em"
proof (cases rule: handle_subscribe_cases [of s subs i fs EventRepository db])
  case (answered rows)
  have "authentic cr (toNostrEvent r)" if "r \<in> set rows" for r
    using assms(1) findByFilters_mem [of _ db rows r] answered(2) that
    by (auto simp: authentic_rows_def)
  then show ?thesis
    using assms(2,3) answered(3) by (auto simp: emission_ok_def message_ok_def)
qed (use assms in \<open>auto simp: emission_ok_def message_ok_def\<close>)

interpretation authenticity: relay_invariant
  "worker_runtime cr s relay_pubkey limiter is_worker parse joi_message" "authentic cr"
  "\<lambda>st. db_inv (st_events st) \<and> authentic_rows cr (st_events st)" "sent_ok cr" "emission_ok cr"
  for cr s relay_pubkey and limiter :: "'r rate_limiter" and is_worker parse joi_message
proof unfold_locales
  fix st :: "(event_db, user_table, 'r) store" and c j m clk ems err n st'
  assume st: "db_inv (st_events st) \<and> authentic_rows cr (st_events st)" and c: "sent_ok cr c"
    and m: "messageSchema j = Some m"
    and run: "handle_incoming (worker_runtime cr s relay_pubkey limiter is_worker parse joi_message)
      clk c m st = (ems, err, n, st')"
  have main: "(db_inv (st_events st') \<and> authentic_rows cr (st_events st'))
      \<and> broadcasts (take n ems) = [] \<and> (\<forall>em\<in>set ems. emission_ok cr em)"
    using run
  proof (cases rule: handle_incoming_cases)
    case (event e secret)
    let ?env = "(rt_env (worker_runtime cr s relay_pubkey limiter is_worker parse joi_message))
      \<lparr>env_address := ws_address c\<rparr>"
    have env: "env_events ?env = EventRepository" "env_crypto ?env = cr"
      by (simp_all add: worker_runtime_def)
    have wf: "event_wf e" using messageSchema_event m event(1) by blast
    have inv: "db_inv (st_events st)" and rows: "authentic_rows (env_crypto ?env) (st_events st)"
      using st env by auto
    show ?thesis
      using event_repo.handle_event_inv [OF env(1) inv event(3)] event(2)
        handle_event_authentic [OF env(1) wf inv rows event(3)]
      by (auto simp: env emission_ok_def message_ok_def)
  next
    case (subscribe i fs)
    have "\<forall>em\<in>set ems. emission_ok cr em"
      using handle_subscribe_authentic [of cr "st_events st" s "ws_subscriptions c" i fs ems err]
        subscribe(4) st by (simp add: worker_runtime_def)
    moreover have "broadcasts (take n ems) = []"
      using handle_subscribe_first(3) [OF subscribe(4)] subscribe(2) by auto
    ultimately show ?thesis using st subscribe(3) by simp
  next
    case (unsubscribe i)
    then show ?thesis using st by (simp add: emission_ok_def)
  qed
  then have "sent_ok cr (fold own_emit (take n ems) c)"
    using c by (auto intro!: sent_ok_fold dest: in_set_takeD)
  then have "sent_ok cr (emit_on (fold own_emit (take n ems)) c)"
    using c by (simp add: emit_on_def)
  then show "(db_inv (st_events st') \<and> authentic_rows cr (st_events st'))
      \<and> broadcasts (take n ems) = [] \<and> sent_ok cr (emit_on (fold own_emit (take n ems)) c)
      \<and> (\<forall>em\<in>set (drop n ems). emission_ok cr em)"
    using main by (auto dest: in_set_dropD)
next
  fix c :: ws_client and notice
  assume "sent_ok cr c"
  then show "sent_ok cr (sendMessage (NoticeMessage notice) c)"
    by (rule sent_ok_send) (simp add: message_ok_def)
next
  fix em and c :: ws_client
  assume "emission_ok cr em" "sent_ok cr c"
  then show "sent_ok cr (own_emit em c)" by (rule sent_ok_own)
next
  fix e and c :: ws_client
  assume "emission_ok cr (EmitBroadcast e)" "sent_ok cr c"
  then show "sent_ok cr (onSendEvent e c)" by (auto simp: emission_ok_def intro: sent_ok_event)
qed (simp_all add: sent_ok_def new_socket_def construct_adapter_def close_socket_def
    onClientClose_def emission_ok_def)

end
