(* ===== verification/Invoice_Repository.thy ===== *)
theory Invoice_Repository
  imports User_Repository
begin

text \<open>
  @types/invoice.ts, repositories/invoice-repository.ts and database/transaction.ts, over the tables
  \<open>users\<close> and \<open>invoices\<close> and the stored function \<open>confirm_invoice\<close> of the migrations. The last
  migration drops both tables; then every query on them is an error, so a table is an \<open>option\<close>.
  Times are milliseconds; columns of type \<open>bigint\<close> hold 64 bits.
\<close>

section \<open>Invoices\<close>

datatype InvoiceUnit = MSATS | SATS | BTC

datatype InvoiceStatus = PENDING | COMPLETED | EXPIRED

fun unit_str :: "InvoiceUnit \<Rightarrow> string" where
  "unit_str MSATS = ''msats''"
| "unit_str SATS = ''sats''"
| "unit_str BTC = ''btc''"

fun status_str :: "InvoiceStatus \<Rightarrow> string" where
  "status_str PENDING = ''pending''"
| "status_str COMPLETED = ''completed''"
| "status_str EXPIRED = ''expired''"

record invoice =
  inv_id :: string
  inv_pubkey :: string
  inv_bolt11 :: string
  inv_amountRequested :: int
  inv_amountPaid :: "int option"
  inv_unit :: InvoiceUnit
  inv_status :: InvoiceStatus
  inv_description :: string
  inv_confirmedAt :: "int option"
  inv_expiresAt :: "int option"
  inv_updatedAt :: int
  inv_createdAt :: int
  inv_verifyURL :: "string option"

record dbinvoice =
  di_id :: string
  di_pubkey :: bytes
  di_bolt11 :: string
  di_amount_requested :: int
  di_amount_paid :: "int option"
  di_unit :: InvoiceUnit
  di_status :: InvoiceStatus
  di_description :: string
  di_confirmed_at :: "int option"
  di_expires_at :: "int option"
  di_updated_at :: int
  di_created_at :: int
  di_verify_url :: "string option"

definition fromDBInvoice :: "dbinvoice \<Rightarrow> invoice" where
  "fromDBInvoice r =
     \<lparr>inv_id = di_id r, inv_pubkey = fromBuffer (di_pubkey r), inv_bolt11 = di_bolt11 r,
      inv_amountRequested = di_amount_requested r, inv_amountPaid = di_amount_paid r,
      inv_unit = di_unit r, inv_status = di_status r, inv_description = di_description r,
      inv_confirmedAt = di_confirmed_at r, inv_expiresAt = di_expires_at r,
      inv_updatedAt = di_updated_at r, inv_createdAt = di_created_at r,
      inv_verifyURL = di_verify_url r\<rparr>"

section \<open>The tables\<close>

record payment_db =
  pay_users :: user_table
  pay_invoices :: "dbinvoice list option"

definition missing_invoices :: js_error where
  "missing_invoices = PgError ''relation invoices does not exist''"

definition int8 :: "int \<Rightarrow> bool" where
  "int8 i \<longleftrightarrow> - (2 ^ 63) \<le> i \<and> i < 2 ^ 63"

definition out_of_range8 :: js_error where
  "out_of_range8 = PgError ''bigint out of range''"

definition map_invoices :: "(dbinvoice \<Rightarrow> dbinvoice) \<Rightarrow> payment_db \<Rightarrow> payment_db" where
  "map_invoices g db = db\<lparr>pay_invoices := map_option (map g) (pay_invoices db)\<rparr>"

text \<open>The amount an invoice's unit stands for, in millisatoshi.\<close>

fun msats_of :: "InvoiceUnit \<Rightarrow> int \<Rightarrow> int" where
  "msats_of SATS n = n * 1000"
| "msats_of MSATS n = n"
| "msats_of BTC n = n * 100000000 * 1000"

text \<open>
  \<open>select confirm_invoice(id, amount, date)\<close>, the function of the last migration that defines it: it
  insists on a serializable transaction, and does nothing where the invoice is confirmed already. An
  invoice that does not exist has no confirmation date, and then both updates find no row.
\<close>

definition confirm_row :: "int \<Rightarrow> int \<Rightarrow> int \<Rightarrow> dbinvoice \<Rightarrow> dbinvoice" where
  "confirm_row now amount date r =
     r\<lparr>di_confirmed_at := Some date, di_amount_paid := Some amount, di_updated_at := now\<rparr>"

definition credit_user :: "bytes \<Rightarrow> int \<Rightarrow> dbuser \<Rightarrow> dbuser" where
  "credit_user payee credit u =
     (if db_pubkey u = payee then u\<lparr>db_balance := db_balance u + credit\<rparr> else u)"

definition confirm_invoice ::
  "bool \<Rightarrow> int \<Rightarrow> string \<Rightarrow> int \<Rightarrow> int \<Rightarrow> payment_db \<Rightarrow> (js_error + unit) \<times> payment_db" where
  "confirm_invoice serializable now invoiceId amountPaid confirmedAt db =
     (if \<not> serializable then (Inl (PgError ''SN_NOT_SERIALIZABLE''), db)
      else
        (case (pay_invoices db, pay_users db) of
           (Some invs, Some users) \<Rightarrow>
             if \<not> int8 amountPaid then (Inl out_of_range8, db)
             else
               (case find (\<lambda>r. di_id r = invoiceId) invs of
                  None \<Rightarrow> (Inr (), db)
                | Some r \<Rightarrow>
                    if di_confirmed_at r \<noteq> None then (Inr (), db)
                    else
                      (let credit = msats_of (di_unit r) amountPaid;
                           users' = map (credit_user (di_pubkey r) credit) users
                       in if \<not> int8 credit \<or> list_ex (\<lambda>u. \<not> int8 (db_balance u)) users'
                          then (Inl out_of_range8, db)
                          else (Inr (), \<lparr>pay_users = Some users',
                                 pay_invoices = Some (map (\<lambda>r. if di_id r = invoiceId
                                   then confirm_row now amountPaid confirmedAt r else r) invs)\<rparr>)))
         | _ \<Rightarrow> (Inl missing_invoices, db)))"

section \<open>The repository's other operations\<close>

definition findById :: "string \<Rightarrow> payment_db \<Rightarrow> js_error + invoice option" where
  "findById i db =
     (case pay_invoices db of
        None \<Rightarrow> Inl missing_invoices
      | Some invs \<Rightarrow> Inr (map_option fromDBInvoice (find (\<lambda>r. di_id r = i) invs)))"

definition findPendingInvoices :: "nat \<Rightarrow> nat \<Rightarrow> payment_db \<Rightarrow> js_error + invoice list" where
  "findPendingInvoices offset n db =
     (case pay_invoices db of
        None \<Rightarrow> Inl missing_invoices
      | Some invs \<Rightarrow>
          Inr (map fromDBInvoice (take n (drop offset (filter (\<lambda>r. di_status r = PENDING) invs)))))"

text \<open>
  \<open>updateStatus\<close> of an invoice that may lack its identifier, which the query builder rejects, or its
  status, which it leaves out of the update.
\<close>

definition status_row :: "int \<Rightarrow> InvoiceStatus option \<Rightarrow> dbinvoice \<Rightarrow> dbinvoice" where
  "status_row now status r =
     r\<lparr>di_status := (case status of None \<Rightarrow> di_status r | Some s \<Rightarrow> s), di_updated_at := now\<rparr>"

definition updateStatus ::
  "int \<Rightarrow> string option \<Rightarrow> InvoiceStatus option \<Rightarrow> payment_db
     \<Rightarrow> (js_error + invoice option) \<times> payment_db" where
  "updateStatus now i status db =
     (case (i, pay_invoices db) of
        (None, _) \<Rightarrow> (Inl (JsError ''Undefined binding''), db)
      | (_, None) \<Rightarrow> (Inl missing_invoices, db)
      | (Some k, Some invs) \<Rightarrow>
          (Inr (map_option (fromDBInvoice \<circ> status_row now status) (find (\<lambda>r. di_id r = k) invs)),
           map_invoices (\<lambda>r. if di_id r = k then status_row now status r else r) db))"

text \<open>
  \<open>upsert\<close> inserts the row or, where the identifier is taken, updates its status and its
  \<open>updated_at\<close> alone. \<open>uuid\<close> is \<open>randomUUID()\<close>, which an invoice without an identifier gets.
\<close>

definition invoice_row :: "int \<Rightarrow> string \<Rightarrow> string option \<Rightarrow> invoice \<Rightarrow> dbinvoice" where
  "invoice_row now uuid i invoice =
     \<lparr>di_id = (case i of None \<Rightarrow> uuid | Some x \<Rightarrow> x), di_pubkey = toBuffer (inv_pubkey invoice),
      di_bolt11 = inv_bolt11 invoice, di_amount_requested = inv_amountRequested invoice, di_amount_paid = None,
      di_unit = inv_unit invoice, di_status = inv_status invoice, di_description = inv_description invoice,
      di_confirmed_at = None, di_expires_at = inv_expiresAt invoice, di_updated_at = now,
      di_created_at = inv_createdAt invoice, di_verify_url = inv_verifyURL invoice\<rparr>"

definition upsert_invoice ::
  "int \<Rightarrow> string \<Rightarrow> string option \<Rightarrow> invoice \<Rightarrow> payment_db \<Rightarrow> (js_error + nat) \<times> payment_db" where
  "upsert_invoice now uuid i invoice db =
     (case pay_invoices db of
        None \<Rightarrow> (Inl missing_invoices, db)
      | Some invs \<Rightarrow>
          (let row = invoice_row now uuid i invoice in
           if \<not> int8 (di_amount_requested row) then (Inl out_of_range8, db)
           else if list_ex (\<lambda>r. di_id r = di_id row) invs
           then (Inr 1, map_invoices (\<lambda>r. if di_id r = di_id row
                   then status_row (di_updated_at row) (Some (di_status row)) r else r) db)
           else (Inr 1, db\<lparr>pay_invoices := Some (invs @ [row])\<rparr>)))"

section \<open>Transactions\<close>

text \<open>
  \<open>Transaction\<close> keeps \<open>this.trx\<close>, unset until \<open>begin\<close>; a started transaction works on a copy of the
  database that \<open>commit\<close> installs. \<open>tx_env\<close> holds what the database answers to the three commands:
  \<open>None\<close> where it obeys. A serializable transaction that conflicts with another is one whose commit
  fails, so a committed one is atomic.
\<close>

datatype 'd trx = NotStarted | Started 'd

record tx_env =
  begin_error :: "js_error option"
  commit_error :: "js_error option"
  rollback_error :: "js_error option"

definition not_started :: js_error where
  "not_started = JsError ''Unable to get transaction: transaction not started.''"

definition tx_begin :: "tx_env \<Rightarrow> 'd \<Rightarrow> (js_error + unit) \<times> 'd trx" where
  "tx_begin tx d =
     (case begin_error tx of None \<Rightarrow> (Inr (), Started d) | Some err \<Rightarrow> (Inl err, NotStarted))"

definition tx_transaction :: "'d trx \<Rightarrow> js_error + 'd" where
  "tx_transaction t = (case t of NotStarted \<Rightarrow> Inl not_started | Started d \<Rightarrow> Inr d)"

definition tx_commit :: "tx_env \<Rightarrow> 'd trx \<Rightarrow> 'd \<Rightarrow> (js_error + unit) \<times> 'd" where
  "tx_commit tx t d =
     (case t of
        NotStarted \<Rightarrow> (Inl not_started, d)
      | Started w \<Rightarrow> (case commit_error tx of None \<Rightarrow> (Inr (), w) | Some err \<Rightarrow> (Inl err, d)))"

definition tx_rollback :: "tx_env \<Rightarrow> 'd trx \<Rightarrow> js_error + unit" where
  "tx_rollback tx t =
     (case t of
        NotStarted \<Rightarrow> Inl not_started
      | Started w \<Rightarrow> (case rollback_error tx of None \<Rightarrow> Inr () | Some err \<Rightarrow> Inl err))"

text \<open>
  The shape \<open>createInvoice\<close> and \<open>confirmInvoice\<close> share: \<open>try { checks; begin; body; commit } catch
  (error) { rollback; throw error }\<close>. An error of the rollback replaces the one that led to it.
\<close>

definition tx_catch :: "tx_env \<Rightarrow> 'd trx \<Rightarrow> js_error \<Rightarrow> js_error" where
  "tx_catch tx t err = (case tx_rollback tx t of Inl err' \<Rightarrow> err' | Inr _ \<Rightarrow> err)"

definition transactionally ::
  "tx_env \<Rightarrow> js_error option \<Rightarrow> ('d \<Rightarrow> (js_error + 'a) \<times> 'd) \<Rightarrow> 'd \<Rightarrow> (js_error + 'a) \<times> 'd" where
  "transactionally tx check body d =
     (case check of
        Some err \<Rightarrow> (Inl (tx_catch tx (NotStarted :: 'd trx) err), d)
      | None \<Rightarrow>
          (case tx_begin tx d of
             (Inl err, t) \<Rightarrow> (Inl (tx_catch tx t err), d)
           | (Inr _, t) \<Rightarrow>
               (case tx_transaction t of
                  Inl err \<Rightarrow> (Inl (tx_catch tx t err), d)
                | Inr w \<Rightarrow>
                    (case body w of
                       (Inl err, w') \<Rightarrow> (Inl (tx_catch tx (Started w') err), d)
                     | (Inr x, w') \<Rightarrow>
                         (case tx_commit tx (Started w') d of
                            (Inl err, d') \<Rightarrow> (Inl (tx_catch tx (Started w') err), d')
                          | (Inr _, d') \<Rightarrow> (Inr x, d'))))))"

lemma transactionally_cases:
  obtains (checked) err where "check = Some err" "transactionally tx check body d = (Inl not_started, d)"
    | (failed) err where "check = None" "transactionally tx check body d = (Inl err, d)"
    | (committed) x d' where "check = None" "body d = (Inr x, d')"
        "transactionally tx check body d = (Inr x, d')"
proof (cases check)
  case None
  note defs = transactionally_def tx_begin_def tx_transaction_def tx_commit_def None
  show ?thesis
  proof (cases "begin_error tx")
    case started: None
    obtain res w where body: "body d = (res, w)" by fastforce
    show ?thesis
    proof (cases res)
      case (Inl err)
      then show ?thesis using failed started body by (simp add: defs)
    next
      case (Inr x)
      then show ?thesis using failed committed started body None
        by (cases "commit_error tx") (simp_all add: defs)
    qed
  qed (use failed in \<open>simp add: defs\<close>)
qed (use checked in \<open>simp add: transactionally_def tx_catch_def tx_rollback_def\<close>)

lemma transactionally_error: "transactionally tx check body d = (Inl err, d') \<Longrightarrow> d' = d"
  by (cases rule: transactionally_cases [of check tx body d]) auto

end
