(* ===== verification/Payments_Service.thy ===== *)
theory Payments_Service
  imports Invoice_Repository Event_Handler
begin

text \<open>
  services/payments-service.ts, payments-processors/null-payments-processor.ts (@types/clients.ts)
  and app/maintenance-worker.ts: invoices are created for a user, looked up at a payments processor,
  and confirmed, which credits and may admit the user. The processor is an interface, of which the
  repository holds one implementation; the readings of the clock and what the database answers to the
  transaction commands are arguments.
\<close>

section \<open>The payments processor\<close>

record create_request =
  cr_amount :: int
  cr_description :: "string option"
  cr_requestId :: "string option"

record create_response =
  res_id :: string
  res_bolt11 :: string
  res_amountRequested :: int
  res_description :: string
  res_unit :: InvoiceUnit
  res_status :: InvoiceStatus
  res_expiresAt :: "int option"
  res_createdAt :: int
  res_verifyURL :: "string option"

text \<open>
  A \<open>Partial<Invoice>\<close>: \<open>None\<close> where the property is absent. \<open>p_id\<close> is also \<open>None\<close> where it is not
  a string; the outer option of \<open>p_confirmedAt\<close> and \<open>p_expiresAt\<close> is the property's presence, the
  inner one its \<open>null\<close>.
\<close>

record partial_invoice =
  p_id :: "string option"
  p_pubkey :: "string option"
  p_bolt11 :: "string option"
  p_amountRequested :: "int option"
  p_unit :: "InvoiceUnit option"
  p_status :: "InvoiceStatus option"
  p_description :: "string option"
  p_confirmedAt :: "int option option"
  p_expiresAt :: "int option option"
  p_updatedAt :: "int option"
  p_createdAt :: "int option"
  p_verifyURL :: "string option"

record payments_processor =
  pp_getInvoice :: "string + invoice \<Rightarrow> js_error + partial_invoice"
  pp_createInvoice :: "create_request \<Rightarrow> js_error + create_response"

text \<open>Given an invoice where it expects an identifier, it returns the object as the identifier.\<close>

definition NullPaymentsProcessor :: "int \<Rightarrow> payments_processor" where
  "NullPaymentsProcessor date =
     \<lparr>pp_getInvoice = (\<lambda>i. Inr
        \<lparr>p_id = (case i of Inl s \<Rightarrow> Some s | Inr x \<Rightarrow> None), p_pubkey = Some '''', p_bolt11 = Some '''',
         p_amountRequested = Some 0, p_unit = Some MSATS, p_status = Some PENDING,
         p_description = Some '''', p_confirmedAt = Some None, p_expiresAt = Some (Some date),
         p_updatedAt = Some date, p_createdAt = Some date, p_verifyURL = Some ''''\<rparr>),
      pp_createInvoice = (\<lambda>r. Inr
        \<lparr>res_id = '''', res_bolt11 = '''', res_amountRequested = 0, res_description = '''',
         res_unit = MSATS, res_status = PENDING, res_expiresAt = Some date, res_createdAt = date,
         res_verifyURL = Some ''''\<rparr>)\<rparr>"

text \<open>The factory reads whether payments are enabled and makes the same processor either way.\<close>

definition createPaymentsProcessor :: "settings \<Rightarrow> int \<Rightarrow> payments_processor" where
  "createPaymentsProcessor s date =
     (if \<not> payments_enabled s then NullPaymentsProcessor date else NullPaymentsProcessor date)"

section \<open>PaymentsService\<close>

definition getPendingInvoices :: "payment_db \<Rightarrow> js_error + invoice list" where
  "getPendingInvoices db = findPendingInvoices 0 10 db"

definition getInvoiceFromPaymentsProcessor ::
  "payments_processor \<Rightarrow> string + invoice \<Rightarrow> js_error + partial_invoice" where
  "getInvoiceFromPaymentsProcessor pp i =
     pp_getInvoice pp
       (case i of
          Inl s \<Rightarrow> Inl s
        | Inr x \<Rightarrow> if truthy (inv_verifyURL x) then Inr x else Inl (inv_id x))"

text \<open>
  \<open>createInvoice\<close>: the clock is read when the user is upserted, for \<open>date\<close>, and when the invoice is
  upserted, in this order. The invoice returned has the caller's description and the processor's
  creation time, the stored one the processor's description and \<open>date\<close>.
\<close>

definition response_invoice :: "int \<Rightarrow> string \<Rightarrow> create_response \<Rightarrow> invoice" where
  "response_invoice date pk res =
     \<lparr>inv_id = res_id res, inv_pubkey = pk, inv_bolt11 = res_bolt11 res,
      inv_amountRequested = res_amountRequested res, inv_amountPaid = None, inv_unit = res_unit res,
      inv_status = res_status res, inv_description = res_description res, inv_confirmedAt = None,
      inv_expiresAt = res_expiresAt res, inv_updatedAt = date, inv_createdAt = date,
      inv_verifyURL = res_verifyURL res\<rparr>"

definition createInvoice_body ::
  "payments_processor \<Rightarrow> (nat \<Rightarrow> int) \<Rightarrow> string \<Rightarrow> string \<Rightarrow> int \<Rightarrow> string
     \<Rightarrow> payment_db \<Rightarrow> (js_error + invoice) \<times> payment_db" where
  "createInvoice_body pp clock uuid pk amount description db =
     (case upsert_user (clock 0) pk None None (pay_users db) of
        (Inl err, users) \<Rightarrow> (Inl err, db)
      | (Inr _, users) \<Rightarrow>
          (let db1 = db\<lparr>pay_users := users\<rparr> in
           case pp_createInvoice pp \<lparr>cr_amount = amount, cr_description = Some description, cr_requestId = Some pk\<rparr> of
             Inl err \<Rightarrow> (Inl err, db1)
           | Inr res \<Rightarrow>
               (let invoice = response_invoice (clock 1) pk res
                in (case upsert_invoice (clock 2) uuid (Some (res_id res)) invoice db1 of
                      (Inl err, db2) \<Rightarrow> (Inl err, db2)
                    | (Inr _, db2) \<Rightarrow>
                        (Inr (invoice\<lparr>inv_description := description,
                                      inv_createdAt := res_createdAt res\<rparr>), db2)))))"

definition createInvoice ::
  "tx_env \<Rightarrow> payments_processor \<Rightarrow> (nat \<Rightarrow> int) \<Rightarrow> string \<Rightarrow> string \<Rightarrow> int \<Rightarrow> string
     \<Rightarrow> payment_db \<Rightarrow> (js_error + invoice) \<times> payment_db" where
  "createInvoice tx pp clock uuid pk amount description =
     transactionally tx None (createInvoice_body pp clock uuid pk amount description)"

definition updateInvoice ::
  "int \<Rightarrow> partial_invoice \<Rightarrow> payment_db \<Rightarrow> (js_error + unit) \<times> payment_db" where
  "updateInvoice now p db =
     (case updateStatus now (p_id p) (p_status p) db of
        (res, db') \<Rightarrow> (map_sum id (\<lambda>_. ()) res, db'))"

definition updateInvoiceStatus ::
  "int \<Rightarrow> string \<Rightarrow> InvoiceStatus \<Rightarrow> payment_db \<Rightarrow> (js_error + invoice option) \<times> payment_db" where
  "updateInvoiceStatus now i status = updateStatus now (Some i) (Some status)"

subsection \<open>\<open>confirmInvoice\<close>\<close>

definition confirm_check :: "invoice \<Rightarrow> js_error option" where
  "confirm_check i =
     (if inv_confirmedAt i = None then Some (JsError ''Invoice confirmation date is not set'')
      else if inv_status i \<noteq> COMPLETED
      then Some (JsError (''Invoice is not complete: '' @ status_str (inv_status i)))
      else if inv_amountPaid i = None then Some (JsError ''Invoice paid amount is not set: undefined'')
      else None)"

text \<open>The fees a public key pays for admission, and their sum.\<close>

definition fee_applies :: "string \<Rightarrow> fee_schedule \<Rightarrow> bool" where
  "fee_applies pk f \<longleftrightarrow>
     fee_enabled f \<and> \<not> list_ex (startsWith pk) (nonempty_list (fee_pubkeys f))"

definition admission_fee_amount :: "settings \<Rightarrow> string \<Rightarrow> int" where
  "admission_fee_amount s pk =
     foldl (\<lambda>sum f. sum + (if fee_applies pk f then fee_amount f else 0)) 0 (admission_fees s)"

text \<open>The clock is read by the stored function and, if the user is admitted, for \<open>date\<close> and by \<open>upsert\<close>.\<close>

definition confirmInvoice_body ::
  "settings \<Rightarrow> (nat \<Rightarrow> int) \<Rightarrow> invoice \<Rightarrow> payment_db \<Rightarrow> (js_error + unit) \<times> payment_db" where
  "confirmInvoice_body s clock i db =
     (let amountPaid = the (inv_amountPaid i) in
      case confirm_invoice True (clock 0) (inv_id i) amountPaid (the (inv_confirmedAt i)) db of
        (Inl err, db1) \<Rightarrow> (Inl err, db1)
      | (Inr _, db1) \<Rightarrow>
          (let amountPaidMsat = msats_of (inv_unit i) amountPaid;
               admissionFeeAmount = admission_fee_amount s (inv_pubkey i)
           in if admissionFeeAmount > 0 \<and> amountPaidMsat \<ge> admissionFeeAmount
              then (case upsert_user (clock 2) (inv_pubkey i) (Some True) (Some (clock 1)) (pay_users db1) of
                      (Inl err, users) \<Rightarrow> (Inl err, db1)
                    | (Inr _, users) \<Rightarrow> (Inr (), db1\<lparr>pay_users := users\<rparr>))
              else (Inr (), db1)))"

definition confirmInvoice ::
  "settings \<Rightarrow> tx_env \<Rightarrow> (nat \<Rightarrow> int) \<Rightarrow> invoice \<Rightarrow> payment_db \<Rightarrow> (js_error + unit) \<times> payment_db" where
  "confirmInvoice s tx clock i = transactionally tx (confirm_check i) (confirmInvoice_body s clock i)"

subsection \<open>\<open>sendInvoiceUpdateNotification\<close>\<close>

text \<open>Division of bigints truncates.\<close>

definition bigint_div :: "int \<Rightarrow> int \<Rightarrow> int" where
  "bigint_div a b = sgn a * sgn b * (\<bar>a\<bar> div \<bar>b\<bar>)"

text \<open>
  The unsigned event; \<open>expiration\<close> is the same day of the next month, midnight in the process's time
  zone, so a whole number of seconds.
\<close>

definition invoice_event :: "string \<Rightarrow> int \<Rightarrow> int \<Rightarrow> invoice \<Rightarrow> int \<Rightarrow> event" where
  "invoice_event relayPubkey now expiration i amountPaid =
     (let amount = (if inv_unit i = MSATS then bigint_div amountPaid 1000 else amountPaid);
          unit = (if inv_unit i = MSATS then SATS else inv_unit i)
      in \<lparr>evt_id = [], pubkey = relayPubkey, created_at = now div 1000, kind = kind_value INVOICE_UPDATE,
          tags = [[tag_value PubkeyTag, inv_pubkey i], [tag_value InvoiceTag, inv_bolt11 i],
                  [tag_value ExpirationTag, int_str (expiration div 1000)]],
          sig = [], content = ''Invoice paid: '' @ int_str amount @ '' '' @ unit_str unit,
          ctx_address = None, meta_expiration = Some (expiration div 1000), meta_deduplication = None\<rparr>)"

text \<open>
  What the notification needs besides the repositories: the hash and the relay's keys (or the error of
  reading them), the signature function, whether \<open>process.send\<close> is there, and the calendar. An error
  after the event is built is logged and swallowed.
\<close>

record 'db notifier =
  no_crypto :: crypto
  no_keys :: "js_error + string \<times> string"
  no_sign :: "string \<Rightarrow> string \<Rightarrow> js_error + string"
  no_is_worker :: bool
  no_next_month :: "int \<Rightarrow> int"
  no_events :: "'db event_repository"

definition sendInvoiceUpdateNotification ::
  "'db notifier \<Rightarrow> int \<Rightarrow> invoice \<Rightarrow> 'db \<Rightarrow> (js_error + unit) \<times> event list \<times> 'db" where
  "sendInvoiceUpdateNotification no now i db =
     (case no_keys no of
        Inl err \<Rightarrow> (Inl err, [], db)
      | Inr (relayPrivkey, relayPubkey) \<Rightarrow>
          (case inv_amountPaid i of
             None \<Rightarrow> (Inl (JsError (''Unable to notify user '' @ inv_pubkey i @ '' for invoice '' @ inv_id i)), [], db)
           | Some amount \<Rightarrow>
               (let e = identifyEvent (no_crypto no)
                          (invoice_event relayPubkey now (no_next_month no now) i amount)
                in (case no_sign no relayPrivkey (evt_id e) of
                      Inl err \<Rightarrow> (Inr (), [], db)
                    | Inr signature \<Rightarrow>
                        (let signed = e\<lparr>sig := signature\<rparr>;
                             db' = snd (repo_create (no_events no) signed db)
                         in (Inr (), if no_is_worker no then [signed] else [], db'))))))"

section \<open>MaintenanceWorker\<close>

text \<open>
  The state of a run: the payment tables, the events, the events handed to \<open>process.send\<close> and the
  count of invoices updated. The arguments that vary with the invoice are functions of it.
\<close>

record 'db maintenance =
  m_payments :: payment_db
  m_events :: 'db
  m_sent :: "event list"
  m_successful :: nat

record 'db maintenance_env =
  me_settings :: settings
  me_processor :: payments_processor
  me_notifier :: "'db notifier"
  me_tx :: "invoice \<Rightarrow> tx_env"
  me_clock :: "invoice \<Rightarrow> nat \<Rightarrow> int"

text \<open>\<open>mergeDeepLeft(updatedInvoice)\<close> and then \<open>mergeDeepLeft({ amountPaid })\<close> of the invoice.\<close>

definition override :: "'a option \<Rightarrow> 'a \<Rightarrow> 'a" where
  "override x y = (case x of None \<Rightarrow> y | Some v \<Rightarrow> v)"

definition merge_invoice :: "partial_invoice \<Rightarrow> invoice \<Rightarrow> invoice" where
  "merge_invoice p i =
     \<lparr>inv_id = override (p_id p) (inv_id i), inv_pubkey = override (p_pubkey p) (inv_pubkey i),
      inv_bolt11 = override (p_bolt11 p) (inv_bolt11 i),
      inv_amountRequested = override (p_amountRequested p) (inv_amountRequested i),
      inv_amountPaid = Some (inv_amountRequested i),
      inv_unit = override (p_unit p) (inv_unit i), inv_status = override (p_status p) (inv_status i),
      inv_description = override (p_description p) (inv_description i),
      inv_confirmedAt = override (p_confirmedAt p) (inv_confirmedAt i),
      inv_expiresAt = override (p_expiresAt p) (inv_expiresAt i),
      inv_updatedAt = override (p_updatedAt p) (inv_updatedAt i),
      inv_createdAt = override (p_createdAt p) (inv_createdAt i),
      inv_verifyURL = (case p_verifyURL p of None \<Rightarrow> inv_verifyURL i | Some v \<Rightarrow> Some v)\<rparr>"

text \<open>
  One turn of the loop of \<open>onSchedule\<close>; an error is logged. The confirmation and the notification
  run both, whatever the other's result: they share no state.
\<close>

definition process_invoice ::
  "'db maintenance_env \<Rightarrow> invoice \<Rightarrow> 'db maintenance \<Rightarrow> 'db maintenance" where
  "process_invoice env i st =
     (case getInvoiceFromPaymentsProcessor (me_processor env) (Inr i) of
        Inl err \<Rightarrow> st
      | Inr updated \<Rightarrow>
          (case (p_id updated, p_status updated) of
             (Some k, Some status) \<Rightarrow>
               (case updateInvoiceStatus (me_clock env i 0) k status (m_payments st) of
                  (Inl err, db) \<Rightarrow> st
                | (Inr _, db) \<Rightarrow>
                    if inv_status i \<noteq> status \<and> status = COMPLETED
                       \<and> override (p_confirmedAt updated) None \<noteq> None
                    then
                      (let update = merge_invoice updated i;
                           (confirmed, db') = confirmInvoice (me_settings env) (me_tx env i)
                              (\<lambda>n. me_clock env i (n + 1)) update db;
                           (notified, sent, ev) = sendInvoiceUpdateNotification (me_notifier env)
                              (me_clock env i 4) update (m_events st)
                       in \<lparr>m_payments = db', m_events = ev, m_sent = m_sent st @ sent,
                           m_successful = (case (confirmed, notified) of
                              (Inr _, Inr _) \<Rightarrow> m_successful st + 1 | _ \<Rightarrow> m_successful st)\<rparr>)
                    else st\<lparr>m_payments := db, m_successful := m_successful st + 1\<rparr>)
           | _ \<Rightarrow> st))"

definition onSchedule ::
  "'db maintenance_env \<Rightarrow> 'db maintenance \<Rightarrow> js_error option \<times> 'db maintenance" where
  "onSchedule env st =
     (if \<not> payments_enabled (me_settings env) then (None, st)
      else
        (case getPendingInvoices (m_payments st) of
           Inl err \<Rightarrow> (Some err, st)
         | Inr invoices \<Rightarrow> (None, fold (process_invoice env) invoices st)))"

end
