(* ===== verification/Cluster.thy ===== *)
theory Cluster
  imports Mirroring App_Primary Relay_Safety Payments_Service
begin

text \<open>
  The processes of a relay together: the primary process of app/app.ts, the client workers of
  app/worker.ts, the mirrors of app/static-mirroring-worker.ts and the maintenance worker of
  app/maintenance-worker.ts, as index.ts starts them. They share the stores; a message a worker hands
  to \<open>process.send\<close> travels to the primary process, which sends it to every other worker.
\<close>

section \<open>State\<close>

record broadcast =
  bc_event :: event
  bc_source :: "string option"

datatype 'r process = ClientWorker "(event_db, user_table, 'r) relay" | MirrorWorker mirror | MaintenanceWorker

record 'r cluster =
  cl_store :: "(event_db, user_table, 'r) store"
  cl_primary :: primary
  cl_processes :: "(nat \<times> 'r process) list"
  cl_outbox :: "(nat \<times> broadcast) list"
  cl_mail :: "(nat \<times> broadcast) list"

text \<open>
  \<open>getRunner().run()\<close> of a worker with the given environment; \<open>now\<close> and \<open>uuid\<close> are the clock and
  \<open>randomUUID()\<close>. The stores of a relay's record stand for the shared ones.
\<close>

definition getRunner ::
  "settings \<Rightarrow> int \<Rightarrow> string \<Rightarrow> (event_db, user_table, 'r) store \<Rightarrow> worker_env \<Rightarrow> js_error + 'r process" where
  "getRunner s now uuid st env =
     (case map_of env ''WORKER_TYPE'' of
        None \<Rightarrow> Inl (JsError ''Unknown worker: undefined'')
      | Some t \<Rightarrow>
          if t = ''worker'' then Inr (ClientWorker (initial_relay st))
          else if t = ''maintenance'' then Inr MaintenanceWorker
          else if t = ''static-mirroring''
          then map_sum id MirrorWorker
                 (mirror_run s (case map_of env ''MIRROR_INDEX'' of None \<Rightarrow> ''undefined'' | Some i \<Rightarrow> i) now uuid)
          else Inl (JsError (''Unknown worker: '' @ t)))"

text \<open>What a process does with a message of the primary process.\<close>

fun process_onMessage :: "broadcast \<Rightarrow> 'r process \<Rightarrow> 'r process" where
  "process_onMessage b (ClientWorker w) = ClientWorker (worker_onMessage (bc_event b) w)"
| "process_onMessage b (MirrorWorker m) = MirrorWorker (mirror_onMessage (bc_event b) (bc_source b) m)"
| "process_onMessage b MaintenanceWorker = MaintenanceWorker"

section \<open>Steps\<close>

text \<open>
  The steps of a mirror, with the event table: its socket opens, receives, closes and is replaced.
  \<open>remote_ok\<close> is what is known of the events the other relay sends.
\<close>

inductive mirror_step ::
  "(event_db, user_table, 'r) handler_env \<Rightarrow> (event \<Rightarrow> bool) \<Rightarrow> user_table \<Rightarrow> mirror \<times> event_db
     \<Rightarrow> mirror \<times> event_db \<Rightarrow> bool"
  for env remote_ok users where
  opened: "mirror_step env remote_ok users (m, db) (mirror_onOpen m, db)"
| received: "(\<forall>i e. message = RemoteEvent i e \<longrightarrow> remote_ok e)
    \<Longrightarrow> mirror_step env remote_ok users (m, db) (mirror_receive env True clk message users db m)"
| disconnected: "mirror_step env remote_ok users (m, db) (mirror_onClose m, db)"
| reconnected: "0 < mr_timers m \<Longrightarrow> mirror_step env remote_ok users (m, db) (mirror_reconnect uuid m, db)"
| terminated: "mirror_step env remote_ok users (m, db) (mirror_close m, db)"

definition set_process :: "nat \<Rightarrow> 'r process \<Rightarrow> (nat \<times> 'r process) list \<Rightarrow> (nat \<times> 'r process) list" where
  "set_process k p ps = map (\<lambda>(k', p'). (k', if k' = k then p else p')) ps"

definition posted :: "nat \<Rightarrow> string option \<Rightarrow> event list \<Rightarrow> (nat \<times> broadcast) list" where
  "posted k source es = map (\<lambda>e. (k, \<lparr>bc_event = e, bc_source = source\<rparr>)) es"

text \<open>
  \<open>tables\<close> is the work of other code on the users and the cache: the payments and the HTTP
  controllers. A worker that ends takes its mail with it.
\<close>

inductive cluster_step ::
  "(event_db, user_table, 'r) runtime \<Rightarrow> (event \<Rightarrow> bool) \<Rightarrow> event_db notifier \<Rightarrow> 'r cluster \<Rightarrow> 'r cluster \<Rightarrow> bool"
  for rt remote_ok no where
  client: "(k, ClientWorker w) \<in> set (cl_processes cl)
    \<Longrightarrow> relay_step rt (\<lambda>e. False) (w\<lparr>r_store := cl_store cl\<rparr>) w'
    \<Longrightarrow> srv_to_primary (r_server w') = srv_to_primary (r_server w) @ es
    \<Longrightarrow> cluster_step rt remote_ok no cl (cl\<lparr>cl_store := r_store w',
          cl_processes := set_process k (ClientWorker w') (cl_processes cl),
          cl_outbox := cl_outbox cl @ posted k None es\<rparr>)"
| mirror: "(k, MirrorWorker m) \<in> set (cl_processes cl)
    \<Longrightarrow> mirror_step (rt_env rt) remote_ok (st_users (cl_store cl)) (m, st_events (cl_store cl)) (m', db)
    \<Longrightarrow> mr_to_primary m' = mr_to_primary m @ es
    \<Longrightarrow> cluster_step rt remote_ok no cl (cl\<lparr>cl_store := (cl_store cl)\<lparr>st_events := db\<rparr>,
          cl_processes := set_process k (MirrorWorker m') (cl_processes cl),
          cl_outbox := cl_outbox cl @ posted k (Some (mir_address (mr_config m))) es\<rparr>)"
| notify: "(k, MaintenanceWorker) \<in> set (cl_processes cl)
    \<Longrightarrow> sendInvoiceUpdateNotification no now i (st_events (cl_store cl)) = (res, es, db)
    \<Longrightarrow> cluster_step rt remote_ok no cl (cl\<lparr>cl_store := (cl_store cl)\<lparr>st_events := db\<rparr>,
          cl_outbox := cl_outbox cl @ posted k None es\<rparr>)"
| tables: "cluster_step rt remote_ok no cl (cl\<lparr>cl_store := (cl_store cl)\<lparr>st_users := users, st_cache := cache\<rparr>\<rparr>)"
| forward: "cl_outbox cl = (k, b) # rest
    \<Longrightarrow> cluster_step rt remote_ok no cl (cl\<lparr>cl_outbox := rest,
          cl_mail := cl_mail cl @ onClusterMessage k b (cl_primary cl)\<rparr>)"
| deliver: "cl_mail cl = before @ (k, b) # after \<Longrightarrow> (k, p) \<in> set (cl_processes cl)
    \<Longrightarrow> cluster_step rt remote_ok no cl (cl\<lparr>cl_mail := before @ after,
          cl_processes := set_process k (process_onMessage b p) (cl_processes cl)\<rparr>)"
| exit: "cluster_step rt remote_ok no cl (cl\<lparr>cl_primary := onClusterExit k code signal (cl_primary cl),
          cl_processes := filter (\<lambda>(k', p). k' \<noteq> k) (cl_processes cl),
          cl_mail := filter (\<lambda>(k', b). k' \<noteq> k) (cl_mail cl)\<rparr>)"
| restart: "restart_worker (cl_primary cl) = Inr pr
    \<Longrightarrow> cluster_step rt remote_ok no cl (cl\<lparr>cl_primary := pr\<rparr>)"
| boot: "(k, wenv) \<in> set (pr_workers (cl_primary cl)) \<Longrightarrow> k \<notin> fst ` set (cl_processes cl)
    \<Longrightarrow> getRunner (env_settings (rt_env rt)) now uuid (cl_store cl) wenv = Inr p
    \<Longrightarrow> cluster_step rt remote_ok no cl (cl\<lparr>cl_processes := cl_processes cl @ [(k, p)]\<rparr>)"

definition initial_cluster :: "primary \<Rightarrow> (event_db, user_table, 'r) store \<Rightarrow> 'r cluster" where
  "initial_cluster pr st =
     \<lparr>cl_store = st, cl_primary = pr, cl_processes = [], cl_outbox = [], cl_mail = []\<rparr>"

inductive cluster_reachable ::
  "(event_db, user_table, 'r) runtime \<Rightarrow> (event \<Rightarrow> bool) \<Rightarrow> event_db notifier \<Rightarrow> 'r cluster \<Rightarrow> 'r cluster \<Rightarrow> bool"
  for rt remote_ok no cl0 where
  start: "cluster_reachable rt remote_ok no cl0 cl0"
| step: "cluster_reachable rt remote_ok no cl0 cl \<Longrightarrow> cluster_step rt remote_ok no cl cl'
    \<Longrightarrow> cluster_reachable rt remote_ok no cl0 cl'"

section \<open>Lemmas: mirrors\<close>

definition good_store :: "crypto \<Rightarrow> (event_db, user_table, 'r) store \<Rightarrow> bool" where
  "good_store cr st \<longleftrightarrow> db_inv (st_events st) \<and> authentic_rows cr (st_events st)"

lemma create_good:
  assumes "db_inv db" "authentic_rows cr db" "authentic cr e" "hex_fields e"
  shows "db_inv (snd (create e db)) \<and> authentic_rows cr (snd (create e db))"
  using create_inv_db [OF assms(1)] extends_rows_authentic [OF create_extends [OF assms(4)] assms(2,3)] by blast

fun relayed_ok :: "crypto \<Rightarrow> incoming \<Rightarrow> bool" where
  "relayed_ok cr (IncomingEventMessage e secret) = authentic cr e"
| "relayed_ok cr m = True"

definition mirror_sent_ok :: "crypto \<Rightarrow> mirror \<Rightarrow> bool" where
  "mirror_sent_ok cr m \<longleftrightarrow> (\<forall>sock. mr_client m = Some sock \<longrightarrow> (\<forall>x\<in>set (ms_sent sock). relayed_ok cr x))"

lemma addExpirationMetadata_authentic [simp]:
  "authentic cr (addExpirationMetadata e) = authentic cr e"
  "hex_fields (addExpirationMetadata e) = hex_fields e"
  by (auto simp: addExpirationMetadata_def authentic_def isEventIdValid_def getEventHash_def serializeEvent_def
      isEventSignatureValid_def hex_fields_def split: option.splits)

lemma mirror_step_good:
  assumes env: "env_events env = EventRepository" "env_crypto env = cr" and remote: "\<And>e. remote_ok e \<Longrightarrow> hex_fields e"
    and step: "mirror_step env remote_ok users (m, db) (m', db')"
    and good: "db_inv db" "authentic_rows cr db" "mirror_sent_ok cr m"
  shows "db_inv db' \<and> authentic_rows cr db' \<and> mirror_sent_ok cr m' \<and> mr_config m' = mr_config m
    \<and> (\<exists>es. mr_to_primary m' = mr_to_primary m @ es \<and> (\<forall>e\<in>set es. authentic cr e))"
  using step
proof (cases rule: mirror_step.cases)
  case (received message clk)
  show ?thesis
  proof (cases rule: mirror_receive_cases [of env True clk message users db m])
    case ignored
    then show ?thesis using received good by simp
  next
    case (taken sock e event n db2)
    note accepted = mirror_accepts_SomeD [OF taken(3)]
    have "authentic cr event" "hex_fields event"
      using accepted(1-3) env(2) remote received(2) taken(1) by (simp_all add: authentic_def [symmetric])
         (simp add: authentic_def)
    then show ?thesis
      using received(1) taken(4,5) create_good [OF good(1,2), of event] good(3) env(1)
      by (auto simp: mirror_sent_ok_def)
  qed
qed (use good in \<open>auto simp: mirror_onOpen_def mirror_onClose_def mirror_reconnect_def mirror_close_def
      new_mirror_socket_def mirror_sent_ok_def Let_def createSubscriptionMessage_def split: option.splits if_splits\<close>)

section \<open>Lemmas: the cluster\<close>

fun process_ok :: "crypto \<Rightarrow> (event_db, user_table, 'r) store \<Rightarrow> 'r process \<Rightarrow> bool" where
  "process_ok cr st (ClientWorker w) = authenticity.holds cr (w\<lparr>r_store := st\<rparr>)"
| "process_ok cr st (MirrorWorker m) = mirror_sent_ok cr m"
| "process_ok cr st MaintenanceWorker = True"

definition cluster_ok :: "crypto \<Rightarrow> 'r cluster \<Rightarrow> bool" where
  "cluster_ok cr cl \<longleftrightarrow>
     good_store cr (cl_store cl) \<and> (\<forall>(k, p)\<in>set (cl_processes cl). process_ok cr (cl_store cl) p)
     \<and> (\<forall>(k, b)\<in>set (cl_outbox cl) \<union> set (cl_mail cl). authentic cr (bc_event b))"

lemma process_ok_store: "process_ok cr st p \<Longrightarrow> good_store cr st' \<Longrightarrow> process_ok cr st' p"
  by (cases p) (auto simp: good_store_def intro: authenticity.holds_store)

lemma relay_step_mono:
  "relay_step rt peer_ok w w' \<Longrightarrow> (\<And>e. peer_ok e \<Longrightarrow> peer_ok' e) \<Longrightarrow> relay_step rt peer_ok' w w'"
  by (induction rule: relay_step.induct) (auto intro: relay_step.intros)

text \<open>What remains of a step once the process that made it, the store and the messages are known.\<close>

lemma cluster_ok_update:
  assumes ok: "cluster_ok cr cl" and st: "good_store cr st" and p: "process_ok cr st p"
    and es: "\<forall>e\<in>set es. authentic cr e"
  shows "cluster_ok cr (cl\<lparr>cl_store := st, cl_processes := set_process k p (cl_processes cl),
    cl_outbox := cl_outbox cl @ posted k source es\<rparr>)"
  using assms process_ok_store [OF _ st]
  by (fastforce simp: cluster_ok_def set_process_def posted_def)

lemma client_step_ok:
  assumes rt: "rt = worker_runtime cr s relay_pubkey limiter True parse joi_message" and ok: "cluster_ok cr cl"
    and w: "(k, ClientWorker w) \<in> set (cl_processes cl)"
    and step: "relay_step rt (\<lambda>e. False) (w\<lparr>r_store := cl_store cl\<rparr>) w'"
  shows "good_store cr (r_store w') \<and> process_ok cr (r_store w') (ClientWorker w')
    \<and> (\<exists>es. srv_to_primary (r_server w') = srv_to_primary (r_server w) @ es \<and> (\<forall>e\<in>set es. authentic cr e))"
proof -
  have h: "authenticity.holds cr (w\<lparr>r_store := cl_store cl\<rparr>)"
    using ok w by (force simp: cluster_ok_def)
  have step': "relay_step (worker_runtime cr s relay_pubkey limiter True parse joi_message) (authentic cr)
      (w\<lparr>r_store := cl_store cl\<rparr>) w'"
    using relay_step_mono [OF step] rt by simp
  from authenticity.step_holds [OF step' h] have "authenticity.holds cr w'" .
  moreover from this have "good_store cr (r_store w')"
    by (simp add: authenticity.holds_def good_store_def)
  moreover have "\<exists>es. srv_to_primary (r_server w') = srv_to_primary (r_server w) @ es \<and> (\<forall>e\<in>set es. authentic cr e)"
    using authenticity.step_to_primary [OF step' h] by (simp add: emission_ok_def)
  ultimately show ?thesis by simp
qed

lemma store_server: "w\<lparr>r_store := st, r_server := srv\<rparr> = w\<lparr>r_server := srv, r_store := st\<rparr>"
  by (cases w) simp

lemma process_onMessage_ok:
  assumes "process_ok cr st p" "authentic cr (bc_event b)"
  shows "process_ok cr st (process_onMessage b p)"
proof (cases p)
  case (ClientWorker w)
  have "relay_step (worker_runtime cr s relay_pubkey limiter True parse joi_message) (authentic cr)
      (w\<lparr>r_store := st\<rparr>) (worker_onMessage (bc_event b) (w\<lparr>r_store := st\<rparr>))"
    for s relay_pubkey and limiter :: "'a rate_limiter" and parse joi_message
    by (rule relay_step.peer_event) (rule assms(2))
  from authenticity.step_holds [OF this] show ?thesis
    using assms(1) ClientWorker by (simp add: worker_onMessage_def with_server_def store_server)
next
  case (MirrorWorker m)
  then show ?thesis
    using assms by (auto simp: mirror_onMessage_def mirror_sent_ok_def createRelayedEventMessage_def split: option.splits)
qed simp

text \<open>
  What is asked of the relay's own key: its public key is in hexadecimal, and a signature made with
  it is in hexadecimal and verifies.
\<close>

definition signs :: "crypto \<Rightarrow> event_db notifier \<Rightarrow> bool" where
  "signs cr no \<longleftrightarrow> no_crypto no = cr \<and> no_events no = EventRepository
     \<and> (\<forall>priv pub i s. no_keys no = Inr (priv, pub) \<longrightarrow> no_sign no priv i = Inr s
          \<longrightarrow> schnorr_verify cr s i pub \<and> lower_hex s \<and> even (length s) \<and> lower_hex pub \<and> even (length pub))"

lemma notification_good:
  assumes signs: "signs cr no" and good: "db_inv db" "authentic_rows cr db"
    and run: "sendInvoiceUpdateNotification no now i db = (res, es, db')"
  shows "db_inv db' \<and> authentic_rows cr db' \<and> (\<forall>e\<in>set es. authentic cr e)"
proof (cases "no_keys no")
  case (Inr keys)
  obtain priv pub where keys: "keys = (priv, pub)" by fastforce
  show ?thesis
  proof (cases "inv_amountPaid i")
    case (Some amount)
    let ?e = "identifyEvent (no_crypto no) (invoice_event pub now (no_next_month no now) i amount)"
    show ?thesis
    proof (cases "no_sign no priv (evt_id ?e)")
      case signed: (Inr s)
      have sig: "schnorr_verify cr s (evt_id ?e) pub" "hex_fields (?e\<lparr>sig := s\<rparr>)"
        using signs Inr signed keys unfolding signs_def
        by (auto simp: hex_fields_def identifyEvent_def getEventHash_def invoice_event_def Let_def)
      have "authentic cr (?e\<lparr>sig := s\<rparr>)"
        using sig(1) signs by (simp add: authentic_def isEventIdValid_def isEventSignatureValid_def signs_def
            identifyEvent_def getEventHash_def serializeEvent_def invoice_event_def Let_def)
      then show ?thesis
        using run create_good [OF good _ sig(2)] signs
        by (auto simp: sendInvoiceUpdateNotification_def Inr keys Some signed Let_def signs_def split: if_splits)
    qed (use run good in \<open>simp add: sendInvoiceUpdateNotification_def Inr keys Some Let_def\<close>)
  qed (use run good in \<open>simp add: sendInvoiceUpdateNotification_def Inr keys\<close>)
qed (use run good in \<open>simp add: sendInvoiceUpdateNotification_def\<close>)

lemma initial_relay_holds:
  "good_store cr st \<Longrightarrow> authenticity.holds cr ((initial_relay st)\<lparr>r_store := st\<rparr>)"
  by (simp add: authenticity.holds_def good_store_def initial_relay_def distinct_keys_def all_clients_def)

lemma getRunner_ok:
  assumes "getRunner s now uuid st wenv = Inr p" "good_store cr st"
  shows "process_ok cr st p"
  using assms initial_relay_holds [OF assms(2)]
  by (auto simp: getRunner_def mirror_run_def mirror_sent_ok_def new_mirror_socket_def
      split: option.splits if_splits sum.splits)

lemma cluster_step_ok:
  assumes rt: "rt = worker_runtime cr s relay_pubkey limiter True parse joi_message"
    and remote: "\<And>e. remote_ok e \<Longrightarrow> hex_fields e" and signs: "signs cr no"
    and step: "cluster_step rt remote_ok no cl cl'" and ok: "cluster_ok cr cl"
  shows "cluster_ok cr cl'"
  using step
proof (cases rule: cluster_step.cases)
  case (client k w w' es)
  from client_step_ok [OF rt ok client(2,3)] client(4)
  have "good_store cr (r_store w')" "process_ok cr (r_store w') (ClientWorker w')" "\<forall>e\<in>set es. authentic cr e"
    by auto
  then show ?thesis unfolding client(1) by (rule cluster_ok_update [OF ok])
next
  case (mirror k m m' db es)
  have env: "env_events (rt_env rt) = EventRepository" "env_crypto (rt_env rt) = cr"
    by (simp_all add: rt worker_runtime_def)
  have good: "db_inv (st_events (cl_store cl))" "authentic_rows cr (st_events (cl_store cl))" "mirror_sent_ok cr m"
    using ok mirror(2) by (auto simp: cluster_ok_def good_store_def)
  from mirror_step_good [OF env remote mirror(3) good] mirror(4)
  have "good_store cr ((cl_store cl)\<lparr>st_events := db\<rparr>)"
    "process_ok cr ((cl_store cl)\<lparr>st_events := db\<rparr>) (MirrorWorker m')" "\<forall>e\<in>set es. authentic cr e"
    by (auto simp: good_store_def)
  then show ?thesis unfolding mirror(1) by (rule cluster_ok_update [OF ok])
next
  case (notify k now i res es db)
  have good: "db_inv (st_events (cl_store cl))" "authentic_rows cr (st_events (cl_store cl))"
    using ok by (simp_all add: cluster_ok_def good_store_def)
  from notification_good [OF signs good notify(3)]
  have "good_store cr ((cl_store cl)\<lparr>st_events := db\<rparr>)" "\<forall>e\<in>set es. authentic cr e"
    by (auto simp: good_store_def)
  then show ?thesis using ok process_ok_store unfolding notify(1) cluster_ok_def posted_def by fastforce
next
  case (tables cache users)
  have "good_store cr ((cl_store cl)\<lparr>st_users := users, st_cache := cache\<rparr>)"
    using ok by (simp add: cluster_ok_def good_store_def)
  then show ?thesis using ok process_ok_store unfolding tables cluster_ok_def by fastforce
next
  case (forward k b rest)
  then show ?thesis using ok by (auto simp: cluster_ok_def onClusterMessage_def)
next
  case (deliver before k b after p)
  then have "process_ok cr (cl_store cl) (process_onMessage b p)"
    using ok by (intro process_onMessage_ok) (auto simp: cluster_ok_def)
  then show ?thesis using ok deliver by (fastforce simp: cluster_ok_def set_process_def)
next
  case (exit k code signal)
  then show ?thesis using ok by (auto simp: cluster_ok_def)
next
  case (restart pr)
  then show ?thesis using ok by (simp add: cluster_ok_def)
next
  case (boot k wenv now uuid p)
  then show ?thesis using ok getRunner_ok by (auto simp: cluster_ok_def)
qed

lemma cluster_reachable_ok:
  assumes "cluster_reachable (worker_runtime cr s relay_pubkey limiter True parse joi_message) remote_ok no
      (initial_cluster pr st) cl"
    and "\<And>e. remote_ok e \<Longrightarrow> hex_fields e" "signs cr no" "good_store cr st"
  shows "cluster_ok cr cl"
  using assms(1)
proof (induction rule: cluster_reachable.induct)
  case start
  show ?case using assms(4) by (simp add: cluster_ok_def initial_cluster_def)
next
  case (step cl cl')
  then show ?case using cluster_step_ok [OF refl assms(2,3)] by blast
qed

end
