(* ===== verification/Canonical_Form.thy ===== *)
theory Canonical_Form
  imports Nostr_Event
begin

text \<open>
  The text an event's identifier is the hash of (\<open>serializeEvent\<close> and \<open>JSON.stringify\<close> in
  \<open>getEventHash\<close> of utils/event.ts) determines the six fields it is made of. The lemmas read the
  text back from left to right.
\<close>

lemma json_char_prefix_free:
  assumes "json_char c @ u = json_char d @ v"
  shows "c = d \<and> u = v"
proof -
  have hex: "hex_char m = hex_char n \<longleftrightarrow> m = n" if "m < 16" "n < 16" for m n
    using that by (rule hex_char_inject)
  have ctrl: "c = d" if "(of_char c :: nat) < 32" "(of_char d :: nat) < 32"
    "hex_char ((of_char c :: nat) div 16) = hex_char ((of_char d :: nat) div 16)"
    "hex_char ((of_char c :: nat) mod 16) = hex_char ((of_char d :: nat) mod 16)"
  proof -
    have "(of_char c :: nat) div 16 = of_char d div 16" "(of_char c :: nat) mod 16 = of_char d mod 16"
      using that hex by auto
    then have "(of_char c :: nat) = of_char d" by (metis div_mult_mod_eq)
    then show ?thesis by simp
  qed
  have same: "c = d" if "(of_char c :: nat) = k" "(of_char d :: nat) = k" for k
    using that by (metis of_char_eq_iff)
  show ?thesis
    using assms ctrl same unfolding json_char_def Let_def by (auto split: if_splits)
qed

lemma json_char_not_quote: "json_char c @ u \<noteq> CHR 0x22 # v"
  by (auto simp: json_char_def Let_def)

lemma json_body_inject:
  "concat (map json_char s) @ CHR 0x22 # u = concat (map json_char t) @ CHR 0x22 # v
     \<Longrightarrow> s = t \<and> u = v"
proof (induction s arbitrary: t)
  case Nil
  then show ?case using json_char_not_quote by (cases t) (auto, metis)
next
  case (Cons c s)
  show ?case
  proof (cases t)
    case Nil
    then show ?thesis using Cons.prems json_char_not_quote by auto
  next
    case (Cons d t')
    then have "json_char c @ concat (map json_char s) @ CHR 0x22 # u
        = json_char d @ concat (map json_char t') @ CHR 0x22 # v"
      using Cons.prems by simp
    then show ?thesis using json_char_prefix_free Cons.IH [of t'] Cons by blast
  qed
qed

lemma json_string_inject: "json_string s @ u = json_string t @ v \<Longrightarrow> s = t \<and> u = v"
  by (rule json_body_inject) (simp add: json_string_def)

lemma comma_notin_int_str: "CHR '','' \<notin> set (int_str i)"
proof -
  have "CHR '','' \<notin> set (nat_str n)" for n using nat_str_set [of "CHR '',''" n] by auto
  then show ?thesis by (simp add: int_str_def)
qed

lemma split_at_comma:
  "CHR '','' \<notin> set a \<Longrightarrow> CHR '','' \<notin> set b \<Longrightarrow> a @ CHR '','' # u = b @ CHR '','' # v
     \<Longrightarrow> a = b \<and> u = v"
proof (induction a arbitrary: b)
  case Nil
  then show ?case by (cases b) auto
next
  case (Cons c a)
  then show ?case by (cases b) auto
qed

text \<open>Arrays whose items are read back one at a time.\<close>

definition self_delimiting :: "('a \<Rightarrow> string) \<Rightarrow> bool" where
  "self_delimiting show_item \<longleftrightarrow>
     (\<forall>x y u v. show_item x @ u = show_item y @ v \<longrightarrow> x = y \<and> u = v)
     \<and> (\<forall>x u. show_item x @ u \<noteq> [] \<and> hd (show_item x @ u) \<noteq> CHR '']'')"

definition show_array :: "('a \<Rightarrow> string) \<Rightarrow> 'a list \<Rightarrow> string" where
  "show_array show_item xs = ''['' @ js_join '','' (map show_item xs) @ '']''"

lemma js_join_Cons: "js_join sep (x # xs) = x @ concat (map (\<lambda>y. sep @ y) xs)"
  by (induction xs arbitrary: x) auto

lemma show_tail_inject:
  assumes sd: "self_delimiting f"
  shows "concat (map (\<lambda>y. CHR '','' # f y) xs) @ CHR '']'' # u
      = concat (map (\<lambda>y. CHR '','' # f y) ys) @ CHR '']'' # v \<Longrightarrow> xs = ys \<and> u = v"
proof (induction xs arbitrary: ys)
  case Nil
  then show ?case by (cases ys) auto
next
  case (Cons x xs)
  then obtain y ys' where ys: "ys = y # ys'" by (cases ys) auto
  let ?tail = "\<lambda>zs w. concat (map (\<lambda>y. CHR '','' # f y) zs) @ CHR '']'' # w"
  have "f x @ ?tail xs u = f y @ ?tail ys' v" using Cons.prems by (simp add: ys)
  then have "x = y" "?tail xs u = ?tail ys' v" using sd unfolding self_delimiting_def by blast+
  then show ?case using Cons.IH [of ys'] ys by simp
qed

lemma show_array_inject:
  assumes sd: "self_delimiting f" and eq: "show_array f xs @ u = show_array f ys @ v"
  shows "xs = ys \<and> u = v"
proof (cases "xs = [] \<or> ys = []")
  case True
  have no: "f x @ w \<noteq> CHR '']'' # w'" for x w w'
    using sd unfolding self_delimiting_def by (metis list.sel(1))
  have no': "CHR '']'' # w' \<noteq> f x @ w" for x w w' using no by metis
  show ?thesis
    using True eq no no' by (cases xs; cases ys) (auto simp: show_array_def js_join_Cons)
next
  case False
  then obtain x xs' y ys' where xy: "xs = x # xs'" "ys = y # ys'" by (metis neq_Nil_conv)
  let ?tail = "\<lambda>zs w. concat (map (\<lambda>y. CHR '','' # f y) zs) @ CHR '']'' # w"
  have "f x @ ?tail xs' u = f y @ ?tail ys' v"
    using eq by (simp add: show_array_def xy js_join_Cons comp_def)
  then have "x = y" "?tail xs' u = ?tail ys' v" using sd unfolding self_delimiting_def by blast+
  then show ?thesis using show_tail_inject [OF sd] xy by blast
qed

lemma self_delimitingI:
  assumes "\<And>x y u v. f x @ u = f y @ v \<Longrightarrow> x = y \<and> u = v" "\<And>x. \<exists>c cs. f x = c # cs \<and> c \<noteq> CHR '']''"
  shows "self_delimiting f"
  unfolding self_delimiting_def
proof (intro conjI allI impI)
  fix x u
  obtain c cs where "f x = c # cs" "c \<noteq> CHR '']''" using assms(2) by blast
  then show "f x @ u \<noteq> []" "hd (f x @ u) \<noteq> CHR '']''" by simp_all
qed (use assms(1) in blast)+

lemma self_delimiting_string: "self_delimiting json_string"
  by (rule self_delimitingI [OF json_string_inject]) (assumption, simp add: json_string_def)

lemma self_delimiting_array: "self_delimiting f \<Longrightarrow> self_delimiting (show_array f)"
  by (rule self_delimitingI [OF show_array_inject]) (assumption, assumption, simp add: show_array_def)

definition show_tags :: "tag list \<Rightarrow> string" where
  "show_tags = show_array (show_array json_string)"

lemma stringify_tags: "stringify (JArr (map (\<lambda>t. JArr (map JStr t)) ts)) = show_tags ts"
proof -
  have "show_array json_string = (\<lambda>t. ''['' @ js_join '','' (map json_string t) @ '']'')"
    by (rule ext) (simp add: show_array_def)
  then show ?thesis by (simp add: show_tags_def show_array_def comp_def)
qed

lemma int_str_0: "int_str 0 = ''0''"
  by (simp add: int_str_def nat_str.simps [of 0] digit_char_def char_of_def bit_iff_odd)

lemma stringify_serializeEvent:
  "stringify (serializeEvent e) = ''[0,'' @ json_string (pubkey e) @ CHR '','' # int_str (created_at e)
     @ CHR '','' # int_str (kind e) @ CHR '','' # show_tags (tags e) @ CHR '','' # json_string (content e)
     @ '']''"
  unfolding stringify_tags [symmetric] by (simp add: serializeEvent_def int_str_0)

lemma serializeEvent_inject:
  "stringify (serializeEvent e) = stringify (serializeEvent e') \<longleftrightarrow>
     pubkey e = pubkey e' \<and> created_at e = created_at e' \<and> kind e = kind e' \<and> tags e = tags e'
     \<and> content e = content e'"
proof
  let ?rest4 = "\<lambda>e. json_string (content e) @ '']''"
  let ?rest3 = "\<lambda>e. show_tags (tags e) @ CHR '','' # ?rest4 e"
  let ?rest2 = "\<lambda>e. int_str (kind e) @ CHR '','' # ?rest3 e"
  let ?rest1 = "\<lambda>e. int_str (created_at e) @ CHR '','' # ?rest2 e"
  assume "stringify (serializeEvent e) = stringify (serializeEvent e')"
  then have "json_string (pubkey e) @ CHR '','' # ?rest1 e = json_string (pubkey e') @ CHR '','' # ?rest1 e'"
    unfolding stringify_serializeEvent by simp
  from json_string_inject [OF this] have 1: "pubkey e = pubkey e'" "?rest1 e = ?rest1 e'"
    by simp_all
  from split_at_comma [OF comma_notin_int_str comma_notin_int_str 1(2)]
  have 2: "created_at e = created_at e'" "?rest2 e = ?rest2 e'" by simp_all
  from split_at_comma [OF comma_notin_int_str comma_notin_int_str 2(2)]
  have 3: "kind e = kind e'" "?rest3 e = ?rest3 e'" by simp_all
  from show_array_inject [OF self_delimiting_array [OF self_delimiting_string] 3(2) [unfolded show_tags_def]]
  have 4: "tags e = tags e'" "?rest4 e = ?rest4 e'" by simp_all
  from json_string_inject [OF 4(2)] have "content e = content e'" by blast
  then show "pubkey e = pubkey e' \<and> created_at e = created_at e' \<and> kind e = kind e'
      \<and> tags e = tags e' \<and> content e = content e'"
    using 1(1) 2(1) 3(1) 4(1) by blast
qed (simp add: serializeEvent_def)

end
