(* ===== verification/Event_Retention.thy ===== *)
theory Event_Retention
  imports Event_Strategies
begin

text \<open>
  What the event repository keeps: the newest of the events that replace each other, the events
  their own author has not deleted, and nothing for an event whose values the columns do not take.
\<close>

lemma upsert_row_fields [simp]:
  "event_created_at (upsert_row_of e) = created_at e" "event_kind (upsert_row_of e) = kind e"
  "event_pubkey (upsert_row_of e) = toBuffer (pubkey e)"
  "event_deduplication (upsert_row_of e) = Some (deduplication_of e)"
  "deleted_at (upsert_row_of e) = None"
  by (simp_all add: upsert_row_of_def)

lemma upsert_self_conflict:
  "index_conflict (upsert_row_of e) (upsert_row_of e) \<longleftrightarrow> in_replaceable_index (kind e)"
  by (simp add: index_conflict_def)

lemma index_conflict_trans:
  "index_conflict r s \<Longrightarrow> index_conflict s t \<Longrightarrow> index_conflict r t"
  unfolding index_conflict_def by metis

text \<open>The strategies that upsert are those of the kinds the partial index covers.\<close>

lemma upserted_kinds:
  "in_replaceable_index (kind e) \<longleftrightarrow> isReplaceableEvent e \<or> isParameterizedReplaceableEvent e"
  by (auto simp: in_replaceable_index_def kind_tests)

text \<open>
  \<open>keeper row db db'\<close>: of the rows that conflict with \<open>row\<close>, \<open>db'\<close> has exactly one, the newest of
  \<open>row\<close> and those of \<open>db\<close>, an older one winning a tie; the other rows are those of \<open>db\<close>.
\<close>

definition keeps_newest :: "dbevent \<Rightarrow> event_db \<Rightarrow> event_db \<Rightarrow> bool" where
  "keeps_newest row db db' \<longleftrightarrow>
     (\<exists>r. {s \<in> set (events db'). index_conflict s row} = {r}
        \<and> (r = row \<or> r \<in> set (events db))
        \<and> event_created_at row \<le> event_created_at r
        \<and> (\<forall>s\<in>set (events db). index_conflict s row \<longrightarrow> event_created_at s \<le> event_created_at r
             \<and> (event_created_at s = event_created_at r \<longrightarrow> r = s)))
     \<and> {s \<in> set (events db'). \<not> index_conflict s row} = {s \<in> set (events db). \<not> index_conflict s row}"

lemma upsert_keeps_newest:
  assumes inv: "db_inv db" and idx: "in_replaceable_index (kind e)" and run: "upsert e db = (Inr n, db')"
  shows "keeps_newest (upsert_row_of e) db db'"
proof -
  let ?row = "upsert_row_of e"
  have self: "index_conflict ?row ?row" using idx upsert_self_conflict by blast
  have only: "s = r" if "r \<in> set (events db)" "index_conflict r ?row" "s \<in> set (events db)"
    "index_conflict s ?row" for r s
    using db_invD(2) [OF inv that(3,1)] index_conflict_trans [OF that(4) index_conflict_sym [OF that(2)]]
    by blast
  from inv show ?thesis
  proof (cases rule: insert_or_merge_cases [where row = ?row])
    case inserted
    then have "db' = insert_row ?row db" using run by (simp add: upsert_def)
    then have "set (events db') = insert ?row (set (events db))" by (simp add: insert_row_def)
    then show ?thesis using inserted(3) self unfolding keeps_newest_def
      by (intro conjI exI [of _ ?row]) auto
  next
    case (kept r)
    then have "db' = db" using run by (simp add: upsert_def)
    then show ?thesis using kept only unfolding keeps_newest_def
      by (intro conjI exI [of _ r]) auto
  next
    case (replaced r)
    then have "db' = replace_row r ?row db" using run by (simp add: upsert_def)
    then have ev: "set (events db') = insert ?row (set (events db) - {r})"
      using replaced(2) by (auto simp: replace_row_def)
    have older: "event_created_at s < event_created_at ?row"
      if "s \<in> set (events db)" "index_conflict s ?row" for s
      using only [OF replaced(2,3) that] replaced(4) by simp
    have one: "{s \<in> set (events db'). index_conflict s ?row} = {?row}"
      using only [OF replaced(2,3)] self unfolding ev by blast
    have rest: "{s \<in> set (events db'). \<not> index_conflict s ?row}
        = {s \<in> set (events db). \<not> index_conflict s ?row}"
      using replaced(3) self unfolding ev by blast
    have "\<forall>s\<in>set (events db). index_conflict s ?row \<longrightarrow> event_created_at s \<le> event_created_at ?row
        \<and> (event_created_at s = event_created_at ?row \<longrightarrow> ?row = s)"
      using older less_imp_le less_irrefl by metis
    then show ?thesis using one rest unfolding keeps_newest_def
      by (intro conjI exI [of _ ?row]) simp_all
  qed (use run in \<open>simp_all add: upsert_def\<close>)
qed

text \<open>A value a column does not take: the insert fails and \<open>create\<close> reports no row.\<close>

lemma create_out_of_range:
  assumes "\<not> row_ok (insert_row_of e)"
  shows "create e db = (0, db)"
  using assms by (simp add: create_def insert_ignore_def)

lemma execute_default_out_of_range:
  assumes "\<not> row_ok (insert_row_of e)"
  shows "execute DefaultEventStrategy EventRepository now e db =
    ([EmitMessage (CommandResult (evt_id e) True ''duplicate:'')], None, db)"
  using create_out_of_range [OF assms]
  by (simp add: execute_default_def reply_of_count_def createCommandResult_def)

text \<open>A deletion request marks the author's events it names and changes no other row.\<close>

definition names_event :: "event \<Rightarrow> dbevent \<Rightarrow> bool" where
  "names_event e r \<longleftrightarrow>
     event_pubkey r = toBuffer (pubkey e)
     \<and> (\<exists>tag\<in>set (tags e). isValidETag tag \<and> event_id r = toBuffer (tag ! 1))"

definition mark_deleted :: "event \<Rightarrow> int \<Rightarrow> dbevent \<Rightarrow> dbevent" where
  "mark_deleted e now r =
     (if names_event e r \<and> deleted_at r = None then r\<lparr>deleted_at := Some now\<rparr> else r)"

lemma create_events:
  assumes "create e db = (n, db')"
  shows "events db' = events db @ (if n = 0 then [] else [insert_row_of e])"
  using assms by (cases rule: create_cases [of e db]) (auto simp: insert_row_def)

lemma execute_delete_rows:
  assumes "execute DeleteEventStrategy EventRepository now e db = (ems, err, db')"
  shows "events db' = map (mark_deleted e now) (events db)
    @ (if broadcasts ems = [] then [] else [insert_row_of e])"
proof -
  let ?ids = "event_ids_to_delete e"
  have sel: "event_pubkey r = toBuffer (pubkey e) \<and> event_id r \<in> set (map toBuffer ?ids)
      \<and> deleted_at r = None \<longleftrightarrow> names_event e r \<and> deleted_at r = None" for r
    by (auto simp: names_event_def event_ids_to_delete_filter)
  have marked: "events (snd (deleteByPubkeyAndIds now (pubkey e) ?ids db))
      = map (mark_deleted e now) (events db)"
    unfolding deleteByPubkeyAndIds_def Let_def sel
    by (simp add: update_rows_def mark_deleted_def cong: map_cong)
  have none: "map (mark_deleted e now) (events db) = events db" if "?ids = []"
  proof -
    have "\<not> names_event e r" for r
      using that by (auto simp: names_event_def event_ids_to_delete_filter filter_empty_conv)
    then show ?thesis by (simp add: mark_deleted_def map_idI)
  qed
  show ?thesis
  proof (cases "?ids = []")
    case True
    obtain n db2 where c: "create e db = (n, db2)" by fastforce
    then show ?thesis using assms True none create_events [OF c]
      by (auto simp: execute_delete_def Let_def)
  next
    case False
    obtain m db1 where d: "deleteByPubkeyAndIds now (pubkey e) ?ids db = (Inr m, db1)"
      by (simp add: deleteByPubkeyAndIds_def Let_def)
    obtain n db2 where c: "create e db1 = (n, db2)" by fastforce
    then show ?thesis using assms False d marked create_events [OF c]
      by (auto simp: execute_delete_def Let_def)
  qed
qed

end
