(* ===== verification/Sample_Worker.thy ===== *)
theory Sample_Worker
  imports Relay_Safety Canonical_Form Event_Retention
begin

text \<open>
  A concrete worker, events and stores, on which the hypotheses of the properties are checked: a
  constant hash and a signature check by comparison, settings with a few limits, and the rate
  limiter over the store of association lists. The lemmas run the handlers on them.
\<close>

definition sample_crypto :: crypto where
  "sample_crypto =
     \<lparr>sha256 = (\<lambda>bs. replicate 32 7), hmac_sha256 = (\<lambda>s p. [1, 2]),
      schnorr_verify = (\<lambda>s i p. s = replicate 128 (CHR ''a'')),
      derive_public_key = (\<lambda>k. replicate 64 (CHR ''e''))\<rparr>"

definition sample_limits :: all_limits where
  "sample_limits =
     \<lparr>lim_invoice = None, lim_admissionCheck = None, lim_connection = None,
      lim_client = Some \<lparr>cl_subscription = Some \<lparr>maxSubscriptions = Some 2, maxFilters = Some 3,
        maxFilterValues = None, maxLimit = None, minPrefixLength = None,
        maxSubscriptionIdLength = Some 10\<rparr>\<rparr>,
      lim_event = Some \<lparr>lim_eventId = None, lim_pubkey = None, lim_kind = None,
        lim_createdAt = Some \<lparr>maxNegativeDelta = None, maxPositiveDelta = Some 900\<rparr>,
        lim_content = Some (OneContent \<lparr>cl_kinds = None, cl_maxLength = Some 100\<rparr>),
        lim_rateLimits = None,
        lim_whitelists = None\<rparr>,
      lim_message = None\<rparr>"

definition sample_settings :: settings where
  "sample_settings =
     \<lparr>info_relay_url = ''wss://relay'', info_name = ''relay'', info_description = ''a relay'',
      info_pubkey = replicate 64 (CHR ''d''), info_contact = ''mailto:me'', set_payments = None,
      net_remoteIpHeader = None, net_remote_ip_header = None, net_maxPayloadSize = None, set_limits = Some sample_limits,
      set_workers_count = None, set_mirrors = None\<rparr>"

definition sample_limiter :: "alist_store rate_limiter" where
  "sample_limiter = SlidingWindowRateLimiter (RedisAdapter None alist_client)"

definition sample_runtime :: "(bytes \<Rightarrow> string + json) \<Rightarrow> (event_db, user_table, alist_store) runtime" where
  "sample_runtime parse =
     worker_runtime sample_crypto sample_settings (Inr (replicate 64 (CHR ''e''))) sample_limiter False
       parse (\<lambda>j. ''error'')"

definition sample_env :: "(event_db, user_table, alist_store) handler_env" where
  "sample_env = rt_env (sample_runtime (\<lambda>raw. Inr JNull))"

definition sample_store :: "(event_db, user_table, alist_store) store" where
  "sample_store = \<lparr>st_events = empty_db, st_users = None, st_cache = (\<lambda>k. [])\<rparr>"

definition sample_clock :: clock_readings where
  "sample_clock = \<lparr>at_expiry = 2000000, at_hit = (\<lambda>i. 2000000), at_accept = 2000000, at_delete = 2000000\<rparr>"

definition sample_note :: "int \<Rightarrow> event" where
  "sample_note k = identifyEvent sample_crypto
     \<lparr>evt_id = [], pubkey = replicate 64 (CHR ''b''), created_at = 1500, kind = k,
      tags = [[''t'', ''x'']], sig = replicate 128 (CHR ''a''), content = ''hi'', ctx_address = None,
      meta_expiration = None, meta_deduplication = None\<rparr>"

lemma lower_hex_replicate [simp]: "lower_hex (replicate n c) \<longleftrightarrow> n = 0 \<or> c \<in> set hex_digits"
  by (auto simp: lower_hex_def list_all_iff)

lemma sample_note_simps [simp]:
  "evt_id (sample_note k) = fromBuffer (replicate 32 7)" "pubkey (sample_note k) = replicate 64 (CHR ''b'')"
  "created_at (sample_note k) = 1500" "kind (sample_note k) = k" "tags (sample_note k) = [[''t'', ''x'']]"
  "sig (sample_note k) = replicate 128 (CHR ''a'')" "content (sample_note k) = ''hi''"
  "ctx_address (sample_note k) = None" "meta_expiration (sample_note k) = None"
  "meta_deduplication (sample_note k) = None"
  by (simp_all add: sample_note_def identifyEvent_def getEventHash_def sample_crypto_def)

lemma sample_authentic [simp]: "authentic sample_crypto (sample_note k)"
  by (simp add: authentic_def isEventIdValid_def getEventHash_def isEventSignatureValid_def
      sample_crypto_def)

lemma sample_note_wf: "0 \<le> k \<Longrightarrow> k < 2 ^ 53 \<Longrightarrow> event_wf (sample_note k)"
  by (simp add: event_wf_def hex_digits_def)

lemma sample_env_simps [simp]:
  "env_crypto sample_env = sample_crypto" "env_settings sample_env = sample_settings"
  "env_relay_pubkey sample_env = Inr (replicate 64 (CHR ''e''))" "env_events sample_env = EventRepository"
  "env_users sample_env = UserRepository" "env_limiter sample_env = sample_limiter"
  by (simp_all add: sample_env_def sample_runtime_def worker_runtime_def)

lemma sample_store_simps [simp]:
  "st_events sample_store = empty_db" "st_users sample_store = None" "st_cache sample_store = (\<lambda>k. [])"
  by (simp_all add: sample_store_def)

lemma sample_event_limits [simp]:
  "event_limits_of sample_settings = the (lim_event sample_limits)"
  by (simp add: event_limits_of_def sample_settings_def sample_limits_def)

lemma sample_no_expiration [simp]: "getEventExpiration (sample_note k) = None"
  by (simp add: getEventExpiration_def)

lemma sample_prepared [simp]: "prepared (sample_note k) None = sample_note k"
  by (simp add: prepared_def addExpirationMetadata_def getEventExpiration_def)

lemma sample_settings_simps [simp]:
  "set_payments sample_settings = None" "set_limits sample_settings = Some sample_limits"
  "net_remoteIpHeader sample_settings = None" "net_remote_ip_header sample_settings = None"
  by (simp_all add: sample_settings_def)

lemma sample_admitted: "admits sample_env sample_clock (sample_note k) None sample_store"
  using sample_authentic [of k]
  by (simp add: admits_def authentic_def isExpiredEvent_def isRateLimited_def canAcceptEvent_def
      isUserAdmitted_def payments_enabled_def sample_limits_def check_content_def
      content_too_long_def check_created_at_def check_pow_def check_pubkey_def check_kind_def
      sample_clock_def Let_def positive_limit_def)

lemma sample_row_ok: "int4 k \<Longrightarrow> row_ok (insert_row_of (sample_note k))"
  by (simp add: row_ok_def insert_row_of_def int4_def pg_text_def)

lemma sample_created:
  "int4 k \<Longrightarrow> create (sample_note k) empty_db = (1, insert_row (insert_row_of (sample_note k)) empty_db)"
  using sample_row_ok [of k]
  by (simp add: create_def insert_ignore_def has_event_id_def empty_db_def)

definition sample_stored :: "int \<Rightarrow> (event_db, user_table, alist_store) store" where
  "sample_stored k =
     sample_store\<lparr>st_events := insert_row (insert_row_of (sample_note k)) empty_db\<rparr>"

text \<open>A regular event is stored, acknowledged and broadcast.\<close>

lemma sample_handled:
  "handle_event sample_env sample_clock (sample_note 1) None sample_store =
     ([EmitMessage (CommandResult (evt_id (sample_note 1)) True []), EmitBroadcast (sample_note 1)],
      None, sample_stored 1)"
proof -
  have "guard_result sample_env sample_clock (sample_note 1) None sample_store = (Inr None, \<lambda>k. [])"
  proof (rule prod_eqI)
    show "fst (guard_result sample_env sample_clock (sample_note 1) None sample_store)
        = fst (Inr None, \<lambda>k. [])"
      using guard_result_admits [of sample_env sample_clock "sample_note 1" None sample_store]
        sample_admitted by simp
    show "snd (guard_result sample_env sample_clock (sample_note 1) None sample_store)
        = snd (Inr None, \<lambda>k. [])"
      using guard_result_cache [OF sample_admitted, of 1]
      by (simp add: isRateLimited_def sample_limits_def)
  qed
  moreover have "eventStrategyFactory (sample_note 1) = DefaultEventStrategy"
    by (simp add: eventStrategyFactory_def kind_tests)
  moreover have "int4 1" by (simp add: int4_def)
  ultimately show ?thesis
    using sample_created [of 1]
    by (simp add: handle_event_guards execute_default_def reply_of_count_def
        createCommandResult_def sample_stored_def)
qed

section \<open>A run of the worker\<close>

text \<open>A client connects, subscribes to every event, and another worker broadcasts one.\<close>

definition sample_parse :: "bytes \<Rightarrow> string + json" where
  "sample_parse raw = Inr (JArr [JStr ''REQ'', JStr ''s'', JObj []])"

definition sample_client :: "subscriptions \<Rightarrow> outgoing list \<Rightarrow> ws_client" where
  "sample_client subs sent =
     \<lparr>ws_address = ''1.2.3.4'', ws_open = True, ws_adapted = True, ws_listening = True,
      ws_alive = True, ws_subscriptions = subs, ws_sent = sent, ws_pings = 0\<rparr>"

definition sample_relay ::
  "subscriptions \<Rightarrow> outgoing list \<Rightarrow> (nat \<times> bytes) list \<Rightarrow> (nat \<times> emission list) list
     \<Rightarrow> (event_db, user_table, alist_store) relay" where
  "sample_relay subs sent inbox pending =
     \<lparr>r_server = \<lparr>srv_clients = [(0, sample_client subs sent)], srv_listening = True,
        srv_to_primary = []\<rparr>,
      r_store = sample_store, r_inbox = inbox, r_pending = pending\<rparr>"

lemma sample_runtime_simps [simp]:
  "env_crypto (rt_env (sample_runtime p)) = sample_crypto"
  "env_settings (rt_env (sample_runtime p)) = sample_settings"
  "env_events (rt_env (sample_runtime p)) = EventRepository"
  "rt_parse (sample_runtime p) = p" "rt_is_worker (sample_runtime p) = False"
  by (simp_all add: sample_runtime_def worker_runtime_def)

lemma sample_no_ip_limits [simp]:
  "connection_limits_of sample_settings = no_ip_limits" "message_limits_of sample_settings = no_ip_limits"
  by (simp_all add: connection_limits_of_def message_limits_of_def sample_limits_def)

lemma sample_address [simp]: "socket_address_ok ''1.2.3.4''"
  by code_simp

lemma sample_connect:
  "onConnection (sample_runtime p) clock 0 Map.empty ''1.2.3.4'' (initial_relay sample_store)
     = sample_relay [] [] [] []"
  by (simp add: onConnection_def getRemoteAddress_def connection_isRateLimited_def no_ip_limits_def initial_relay_def sample_relay_def
      accept_socket_def construct_adapter_def new_socket_def sample_client_def)

lemma sample_message:
  "messageSchema (JArr [JStr ''REQ'', JStr ''s'', JObj []]) = Some (SubscribeMessage ''s'' [empty_filter])"
  by (simp add: messageSchema_def reqMessageSchema_def filterSchema_def optional_key_def
      tag_entries_def empty_filter_def)

lemma sample_subscribe:
  "handle_subscribe sample_settings EventRepository [] ''s'' [empty_filter] empty_db =
     ([EmitSubscribe ''s'' [empty_filter], EmitMessage (EndOfStoredEventsNotice ''s'')], None)"
  by (simp add: handle_subscribe_def canSubscribe_def subscription_limits_of_def sample_limits_def
      or_zero_def fetchAndSend_def findByFilters_def filter_query_def prefix_clause_def
      generic_tag_queries_def empty_filter_def run_select_def query_ok_def ambiguous_def where_rows_def
      joined_rows_def empty_db_def order_limit_def sort_rows_def relay_defs)

lemma sample_message_handled:
  "onClientMessage (sample_runtime sample_parse) mclk clk 0 [] (sample_relay [] [] [] [])
     = sample_relay [(''s'', [empty_filter])] [] [] [(0, [EmitMessage (EndOfStoredEventsNotice ''s'')])]"
  by (simp add: onClientMessage_def sample_relay_def message_isRateLimited_def no_ip_limits_def
      attemptValidation_def sample_parse_def sample_message handle_incoming_def sample_client_def
      sample_subscribe emit_all_def map_client_def emit_on_def onSubscribed_def sample_store_def)

lemma sample_broadcast:
  "worker_onMessage (sample_note 1) (sample_relay [(''s'', [empty_filter])] [] inbox pending)
     = sample_relay [(''s'', [empty_filter])] [OutgoingEventMessage ''s'' (sample_note 1)] inbox pending"
  by (simp add: worker_onMessage_def with_server_def server_emit_broadcast_def sample_relay_def
      server_onBroadcast_def map_clients_def sample_client_def emit_on_def onSendEvent_eq
      matching_subscriptions_def)

lemma sample_run:
  assumes "peer_ok (sample_note 1)"
  shows "reachable (sample_runtime sample_parse) peer_ok sample_store
    (sample_relay [(''s'', [empty_filter])] [OutgoingEventMessage ''s'' (sample_note 1)] []
       [(0, [EmitMessage (EndOfStoredEventsNotice ''s'')])])"
proof -
  let ?rt = "sample_runtime sample_parse"
  have "relay_step ?rt peer_ok (initial_relay sample_store) (sample_relay [] [] [] [])"
    using relay_step.connect [of 0 "initial_relay sample_store" ?rt peer_ok _ Map.empty "''1.2.3.4''"]
    by (simp add: sample_connect) (simp add: initial_relay_def)
  with reachable.start have 1: "reachable ?rt peer_ok sample_store (sample_relay [] [] [] [])"
    by (rule reachable.step)
  have "relay_step ?rt peer_ok (sample_relay [] [] [] []) (sample_relay [] [] [(0, [])] [])"
    using relay_step.receive [of "sample_relay [] [] [] []" 0 "sample_client [] []" ?rt peer_ok "[]"]
    by (simp add: sample_relay_def sample_client_def map_client_def)
  with 1 have 2: "reachable ?rt peer_ok sample_store (sample_relay [] [] [(0, [])] [])"
    by (rule reachable.step)
  have "relay_step ?rt peer_ok (sample_relay [] [] [(0, [])] [])
      (onClientMessage ?rt (\<lambda>i. 0) sample_clock 0 []
        (sample_relay [] [] [(0, [])] [] \<lparr>r_inbox := remove1 (0, []) [(0, [])]\<rparr>))"
    using relay_step.handle [of 0 "[]" "sample_relay [] [] [(0, [])] []" ?rt peer_ok "\<lambda>i. 0" sample_clock]
    by (simp add: sample_relay_def)
  also have "sample_relay [] [] [(0, [])] [] \<lparr>r_inbox := remove1 (0, []) [(0, [])]\<rparr>
      = sample_relay [] [] [] []"
    by (simp add: sample_relay_def)
  finally have "relay_step ?rt peer_ok (sample_relay [] [] [(0, [])] [])
      (sample_relay [(''s'', [empty_filter])] [] [] [(0, [EmitMessage (EndOfStoredEventsNotice ''s'')])])"
    by (simp only: sample_message_handled)
  with 2 have 3: "reachable ?rt peer_ok sample_store
      (sample_relay [(''s'', [empty_filter])] [] [] [(0, [EmitMessage (EndOfStoredEventsNotice ''s'')])])"
    by (rule reachable.step)
  show ?thesis
    using reachable.step [OF 3 relay_step.peer_event [of peer_ok "sample_note 1", OF assms]] by (simp only: sample_broadcast)
qed

text \<open>The worker after that run, and its client.\<close>

definition sample_subscribed :: ws_client where
  "sample_subscribed =
     sample_client [(''s'', [empty_filter])] [OutgoingEventMessage ''s'' (sample_note 1)]"

definition sample_end :: "(event_db, user_table, alist_store) relay" where
  "sample_end =
     sample_relay [(''s'', [empty_filter])] [OutgoingEventMessage ''s'' (sample_note 1)] []
       [(0, [EmitMessage (EndOfStoredEventsNotice ''s'')])]"

lemma sample_end_reachable:
  "peer_ok (sample_note 1) \<Longrightarrow>
     reachable (worker_runtime sample_crypto sample_settings (Inr (replicate 64 (CHR ''e'')))
       sample_limiter False sample_parse (\<lambda>j. ''error'')) peer_ok sample_store sample_end"
  using sample_run by (simp add: sample_runtime_def sample_end_def)

lemma sample_end_simps [simp]:
  "srv_clients (r_server sample_end) = [(0, sample_subscribed)]" "r_store sample_end = sample_store"
  "ws_subscriptions sample_subscribed = [(''s'', [empty_filter])]"
  "ws_sent sample_subscribed = [OutgoingEventMessage ''s'' (sample_note 1)]"
  "ws_listening sample_subscribed" "ws_open sample_subscribed" "ws_adapted sample_subscribed"
  by (simp_all add: sample_end_def sample_relay_def sample_subscribed_def sample_client_def)

lemma sample_authentic_rows [simp]: "authentic_rows sample_crypto empty_db"
  by (simp add: authentic_rows_def empty_db_def)

section \<open>A worker that asks for an admission fee\<close>

definition sample_paying_env :: "(event_db, user_table, alist_store) handler_env" where
  "sample_paying_env = sample_env\<lparr>env_settings := sample_settings\<lparr>set_payments := Some
     \<lparr>pay_enabled = True, pay_schedules = [(''admission'',
        [\<lparr>fee_enabled = True, fee_amount = 5, fee_pubkeys = None, fee_event_kinds = None\<rparr>])]\<rparr>\<rparr>\<rparr>"

definition sample_user :: dbuser where
  "sample_user =
     \<lparr>db_pubkey = toBuffer (replicate 64 (CHR ''b'')), is_admitted = True, tos_accepted_at = None,
      db_balance = 7, db_created_at = 1, db_updated_at = 1\<rparr>"

lemma sample_paying_env_simps [simp]:
  "env_relay_pubkey sample_paying_env = Inr (replicate 64 (CHR ''e''))"
  "env_users sample_paying_env = UserRepository" "payments_enabled (env_settings sample_paying_env)"
  "min_balance (env_settings sample_paying_env) = 0"
  "admission_fees (env_settings sample_paying_env) =
     [\<lparr>fee_enabled = True, fee_amount = 5, fee_pubkeys = None, fee_event_kinds = None\<rparr>]"
  by (simp_all add: sample_paying_env_def payments_enabled_def min_balance_def event_limits_of_def
      sample_limits_def admission_fees_def pay_admission_def)

lemma sample_keys_differ: "toBuffer (replicate 64 (CHR ''b'')) \<noteq> toBuffer (replicate 64 (CHR ''c''))"
  by code_simp

section \<open>A worker that limits the rate of events\<close>

definition sample_rate :: event_rate_limit where
  "sample_rate = \<lparr>rl_period = 1000, rl_rate = 1, rl_kinds = None\<rparr>"

definition sample_limited_env :: "(event_db, user_table, alist_store) handler_env" where
  "sample_limited_env = sample_env\<lparr>env_settings := sample_settings\<lparr>set_limits := Some (sample_limits\<lparr>lim_event :=
     Some (no_event_limits\<lparr>lim_rateLimits := Some [sample_rate]\<rparr>)\<rparr>)\<rparr>\<rparr>"

lemma sample_limited_env_simps [simp]:
  "env_relay_pubkey sample_limited_env = Inr (replicate 64 (CHR ''e''))"
  "env_limiter sample_limited_env = SlidingWindowRateLimiter (RedisAdapter None alist_client)"
  "event_limits_of (env_settings sample_limited_env) = no_event_limits\<lparr>lim_rateLimits := Some [sample_rate]\<rparr>"
  "lim_whitelists no_event_limits = None"
  by (simp_all add: sample_limited_env_def event_limits_of_def sample_limiter_def no_event_limits_def)

lemma sample_rate_simps [simp]:
  "rl_period sample_rate = 1000" "rl_rate sample_rate = 1" "rl_kinds sample_rate = None"
  "rate_limit_applies e sample_rate"
  by (simp_all add: sample_rate_def rate_limit_applies_def)

section \<open>A store with a replaceable event\<close>

definition sample_newer :: "int \<Rightarrow> event" where
  "sample_newer k = (sample_note k)\<lparr>evt_id := fromBuffer (replicate 32 8), created_at := 1600\<rparr>"

definition sample_upserted :: "int \<Rightarrow> event_db" where
  "sample_upserted k = insert_row (upsert_row_of (sample_note k)) empty_db"

lemma sample_newer_simps [simp]:
  "evt_id (sample_newer k) = fromBuffer (replicate 32 8)" "pubkey (sample_newer k) = pubkey (sample_note k)"
  "created_at (sample_newer k) = 1600" "kind (sample_newer k) = k" "tags (sample_newer k) = [[''t'', ''x'']]"
  "sig (sample_newer k) = sig (sample_note k)" "content (sample_newer k) = ''hi''"
  "ctx_address (sample_newer k) = None" "meta_expiration (sample_newer k) = None"
  "meta_deduplication (sample_newer k) = None"
  by (simp_all add: sample_newer_def)

lemma sample_upsert_row_ok:
  "int4 k \<Longrightarrow> row_ok (upsert_row_of (sample_note k))" "int4 k \<Longrightarrow> row_ok (upsert_row_of (sample_newer k))"
  by (simp_all add: row_ok_def upsert_row_of_def int4_def pg_text_def)

lemma sample_first_upsert:
  "int4 k \<Longrightarrow> upsert (sample_note k) empty_db = (Inr 1, sample_upserted k)"
  by (simp add: upsert_def insert_or_merge_def sample_upsert_row_ok has_event_id_def empty_db_def
      sample_upserted_def)

lemma sample_upserted_inv: "int4 k \<Longrightarrow> db_inv (sample_upserted k)"
  using event_repo.upsert_inv [of empty_db "sample_note k"] by (simp add: sample_first_upsert)

lemma sample_upserted_events [simp]: "events (sample_upserted k) = [upsert_row_of (sample_note k)]"
  by (simp add: sample_upserted_def insert_row_def empty_db_def)

lemma sample_second_upsert:
  assumes "int4 k" "in_replaceable_index k"
  shows "\<exists>db'. upsert (sample_newer k) (sample_upserted k) = (Inr 1, db')"
proof -
  have "index_conflict (upsert_row_of (sample_note k)) (upsert_row_of (sample_newer k))"
    using assms(2) by (simp add: index_conflict_def deduplication_of_def)
  then show ?thesis
    using assms(1) by (simp add: upsert_def insert_or_merge_def sample_upsert_row_ok has_event_id_def)
qed

definition sample_deletion :: event where
  "sample_deletion = (sample_newer 5)\<lparr>tags := [[''e'', fromBuffer (replicate 32 7)]]\<rparr>"

lemma sample_deletion_simps [simp]:
  "evt_id sample_deletion = fromBuffer (replicate 32 8)" "pubkey sample_deletion = replicate 64 (CHR ''b'')"
  "kind sample_deletion = 5" "tags sample_deletion = [[''e'', fromBuffer (replicate 32 7)]]"
  by (simp_all add: sample_deletion_def)

lemma sample_deletion_tag [simp]: "isValidETag [''e'', fromBuffer (replicate 32 7)]"
  by (simp add: isValidETag_def del: fromBuffer_Cons)

lemma sample_stored_events [simp]: "events (st_events (sample_stored k)) = [insert_row_of (sample_note k)]"
  by (simp add: sample_stored_def insert_row_def empty_db_def)

definition sample_tag_filter :: subfilter where
  "sample_tag_filter = empty_filter\<lparr>generic := [(''#t'', [''x''])]\<rparr>"

definition sample_two_tags :: subfilter where
  "sample_two_tags = empty_filter\<lparr>generic := [(''#t'', [''x'']), (''#u'', [''y''])]\<rparr>"

lemma sample_plain [simp]: "plain_text ''x''" "plain_text ''y''"
  by (simp_all add: plain_text_def json_char_def)

lemma sample_tag_filter_simps [simp]:
  "generic_tag_queries sample_tag_filter = [(''#t'', [''x''])]"
  "generic_tag_queries sample_two_tags = [(''#t'', [''x'']), (''#u'', [''y''])]"
  "hex_filter sample_tag_filter" "plain_filter sample_tag_filter" "query_ok (filter_query sample_tag_filter)"
  by (simp_all add: sample_tag_filter_def sample_two_tags_def generic_tag_queries_def isGenericTagQuery_def is_letter_def
      empty_filter_def hex_filter_def hex_prefixes_def plain_filter_def query_ok_def ambiguous_def filter_query_def
      prefix_clause_def pg_text_def)

lemma sample_stored_inv: "int4 k \<Longrightarrow> db_inv (st_events (sample_stored k))"
  using event_repo.create_inv [of empty_db "sample_note k"] by (simp add: sample_created sample_stored_def)

lemma sample_matches [simp]:
  "isEventMatchingFilter sample_tag_filter (toNostrEvent (insert_row_of (sample_note k)))"
  by (simp add: isEventMatchingFilter_iff sample_tag_filter_def empty_filter_def isGenericTagQuery_def is_letter_def
      tag_criteria_met_iff toNostrEvent_def insert_row_of_def)

lemma sample_sized_row [simp]: "sized_row (insert_row_of (sample_note k))"
proof -
  have "length (toBuffer (replicate 64 (CHR ''b''))) = 32"
    using length_toBuffer [of "replicate 64 (CHR ''b'')"] by (simp add: hex_digits_def)
  then show ?thesis by (simp add: sized_row_def insert_row_of_def)
qed

definition sample_tagged :: event where
  "sample_tagged = (sample_note 1)\<lparr>tags := [[''t'', ''x''], [''u'', ''y'']]\<rparr>"

lemma sample_two_tags_ok:
  "query_ok (filter_query sample_two_tags)" "isEventMatchingFilter sample_two_tags sample_tagged"
  by (simp_all add: query_ok_def ambiguous_def filter_query_def prefix_clause_def pg_text_def sample_two_tags_def
      empty_filter_def isEventMatchingFilter_iff isGenericTagQuery_def is_letter_def
      tag_criteria_met_iff sample_tagged_def generic_tag_queries_def)

lemma sample_tag_rows:
  "length (where_rows (filter_query sample_tag_filter) (st_events (sample_stored 1))) = 1"
  "q_limit (filter_query sample_tag_filter) = 500"
proof -
  have "tag_rows (insert_row_of (sample_note 1)) =
      [\<lparr>tr_event_id = replicate 32 7, tr_name = ''t'', tr_value = ''x''\<rparr>]"
    by (simp add: tag_rows_def tag_row_of_def insert_row_of_def List.map_filter_def pg_tag_text_def
        trim_quotes_def json_string_def json_char_def)
  then show "length (where_rows (filter_query sample_tag_filter) (st_events (sample_stored 1))) = 1"
    by (simp add: where_rows_def joined_rows_def sample_stored_def insert_row_def empty_db_def
        trigger_insert_def filter_query_def prefix_clause_def)
       (simp add: sample_tag_filter_def empty_filter_def insert_row_of_def)
  show "q_limit (filter_query sample_tag_filter) = 500"
    by (simp add: filter_query_def) (simp add: sample_tag_filter_def empty_filter_def)
qed

lemma sample_end_listening [simp]: "srv_listening (r_server sample_end)"
  by (simp add: sample_end_def sample_relay_def)

lemma insert_row_not_deleted [simp]: "deleted_at (insert_row_of e) = None"
  by (simp add: insert_row_of_def)

end
