(* ===== verification/Cluster_Safety.thy ===== *)
theory Cluster_Safety
  imports Cluster Sample_Worker
begin

text \<open>
  What the processes of a relay promise together: every event that leaves the relay, to a client or
  to a mirrored relay, is authentic; a mirror's guards are the EVENT handler's; an event a mirror
  takes unchecked may lose its identity; crashed workers start again.
\<close>

section \<open>Two mirrors\<close>

text \<open>The first of two mirrors receives an event, which the second one passes on to its relay.\<close>

definition sample_mirror :: "string \<Rightarrow> mirror_settings" where
  "sample_mirror address =
     \<lparr>mir_address = address, mir_filters = Some [empty_filter], mir_secret = None,
      mir_limits = Some None, mir_skipAdmissionCheck = False\<rparr>"

definition sample_mirroring :: settings where
  "sample_mirroring = sample_settings\<lparr>set_mirrors := Some [sample_mirror ''wss://a'', sample_mirror ''wss://b'']\<rparr>"

definition sample_cluster_rt :: "(event_db, user_table, alist_store) runtime" where
  "sample_cluster_rt = worker_runtime sample_crypto sample_mirroring (Inr (replicate 64 (CHR ''e'')))
     sample_limiter True sample_parse (\<lambda>j. ''error'')"

definition sample_notifier :: "event_db notifier" where
  "sample_notifier =
     \<lparr>no_crypto = sample_crypto, no_keys = Inr (''00'', replicate 64 (CHR ''e'')),
      no_sign = (\<lambda>k i. Inr (replicate 128 (CHR ''a''))), no_is_worker = True, no_next_month = (\<lambda>n. n),
      no_events = EventRepository\<rparr>"

definition sample_mirror_clock :: mirror_clock where
  "sample_mirror_clock = \<lparr>mc_expiry = 2000000, mc_accept = 2000000, mc_since = 2000000\<rparr>"

definition sample_mirror_state :: "string \<Rightarrow> bool \<Rightarrow> incoming list \<Rightarrow> int \<Rightarrow> event list \<Rightarrow> mirror" where
  "sample_mirror_state address opened sent since0 events0 =
     \<lparr>mr_config = sample_mirror address,
      mr_client = Some \<lparr>ms_open = opened, ms_subscriptionId = ''mirror-u'', ms_sent = sent\<rparr>,
      mr_since = since0, mr_timers = 0, mr_to_primary = events0\<rparr>"

definition sample_primary :: primary where
  "sample_primary = \<lparr>pr_workers = [(1, mirror_worker_env 0), (2, mirror_worker_env 1)], pr_next = 3, pr_timers = []\<rparr>"

definition sample_request :: incoming where
  "sample_request = createSubscriptionMessage ''mirror-u'' [empty_filter\<lparr>since := Some 1400\<rparr>]"

definition sample_cluster ::
  "(event_db, user_table, alist_store) store \<Rightarrow> (nat \<times> alist_store process) list \<Rightarrow> (nat \<times> broadcast) list
     \<Rightarrow> (nat \<times> broadcast) list \<Rightarrow> alist_store cluster" where
  "sample_cluster st ps outbox mail =
     \<lparr>cl_store = st, cl_primary = sample_primary, cl_processes = ps, cl_outbox = outbox, cl_mail = mail\<rparr>"

lemma sample_cluster_rt_simps [simp]:
  "env_crypto (rt_env sample_cluster_rt) = sample_crypto" "env_settings (rt_env sample_cluster_rt) = sample_mirroring"
  "env_events (rt_env sample_cluster_rt) = EventRepository"
  "env_relay_pubkey (rt_env sample_cluster_rt) = Inr (replicate 64 (CHR ''e''))"
  by (simp_all add: sample_cluster_rt_def worker_runtime_def)

lemma sample_boot:
  "getRunner sample_mirroring 2000000 ''u'' st (mirror_worker_env 0)
     = Inr (MirrorWorker (sample_mirror_state ''wss://a'' False [] 1400 []))"
  "getRunner sample_mirroring 2000000 ''u'' st (mirror_worker_env 1)
     = Inr (MirrorWorker (sample_mirror_state ''wss://b'' False [] 1400 []))"
  by (simp_all add: getRunner_def mirror_worker_env_def mirror_run_def mirror_config_def sample_mirroring_def
      sample_mirror_state_def new_mirror_socket_def numeral_2_eq_2)

lemma sample_mirror_opens:
  "mirror_onOpen (sample_mirror_state a False [] 1400 []) = sample_mirror_state a True [sample_request] 1400 []"
  by (simp add: mirror_onOpen_def sample_mirror_state_def sample_mirror_def sample_request_def)

lemma sample_mirror_accepts:
  "mirror_accepts (rt_env sample_cluster_rt) (sample_mirror a) sample_mirror_clock (sample_note 1) users = Some (sample_note 1)"
  using sample_authentic [of 1]
  by (simp add: mirror_accepts_def authentic_def sample_mirror_def isExpiredEvent_def addExpirationMetadata_def
      mirror_canAcceptEvent_def mirror_isUserAdmitted_def sample_mirroring_def payments_enabled_def
      event_limits_of_def sample_limits_def check_content_def content_too_long_def check_created_at_def
      check_pow_def check_pubkey_def check_kind_def positive_limit_def sample_mirror_clock_def Let_def)

lemma sample_mirror_receives:
  "mirror_receive (rt_env sample_cluster_rt) True sample_mirror_clock (RemoteEvent ''mirror-u'' (sample_note 1)) users
      empty_db (sample_mirror_state a True [sample_request] 1400 [])
    = (sample_mirror_state a True [sample_request] 1970 [sample_note 1], st_events (sample_stored 1))"
  using sample_mirror_accepts [of a users] sample_created [of 1]
  by (simp add: mirror_receive_def sample_mirror_state_def sample_stored_def int4_def sample_mirror_clock_def)

definition sample_posted :: broadcast where
  "sample_posted = \<lparr>bc_event = sample_note 1, bc_source = Some ''wss://a''\<rparr>"

definition sample_first :: "event list \<Rightarrow> nat \<times> alist_store process" where
  "sample_first es =
     (1, MirrorWorker (sample_mirror_state ''wss://a'' True [sample_request] (if es = [] then 1400 else 1970) es))"

definition sample_second :: "incoming list \<Rightarrow> nat \<times> alist_store process" where
  "sample_second sent = (2, MirrorWorker (sample_mirror_state ''wss://b'' True (sample_request # sent) 1400 []))"

lemma sample_cluster_simps [simp]:
  "cl_store (sample_cluster st ps outbox mail) = st" "cl_primary (sample_cluster st ps outbox mail) = sample_primary"
  "cl_processes (sample_cluster st ps outbox mail) = ps" "cl_outbox (sample_cluster st ps outbox mail) = outbox"
  "cl_mail (sample_cluster st ps outbox mail) = mail"
  by (simp_all add: sample_cluster_def)

lemma sample_cluster_boots:
  "cluster_reachable sample_cluster_rt remote_ok no (initial_cluster sample_primary sample_store)
     (sample_cluster sample_store
        [(1, MirrorWorker (sample_mirror_state ''wss://a'' False [] 1400 [])),
         (2, MirrorWorker (sample_mirror_state ''wss://b'' False [] 1400 []))] [] [])"
proof -
  let ?step = "cluster_step sample_cluster_rt remote_ok no"
  let ?first = "(1, MirrorWorker (sample_mirror_state ''wss://a'' False [] 1400 [])) :: nat \<times> alist_store process"
  have first: "?step (initial_cluster sample_primary sample_store) (sample_cluster sample_store [?first] [] [])"
    using cluster_step.boot [of 1 "mirror_worker_env 0" "initial_cluster sample_primary sample_store" sample_cluster_rt
        2000000 "''u''" _ remote_ok no]
    by (simp add: initial_cluster_def sample_primary_def sample_boot sample_cluster_def)
  have second: "?step (sample_cluster sample_store [?first] [] []) (sample_cluster sample_store
      [?first, (2, MirrorWorker (sample_mirror_state ''wss://b'' False [] 1400 []))] [] [])"
    using cluster_step.boot [of 2 "mirror_worker_env 1" "sample_cluster sample_store [?first] [] []" sample_cluster_rt
        2000000 "''u''" _ remote_ok no]
    by (simp add: sample_primary_def sample_boot [unfolded One_nat_def] sample_cluster_def)
  from cluster_reachable.step [OF cluster_reachable.step [OF cluster_reachable.start first] second] show ?thesis .
qed

lemma sample_store_same [simp]: "sample_store\<lparr>st_events := empty_db\<rparr> = sample_store"
  by (simp add: sample_store_def)

lemma sample_mirror_step:
  assumes "(k, MirrorWorker m) \<in> set ps"
    "mirror_step (rt_env sample_cluster_rt) remote_ok (st_users st) (m, st_events st) (m', db)"
    "mr_to_primary m' = mr_to_primary m @ es"
  shows "cluster_step sample_cluster_rt remote_ok no (sample_cluster st ps outbox mail)
    (sample_cluster (st\<lparr>st_events := db\<rparr>) (set_process k (MirrorWorker m') ps)
       (outbox @ posted k (Some (mir_address (mr_config m))) es) mail)"
  using cluster_step.mirror [of k m "sample_cluster st ps outbox mail" sample_cluster_rt remote_ok m' db es] assms
  by (simp add: sample_cluster_def)

lemma sample_cluster_opens:
  "cluster_reachable sample_cluster_rt remote_ok no (initial_cluster sample_primary sample_store)
     (sample_cluster sample_store [sample_first [], sample_second []] [] [])"
proof -
  let ?m = "\<lambda>a b sent. sample_mirror_state a b sent 1400 []"
  have opens: "mirror_step (rt_env sample_cluster_rt) remote_ok users (?m a False [], db) (?m a True [sample_request], db)"
    for a users db
    using mirror_step.opened [of "rt_env sample_cluster_rt" remote_ok users "?m a False []" db] by (simp add: sample_mirror_opens)
  have "cluster_step sample_cluster_rt remote_ok no
      (sample_cluster sample_store [(1, MirrorWorker (?m ''wss://a'' False [])), (2, MirrorWorker (?m ''wss://b'' False []))] [] [])
      (sample_cluster sample_store [sample_first [], (2, MirrorWorker (?m ''wss://b'' False []))] [] [])"
    using sample_mirror_step [OF _ opens [where a = "''wss://a''"], where k = 1 and ps = "[(1, MirrorWorker (?m ''wss://a'' False [])),
        (2, MirrorWorker (?m ''wss://b'' False []))]" and st = sample_store and es = "[]" and outbox = "[]" and mail = "[]"]
    by (simp add: set_process_def posted_def sample_mirror_state_def sample_first_def)
  note 1 = cluster_reachable.step [OF sample_cluster_boots this]
  have "cluster_step sample_cluster_rt remote_ok no
      (sample_cluster sample_store [sample_first [], (2, MirrorWorker (?m ''wss://b'' False []))] [] [])
      (sample_cluster sample_store [sample_first [], sample_second []] [] [])"
    using sample_mirror_step [OF _ opens [where a = "''wss://b''"], where k = 2 and ps = "[sample_first [],
        (2, MirrorWorker (?m ''wss://b'' False []))]" and st = sample_store and es = "[]" and outbox = "[]" and mail = "[]"]
    by (simp add: set_process_def posted_def sample_mirror_state_def sample_first_def sample_second_def)
  from cluster_reachable.step [OF 1 this] show ?thesis .
qed

definition sample_mirrored :: "alist_store cluster" where
  "sample_mirrored = sample_cluster (sample_stored 1)
     [sample_first [sample_note 1], sample_second [createRelayedEventMessage (sample_note 1) None]] [] []"

lemma sample_mirrored_reachable:
  assumes "remote_ok (sample_note 1)"
  shows "cluster_reachable sample_cluster_rt remote_ok no (initial_cluster sample_primary sample_store) sample_mirrored"
proof -
  let ?ps = "[sample_first [sample_note 1], sample_second []]"
  have received: "mirror_step (rt_env sample_cluster_rt) remote_ok (st_users sample_store)
      (sample_mirror_state ''wss://a'' True [sample_request] 1400 [], st_events sample_store)
      (sample_mirror_state ''wss://a'' True [sample_request] 1970 [sample_note 1], st_events (sample_stored 1))"
    using mirror_step.received [of "RemoteEvent ''mirror-u'' (sample_note 1)" remote_ok "rt_env sample_cluster_rt"
        "st_users sample_store" "sample_mirror_state ''wss://a'' True [sample_request] 1400 []" empty_db sample_mirror_clock] assms
    by (simp add: sample_mirror_receives)
  have "cluster_step sample_cluster_rt remote_ok no (sample_cluster sample_store [sample_first [], sample_second []] [] [])
      (sample_cluster (sample_stored 1) ?ps [(1, sample_posted)] [])"
    using sample_mirror_step [OF _ received, where k = 1 and ps = "[sample_first [], sample_second []]" and es = "[sample_note 1]" and outbox = "[]" and mail = "[]"]
    by (simp add: set_process_def posted_def sample_mirror_state_def sample_mirror_def sample_first_def sample_second_def
        sample_posted_def sample_stored_def)
  note 1 = cluster_reachable.step [OF sample_cluster_opens this]
  have "cluster_step sample_cluster_rt remote_ok no (sample_cluster (sample_stored 1) ?ps [(1, sample_posted)] [])
      (sample_cluster (sample_stored 1) ?ps [] [(2, sample_posted)])"
    using cluster_step.forward [of "sample_cluster (sample_stored 1) ?ps [(1, sample_posted)] []" 1 sample_posted "[]"
        sample_cluster_rt remote_ok no]
    by (simp add: onClusterMessage_def sample_primary_def sample_cluster_def)
  note 2 = cluster_reachable.step [OF 1 this]
  have "cluster_step sample_cluster_rt remote_ok no (sample_cluster (sample_stored 1) ?ps [] [(2, sample_posted)]) sample_mirrored"
    using cluster_step.deliver [of "sample_cluster (sample_stored 1) ?ps [] [(2, sample_posted)]" "[]" 2 sample_posted "[]"
        "MirrorWorker (sample_mirror_state ''wss://b'' True [sample_request] 1400 [])" sample_cluster_rt remote_ok no]
    by (simp add: sample_first_def sample_second_def set_process_def sample_posted_def mirror_onMessage_def
        sample_mirror_state_def sample_mirror_def sample_mirrored_def sample_cluster_def)
  from cluster_reachable.step [OF 2 this] show ?thesis .
qed

section \<open>An event with a public key in capital letters\<close>

definition sample_capitals :: event where
  "sample_capitals = (sample_note 1)\<lparr>pubkey := replicate 64 (CHR ''B'')\<rparr>"

lemma sample_capitals_accepted:
  "mirror_accepts (rt_env sample_cluster_rt) (sample_mirror a) sample_mirror_clock sample_capitals users = Some sample_capitals"
  by (simp add: mirror_accepts_def sample_mirror_def isExpiredEvent_def addExpirationMetadata_def sample_capitals_def
      isEventIdValid_def isEventSignatureValid_def getEventHash_def sample_crypto_def getEventExpiration_def
      mirror_canAcceptEvent_def mirror_isUserAdmitted_def sample_mirroring_def payments_enabled_def
      event_limits_of_def sample_limits_def check_content_def content_too_long_def check_created_at_def
      check_pow_def check_pubkey_def check_kind_def positive_limit_def sample_mirror_clock_def Let_def)

lemma sample_capitals_stored:
  "create sample_capitals empty_db = (1, insert_row (insert_row_of sample_capitals) empty_db)"
  by (simp add: create_def insert_ignore_def has_event_id_def empty_db_def row_ok_def insert_row_of_def int4_def
      pg_text_def sample_capitals_def)

section \<open>Properties\<close>





text \<open>A mirror checks the events of the other relay against no schema. If it takes one whose public
  key is not in lower-case hexadecimal, it stores a row that is served under the same identifier with a
  canonical form other than the hashed one, so that no client can verify it short of a collision of
  the hash.\<close>

theorem mirrored_event_changes_identity:
  assumes "mirror_accepts env config clk e users = Some event" "repo_create (env_events env) event db = (1, db')"
    and "env_events env = EventRepository" "fromBuffer (toBuffer (pubkey e)) \<noteq> pubkey e"
  shows "\<exists>r\<in>set (events db'). evt_id (toNostrEvent r) = evt_id e
    \<and> stringify (serializeEvent (toNostrEvent r)) \<noteq> stringify (serializeEvent e)"
proof
  note accepted = mirror_accepts_SomeD [OF assms(1)]
  have id: "fromBuffer (toBuffer (evt_id e)) = evt_id e"
    using accepted(2) by (simp add: isEventIdValid_def getEventHash_def)
  have event: "evt_id event = evt_id e" "pubkey event = pubkey e"
    using accepted(1) by (auto simp: addExpirationMetadata_def split: option.splits)
  show "insert_row_of event \<in> set (events db')"
    using assms(2,3) by (cases rule: create_cases [of event db]) (auto simp: insert_row_def)
  have "pubkey (toNostrEvent (insert_row_of event)) \<noteq> pubkey e"
    using assms(4) event by (simp add: toNostrEvent_def insert_row_of_def)
  moreover have "evt_id (toNostrEvent (insert_row_of event)) = evt_id e"
    using event(1) id by (simp add: toNostrEvent_def insert_row_of_def)
  ultimately show "evt_id (toNostrEvent (insert_row_of event)) = evt_id e
      \<and> stringify (serializeEvent (toNostrEvent (insert_row_of event))) \<noteq> stringify (serializeEvent e)"
    using serializeEvent_inject by blast
qed

lemma mirrored_event_changes_identity_witness:
  "\<exists>r\<in>set (events (insert_row (insert_row_of sample_capitals) empty_db)). evt_id (toNostrEvent r) = evt_id sample_capitals
    \<and> stringify (serializeEvent (toNostrEvent r)) \<noteq> stringify (serializeEvent sample_capitals)"
proof (rule mirrored_event_changes_identity [OF sample_capitals_accepted])
  have "fromBuffer (toBuffer (replicate 64 (CHR ''B''))) \<noteq> replicate 64 (CHR ''B'')" by code_simp
  then show "fromBuffer (toBuffer (pubkey sample_capitals)) \<noteq> pubkey sample_capitals"
    by (simp add: sample_capitals_def)
  show "repo_create (env_events (rt_env sample_cluster_rt)) sample_capitals empty_db
      = (1, insert_row (insert_row_of sample_capitals) empty_db)"
    by (simp add: sample_capitals_stored)
qed simp

text \<open>Workers that crash, in any number and order, start again: once the pending timers have fired,
  the workers with their environments are exactly those the primary process started, and
  \<open>onClusterExit\<close> never meets a worker without an environment.\<close>

theorem crashed_workers_are_restarted:
  assumes "primary_step\<^sup>*\<^sup>* (fold createWorker envs no_workers) p"
  shows "\<exists>p'. fire_timers (length (pr_timers p)) p = Inr p' \<and> pr_timers p' = []
    \<and> mset (map snd (pr_workers p')) = mset envs \<and> distinct (map fst (pr_workers p'))"
proof -
  have "primary_ok envs p"
    using assms by (induction rule: rtranclp_induct) (auto intro: started_ok primary_step_ok)
  from fire_timers_ok [OF this] show ?thesis by (auto simp: primary_ok_def)
qed

lemma crashed_workers_are_restarted_witness:
  "\<exists>p'. fire_timers 1 (onClusterExit 1 1 '''' (fold createWorker [client_env 0, maintenance_worker_env] no_workers)) = Inr p'
    \<and> mset (map snd (pr_workers p')) = {#client_env 0, maintenance_worker_env#}"
proof -
  let ?p = "fold createWorker [client_env 0, maintenance_worker_env] no_workers"
  have "primary_step ?p (onClusterExit 1 1 '''' ?p)"
    by (rule primary_step.crash [of 1 "client_env 0"]) (simp_all add: createWorker_def no_workers_def)
  then have "primary_step\<^sup>*\<^sup>* ?p (onClusterExit 1 1 '''' ?p)" ..
  from crashed_workers_are_restarted [OF this] show ?thesis
    by (auto simp: onClusterExit_def createWorker_def no_workers_def)
qed

end
