(* ===== verification/Cluster_Delivery.thy ===== *)
theory Cluster_Delivery
  imports Cluster_Safety
begin

text \<open>
  A broadcast between workers is not lost: whatever the processes do in between, what a worker hands to
  the primary process reaches every other worker that stays alive, and its clients.
\<close>

section \<open>One step\<close>

text \<open>The numbers of the workers the primary process knows.\<close>

definition workers_of :: "'r cluster \<Rightarrow> nat set" where
  "workers_of cl = fst ` set (pr_workers (cl_primary cl))"

text \<open>The step by which worker \<open>k\<close> takes the message \<open>b\<close> of the primary process.\<close>

definition takes :: "nat \<Rightarrow> broadcast \<Rightarrow> 'r process \<Rightarrow> 'r cluster \<Rightarrow> 'r cluster \<Rightarrow> bool" where
  "takes k b p cl cl' \<longleftrightarrow> (k, b) \<in> set (cl_mail cl) \<and> (k, p) \<in> set (cl_processes cl)
     \<and> cl_processes cl' = set_process k (process_onMessage b p) (cl_processes cl)"

text \<open>No message is under way.\<close>

definition at_rest :: "'r cluster \<Rightarrow> bool" where
  "at_rest cl \<longleftrightarrow> cl_outbox cl = [] \<and> cl_mail cl = []"

lemma mailed_to_others:
  "j \<in> fst ` set (pr_workers pr) \<Longrightarrow> j \<noteq> k \<Longrightarrow> (j, b) \<in> set (onClusterMessage k b pr)"
  by (force simp: onClusterMessage_def)

lemma dead_worker_unknown: "j \<notin> fst ` set (pr_workers (onClusterExit j code signal pr))"
  by (auto simp: onClusterExit_def Let_def)

text \<open>A message leaves the primary process's hands only into those of the others, and the mail only when
  its worker ends or takes it.\<close>

lemma outbox_step:
  assumes "cluster_step rt ok no cl cl'" "(k, b) \<in> set (cl_outbox cl)" "(k, b) \<notin> set (cl_outbox cl')"
    "j \<in> workers_of cl" "j \<noteq> k"
  shows "(j, b) \<in> set (cl_mail cl')"
  using assms by cases (auto simp: workers_of_def mailed_to_others)

lemma mail_step:
  assumes "cluster_step rt ok no cl cl'" "(j, b) \<in> set (cl_mail cl)" "(j, b) \<notin> set (cl_mail cl')"
  shows "j \<notin> workers_of cl' \<or> (\<exists>p. takes j b p cl cl')"
  using assms by cases (auto simp: workers_of_def takes_def dead_worker_unknown)

lemma outbox_step_mail:
  assumes "cluster_step rt ok no cl cl'" "(j, b) \<in> set (cl_mail cl')" "(j, b) \<notin> set (cl_mail cl)"
  shows "\<exists>k. (k, b) \<in> set (cl_outbox cl)"
  using assms by cases (auto simp: onClusterMessage_def)

section \<open>Runs\<close>

lemma cluster_reachable_first:
  assumes "cluster_reachable rt ok no c cl'" "cluster_step rt ok no cl c"
  shows "cluster_reachable rt ok no cl cl'"
  using assms(1)
proof induction
  case start
  show ?case by (rule cluster_reachable.step [OF cluster_reachable.start assms(2)])
qed (rule cluster_reachable.step)

lemma cluster_reachable_trans:
  assumes "cluster_reachable rt ok no c cl'" "cluster_reachable rt ok no cl c"
  shows "cluster_reachable rt ok no cl cl'"
  using assms by induction (auto intro: cluster_reachable.step)

text \<open>Where something that holds at the start of a run and not at its end stops holding.\<close>

lemma run_loses:
  assumes "cluster_reachable rt ok no cl cl'" "P cl" "\<not> P cl'"
  shows "\<exists>c c'. cluster_reachable rt ok no cl c \<and> cluster_step rt ok no c c'
    \<and> cluster_reachable rt ok no c' cl' \<and> P c \<and> \<not> P c'"
  using assms
proof induction
  case (step c c')
  show ?case
  proof (cases "P c")
    case True
    with step show ?thesis by (blast intro: cluster_reachable.start)
  next
    case False
    with step show ?thesis by (blast intro: cluster_reachable.step)
  qed
qed simp

lemma mail_run:
  assumes "cluster_reachable rt ok no cl cl'" "(j, b) \<in> set (cl_mail cl)" "at_rest cl'"
  shows "\<exists>c c'. cluster_reachable rt ok no cl c \<and> cluster_step rt ok no c c'
    \<and> cluster_reachable rt ok no c' cl' \<and> (j \<notin> workers_of c' \<or> (\<exists>p. takes j b p c c'))"
  using run_loses [OF assms(1), of "\<lambda>c. (j, b) \<in> set (cl_mail c)"] mail_step assms(2,3)
  by (fastforce simp: at_rest_def)

text \<open>From the sender's hands to the receiver's.\<close>

lemma outbox_run:
  assumes run: "cluster_reachable rt ok no cl cl'" and posted: "(k, b) \<in> set (cl_outbox cl)" and "j \<noteq> k"
    and rest: "at_rest cl'"
  shows "(\<exists>c. cluster_reachable rt ok no cl c \<and> cluster_reachable rt ok no c cl' \<and> j \<notin> workers_of c)
    \<or> (\<exists>c c' p. cluster_reachable rt ok no cl c \<and> cluster_step rt ok no c c'
        \<and> cluster_reachable rt ok no c' cl' \<and> takes j b p c c')"
proof -
  obtain c c' where c: "cluster_reachable rt ok no cl c" "cluster_step rt ok no c c'"
      "cluster_reachable rt ok no c' cl'" "(k, b) \<in> set (cl_outbox c)" "(k, b) \<notin> set (cl_outbox c')"
    using run_loses [OF run, of "\<lambda>c. (k, b) \<in> set (cl_outbox c)"] posted rest by (auto simp: at_rest_def)
  show ?thesis
  proof (cases "j \<in> workers_of c")
    case False
    with c show ?thesis by (blast intro: cluster_reachable_first)
  next
    case True
    from mail_run [OF c(3) outbox_step [OF c(2,4,5) True \<open>j \<noteq> k\<close>] rest]
    show ?thesis
      using cluster_reachable_trans [OF _ cluster_reachable.step [OF c(1,2)]]
      by (blast intro: cluster_reachable_first cluster_reachable.step)
  qed
qed

section \<open>Coming to rest\<close>

definition all_booted :: "'r cluster \<Rightarrow> bool" where
  "all_booted cl \<longleftrightarrow> workers_of cl \<union> fst ` set (cl_mail cl) \<subseteq> fst ` set (cl_processes cl)"

lemma set_process_keys [simp]: "fst ` set (set_process k p ps) = fst ` set ps"
  by (simp add: set_process_def image_image case_prod_beta)

lemma mailed_workers: "fst ` set (onClusterMessage k b pr) \<subseteq> fst ` set (pr_workers pr)"
  by (force simp: onClusterMessage_def)

lemma mail_is_delivered:
  assumes "all_booted cl" "cl_outbox cl = []"
  shows "\<exists>cl'. cluster_reachable rt ok no cl cl' \<and> at_rest cl'"
  using assms
proof (induction "cl_mail cl" arbitrary: cl)
  case Nil
  then show ?case by (metis at_rest_def cluster_reachable.start)
next
  case (Cons m mail)
  obtain k b where m: "m = (k, b)" by (cases m)
  have mails: "cl_mail cl = (k, b) # mail" using Cons.hyps(2) m by simp
  then obtain p where p: "(k, p) \<in> set (cl_processes cl)"
    using Cons.prems(1) by (auto simp: all_booted_def)
  let ?cl = "cl\<lparr>cl_mail := mail, cl_processes := set_process k (process_onMessage b p) (cl_processes cl)\<rparr>"
  have step: "cluster_step rt ok no cl ?cl"
    using cluster_step.deliver [of cl "[]" k b mail p rt ok no] mails p by simp
  have "all_booted ?cl"
    using Cons.prems(1) mails by (simp add: all_booted_def workers_of_def)
  with Cons.hyps(1) [of ?cl] Cons.prems(2) show ?case
    using cluster_reachable_first [OF _ step] by auto
qed

lemma comes_to_rest:
  assumes "all_booted cl"
  shows "\<exists>cl'. cluster_reachable rt ok no cl cl' \<and> at_rest cl'"
  using assms
proof (induction "cl_outbox cl" arbitrary: cl)
  case Nil
  then show ?case using mail_is_delivered [of cl] by simp
next
  case (Cons m outbox)
  obtain k b where m: "m = (k, b)" by (cases m)
  let ?cl = "cl\<lparr>cl_outbox := outbox, cl_mail := cl_mail cl @ onClusterMessage k b (cl_primary cl)\<rparr>"
  have step: "cluster_step rt ok no cl ?cl"
    using cluster_step.forward [of cl k b outbox rt ok no] m Cons.hyps(2) [symmetric] by simp
  have "all_booted ?cl"
    using Cons.prems mailed_workers [of k b "cl_primary cl"] by (auto simp: all_booted_def workers_of_def)
  with Cons.hyps(1) [of ?cl] show ?case
    using cluster_reachable_first [OF _ step] by auto
qed

section \<open>What the clients of a worker get\<close>

text \<open>Every client of a listening worker whose socket is open and whose adapter listens is sent the event
  once per matching subscription; nothing else of it changes.\<close>

definition sent_to_clients :: "event \<Rightarrow> 'r process \<Rightarrow> 'r process \<Rightarrow> bool" where
  "sent_to_clients e p p' \<longleftrightarrow>
     (\<forall>w i c. p = ClientWorker w \<and> srv_listening (r_server w)
        \<and> map_of (srv_clients (r_server w)) i = Some c \<and> ws_open c \<and> ws_adapted c \<and> ws_listening c \<longrightarrow>
        (\<exists>w'. p' = ClientWorker w' \<and> map_of (srv_clients (r_server w')) i = Some (c\<lparr>ws_sent := ws_sent c
           @ map (\<lambda>s. OutgoingEventMessage s e)
               (map fst (filter (\<lambda>(s, fs). \<exists>f\<in>set fs. isEventMatchingFilter f e) (ws_subscriptions c)))\<rparr>)))"

lemma takes_sends:
  "sent_to_clients (bc_event b) p (process_onMessage b p)"
  unfolding sent_to_clients_def
  by (auto simp: worker_onMessage_def with_server_def server_emit_broadcast_def server_onBroadcast_client
      matching_subscriptions_def)

section \<open>Nothing posted is lost\<close>

text \<open>Two client workers; the first one has posted an event to which a client of the second subscribed.\<close>

definition sample_clients :: "alist_store cluster" where
  "sample_clients =
     \<lparr>cl_store = sample_store,
      cl_primary = \<lparr>pr_workers = [(1, client_env 0), (2, client_env 1)], pr_next = 3, pr_timers = []\<rparr>,
      cl_processes = [(1, ClientWorker (initial_relay sample_store)), (2, ClientWorker sample_end)],
      cl_outbox = [(1, \<lparr>bc_event = sample_note 2, bc_source = None\<rparr>)], cl_mail = []\<rparr>"

abbreviation sample_step :: "alist_store cluster \<Rightarrow> alist_store cluster \<Rightarrow> bool" where
  "sample_step \<equiv> cluster_step sample_cluster_rt (\<lambda>e. True) sample_notifier"

abbreviation sample_runs :: "alist_store cluster \<Rightarrow> alist_store cluster \<Rightarrow> bool" where
  "sample_runs \<equiv> cluster_reachable sample_cluster_rt (\<lambda>e. True) sample_notifier"



end
