(* ===== verification/Runes.thy ===== *)
theory Runes
  imports Nostr_Event
begin

text \<open>
  utils/runes: the restriction language of access tokens. An \<open>alternative\<close> compares one field, a
  restriction is a disjunction of alternatives and a rune-like a conjunction of restrictions; each
  class has a test, a printer (\<open>encode\<close>) and a parser (\<open>decode\<close>, \<open>from\<close>). The lemmas say what a test
  means, that the parsers consume their input, and that printing and parsing are inverse.

  Numbers that \<open>parseInt\<close> reads are exact here; JavaScript rounds those above \<open>2 ^ 53\<close>.
\<close>

section \<open>alternative.ts\<close>

definition hasPunctuation :: "char \<Rightarrow> bool" where
  "hasPunctuation c \<longleftrightarrow>
     (let n = of_char c :: nat in
      (33 \<le> n \<and> n \<le> 47) \<or> (58 \<le> n \<and> n \<le> 64) \<or> (91 \<le> n \<and> n \<le> 94) \<or> n = 96 \<or> (123 \<le> n \<and> n \<le> 126))"

definition alternative_conds :: string where
  "alternative_conds = ''!=/^$~<>}{#''"

record alternative =
  alt_field :: string
  alt_cond :: char
  alt_value :: string

text \<open>The constructor; an operator that is \<open>undefined\<close> is not in the set either.\<close>

definition new_Alternative :: "string \<Rightarrow> char option \<Rightarrow> string \<Rightarrow> js_error + alternative" where
  "new_Alternative field cond val =
     (if list_ex hasPunctuation field then Inl (JsError ''Field is not valid'')
      else (case cond of
              None \<Rightarrow> Inl (JsError ''Cond is not valid'')
            | Some c \<Rightarrow>
                if c \<in> set alternative_conds
                then Inr \<lparr>alt_field = field, alt_cond = c, alt_value = val\<rparr>
                else Inl (JsError ''Cond is not valid'')))"

text \<open>\<open>Number.parseInt\<close>: leading white space, a sign, a hexadecimal prefix, then the longest run of digits.\<close>

definition parseInt :: "string \<Rightarrow> int option" where
  "parseInt s0 =
     (let s = dropWhile is_js_space s0;
          neg = (case s of [] \<Rightarrow> False | c # _ \<Rightarrow> c = CHR ''-'');
          t = (case s of [] \<Rightarrow> [] | c # cs \<Rightarrow> if c = CHR ''-'' \<or> c = CHR ''+'' then cs else s);
          hex = (case t of c # d # _ \<Rightarrow> c = CHR ''0'' \<and> (d = CHR ''x'' \<or> d = CHR ''X'') | _ \<Rightarrow> False);
          b = (if hex then 16 else 10);
          digits = takeWhile (\<lambda>c. case digit_val c of None \<Rightarrow> False | Some d \<Rightarrow> d < b)
                     (if hex then drop 2 t else t)
      in (case digits_of b digits of
            None \<Rightarrow> None
          | Some n \<Rightarrow> Some (if neg then - int n else int n)))"

text \<open>
  The values a rune is tested against: what the operator \<open>in\<close> finds, by name. A function is called
  with the alternative and its result is the test's.
\<close>

datatype rune_value =
    RuneStr string
  | RuneInt int
  | RuneList "string list"
  | RuneUndefined
  | RuneFun "alternative \<Rightarrow> string option"

fun js_String :: "rune_value \<Rightarrow> string" where
  "js_String (RuneStr s) = s"
| "js_String (RuneInt n) = int_str n"
| "js_String (RuneList xs) = js_join '','' xs"
| "js_String RuneUndefined = ''undefined''"
| "js_String (RuneFun f) = ''function''"

text \<open>\<open>vals[field].includes(value)\<close>; a number and \<open>undefined\<close> have no such method.\<close>

fun js_includes :: "rune_value \<Rightarrow> string \<Rightarrow> js_error + bool" where
  "js_includes (RuneStr s) v = Inr (sublist v s)"
| "js_includes (RuneList xs) v = Inr (v \<in> set xs)"
| "js_includes _ v = Inl (TypeErr ''includes is not a function'')"

definition why :: "bool \<Rightarrow> string \<Rightarrow> string \<Rightarrow> string option" where
  "why cond field explanation = (if cond then None else Some (field @ '': '' @ explanation))"

text \<open>
  The branches of the \<open>switch\<close>, in its order. An operator outside the set, which the constructor
  does not let through, falls out of the \<open>switch\<close>.
\<close>

definition compare_int :: "char \<Rightarrow> string \<Rightarrow> string \<Rightarrow> string \<Rightarrow> string option" where
  "compare_int cond field val restriction =
     (case parseInt val of
        None \<Rightarrow> why False field ''not an integer field''
      | Some actualInt \<Rightarrow>
          (case parseInt restriction of
             None \<Rightarrow> why False field ''not a valid integer''
           | Some restrictionVal \<Rightarrow>
               if cond = CHR ''<''
               then why (actualInt < restrictionVal) field (''>= '' @ int_str restrictionVal)
               else why (actualInt > restrictionVal) field (''<= '' @ int_str restrictionVal)))"

definition alternative_test ::
  "alternative \<Rightarrow> (string \<rightharpoonup> rune_value) \<Rightarrow> js_error + string option" where
  "alternative_test a vals =
     (let field = alt_field a; cond = alt_cond a; v = alt_value a in
      if cond = CHR ''#'' then Inr None
      else
        (case vals field of
           None \<Rightarrow> Inr (why (cond = CHR ''!'') field ''is missing'')
         | Some (RuneFun f) \<Rightarrow> Inr (f a)
         | Some x \<Rightarrow>
             (let val = js_String x in
              if cond = CHR ''!'' then Inr (why False field ''is present'')
              else if cond = CHR ''='' then Inr (why (val = v) field (''!= '' @ v))
              else if cond = CHR ''/'' then Inr (why (val \<noteq> v) field (''= '' @ v))
              else if cond = CHR ''^'' then Inr (why (startsWith val v) field (''does not start with '' @ v))
              else if cond = CHR ''$'' then Inr (why (suffix v val) field (''does not end with '' @ v))
              else if cond = CHR ''~'' then
                map_sum id (\<lambda>b. why b field (''does not contain '' @ v)) (js_includes x v)
              else if cond = CHR ''<'' \<or> cond = CHR ''>'' then Inr (compare_int cond field val v)
              else if cond = CHR ''{'' then Inr (why (val < v) field (''is the same or ordered after '' @ v))
              else if cond = CHR ''}'' then Inr (why (val > v) field (''is the same or ordered before '' @ v))
              else Inr None)))"

definition escape_char :: "char \<Rightarrow> string" where
  "escape_char c = (if c \<in> set [CHR 0x5C, CHR ''|'', CHR ''&''] then [CHR 0x5C, c] else [c])"

definition alternative_encode :: "alternative \<Rightarrow> string" where
  "alternative_encode a = alt_field a @ alt_cond a # concat (map escape_char (alt_value a))"

text \<open>
  The second loop of \<open>decode\<close>: the value and what is left of the input. A backslash at the end
  appends \<open>undefined\<close>.
\<close>

fun scan_value :: "string \<Rightarrow> string \<times> string" where
  "scan_value [] = ([], [])"
| "scan_value (c # s) =
     (if c = CHR ''|'' then ([], s)
      else if c = CHR ''&'' then ([], c # s)
      else if c = CHR 0x5C then
        (case s of
           [] \<Rightarrow> (''undefined'', [])
         | d # s' \<Rightarrow> (case scan_value s' of (v, rest) \<Rightarrow> (d # v, rest)))
      else (case scan_value s of (v, rest) \<Rightarrow> (c # v, rest)))"

definition alternative_decode :: "string \<Rightarrow> js_error + alternative \<times> string" where
  "alternative_decode encodedStr =
     (let field = takeWhile (\<lambda>c. \<not> hasPunctuation c) encodedStr in
      case drop (length field) encodedStr of
        [] \<Rightarrow> Inl (JsError (encodedStr @ '' does not contain any operator''))
      | cond # s \<Rightarrow>
          (case scan_value s of
             (val, rest) \<Rightarrow> map_sum id (\<lambda>a. (a, rest)) (new_Alternative field (Some cond) val)))"

text \<open>
  \<open>from\<close>: the string without white space, split at every operator (which the split keeps); what
  follows a second operator is dropped.
\<close>

definition alternative_from :: "string \<Rightarrow> js_error + alternative" where
  "alternative_from encodedStr =
     (let s = filter (\<lambda>c. \<not> is_js_space c) encodedStr;
          field = takeWhile (\<lambda>c. \<not> hasPunctuation c) s
      in (case drop (length field) s of
            [] \<Rightarrow> new_Alternative field None []
          | cond # rest \<Rightarrow> new_Alternative field (Some cond) (takeWhile (\<lambda>c. \<not> hasPunctuation c) rest)))"

section \<open>restriction.ts\<close>

type_synonym restriction = "alternative list"

definition new_Restriction :: "alternative list \<Rightarrow> js_error + restriction" where
  "new_Restriction alternatives =
     (if alternatives = [] then Inl (JsError ''Restriction must have some alternatives'')
      else Inr alternatives)"

text \<open>The loop of \<open>test\<close>, with the reasons so far.\<close>

fun restriction_reasons ::
  "string list \<Rightarrow> alternative list \<Rightarrow> (string \<rightharpoonup> rune_value) \<Rightarrow> js_error + string option" where
  "restriction_reasons reasons [] vals = Inr (Some (js_join '' AND '' reasons))"
| "restriction_reasons reasons (a # as) vals =
     (case alternative_test a vals of
        Inl err \<Rightarrow> Inl err
      | Inr None \<Rightarrow> Inr None
      | Inr (Some reason) \<Rightarrow> restriction_reasons (reasons @ [reason]) as vals)"

definition restriction_test :: "restriction \<Rightarrow> (string \<rightharpoonup> rune_value) \<Rightarrow> js_error + string option" where
  "restriction_test r vals = restriction_reasons [] r vals"

definition restriction_encode :: "restriction \<Rightarrow> string" where
  "restriction_encode r = js_join ''|'' (map alternative_encode r)"

lemma scan_value_length: "length (snd (scan_value s)) \<le> length s"
proof (induction s rule: length_induct)
  case (1 s)
  have IH: "length (snd (scan_value t)) \<le> length t" if "length t < length s" for t
    using 1 that by blast
  show ?case
  proof (cases s)
    case (Cons c t)
    then show ?thesis using IH [of t] IH [of "tl t"]
      by (cases t) (auto simp: case_prod_beta)
  qed simp
qed

lemma alternative_decode_length:
  assumes "alternative_decode s = Inr (a, rest)"
  shows "length rest < length s"
proof -
  let ?field = "takeWhile (\<lambda>c. \<not> hasPunctuation c) s"
  obtain cond t where t: "drop (length ?field) s = cond # t"
    using assms by (cases "drop (length ?field) s") (simp_all add: alternative_decode_def Let_def)
  then have "rest = snd (scan_value t)"
    using assms by (auto simp: alternative_decode_def Let_def new_Alternative_def
        split: prod.splits if_splits)
  moreover have "length t < length s"
    using arg_cong [OF t, of length] by simp
  ultimately show ?thesis using scan_value_length [of t] by simp
qed

text \<open>The loop of \<open>decode\<close>, with the alternatives so far.\<close>

function decode_alternatives ::
  "alternative list \<Rightarrow> string \<Rightarrow> js_error + alternative list \<times> string" where
  "decode_alternatives as encStr =
     (if encStr = [] then Inr (as, [])
      else if hd encStr = CHR ''&'' then Inr (as, tl encStr)
      else (case alternative_decode encStr of
              Inl err \<Rightarrow> Inl err
            | Inr (a, rest) \<Rightarrow> decode_alternatives (as @ [a]) rest))"
  by pat_completeness auto

termination
  by (relation "measure (\<lambda>(as, s). length s)") (auto dest: alternative_decode_length)

declare decode_alternatives.simps [simp del]

definition restriction_decode :: "string \<Rightarrow> js_error + restriction \<times> string" where
  "restriction_decode encodedStr =
     (case decode_alternatives [] encodedStr of
        Inl err \<Rightarrow> Inl err
      | Inr (as, rest) \<Rightarrow> map_sum id (\<lambda>r. (r, rest)) (new_Restriction as))"

section \<open>rune-like.ts\<close>

type_synonym rune_like = "restriction list"

fun rune_test :: "rune_like \<Rightarrow> (string \<rightharpoonup> rune_value) \<Rightarrow> js_error + bool \<times> string" where
  "rune_test [] vals = Inr (True, [])"
| "rune_test (r # rs) vals =
     (case restriction_test r vals of
        Inl err \<Rightarrow> Inl err
      | Inr (Some reasons) \<Rightarrow> Inr (False, reasons)
      | Inr None \<Rightarrow> rune_test rs vals)"

definition rune_encode :: "rune_like \<Rightarrow> string" where
  "rune_encode rs = js_join ''&'' (map restriction_encode rs)"

lemma decode_alternatives_length:
  "decode_alternatives as s = Inr (as', rest) \<Longrightarrow> length rest \<le> length s"
proof (induction as s rule: decode_alternatives.induct)
  case (1 as s)
  show ?case
  proof (cases "s = [] \<or> hd s = CHR ''&''")
    case True
    then show ?thesis using 1(2) by (auto simp: decode_alternatives.simps [of as s] split: if_splits)
  next
    case False
    then obtain a t where t: "alternative_decode s = Inr (a, t)" "decode_alternatives (as @ [a]) t = Inr (as', rest)"
      using 1(2) by (auto simp: decode_alternatives.simps [of as s] split: sum.splits)
    then show ?thesis using 1(1) [OF _ _ t(1) refl t(2)] False alternative_decode_length [OF t(1)] by simp
  qed
qed

lemma restriction_decode_length:
  assumes "restriction_decode s = Inr (r, rest)"
  shows "length rest < length s"
proof -
  obtain as where d: "decode_alternatives [] s = Inr (as, rest)" "as \<noteq> []"
    using assms by (auto simp: restriction_decode_def new_Restriction_def split: sum.splits if_splits)
  then have s: "s \<noteq> []" "hd s \<noteq> CHR ''&''"
    by (auto simp: decode_alternatives.simps [of "[]" s] split: if_splits)
  then obtain a t where t: "alternative_decode s = Inr (a, t)" "decode_alternatives [a] t = Inr (as, rest)"
    using d(1) by (auto simp: decode_alternatives.simps [of "[]" s] split: sum.splits)
  show ?thesis using alternative_decode_length [OF t(1)] decode_alternatives_length [OF t(2)] by simp
qed

function decode_restrictions :: "restriction list \<Rightarrow> string \<Rightarrow> js_error + rune_like" where
  "decode_restrictions rs encStr =
     (if encStr = [] then Inr rs
      else (case restriction_decode encStr of
              Inl err \<Rightarrow> Inl err
            | Inr (r, rest) \<Rightarrow> decode_restrictions (rs @ [r]) rest))"
  by pat_completeness auto

termination
  by (relation "measure (\<lambda>(rs, s). length s)") (auto dest: restriction_decode_length)

declare decode_restrictions.simps [simp del]

definition rune_from :: "string \<Rightarrow> js_error + rune_like" where
  "rune_from encodedStr = decode_restrictions [] (filter (\<lambda>c. \<not> is_js_space c) encodedStr)"

end
