(* ===== verification/Rune_Laws.thy ===== *)
theory Rune_Laws
  imports Runes
begin

text \<open>
  Laws of the restriction language: what the parser accepts is well-formed, printing and parsing are
  inverse on well-formed runes without white space, and a rune's test is a conjunction of
  disjunctions of the meanings of its alternatives.
\<close>

section \<open>Well-formed runes\<close>

definition valid_alternative :: "alternative \<Rightarrow> bool" where
  "valid_alternative a \<longleftrightarrow>
     list_all (\<lambda>c. \<not> hasPunctuation c) (alt_field a) \<and> alt_cond a \<in> set alternative_conds"

definition valid_rune :: "rune_like \<Rightarrow> bool" where
  "valid_rune rs \<longleftrightarrow> list_all (\<lambda>r. r \<noteq> [] \<and> list_all valid_alternative r) rs"

lemma new_Alternative_Inr:
  "new_Alternative field cond v = Inr a \<longleftrightarrow>
     valid_alternative a \<and> alt_field a = field \<and> cond = Some (alt_cond a) \<and> alt_value a = v"
  by (cases a; cases cond)
     (auto simp: new_Alternative_def valid_alternative_def list_all_iff list_ex_iff)

lemma alternative_decode_valid: "alternative_decode s = Inr (a, rest) \<Longrightarrow> valid_alternative a"
  by (auto simp: alternative_decode_def Let_def new_Alternative_Inr map_sum_def
      split: list.splits prod.splits sum.splits)

lemma decode_alternatives_valid:
  "decode_alternatives as s = Inr (as', rest) \<Longrightarrow> list_all valid_alternative as
     \<Longrightarrow> list_all valid_alternative as'"
proof (induction as s rule: decode_alternatives.induct)
  case (1 as s)
  show ?case
  proof (cases "s = [] \<or> hd s = CHR ''&''")
    case True
    then show ?thesis using 1(2,3) by (auto simp: decode_alternatives.simps [of as s] split: if_splits)
  next
    case False
    then obtain a t where t: "alternative_decode s = Inr (a, t)" "decode_alternatives (as @ [a]) t = Inr (as', rest)"
      using 1(2) by (auto simp: decode_alternatives.simps [of as s] split: sum.splits)
    then show ?thesis
      using 1(1) [OF _ _ t(1) refl t(2)] False 1(3) alternative_decode_valid [OF t(1)] by simp
  qed
qed

lemma restriction_decode_valid:
  "restriction_decode s = Inr (r, rest) \<Longrightarrow> r \<noteq> [] \<and> list_all valid_alternative r"
  using decode_alternatives_valid [of "[]" s]
  by (auto simp: restriction_decode_def new_Restriction_def split: sum.splits if_splits)

lemma decode_restrictions_valid:
  "decode_restrictions rs s = Inr rs' \<Longrightarrow> valid_rune rs \<Longrightarrow> valid_rune rs'"
proof (induction rs s rule: decode_restrictions.induct)
  case (1 rs s)
  show ?case
  proof (cases "s = []")
    case False
    then obtain r t where t: "restriction_decode s = Inr (r, t)" "decode_restrictions (rs @ [r]) t = Inr rs'"
      using 1(2) by (auto simp: decode_restrictions.simps [of rs s] split: sum.splits)
    then show ?thesis
      using 1(1) [OF False t(1) refl t(2)] 1(3) restriction_decode_valid [OF t(1)]
      by (simp add: valid_rune_def)
  next
    case True
    then show ?thesis using 1(2,3) by (simp add: decode_restrictions.simps [of rs "[]"])
  qed
qed

section \<open>Round trips\<close>

text \<open>The characters with a meaning in an encoded value.\<close>

lemma scan_value_escaped:
  "scan_value (concat (map escape_char v) @ t) = (v @ fst (scan_value t), snd (scan_value t))"
  by (induction v) (auto simp: escape_char_def split: prod.splits)

lemma alternative_conds_punctuation: "c \<in> set alternative_conds \<Longrightarrow> hasPunctuation c"
  by (auto simp: alternative_conds_def hasPunctuation_def)

lemma alternative_decode_encode:
  assumes "valid_alternative a" "scan_value t = ([], rest)"
  shows "alternative_decode (alternative_encode a @ t) = Inr (a, rest)"
proof -
  let ?s = "alternative_encode a @ t"
  have field: "takeWhile (\<lambda>c. \<not> hasPunctuation c) ?s = alt_field a"
    using assms(1) alternative_conds_punctuation
    by (simp add: alternative_encode_def valid_alternative_def list_all_iff)
  have "drop (length (alt_field a)) ?s = alt_cond a # concat (map escape_char (alt_value a)) @ t"
    by (simp add: alternative_encode_def)
  moreover have "new_Alternative (alt_field a) (Some (alt_cond a)) (alt_value a) = Inr a"
    using assms(1) by (simp add: new_Alternative_Inr)
  ultimately show ?thesis
    using scan_value_escaped [of "alt_value a" t] assms(2)
    by (simp add: alternative_decode_def field)
qed

lemma alternative_encode_start:
  "valid_alternative a \<Longrightarrow> alternative_encode a @ t \<noteq> [] \<and> hd (alternative_encode a @ t) \<noteq> CHR ''&''"
  by (cases "alt_field a")
     (auto simp: alternative_encode_def valid_alternative_def alternative_conds_def hasPunctuation_def)

text \<open>A restriction ends at the end of the input or at an ampersand, which is consumed.\<close>

lemma decode_alternatives_encode:
  assumes "t = [] \<or> hd t = CHR ''&''" "r \<noteq> []" "list_all valid_alternative r"
  shows "decode_alternatives as (restriction_encode r @ t) = Inr (as @ r, tl t)"
  using assms(2,3)
proof (induction r arbitrary: as rule: induct_list012)
  case (2 a)
  have "scan_value t = ([], t)" using assms(1) by (cases t) auto
  then have "alternative_decode (alternative_encode a @ t) = Inr (a, t)"
    using alternative_decode_encode 2 by simp
  moreover have "decode_alternatives (as @ [a]) t = Inr (as @ [a], tl t)"
    using assms(1) by (auto simp: decode_alternatives.simps [of "as @ [a]" t])
  ultimately show ?case
    using alternative_encode_start [of a t] 2
    by (simp add: restriction_encode_def decode_alternatives.simps [of as "alternative_encode a @ t"])
next
  case (3 a b r)
  let ?rest = "restriction_encode (b # r) @ t"
  have e: "restriction_encode (a # b # r) @ t = alternative_encode a @ CHR ''|'' # ?rest"
    by (simp add: restriction_encode_def)
  have "alternative_decode (alternative_encode a @ CHR ''|'' # ?rest) = Inr (a, ?rest)"
    using alternative_decode_encode 3(4) by simp
  then show ?case
    using alternative_encode_start [of a "CHR ''|'' # ?rest"] 3(2) [of "as @ [a]"] 3(4)
    unfolding e by (simp add: decode_alternatives.simps [of as "alternative_encode a @ CHR ''|'' # ?rest"])
qed simp

lemma restriction_decode_encode:
  assumes "t = [] \<or> hd t = CHR ''&''" "r \<noteq> []" "list_all valid_alternative r"
  shows "restriction_decode (restriction_encode r @ t) = Inr (r, tl t)"
  using decode_alternatives_encode [OF assms, of "[]"] assms(2)
  by (simp add: restriction_decode_def new_Restriction_def)

lemma restriction_encode_not_Nil: "r \<noteq> [] \<Longrightarrow> restriction_encode r \<noteq> []"
  by (cases r rule: remdups_adj.cases) (auto simp: restriction_encode_def alternative_encode_def)

lemma decode_restrictions_encode:
  "valid_rune qs \<Longrightarrow> decode_restrictions rs (rune_encode qs) = Inr (rs @ qs)"
proof (induction qs arbitrary: rs rule: induct_list012)
  case 1
  show ?case by (simp add: rune_encode_def decode_restrictions.simps [of rs "[]"])
next
  case (2 r)
  then have "restriction_decode (restriction_encode r) = Inr (r, [])" "restriction_encode r \<noteq> []"
    using restriction_decode_encode [of "[]" r] restriction_encode_not_Nil by (auto simp: valid_rune_def)
  then show ?case
    by (simp add: rune_encode_def decode_restrictions.simps [of rs "restriction_encode r"]
        decode_restrictions.simps [of "rs @ [r]" "[]"])
next
  case (3 r q qs)
  let ?rest = "rune_encode (q # qs)"
  have e: "rune_encode (r # q # qs) = restriction_encode r @ CHR ''&'' # ?rest"
    by (simp add: rune_encode_def)
  have "restriction_decode (restriction_encode r @ CHR ''&'' # ?rest) = Inr (r, ?rest)"
    using restriction_decode_encode [of "CHR ''&'' # ?rest" r] 3(3) by (simp add: valid_rune_def)
  then show ?case
    using 3(2) [of "rs @ [r]"] 3(3) unfolding e
    by (simp add: decode_restrictions.simps [of rs "restriction_encode r @ CHR ''&'' # ?rest"] valid_rune_def)
qed

text \<open>\<open>from\<close> removes white space first, so it inverts \<open>encode\<close> where there is none.\<close>

definition spaceless_alternative :: "alternative \<Rightarrow> bool" where
  "spaceless_alternative a \<longleftrightarrow> list_all (\<lambda>c. \<not> is_js_space c) (alt_field a @ alt_value a)"

lemma punctuation_no_space: "hasPunctuation c \<Longrightarrow> \<not> is_js_space c"
  by (auto simp: hasPunctuation_def is_js_space_def Let_def)

lemma set_js_join: "set (js_join sep xs) \<subseteq> set sep \<union> (\<Union>x\<in>set xs. set x)"
  by (induction sep xs rule: js_join.induct) auto

lemma alternative_encode_spaceless:
  assumes "valid_alternative a" "spaceless_alternative a"
  shows "list_all (\<lambda>c. \<not> is_js_space c) (alternative_encode a)"
proof -
  have "\<not> is_js_space c" if "c \<in> set (escape_char d)" "\<not> is_js_space d" for c d
    using that by (auto simp: escape_char_def is_js_space_def split: if_splits)
  then show ?thesis
    using assms alternative_conds_punctuation punctuation_no_space
    by (auto simp: alternative_encode_def spaceless_alternative_def valid_alternative_def list_all_iff)
qed

lemma rune_encode_spaceless:
  assumes "valid_rune rs" "list_all (list_all spaceless_alternative) rs"
  shows "list_all (\<lambda>c. \<not> is_js_space c) (rune_encode rs)"
proof -
  have sep: "\<not> is_js_space (CHR ''&'')" "\<not> is_js_space (CHR ''|'')" by (simp_all add: is_js_space_def)
  have "list_all (\<lambda>c. \<not> is_js_space c) (restriction_encode r)" if "r \<in> set rs" for r
    using set_js_join [of "''|''" "map alternative_encode r"] sep alternative_encode_spaceless assms that
    unfolding restriction_encode_def valid_rune_def list_all_iff by fastforce
  then show ?thesis
    using set_js_join [of "''&''" "map restriction_encode rs"] sep
    unfolding rune_encode_def list_all_iff by fastforce
qed

lemma rune_from_encode:
  assumes "valid_rune rs" "list_all (list_all spaceless_alternative) rs"
  shows "rune_from (rune_encode rs) = Inr rs"
proof -
  have "filter (\<lambda>c. \<not> is_js_space c) (rune_encode rs) = rune_encode rs"
    using rune_encode_spaceless [OF assms] by (simp add: filter_id_conv list_all_iff)
  then show ?thesis using decode_restrictions_encode [OF assms(1), of "[]"] by (simp add: rune_from_def)
qed

section \<open>Meaning\<close>

text \<open>What an alternative says of string values.\<close>

definition alternative_holds :: "alternative \<Rightarrow> (string \<rightharpoonup> string) \<Rightarrow> bool" where
  "alternative_holds a vals \<longleftrightarrow>
     alt_cond a = CHR ''#''
     \<or> vals (alt_field a) = None \<and> alt_cond a = CHR ''!''
     \<or> (\<exists>x. vals (alt_field a) = Some x \<and>
          (alt_cond a = CHR ''='' \<and> x = alt_value a
           \<or> alt_cond a = CHR ''/'' \<and> x \<noteq> alt_value a
           \<or> alt_cond a = CHR ''^'' \<and> prefix (alt_value a) x
           \<or> alt_cond a = CHR ''$'' \<and> suffix (alt_value a) x
           \<or> alt_cond a = CHR ''~'' \<and> sublist (alt_value a) x
           \<or> alt_cond a = CHR ''<'' \<and> (\<exists>m n. parseInt x = Some m \<and> parseInt (alt_value a) = Some n \<and> m < n)
           \<or> alt_cond a = CHR ''>'' \<and> (\<exists>m n. parseInt x = Some m \<and> parseInt (alt_value a) = Some n \<and> n < m)
           \<or> alt_cond a = CHR ''{'' \<and> x < alt_value a
           \<or> alt_cond a = CHR ''}'' \<and> alt_value a < x))"

definition string_vals :: "(string \<rightharpoonup> string) \<Rightarrow> string \<rightharpoonup> rune_value" where
  "string_vals vals = map_option RuneStr \<circ> vals"

lemma why_None [simp]: "why b field e = None \<longleftrightarrow> b"
  by (simp add: why_def)

lemma why_False [simp]: "why False field e = Some (field @ '': '' @ e)"
  by (simp add: why_def)

lemma compare_int_None:
  "compare_int cond field x v = None \<longleftrightarrow>
     (\<exists>m n. parseInt x = Some m \<and> parseInt v = Some n \<and> (if cond = CHR ''<'' then m < n else n < m))"
  by (auto simp: compare_int_def split: option.splits)

lemma alternative_test_string:
  assumes "valid_alternative a"
  shows "\<exists>why. alternative_test a (string_vals vals) = Inr why
    \<and> (why = None \<longleftrightarrow> alternative_holds a vals)"
proof -
  consider "vals (alt_field a) = None" | x where "vals (alt_field a) = Some x" by blast
  then show ?thesis
  proof cases
    case 1
    then show ?thesis
      by (simp add: alternative_test_def Let_def string_vals_def alternative_holds_def)
  next
    case (2 x)
    have "alt_cond a \<in> set alternative_conds" using assms by (simp add: valid_alternative_def)
    then show ?thesis
      by (auto simp: alternative_test_def Let_def string_vals_def alternative_holds_def 2
          alternative_conds_def startsWith_prefix compare_int_None)
  qed
qed

lemma restriction_reasons_string:
  "list_all valid_alternative as \<Longrightarrow> \<exists>why. restriction_reasons reasons as (string_vals vals) = Inr why
     \<and> (why = None \<longleftrightarrow> (\<exists>a\<in>set as. alternative_holds a vals))"
proof (induction as arbitrary: reasons)
  case (Cons a as)
  then obtain w where w: "alternative_test a (string_vals vals) = Inr w"
    "w = None \<longleftrightarrow> alternative_holds a vals"
    using alternative_test_string [of a vals] by auto
  then show ?case using Cons by (cases w) auto
qed simp

lemma rune_test_string:
  "valid_rune rs \<Longrightarrow> \<exists>ok reasons. rune_test rs (string_vals vals) = Inr (ok, reasons)
     \<and> (ok \<longleftrightarrow> (\<forall>r\<in>set rs. \<exists>a\<in>set r. alternative_holds a vals))"
proof (induction rs)
  case (Cons r rs)
  obtain w where w: "restriction_test r (string_vals vals) = Inr w"
    "w = None \<longleftrightarrow> (\<exists>a\<in>set r. alternative_holds a vals)"
    using restriction_reasons_string [of r "[]" vals] Cons(2)
    by (auto simp: restriction_test_def valid_rune_def)
  show ?case using Cons w by (cases w) (auto simp: valid_rune_def)
qed auto

section \<open>Properties\<close>

text \<open>Parsing the printed form of a rune gives the rune back, where no field or value contains
  white space: operators and separators inside values are escaped, and fields contain none.\<close>

theorem rune_round_trip:
  assumes "valid_rune rs" "list_all (list_all spaceless_alternative) rs"
  shows "rune_from (rune_encode rs) = Inr rs"
  by (rule rune_from_encode [OF assms])

lemma rune_round_trip_witness:
  "rune_from (''kind=1|pubkey^a'' @ CHR 0x5C # ''&b&time<5'') =
     Inr [[\<lparr>alt_field = ''kind'', alt_cond = CHR ''='', alt_value = ''1''\<rparr>,
           \<lparr>alt_field = ''pubkey'', alt_cond = CHR ''^'', alt_value = ''a&b''\<rparr>],
          [\<lparr>alt_field = ''time'', alt_cond = CHR ''<'', alt_value = ''5''\<rparr>]]"
  using rune_round_trip [of "[[\<lparr>alt_field = ''kind'', alt_cond = CHR ''='', alt_value = ''1''\<rparr>,
      \<lparr>alt_field = ''pubkey'', alt_cond = CHR ''^'', alt_value = ''a&b''\<rparr>],
     [\<lparr>alt_field = ''time'', alt_cond = CHR ''<'', alt_value = ''5''\<rparr>]]"]
  by (simp add: valid_rune_def valid_alternative_def spaceless_alternative_def hasPunctuation_def
      alternative_conds_def is_js_space_def rune_encode_def restriction_encode_def
      alternative_encode_def escape_char_def)

text \<open>C38. The parser is total: \<open>decode\<close> of a restriction leaves a shorter input, so the loop of \<open>from\<close>
  ends, and whatever it returns is well-formed, every restriction with at least one alternative, every
  alternative with a known operator and a field without punctuation.\<close>

theorem rune_parser_consumes_and_validates:
  "(restriction_decode s = Inr (r, rest) \<longrightarrow> length rest < length s)
   \<and> (rune_from s = Inr rs \<longrightarrow> valid_rune rs)"
  using restriction_decode_length decode_restrictions_valid [of "[]"]
  by (auto simp: rune_from_def valid_rune_def)

lemma rune_parser_consumes_and_validates_witness:
  "valid_rune [[\<lparr>alt_field = ''a'', alt_cond = CHR ''='', alt_value = ''1''\<rparr>]]"
proof -
  let ?r = "[[\<lparr>alt_field = ''a'', alt_cond = CHR ''='', alt_value = ''1''\<rparr>]]"
  have "rune_from '' a=1&'' = Inr ?r" by code_simp
  then show ?thesis using rune_parser_consumes_and_validates by blast
qed

text \<open>The test of a well-formed rune against string values never raises an error, and succeeds
  exactly if every restriction has an alternative that holds.\<close>

theorem rune_test_is_conjunction_of_disjunctions:
  assumes "valid_rune rs"
  shows "\<exists>ok reasons. rune_test rs (string_vals vals) = Inr (ok, reasons)
    \<and> (ok \<longleftrightarrow> (\<forall>r\<in>set rs. \<exists>a\<in>set r. alternative_holds a vals))"
  by (rule rune_test_string [OF assms])

lemma rune_test_is_conjunction_of_disjunctions_witness:
  "\<exists>reasons. rune_test [[\<lparr>alt_field = ''a'', alt_cond = CHR ''='', alt_value = ''1''\<rparr>]]
     (string_vals [''a'' \<mapsto> ''1'']) = Inr (True, reasons)"
  using rune_test_is_conjunction_of_disjunctions
    [of "[[\<lparr>alt_field = ''a'', alt_cond = CHR ''='', alt_value = ''1''\<rparr>]]" "[''a'' \<mapsto> ''1'']"]
  by (auto simp: valid_rune_def valid_alternative_def hasPunctuation_def alternative_conds_def
      alternative_holds_def)

end
