(* ===== verification/Payment_Laws.thy ===== *)
theory Payment_Laws
  imports Payments_Service
begin

text \<open>
  Laws of the payment tables. The locale states what the maintenance worker relies on, an invariant
  that the service's two operations keep for the invoices they may touch; it is interpreted for the
  ledger (every balance is the sum of the confirmed invoices), for the permanence of a confirmation
  and for the invoices no run looks at again.
\<close>

section \<open>Operations that keep an invariant\<close>

locale payment_service =
  fixes inv :: "payment_db \<Rightarrow> bool" and touched :: "string \<Rightarrow> bool"
  assumes update_inv: "inv db \<Longrightarrow> touched k \<Longrightarrow> inv (snd (updateStatus now (Some k) status db))"
    and confirm_inv: "inv db \<Longrightarrow> touched (inv_id x) \<Longrightarrow> inv (snd (confirmInvoice s tx clock x db))"
begin

lemma process_invoice_inv:
  assumes ok: "inv (m_payments st)"
    and id: "\<And>u k. getInvoiceFromPaymentsProcessor (me_processor env) (Inr i) = Inr u \<Longrightarrow> p_id u = Some k \<Longrightarrow> touched k"
  shows "inv (m_payments (process_invoice env i st))"
proof (cases "getInvoiceFromPaymentsProcessor (me_processor env) (Inr i)")
  case (Inr u)
  show ?thesis
  proof (cases "p_id u"; cases "p_status u")
    fix k status
    assume k: "p_id u = Some k" "p_status u = Some status"
    have touched: "touched k" using id [OF Inr k(1)] .
    obtain res db where up: "updateStatus (me_clock env i 0) (Some k) (Some status) (m_payments st) = (res, db)"
      by fastforce
    have "inv db" using update_inv [OF ok touched, of "me_clock env i 0" "Some status"] up by simp
    moreover have "inv_id (merge_invoice u i) = k" by (simp add: merge_invoice_def override_def k)
    ultimately have "inv (snd (confirmInvoice (me_settings env) (me_tx env i) (\<lambda>n. me_clock env i (n + 1))
        (merge_invoice u i) db))"
      using touched by (intro confirm_inv) simp_all
    with \<open>inv db\<close> show ?thesis
      using ok by (simp add: process_invoice_def Inr k updateInvoiceStatus_def up Let_def
          case_prod_beta split: sum.splits)
  qed (use ok in \<open>simp_all add: process_invoice_def Inr\<close>)
qed (use ok in \<open>simp add: process_invoice_def\<close>)

lemma fold_process_inv:
  assumes "inv (m_payments st)"
    and "\<And>i u k. i \<in> set is \<Longrightarrow> getInvoiceFromPaymentsProcessor (me_processor env) (Inr i) = Inr u
      \<Longrightarrow> p_id u = Some k \<Longrightarrow> touched k"
  shows "inv (m_payments (fold (process_invoice env) is st))"
  using assms
proof (induction "is" arbitrary: st)
  case (Cons i "is")
  have "inv (m_payments (process_invoice env i st))"
    by (rule process_invoice_inv) (use Cons.prems in auto)
  then have "inv (m_payments (fold (process_invoice env) is (process_invoice env i st)))"
    by (rule Cons.IH) (use Cons.prems(2) in \<open>metis list.set_intros(2)\<close>)
  then show ?case by simp
qed simp

lemma onSchedule_inv:
  assumes "inv (m_payments st)"
    and "\<And>is i u k. getPendingInvoices (m_payments st) = Inr is \<Longrightarrow> i \<in> set is
      \<Longrightarrow> getInvoiceFromPaymentsProcessor (me_processor env) (Inr i) = Inr u \<Longrightarrow> p_id u = Some k \<Longrightarrow> touched k"
  shows "inv (m_payments (snd (onSchedule env st)))"
  using assms by (auto simp: onSchedule_def intro!: fold_process_inv split: sum.splits)

end

section \<open>The ledger\<close>

definition invoice_credit :: "dbinvoice \<Rightarrow> int" where
  "invoice_credit r =
     (case di_amount_paid r of None \<Rightarrow> 0 | Some n \<Rightarrow> if di_confirmed_at r = None then 0 else msats_of (di_unit r) n)"

definition credits :: "bytes \<Rightarrow> dbinvoice list \<Rightarrow> int" where
  "credits pk invs = sum_list (map invoice_credit (filter (\<lambda>r. di_pubkey r = pk) invs))"

definition ledger_ok :: "payment_db \<Rightarrow> bool" where
  "ledger_ok db \<longleftrightarrow>
     (\<forall>invs users. pay_invoices db = Some invs \<longrightarrow> pay_users db = Some users \<longrightarrow>
        distinct (map di_id invs) \<and> distinct (map db_pubkey users)
        \<and> (\<forall>r\<in>set invs. di_pubkey r \<in> db_pubkey ` set users)
        \<and> (\<forall>u\<in>set users. db_balance u = credits (db_pubkey u) invs))"

lemma ledger_okD:
  assumes "ledger_ok db" "pay_invoices db = Some invs" "pay_users db = Some users"
  shows "distinct (map di_id invs)" "distinct (map db_pubkey users)"
    "r \<in> set invs \<Longrightarrow> di_pubkey r \<in> db_pubkey ` set users"
    "u \<in> set users \<Longrightarrow> db_balance u = credits (db_pubkey u) invs"
  using assms by (auto simp: ledger_ok_def)

lemma credits_simps [simp]:
  "credits pk [] = 0"
  "credits pk (r # invs) = (if di_pubkey r = pk then invoice_credit r + credits pk invs else credits pk invs)"
  by (simp_all add: credits_def)

lemma credits_append [simp]: "credits pk (xs @ ys) = credits pk xs + credits pk ys"
  by (simp add: credits_def)

lemma credits_none: "(\<And>r. r \<in> set invs \<Longrightarrow> di_pubkey r \<noteq> pk) \<Longrightarrow> credits pk invs = 0"
  by (induction invs) auto

lemma credits_map_same:
  assumes "\<And>r. r \<in> set invs \<Longrightarrow> invoice_credit (g r) = invoice_credit r \<and> di_pubkey (g r) = di_pubkey r"
  shows "credits pk (map g invs) = credits pk invs"
  using assms by (induction invs) auto

subsection \<open>Rows of invoices\<close>

lemma status_row_simps [simp]:
  "di_id (status_row now s r) = di_id r" "di_pubkey (status_row now s r) = di_pubkey r"
  "di_unit (status_row now s r) = di_unit r" "di_amount_paid (status_row now s r) = di_amount_paid r"
  "di_confirmed_at (status_row now s r) = di_confirmed_at r"
  "di_status (status_row now (Some st) r) = st"
  "invoice_credit (status_row now s r) = invoice_credit r"
  by (auto simp: status_row_def invoice_credit_def split: option.splits)

lemma confirm_row_simps [simp]:
  "di_id (confirm_row now a d r) = di_id r" "di_pubkey (confirm_row now a d r) = di_pubkey r"
  "di_unit (confirm_row now a d r) = di_unit r" "di_status (confirm_row now a d r) = di_status r"
  "di_amount_paid (confirm_row now a d r) = Some a" "di_confirmed_at (confirm_row now a d r) = Some d"
  "invoice_credit (confirm_row now a d r) = msats_of (di_unit r) a"
  by (simp_all add: confirm_row_def invoice_credit_def)

lemma credit_user_simps [simp]:
  "db_pubkey (credit_user pk n u) = db_pubkey u" "is_admitted (credit_user pk n u) = is_admitted u"
  "db_balance (credit_user pk n u) = db_balance u + (if db_pubkey u = pk then n else 0)"
  by (simp_all add: credit_user_def)

text \<open>Confirming one unconfirmed invoice adds its credit to its payee and to nobody else.\<close>

lemma credits_confirm:
  assumes "distinct (map di_id invs)" "r \<in> set invs" "di_confirmed_at r = None"
  shows "credits pk (map (\<lambda>x. if di_id x = di_id r then confirm_row now a d x else x) invs)
    = credits pk invs + (if di_pubkey r = pk then msats_of (di_unit r) a else 0)"
  using assms
proof (induction invs)
  case (Cons x invs)
  show ?case
  proof (cases "x = r")
    case True
    have "credits pk (map (\<lambda>x. if di_id x = di_id r then confirm_row now a d x else x) invs) = credits pk invs"
      using Cons.prems(1) True by (intro credits_map_same) (force simp: image_iff)
    moreover have "invoice_credit r = 0" using Cons.prems(3) by (simp add: invoice_credit_def split: option.splits)
    ultimately show ?thesis using True by simp
  next
    case False
    then have "di_id x \<noteq> di_id r" using Cons.prems(1,2) by (force simp: image_iff)
    then show ?thesis using Cons False by simp
  qed
qed simp

lemma map_key_distinct:
  assumes "\<And>x. key (g x) = key x"
  shows "map key (map (\<lambda>x. if P x then g x else x) xs) = map key xs"
  using assms by (induction xs) auto

lemma ledger_map_invoices:
  assumes "ledger_ok db"
    and "\<And>r. di_id (g r) = di_id r \<and> di_pubkey (g r) = di_pubkey r \<and> invoice_credit (g r) = invoice_credit r"
  shows "ledger_ok (map_invoices g db)"
proof (cases "pay_invoices db")
  case (Some invs)
  have "map di_id (map g invs) = map di_id invs" using assms(2) by simp
  moreover have "credits pk (map g invs) = credits pk invs" for pk
    using assms(2) by (intro credits_map_same) blast
  ultimately show ?thesis
    using assms(1,2) unfolding ledger_ok_def map_invoices_def
    by (simp add: Some del: map_map)
qed (simp add: ledger_ok_def map_invoices_def)

lemma updateStatus_ledger:
  assumes "ledger_ok db"
  shows "ledger_ok (snd (updateStatus now i status db))"
  using assms ledger_map_invoices [OF assms, of "\<lambda>r. if di_id r = the i then status_row now status r else r"]
  by (auto simp: updateStatus_def split: option.splits)

subsection \<open>Users\<close>

text \<open>An upsert of a user changes no balance, keeps the public keys and adds at most the user with balance 0.\<close>

lemma upsert_user_rows:
  assumes "upsert_user date pk admitted tos (Some users) = (Inr n, users')"
  obtains (merged) "users' = Some (map (\<lambda>r. if db_pubkey r = toBuffer pk
        then merge_user_row date admitted tos r else r) users)" "toBuffer pk \<in> db_pubkey ` set users"
    | (added) "users' = Some (users @ [new_user_row date pk admitted tos])" "toBuffer pk \<notin> db_pubkey ` set users"
proof (cases "toBuffer pk \<in> db_pubkey ` set users")
  case True
  then show ?thesis using assms that(1) by (force simp: upsert_user_def list_ex_iff split: if_splits)
next
  case False
  then show ?thesis using assms that(2) by (force simp: upsert_user_def list_ex_iff split: if_splits)
qed

lemma merged_users_keys:
  "db_pubkey ` set (map (\<lambda>r. if P r then merge_user_row date admitted tos r else r) users) = db_pubkey ` set users"
  using arg_cong [OF map_merge_pubkeys [of P date admitted tos users], of set] by (simp only: set_map)

lemma upsert_user_present:
  assumes "upsert_user date pk admitted tos (Some users) = (Inr n, users')"
  shows "\<exists>us. users' = Some us \<and> toBuffer pk \<in> db_pubkey ` set us"
  using assms
proof (cases rule: upsert_user_rows)
  case merged
  then show ?thesis by (simp only: merged_users_keys option.inject ex_simps simp_thms)
qed simp

lemma upsert_user_ledger:
  assumes ok: "ledger_ok db" and up: "upsert_user date pk admitted tos (pay_users db) = (Inr n, users')"
  shows "ledger_ok (db\<lparr>pay_users := users'\<rparr>)"
proof (cases "pay_invoices db")
  case (Some invs)
  obtain users where users: "pay_users db = Some users"
    using up by (cases "pay_users db") (simp_all add: upsert_user_def)
  note ledger = ledger_okD [OF ok Some users]
  from up [unfolded users] show ?thesis
  proof (cases rule: upsert_user_rows)
    case merged
    let ?users = "map (\<lambda>r. if db_pubkey r = toBuffer pk then merge_user_row date admitted tos r else r) users"
    have keys: "map db_pubkey ?users = map db_pubkey users" by (rule map_key_distinct) simp
    have "db_pubkey ` set ?users = db_pubkey ` set users" by (rule merged_users_keys)
    moreover have "db_balance u = credits (db_pubkey u) invs" if "u \<in> set ?users" for u
      using that ledger(4) by auto
    ultimately show ?thesis
      using ledger(1-3) keys merged(1) Some unfolding ledger_ok_def by (simp del: map_map set_map)
  next
    case added
    have "credits (toBuffer pk) invs = 0"
      using ledger(3) added(2) by (intro credits_none) force
    then show ?thesis
      using ledger added Some unfolding ledger_ok_def
      by (auto simp: new_user_row_def)
  qed
qed (simp add: ledger_ok_def)

subsection \<open>Confirmation\<close>

text \<open>
  The cases of the stored function that succeed: nothing to confirm, or the invoice is confirmed and
  its payee credited.
\<close>

lemma confirm_invoice_cases:
  assumes "confirm_invoice ser now k amount date db = (Inr u, db')"
  obtains (nothing) invs where "ser" "pay_invoices db = Some invs" "db' = db"
      "\<And>r. find (\<lambda>r. di_id r = k) invs = Some r \<Longrightarrow> di_confirmed_at r \<noteq> None"
    | (confirmed) invs users r where "ser" "pay_invoices db = Some invs" "pay_users db = Some users"
      "find (\<lambda>r. di_id r = k) invs = Some r" "di_confirmed_at r = None"
      "db' = \<lparr>pay_users = Some (map (credit_user (di_pubkey r) (msats_of (di_unit r) amount)) users),
              pay_invoices = Some (map (\<lambda>r. if di_id r = k then confirm_row now amount date r else r) invs)\<rparr>"
  using assms
  by (auto simp: confirm_invoice_def Let_def split: if_splits option.splits)

lemma confirm_invoice_ledger:
  assumes ok: "ledger_ok db" and run: "confirm_invoice ser now k amount date db = (Inr u, db')"
  shows "ledger_ok db'"
  using run
proof (cases rule: confirm_invoice_cases)
  case (confirmed invs users r)
  note ledger = ledger_okD [OF ok confirmed(2,3)]
  let ?users = "map (credit_user (di_pubkey r) (msats_of (di_unit r) amount)) users"
  let ?invs = "map (\<lambda>x. if di_id x = k then confirm_row now amount date x else x) invs"
  have r: "r \<in> set invs" "di_id r = k" using confirmed(4) by (auto simp: find_Some_iff)
  have ids: "map di_id ?invs = map di_id invs" by (rule map_key_distinct) simp
  have "credits pk ?invs = credits pk invs + (if di_pubkey r = pk then msats_of (di_unit r) amount else 0)" for pk
    using credits_confirm [OF ledger(1) r(1) confirmed(5)] r(2) by simp
  then have "db_balance u = credits (db_pubkey u) ?invs" if "u \<in> set ?users" for u
    using that ledger(4) by auto
  moreover have "di_pubkey x \<in> db_pubkey ` set ?users" if "x \<in> set ?invs" for x
    using that ledger(3) by (auto simp: image_image)
  moreover have "distinct (map db_pubkey ?users)" using ledger(2) by (simp add: comp_def)
  ultimately show ?thesis
    using ledger(1) ids unfolding ledger_ok_def confirmed(6) by (simp del: map_map)
qed (use ok in simp)

lemma confirmInvoice_body_ledger:
  assumes ok: "ledger_ok db" and run: "confirmInvoice_body s clock i db = (Inr u, db')"
  shows "ledger_ok db'"
proof -
  obtain v db1 where db1: "confirm_invoice True (clock 0) (inv_id i) (the (inv_amountPaid i))
      (the (inv_confirmedAt i)) db = (Inr v, db1)"
    using run by (auto simp: confirmInvoice_body_def Let_def split: prod.splits sum.splits)
  from confirm_invoice_ledger [OF ok db1] have "ledger_ok db1" .
  then show ?thesis
    using run db1 upsert_user_ledger [of db1]
    by (auto simp: confirmInvoice_body_def Let_def split: prod.splits sum.splits if_splits)
qed

lemma confirmInvoice_ledger:
  assumes "ledger_ok db"
  shows "ledger_ok (snd (confirmInvoice s tx clock i db))"
  unfolding confirmInvoice_def
  by (cases rule: transactionally_cases [of "confirm_check i" tx "confirmInvoice_body s clock i" db])
     (use assms confirmInvoice_body_ledger [OF assms] in auto)

interpretation ledger: payment_service ledger_ok "\<lambda>_. True"
  by unfold_locales (simp_all add: updateStatus_ledger confirmInvoice_ledger)

subsection \<open>Creation\<close>

lemma upsert_invoice_ledger:
  assumes ok: "ledger_ok db" and payee: "\<exists>users. pay_users db = Some users \<and> toBuffer (inv_pubkey i) \<in> db_pubkey ` set users"
    and run: "upsert_invoice now uuid k i db = (Inr n, db')"
  shows "ledger_ok db'"
proof -
  let ?row = "invoice_row now uuid k i"
  obtain invs where invs: "pay_invoices db = Some invs"
    using run by (cases "pay_invoices db") (simp_all add: upsert_invoice_def)
  obtain users where users: "pay_users db = Some users" "toBuffer (inv_pubkey i) \<in> db_pubkey ` set users"
    using payee by blast
  note ledger = ledger_okD [OF ok invs users(1)]
  show ?thesis
  proof (cases "list_ex (\<lambda>r. di_id r = di_id ?row) invs")
    case True
    then show ?thesis
      using run invs ledger_map_invoices [OF ok, of "\<lambda>r. if di_id r = di_id ?row
          then status_row (di_updated_at ?row) (Some (di_status ?row)) r else r"]
      by (auto simp: upsert_invoice_def Let_def split: if_splits)
  next
    case False
    then have "db' = db\<lparr>pay_invoices := Some (invs @ [?row])\<rparr>"
      using run invs by (auto simp: upsert_invoice_def Let_def split: if_splits)
    moreover have "invoice_credit ?row = 0" "di_pubkey ?row = toBuffer (inv_pubkey i)"
      by (simp_all add: invoice_row_def invoice_credit_def)
    moreover have "di_id ?row \<notin> di_id ` set invs" using False by (force simp: list_ex_iff)
    ultimately show ?thesis
      using ledger users unfolding ledger_ok_def by auto
  qed
qed

lemma createInvoice_body_ledger:
  assumes ok: "ledger_ok db" and run: "createInvoice_body pp clock uuid pk amount desc db = (Inr i, db')"
  shows "ledger_ok db'"
proof -
  obtain n users where up: "upsert_user (clock 0) pk None None (pay_users db) = (Inr n, users)"
    using run by (auto simp: createInvoice_body_def split: prod.splits sum.splits)
  let ?db1 = "db\<lparr>pay_users := users\<rparr>"
  obtain res where res: "pp_createInvoice pp
      \<lparr>cr_amount = amount, cr_description = Some desc, cr_requestId = Some pk\<rparr> = Inr res"
    using run by (auto simp: createInvoice_body_def up Let_def split: sum.splits)
  obtain m where ins: "upsert_invoice (clock 2) uuid (Some (res_id res)) (response_invoice (clock 1) pk res) ?db1
      = (Inr m, db')"
    using run by (auto simp: createInvoice_body_def up Let_def res split: sum.splits prod.splits)
  have payee: "\<exists>us. users = Some us \<and> toBuffer pk \<in> db_pubkey ` set us"
  proof (cases "pay_users db")
    case (Some rows)
    from upsert_user_present [OF up [unfolded Some]] show ?thesis .
  qed (use up in \<open>simp add: upsert_user_def\<close>)
  show ?thesis
    by (rule upsert_invoice_ledger [OF upsert_user_ledger [OF ok up] _ ins])
       (use payee in \<open>simp add: response_invoice_def\<close>)
qed

lemma createInvoice_ledger:
  assumes "ledger_ok db"
  shows "ledger_ok (snd (createInvoice tx pp clock uuid pk amount desc db))"
  unfolding createInvoice_def
  by (cases rule: transactionally_cases [of None tx "createInvoice_body pp clock uuid pk amount desc" db])
     (use assms createInvoice_body_ledger [OF assms] in auto)

section \<open>Invoices that stay as they are\<close>

text \<open>A confirmation is final: its amount and its date are kept by both operations.\<close>

definition confirmed_as :: "string \<Rightarrow> int \<Rightarrow> int \<Rightarrow> payment_db \<Rightarrow> bool" where
  "confirmed_as k amount date db \<longleftrightarrow>
     (case pay_invoices db of
        None \<Rightarrow> False
      | Some invs \<Rightarrow>
          (case find (\<lambda>r. di_id r = k) invs of
             None \<Rightarrow> False
           | Some r \<Rightarrow> di_confirmed_at r = Some date \<and> di_amount_paid r = Some amount))"

definition holds_invoice :: "dbinvoice \<Rightarrow> payment_db \<Rightarrow> bool" where
  "holds_invoice r db \<longleftrightarrow>
     (case pay_invoices db of None \<Rightarrow> False | Some invs \<Rightarrow> distinct (map di_id invs) \<and> r \<in> set invs)"

lemma holds_map:
  assumes "holds_invoice r db" "pay_invoices db = Some invs" "\<And>x. di_id (g x) = di_id x" "\<not> P r"
    "pay_invoices db' = Some (map (\<lambda>x. if P x then g x else x) invs)"
  shows "holds_invoice r db'"
proof -
  have "map di_id (map (\<lambda>x. if P x then g x else x) invs) = map di_id invs"
    by (rule map_key_distinct) (rule assms(3))
  moreover have "r \<in> set (map (\<lambda>x. if P x then g x else x) invs)"
    using assms(1,2,4) by (force simp: holds_invoice_def)
  ultimately show ?thesis using assms(1,2,5) unfolding holds_invoice_def by (simp del: map_map set_map)
qed

lemma find_map_same:
  assumes "\<And>r. key (g r) = key r"
  shows "find (\<lambda>r. key r = k) (map g rows) = map_option g (find (\<lambda>r. key r = k) rows)"
  using assms by (induction rows) auto

lemmas find_map_same_id = find_map_same [of di_id]

lemma find_key: "find (\<lambda>r. key r = k) rows = Some r \<Longrightarrow> key r = k"
  by (induction rows) (auto split: if_splits)

lemmas find_id = find_key [of di_id]

lemma updateStatus_confirmed:
  "confirmed_as k a d db \<Longrightarrow> confirmed_as k a d (snd (updateStatus now i status db))"
  by (auto simp: updateStatus_def confirmed_as_def map_invoices_def find_map_same_id split: option.splits)

lemma confirmInvoice_committed:
  assumes run: "confirmInvoice s tx clock i db = (Inr u, db')"
  shows "confirm_check i = None"
    and "\<exists>db1 v. confirm_invoice True (clock 0) (inv_id i) (the (inv_amountPaid i)) (the (inv_confirmedAt i)) db
      = (Inr v, db1) \<and> pay_invoices db' = pay_invoices db1"
    and "confirmInvoice_body s clock i db = (Inr u, db')"
proof -
  from transactionally_cases [of "confirm_check i" tx "confirmInvoice_body s clock i" db]
  have body: "confirmInvoice_body s clock i db = (Inr u, db') \<and> confirm_check i = None"
    using run unfolding confirmInvoice_def by cases auto
  then show "confirm_check i = None" "confirmInvoice_body s clock i db = (Inr u, db')" by simp_all
  from body show "\<exists>db1 v. confirm_invoice True (clock 0) (inv_id i) (the (inv_amountPaid i)) (the (inv_confirmedAt i)) db
      = (Inr v, db1) \<and> pay_invoices db' = pay_invoices db1"
    by (auto simp: confirmInvoice_body_def Let_def split: prod.splits sum.splits if_splits)
qed

lemma confirmInvoice_invoices:
  assumes run: "confirmInvoice s tx clock i db = (res, db')"
  obtains (same) "pay_invoices db' = pay_invoices db"
    | (confirmed) invs r where "res = Inr ()" "pay_invoices db = Some invs"
      "find (\<lambda>r. di_id r = inv_id i) invs = Some r" "di_confirmed_at r = None"
      "pay_invoices db' = Some (map (\<lambda>x. if di_id x = inv_id i
          then confirm_row (clock 0) (the (inv_amountPaid i)) (the (inv_confirmedAt i)) x else x) invs)"
proof (cases res)
  case (Inl err)
  then have "db' = db" using run transactionally_error unfolding confirmInvoice_def by metis
  then show ?thesis using same by simp
next
  case (Inr u)
  obtain db1 v where db1: "confirm_invoice True (clock 0) (inv_id i) (the (inv_amountPaid i))
      (the (inv_confirmedAt i)) db = (Inr v, db1)" "pay_invoices db' = pay_invoices db1"
    using confirmInvoice_committed(2) run Inr by blast
  from db1(1) show ?thesis
    by (cases rule: confirm_invoice_cases) (use Inr db1(2) same confirmed in auto)
qed

lemma confirmInvoice_confirmed:
  assumes ok: "confirmed_as k a d db"
  shows "confirmed_as k a d (snd (confirmInvoice s tx clock i db))"
proof -
  obtain res db' where run: "confirmInvoice s tx clock i db = (res, db')" by fastforce
  from run have "confirmed_as k a d db'"
  proof (cases rule: confirmInvoice_invoices)
    case (confirmed invs r)
    then have "k \<noteq> inv_id i" using ok by (auto simp: confirmed_as_def split: option.splits)
    then show ?thesis
      using ok confirmed(2,5)
      by (auto simp: confirmed_as_def find_map_same_id dest: find_id split: option.splits)
  qed (use ok in \<open>simp add: confirmed_as_def\<close>)
  then show ?thesis by (simp add: run)
qed

interpretation final: payment_service "confirmed_as k a d" "\<lambda>_. True" for k a d
  by unfold_locales (simp_all add: updateStatus_confirmed confirmInvoice_confirmed)

lemma updateStatus_holds:
  assumes ok: "holds_invoice r db" and other: "k \<noteq> di_id r"
  shows "holds_invoice r (snd (updateStatus now (Some k) status db))"
proof (cases "pay_invoices db")
  case (Some invs)
  show ?thesis
    by (rule holds_map [OF ok Some, of "status_row now status" "\<lambda>x. di_id x = k"])
       (use other in \<open>simp_all add: updateStatus_def map_invoices_def Some\<close>)
qed (use ok in \<open>simp add: holds_invoice_def\<close>)

lemma confirmInvoice_holds:
  assumes ok: "holds_invoice r db" and other: "inv_id i \<noteq> di_id r"
  shows "holds_invoice r (snd (confirmInvoice s tx clock i db))"
proof -
  obtain res db' where run: "confirmInvoice s tx clock i db = (res, db')" by fastforce
  from run have "holds_invoice r db'"
  proof (cases rule: confirmInvoice_invoices)
    case (confirmed invs x)
    show ?thesis
      by (rule holds_map [OF ok confirmed(2) _ _ confirmed(5)]) (use other in simp_all)
  qed (use ok in \<open>simp add: holds_invoice_def\<close>)
  then show ?thesis by (simp add: run)
qed

interpretation untouched: payment_service "holds_invoice r" "\<lambda>k. k \<noteq> di_id r" for r
  by unfold_locales (simp_all add: updateStatus_holds confirmInvoice_holds)

end
