(* ===== verification/Http_Interface.thy ===== *)
theory Http_Interface
  imports Payment_Laws Web_Socket
begin

text \<open>
  The controllers behind the routes \<open>/invoices\<close> and \<open>/admissions\<close>: controllers/invoices/*.ts,
  controllers/admission/get-admission-check-controller.ts and
  handlers/request-handlers/with-controller-request-handler.ts. A response is its status, its content
  type and its body; of a page made from a template, the body is the list of replacements.
\<close>

section \<open>Requests and responses\<close>

record http_request =
  rq_headers :: "string \<rightharpoonup> string"
  rq_peer :: string
  rq_params :: "string \<rightharpoonup> string"
  rq_body :: json

datatype http_body = Text string | Json "(string \<times> json) list" | Page "(string \<times> string) list" | NoBody

record http_response =
  rs_status :: nat
  rs_type :: string
  rs_body :: http_body

definition respond :: "nat \<Rightarrow> string \<Rightarrow> http_body \<Rightarrow> http_response" where
  "respond status type body = \<lparr>rs_status = status, rs_type = type, rs_body = body\<rparr>"

definition plain :: "nat \<Rightarrow> string \<Rightarrow> http_response" where
  "plain status message = respond status ''text/plain; charset=utf8'' (Text message)"

text \<open>
  A page made once and kept by its module: the variable \<open>pageCache\<close>, with the replacements the page was
  made with; the templates are not empty.
\<close>

type_synonym page_cache = "(string \<times> string) list option"

text \<open>
  What the controllers are given: the settings, the rate limiter, the relay's public key or the error
  of reading it, the payments processor, the database's transaction commands, the identifiers and
  the library functions: \<open>he_bech32_decode\<close> gives the prefix and the bytes of a bech32 string,
  \<open>he_iso\<close> is \<open>Date.toISOString\<close>.
\<close>

record 'r http_env =
  he_settings :: settings
  he_limiter :: "'r rate_limiter"
  he_hits :: "nat \<Rightarrow> int"
  he_relay_pubkey :: "js_error + string"
  he_processor :: payments_processor
  he_tx :: tx_env
  he_clock :: "nat \<Rightarrow> int"
  he_uuid :: string
  he_bech32_decode :: "string \<Rightarrow> js_error + string \<times> bytes"
  he_bech32_encode :: "string \<Rightarrow> bytes \<Rightarrow> string"
  he_iso :: "int \<Rightarrow> string"

definition fromBech32 :: "(string \<Rightarrow> js_error + string \<times> bytes) \<Rightarrow> string \<Rightarrow> js_error + string" where
  "fromBech32 decode input =
     (case decode input of
        Inl err \<Rightarrow> Inl err
      | Inr (pfx, bytes) \<Rightarrow>
          if \<not> startsWith input pfx then Inl (JsError (''Bech32 invalid prefix: '' @ pfx))
          else Inr (fromBuffer (take 32 bytes)))"

definition toBech32 :: "(string \<Rightarrow> bytes \<Rightarrow> string) \<Rightarrow> string \<Rightarrow> string \<Rightarrow> string" where
  "toBech32 encode pfx input = encode pfx (toBuffer input)"

text \<open>\<open>withController\<close>.\<close>

definition withController :: "(js_error + http_response) \<times> 's \<Rightarrow> http_response \<times> 's" where
  "withController run =
     (case run of
        (Inl err, st) \<Rightarrow> (respond 500 ''text/plain'' (Text ''Error handling request''), st)
      | (Inr response, st) \<Rightarrow> (response, st))"

text \<open>
  \<open>isRateLimited\<close> of both controllers: without a list of addresses to let through, nobody is limited.
\<close>

definition http_rate_key :: "string \<Rightarrow> string \<Rightarrow> rate_limit \<Rightarrow> string" where
  "http_rate_key address purpose l = address @ '':'' @ purpose @ '':'' @ int_str (rl_period l)"

definition http_isRateLimited ::
  "'r http_env \<Rightarrow> string \<Rightarrow> ip_limits option \<Rightarrow> http_request \<Rightarrow> 'r \<Rightarrow> (js_error + bool) \<times> 'r" where
  "http_isRateLimited env purpose limits req r =
     (let rateLimits = nonempty_list (Option.bind limits ip_rateLimits) in
      if rateLimits = [] then (Inr False, r)
      else
        (let remoteAddress = getRemoteAddress (rq_headers req) (rq_peer req) (he_settings env) in
         case Option.bind limits ip_whitelist of
           None \<Rightarrow> (Inr False, r)
         | Some ipWhitelist \<Rightarrow>
             if remoteAddress \<in> set ipWhitelist then (Inr False, r)
             else hit_address_limits (he_limiter env) (he_hits env) (http_rate_key remoteAddress purpose) 0 False
                    rateLimits r))"

text \<open>\<open>user && user.isAdmitted && (!minBalance || user.balance >= minBalance)\<close>.\<close>

definition already_admitted :: "settings \<Rightarrow> user option \<Rightarrow> bool" where
  "already_admitted s u =
     (case u of
        None \<Rightarrow> False
      | Some v \<Rightarrow> isAdmitted v \<and> (min_balance s = 0 \<or> balance v \<ge> min_balance s))"

section \<open>GetSubmissionCheckController\<close>

definition admission_isRateLimited :: "'r http_env \<Rightarrow> http_request \<Rightarrow> 'r \<Rightarrow> (js_error + bool) \<times> 'r" where
  "admission_isRateLimited env =
     http_isRateLimited env ''admission-check'' (Option.bind (set_limits (he_settings env)) lim_admissionCheck)"

definition get_admission_check ::
  "'r http_env \<Rightarrow> http_request \<Rightarrow> user_table \<Rightarrow> 'r \<Rightarrow> (js_error + http_response) \<times> 'r" where
  "get_admission_check env req users r =
     (let s = he_settings env in
      case http_isRateLimited env ''admission-check'' (Option.bind (set_limits s) lim_admissionCheck) req r of
        (Inl err, r') \<Rightarrow> (Inl err, r')
      | (Inr True, r') \<Rightarrow> (Inr (plain 429 ''Too many requests''), r')
      | (Inr False, r') \<Rightarrow>
          (case rq_params req ''pubkey'' of
             None \<Rightarrow> (Inl (JsError ''TypeError''), r')
           | Some pk \<Rightarrow>
               (case findByPubkey pk users of
                  Inl err \<Rightarrow> (Inl err, r')
                | Inr user \<Rightarrow>
                    (Inr (respond 200 ''application/json; charset=utf8''
                       (Json [(''userAdmitted'', JBool (already_admitted s user))])), r'))))"

section \<open>GetInvoiceStatusController\<close>

definition get_invoice_status :: "http_request \<Rightarrow> payment_db \<Rightarrow> http_response" where
  "get_invoice_status req db =
     (let json = ''application/json; charset=utf8'' in
      case rq_params req ''invoiceId'' of
        None \<Rightarrow> respond 400 json (Json [(''status'', JStr ''invalid invoice'')])
      | Some invoiceId \<Rightarrow>
          if invoiceId = [] then respond 400 json (Json [(''id'', JStr invoiceId), (''status'', JStr ''invalid invoice'')])
          else
            (case findById invoiceId db of
               Inl err \<Rightarrow> respond 500 json (Json [(''id'', JStr invoiceId), (''status'', JStr ''error'')])
             | Inr None \<Rightarrow> respond 404 json (Json [(''id'', JStr invoiceId), (''status'', JStr ''not found'')])
             | Inr (Some i) \<Rightarrow>
                 respond 200 json (Json [(''id'', JStr (inv_id i)), (''status'', JStr (status_str (inv_status i)))])))"

section \<open>GetInvoiceController\<close>

definition get_invoice_page :: "settings \<Rightarrow> page_cache \<Rightarrow> http_response \<times> page_cache" where
  "get_invoice_page s cache =
     (case admission_fees s of
        fee # fees \<Rightarrow>
          if payments_enabled s \<and> fee_enabled fee
          then
            (let page = (case cache of
                           Some made \<Rightarrow> made
                         | None \<Rightarrow> [(''name'', info_name s), (''processor'', ''none''),
                                     (''amount'', int_str (bigint_div (fee_amount fee) 1000))])
             in (respond 200 ''text/html; charset=utf8'' (Page page), Some page))
          else (respond 404 [] NoBody, cache)
      | [] \<Rightarrow> (respond 404 [] NoBody, cache))"

section \<open>PostInvoiceController\<close>

definition body_field :: "http_request \<Rightarrow> string \<Rightarrow> json option" where
  "body_field req k = (case rq_body req of JObj xs \<Rightarrow> map_of xs k | _ \<Rightarrow> None)"

definition body_is_object :: "http_request \<Rightarrow> bool" where
  "body_is_object req = (case rq_body req of JObj xs \<Rightarrow> True | JArr xs \<Rightarrow> True | _ \<Rightarrow> False)"

text \<open>The public key of the request, or the message of the refusal.\<close>

definition requested_pubkey :: "'r http_env \<Rightarrow> http_request \<Rightarrow> string + string" where
  "requested_pubkey env req =
     (case body_field req ''pubkey'' of
        Some (JStr raw) \<Rightarrow>
          if length raw = 64 \<and> lower_hex raw then Inr raw
          else if startsWith raw ''npub1''
          then (case fromBech32 (he_bech32_decode env) raw of
                  Inl err \<Rightarrow> Inl ''Invalid pubkey: invalid npub'' | Inr pk \<Rightarrow> Inr pk)
          else Inl ''Invalid pubkey: unknown format''
      | _ \<Rightarrow> Inl ''Invalid pubkey: missing'')"

definition invoice_fees :: "settings \<Rightarrow> string \<Rightarrow> js_error + fee_schedule list option" where
  "invoice_fees s pk =
     (case set_payments s of
        None \<Rightarrow> Inr None
      | Some p \<Rightarrow>
          (case pay_admission p of
             None \<Rightarrow> Inl (JsError ''TypeError'')
           | Some fees \<Rightarrow> Inr (Some (filter (fee_applies pk) fees))))"

definition invoice_amount :: "string \<Rightarrow> fee_schedule list \<Rightarrow> int" where
  "invoice_amount pk fees =
     foldl (\<lambda>sum fee. if fee_enabled fee \<and> pk \<notin> set (nonempty_list (fee_pubkeys fee))
                      then fee_amount fee + sum else sum) 0 fees"

text \<open>From the check of the fees on; the page is made after the invoice is created.\<close>

definition request_invoice ::
  "'r http_env \<Rightarrow> string \<Rightarrow> payment_db \<Rightarrow> (js_error + http_response) \<times> payment_db" where
  "request_invoice env pk db =
     (let s = he_settings env in
      case invoice_fees s pk of
        Inl err \<Rightarrow> (Inl err, db)
      | Inr None \<Rightarrow> (Inr (plain 400 ''No admission fee required''), db)
      | Inr (Some fees) \<Rightarrow>
          if fees = [] then (Inr (plain 400 ''No admission fee required''), db)
          else
            (case findByPubkey pk (pay_users db) of
               Inl err \<Rightarrow> (Inl err, db)
             | Inr user \<Rightarrow>
                 if already_admitted s user then (Inr (plain 400 ''User is already admitted.''), db)
                 else
                   (let amount = invoice_amount pk fees;
                        description = info_name s @ '' Admission Fee for ''
                          @ toBech32 (he_bech32_encode env) ''npub'' pk
                    in (case createInvoice (he_tx env) (he_processor env) (he_clock env) (he_uuid env)
                               pk amount description db of
                          (Inl err, db') \<Rightarrow>
                            (Inr (respond 500 ''text/plain'' (Text ''Unable to create invoice'')), db')
                        | (Inr invoice, db') \<Rightarrow>
                            (case he_relay_pubkey env of
                               Inl err \<Rightarrow> (Inl err, db')
                             | Inr relayPubkey \<Rightarrow>
                                 (Inr (respond 200 ''text/html; charset=utf8'' (Page
                                    [(''name'', info_name s), (''reference'', inv_id invoice),
                                     (''relay_url'', info_relay_url s), (''pubkey'', pk),
                                     (''relay_pubkey'', relayPubkey),
                                     (''expires_at'', case inv_expiresAt invoice of None \<Rightarrow> [] | Some t \<Rightarrow> he_iso env t),
                                     (''invoice'', inv_bolt11 invoice),
                                     (''amount'', int_str (bigint_div amount 1000)), (''processor'', ''none'')])),
                                  db'))))))"

definition post_invoice ::
  "'r http_env \<Rightarrow> http_request \<Rightarrow> payment_db \<times> 'r \<Rightarrow> (js_error + http_response) \<times> payment_db \<times> 'r" where
  "post_invoice env req st =
     (case st of (db, r) \<Rightarrow>
        (case http_isRateLimited env ''invoice'' (Option.bind (set_limits (he_settings env)) lim_invoice) req r of
           (Inl err, r') \<Rightarrow> (Inl err, db, r')
         | (Inr True, r') \<Rightarrow> (Inr (plain 429 ''Too many requests''), db, r')
         | (Inr False, r') \<Rightarrow>
             if \<not> body_is_object req then (Inr (plain 400 ''Invalid request''), db, r')
             else if body_field req ''tosAccepted'' \<noteq> Some (JStr ''yes'')
             then (Inr (plain 400 ''ToS agreement: not accepted''), db, r')
             else if body_field req ''feeSchedule'' \<noteq> Some (JStr ''admission'')
             then (Inr (plain 400 ''Invalid fee''), db, r')
             else
               (case requested_pubkey env req of
                  Inl message \<Rightarrow> (Inr (plain 400 message), db, r')
                | Inr pk \<Rightarrow>
                    (case request_invoice env pk db of (response, db') \<Rightarrow> (response, db', r')))))"

section \<open>Lemmas\<close>

lemma foldl_sum_acc: "foldl (\<lambda>a x. a + g x) (b :: int) xs = b + foldl (\<lambda>a x. a + g x) 0 xs"
proof (induction xs arbitrary: b)
  case (Cons x xs)
  from Cons [of "b + g x"] Cons [of "g x"] show ?case by simp
qed simp

lemma fee_applies_not_listed:
  "fee_applies pk f \<Longrightarrow> fee_enabled f \<and> pk \<notin> set (nonempty_list (fee_pubkeys f))"
  by (auto simp: fee_applies_def list_ex_iff)

text \<open>The amount asked for is the sum of the fees that apply, the amount whose payment admits.\<close>

lemma invoice_amount_is_fee:
  "invoice_amount pk (filter (fee_applies pk) (admission_fees s)) = admission_fee_amount s pk"
proof -
  have "foldl (\<lambda>sum fee. if fee_enabled fee \<and> pk \<notin> set (nonempty_list (fee_pubkeys fee))
          then fee_amount fee + sum else sum) b (filter (fee_applies pk) fees)
      = foldl (\<lambda>sum f. sum + (if fee_applies pk f then fee_amount f else 0)) b fees" for b fees
    by (induction fees arbitrary: b) (simp_all add: fee_applies_not_listed add.commute)
  then show ?thesis by (simp add: invoice_amount_def admission_fee_amount_def)
qed

lemma invoice_fees_Some:
  "invoice_fees s pk = Inr (Some fees) \<Longrightarrow> fees = filter (fee_applies pk) (admission_fees s)"
  by (auto simp: invoice_fees_def admission_fees_def split: option.splits)

lemma request_invoice_cases:
  obtains (refused) response where "request_invoice env pk db = (response, db)"
      "\<forall>rs. response = Inr rs \<longrightarrow> rs_status rs \<noteq> 200"
    | (created) i db' response where "request_invoice env pk db = (response, db')"
      "createInvoice (he_tx env) (he_processor env) (he_clock env) (he_uuid env) pk
         (admission_fee_amount (he_settings env) pk)
         (info_name (he_settings env) @ '' Admission Fee for '' @ toBech32 (he_bech32_encode env) ''npub'' pk) db = (Inr i, db')"
      "\<forall>rs. response = Inr rs \<longrightarrow> rs_status rs = 200"
      "\<exists>u. findByPubkey pk (pay_users db) = Inr u \<and> \<not> already_admitted (he_settings env) u"
proof (cases "invoice_fees (he_settings env) pk")
  case (Inr fs)
  show ?thesis
  proof (cases "\<exists>fees u. fs = Some fees \<and> fees \<noteq> [] \<and> findByPubkey pk (pay_users db) = Inr u
      \<and> \<not> already_admitted (he_settings env) u")
    case True
    then obtain fees u where fees: "fs = Some fees" "fees \<noteq> []" "findByPubkey pk (pay_users db) = Inr u"
      "\<not> already_admitted (he_settings env) u" by blast
    have amount: "invoice_amount pk fees = admission_fee_amount (he_settings env) pk"
      using invoice_fees_Some [OF Inr [unfolded fees(1)]] invoice_amount_is_fee by simp
    obtain res db' where run: "createInvoice (he_tx env) (he_processor env) (he_clock env) (he_uuid env) pk
         (admission_fee_amount (he_settings env) pk)
         (info_name (he_settings env) @ '' Admission Fee for '' @ toBech32 (he_bech32_encode env) ''npub'' pk) db = (res, db')"
      by fastforce
    show ?thesis
    proof (cases res)
      case (Inl err)
      then have "db' = db" using run transactionally_error unfolding createInvoice_def by metis
      then show ?thesis
        using refused run Inl Inr fees amount by (simp add: request_invoice_def Let_def respond_def)
    next
      case created_i: (Inr i)
      show ?thesis
        by (rule created [OF _ run [unfolded created_i], of "fst (request_invoice env pk db)"])
           (use run created_i Inr fees amount in
             \<open>auto simp: request_invoice_def Let_def respond_def split: sum.splits\<close>)
    qed
  next
    case False
    then have "\<exists>response. request_invoice env pk db = (response, db) \<and> (\<forall>rs. response = Inr rs \<longrightarrow> rs_status rs \<noteq> 200)"
      using Inr by (cases fs; cases "findByPubkey pk (pay_users db)")
        (auto simp: request_invoice_def plain_def respond_def Let_def)
    then show ?thesis using refused by blast
  qed
qed (use refused in \<open>auto simp: request_invoice_def\<close>)

end
