(* ===== verification/Http_Routes.thy ===== *)
theory Http_Routes
  imports Http_Interface Event_Guards
begin

text \<open>
  The routes of the HTTP server: routes/*.ts with the relay information document of
  handlers/request-handlers/root-request-handler.ts, the node information, the health check, the terms
  and the rate limit in front of \<open>/invoices\<close> and \<open>/admissions\<close>. Which route a request has is decided by
  express; what package.json says is a parameter.
\<close>

section \<open>The address of the payments page\<close>

text \<open>
  A \<open>URL\<close> after the standard's parser, which is a parameter. The query and the fragment are absent
  or the text behind their mark; an opaque path is one without the slash, as in \<open>mailto:\<close>.
\<close>

record url =
  url_scheme :: string
  url_username :: string
  url_password :: string
  url_host :: "string option"
  url_port :: "int option"
  url_opaque :: bool
  url_path :: string
  url_query :: "string option"
  url_fragment :: "string option"

definition default_port :: "string \<Rightarrow> int option" where
  "default_port scheme =
     (if scheme = ''ftp'' then Some 21
      else if scheme = ''http'' \<or> scheme = ''ws'' then Some 80
      else if scheme = ''https'' \<or> scheme = ''wss'' then Some 443
      else None)"

definition special_scheme :: "string \<Rightarrow> bool" where
  "special_scheme scheme \<longleftrightarrow> scheme = ''file'' \<or> default_port scheme \<noteq> None"

text \<open>
  The setter of \<open>protocol\<close>, for the two values it is given here: it keeps a scheme that is not special
  and drops the port that is the new scheme's default.
\<close>

definition set_protocol :: "string \<Rightarrow> url \<Rightarrow> url" where
  "set_protocol scheme u =
     (if \<not> special_scheme (url_scheme u) \<or> url_scheme u = ''file'' \<and> url_host u = Some [] then u
      else u\<lparr>url_scheme := scheme,
             url_port := (if url_port u = default_port scheme then None else url_port u)\<rparr>)"

definition set_pathname :: "string \<Rightarrow> url \<Rightarrow> url" where
  "set_pathname path u = (if url_opaque u then u else u\<lparr>url_path := path\<rparr>)"

definition url_authority :: "url \<Rightarrow> string" where
  "url_authority u =
     (case url_host u of
        None \<Rightarrow> []
      | Some host \<Rightarrow>
          ''//'' @ url_username u
          @ (if url_password u = [] then [] else '':'' @ url_password u)
          @ (if url_username u = [] \<and> url_password u = [] then [] else ''@'')
          @ host
          @ (case url_port u of None \<Rightarrow> [] | Some port \<Rightarrow> '':'' @ int_str port))"

definition url_toString :: "url \<Rightarrow> string" where
  "url_toString u =
     url_scheme u @ '':'' @ url_authority u @ url_path u
     @ (case url_query u of None \<Rightarrow> [] | Some q \<Rightarrow> ''?'' @ q)
     @ (case url_fragment u of None \<Rightarrow> [] | Some f \<Rightarrow> ''#'' @ f)"

definition payments_url :: "(string \<Rightarrow> js_error + url) \<Rightarrow> string \<Rightarrow> js_error + string" where
  "payments_url parse relay_url =
     (case parse relay_url of
        Inl err \<Rightarrow> Inl err
      | Inr u \<Rightarrow>
          Inr (url_toString (set_pathname ''/invoices''
            (set_protocol (if url_scheme u = ''wss'' then ''https'' else ''http'') u))))"

section \<open>The relay information document\<close>

record package_json =
  pkg_version :: string
  pkg_supportedNips :: "int list"
  pkg_supportedNipExtensions :: "string list"
  pkg_repository_url :: string
  pkg_homepage :: string

record limitation =
  max_message_length :: "int option"
  max_subscriptions :: "int option"
  max_filters :: "int option"
  max_limit :: "int option"
  max_subid_length :: "int option"
  min_prefix :: "int option"
  max_event_tags :: int
  max_content_length :: "int option"
  min_pow_difficulty :: "int option"
  auth_required :: bool
  payment_required :: "bool option"

record relay_information =
  doc_name :: string
  doc_description :: string
  doc_pubkey :: string
  doc_contact :: string
  doc_supported_nips :: "int list"
  doc_supported_nip_extensions :: "string list"
  doc_software :: string
  doc_version :: string
  doc_limitation :: limitation
  doc_payments_url :: string
  doc_fees :: "(string \<times> int list) list"

text \<open>\<open>Array.isArray(content) ? content[0].maxLength : content?.maxLength\<close>.\<close>

definition advertised_content_length :: "event_limits \<Rightarrow> js_error + int option" where
  "advertised_content_length limits =
     (case lim_content limits of
        None \<Rightarrow> Inr None
      | Some (OneContent l) \<Rightarrow> Inr (cl_maxLength l)
      | Some (ManyContent (l # ls)) \<Rightarrow> Inr (cl_maxLength l)
      | Some (ManyContent []) \<Rightarrow>
          Inl (TypeErr ''Cannot read properties of undefined (reading maxLength)''))"

text \<open>Every fee is given in \<open>msats\<close>.\<close>

definition advertised_fees :: "payments \<Rightarrow> (string \<times> int list) list" where
  "advertised_fees p = map (\<lambda>(feeName, fees). (feeName, map fee_amount (filter fee_enabled fees))) (pay_schedules p)"

definition limitation_of :: "settings \<Rightarrow> int option \<Rightarrow> limitation" where
  "limitation_of s content_length =
     (let limit = (\<lambda>field. Option.bind (subscription_limits_of s) field) in
      \<lparr>max_message_length = net_maxPayloadSize s,
       max_subscriptions = limit maxSubscriptions,
       max_filters = limit maxFilterValues,
       max_limit = limit maxLimit,
       max_subid_length = limit maxSubscriptionIdLength,
       min_prefix = limit minPrefixLength,
       max_event_tags = 2500,
       max_content_length = content_length,
       min_pow_difficulty = Option.bind (lim_eventId (event_limits_of s)) id_minLeadingZeroBits,
       auth_required = False,
       payment_required = map_option pay_enabled (set_payments s)\<rparr>)"

definition information_pubkey :: "(string \<Rightarrow> js_error + string \<times> bytes) \<Rightarrow> settings \<Rightarrow> js_error + string" where
  "information_pubkey decode s =
     (if startsWith (info_pubkey s) ''npub1'' then fromBech32 decode (info_pubkey s) else Inr (info_pubkey s))"

definition relayInformationDocument ::
  "package_json \<Rightarrow> (string \<Rightarrow> js_error + url) \<Rightarrow> (string \<Rightarrow> js_error + string \<times> bytes) \<Rightarrow> settings
     \<Rightarrow> js_error + relay_information" where
  "relayInformationDocument pkg parse decode s =
     (case payments_url parse (info_relay_url s) of
        Inl err \<Rightarrow> Inl err
      | Inr paymentsUrl \<Rightarrow>
          (case information_pubkey decode s of
             Inl err \<Rightarrow> Inl err
           | Inr pk \<Rightarrow>
               (case advertised_content_length (event_limits_of s) of
                  Inl err \<Rightarrow> Inl err
                | Inr content_length \<Rightarrow>
                    (case set_payments s of
                       None \<Rightarrow> Inl (TypeErr ''Cannot read properties of undefined (reading feeSchedules)'')
                     | Some p \<Rightarrow>
                         Inr \<lparr>doc_name = info_name s, doc_description = info_description s, doc_pubkey = pk,
                              doc_contact = info_contact s, doc_supported_nips = pkg_supportedNips pkg,
                              doc_supported_nip_extensions = pkg_supportedNipExtensions pkg,
                              doc_software = pkg_repository_url pkg, doc_version = pkg_version pkg,
                              doc_limitation = limitation_of s content_length,
                              doc_payments_url = paymentsUrl, doc_fees = advertised_fees p\<rparr>))))"

section \<open>The other pages\<close>

datatype web_response =
    Information relay_information
  | Redirect nat string
  | Answer http_response
  | Destroyed

text \<open>The root page: \<open>path(['payments', 'feeSchedules', 'admission', '0', 'enabled'])\<close> decides the redirection.\<close>

definition first_fee_enabled :: "settings \<Rightarrow> bool" where
  "first_fee_enabled s = (case admission_fees s of [] \<Rightarrow> False | fee # fees \<Rightarrow> fee_enabled fee)"

definition rootRequestHandler ::
  "package_json \<Rightarrow> (string \<Rightarrow> js_error + url) \<Rightarrow> (string \<Rightarrow> js_error + string \<times> bytes) \<Rightarrow> settings
     \<Rightarrow> http_request \<Rightarrow> js_error + web_response" where
  "rootRequestHandler pkg parse decode s req =
     (if rq_headers req ''accept'' = Some ''application/nostr+json''
      then map_sum id Information (relayInformationDocument pkg parse decode s)
      else if first_fee_enabled s then Inr (Redirect 301 ''/invoices'')
      else Inr (Answer (plain 200 ''Please use a Nostr client to connect.'')))"

definition json_response :: "(string \<times> json) list \<Rightarrow> web_response" where
  "json_response properties = Answer (respond 200 ''application/json; charset=utf-8'' (Json properties))"

definition nodeinfoHandler :: "string \<Rightarrow> web_response" where
  "nodeinfoHandler hostname =
     json_response [(''links'', JArr
       [JObj [(''rel'', JStr ''http://nodeinfo.diaspora.software/ns/schema/2.0''),
              (''href'', JStr (''https://'' @ hostname @ ''/nodeinfo/2.0''))],
        JObj [(''rel'', JStr ''http://nodeinfo.diaspora.software/ns/schema/2.1''),
              (''href'', JStr (''https://'' @ hostname @ ''/nodeinfo/2.1''))]])]"

definition nodeinfo21Handler :: "package_json \<Rightarrow> web_response" where
  "nodeinfo21Handler pkg =
     json_response
       [(''version'', JStr ''2.1''),
        (''software'', JObj [(''name'', JStr ''nostream''), (''version'', JStr (pkg_version pkg)),
           (''repository'', JStr (pkg_repository_url pkg)), (''homepage'', JStr (pkg_homepage pkg))]),
        (''protocols'', JArr [JStr ''nostr'']),
        (''services'', JObj [(''inbound'', JArr []), (''outbound'', JArr [])]),
        (''openRegistrations'', JBool True),
        (''usage'', JObj [(''users'', JObj [])]),
        (''metadata'', JObj [(''features'', JArr [JStr ''nostr_relay''])])]"

definition getHealthRequestHandler :: web_response where
  "getHealthRequestHandler = Answer (plain 200 ''OK'')"

definition getTermsRequestHandler :: "settings \<Rightarrow> page_cache \<Rightarrow> web_response \<times> page_cache" where
  "getTermsRequestHandler s cache =
     (let page = (case cache of Some made \<Rightarrow> made | None \<Rightarrow> [(''name'', info_name s)])
      in (Answer (respond 200 ''text/html; charset=utf8'' (Page page)), Some page))"

text \<open>The address is split once more, which changes nothing.\<close>

definition rateLimiterMiddleware :: "'r http_env \<Rightarrow> http_request \<Rightarrow> 'r \<Rightarrow> (js_error + bool) \<times> 'r" where
  "rateLimiterMiddleware env req r =
     (let clientAddress = hd (js_split (CHR '','') (getRemoteAddress (rq_headers req) (rq_peer req) (he_settings env)))
      in connection_isRateLimited (he_settings env) (he_limiter env) (he_hits env) clientAddress r)"

section \<open>The router\<close>

text \<open>
  The routes with a handler of their own; \<open>we_hostname\<close> is express's \<open>req.hostname\<close>. The hits of the
  rate limit in front of two of the routers read the clock separately from those of the controllers.
\<close>

datatype web_route =
    RootPage | HealthPage | TermsPage | NodeInfoPage | NodeInfo21Page
  | InvoicePage | InvoiceStatus | PostInvoice | AdmissionCheck

record 'r web_env =
  we_http :: "'r http_env"
  we_gate_hits :: "nat \<Rightarrow> int"
  we_package :: package_json
  we_parse_url :: "string \<Rightarrow> js_error + url"
  we_hostname :: "http_request \<Rightarrow> string"

record 'r web_state =
  web_db :: payment_db
  web_limiter :: 'r
  web_invoice_page :: page_cache
  web_terms_page :: page_cache

definition invoiceRouter ::
  "'r http_env \<Rightarrow> web_route \<Rightarrow> http_request \<Rightarrow> 'r web_state \<Rightarrow> http_response \<times> 'r web_state" where
  "invoiceRouter env route req st =
     (case route of
        PostInvoice \<Rightarrow>
          (case withController (post_invoice env req (web_db st, web_limiter st)) of
             (response, db, r) \<Rightarrow> (response, st\<lparr>web_db := db, web_limiter := r\<rparr>))
      | InvoiceStatus \<Rightarrow> (get_invoice_status req (web_db st), st)
      | _ \<Rightarrow>
          (case get_invoice_page (he_settings env) (web_invoice_page st) of
             (response, page) \<Rightarrow> (response, st\<lparr>web_invoice_page := page\<rparr>)))"

definition admissionRouter ::
  "'r http_env \<Rightarrow> http_request \<Rightarrow> 'r web_state \<Rightarrow> http_response \<times> 'r web_state" where
  "admissionRouter env req st =
     (case withController (get_admission_check env req (pay_users (web_db st)) (web_limiter st)) of
        (response, r) \<Rightarrow> (response, st\<lparr>web_limiter := r\<rparr>))"

text \<open>\<open>router.use(path, rateLimiterMiddleware, handler)\<close>.\<close>

definition gated ::
  "'r web_env \<Rightarrow> http_request \<Rightarrow> ('r web_state \<Rightarrow> http_response \<times> 'r web_state) \<Rightarrow> 'r web_state
     \<Rightarrow> (js_error + web_response) \<times> 'r web_state" where
  "gated env req handler st =
     (case rateLimiterMiddleware ((we_http env)\<lparr>he_hits := we_gate_hits env\<rparr>) req (web_limiter st) of
        (Inl err, r) \<Rightarrow> (Inl err, st\<lparr>web_limiter := r\<rparr>)
      | (Inr True, r) \<Rightarrow> (Inr Destroyed, st\<lparr>web_limiter := r\<rparr>)
      | (Inr False, r) \<Rightarrow>
          (case handler (st\<lparr>web_limiter := r\<rparr>) of (response, st') \<Rightarrow> (Inr (Answer response), st')))"

definition router ::
  "'r web_env \<Rightarrow> web_route \<Rightarrow> http_request \<Rightarrow> 'r web_state \<Rightarrow> (js_error + web_response) \<times> 'r web_state" where
  "router env route req st =
     (let http = we_http env; s = he_settings http in
      case route of
        RootPage \<Rightarrow>
          (rootRequestHandler (we_package env) (we_parse_url env) (he_bech32_decode http) s req, st)
      | HealthPage \<Rightarrow> (Inr getHealthRequestHandler, st)
      | TermsPage \<Rightarrow>
          (case getTermsRequestHandler s (web_terms_page st) of
             (response, page) \<Rightarrow> (Inr response, st\<lparr>web_terms_page := page\<rparr>))
      | NodeInfoPage \<Rightarrow> (Inr (nodeinfoHandler (we_hostname env req)), st)
      | NodeInfo21Page \<Rightarrow> (Inr (nodeinfo21Handler (we_package env)), st)
      | AdmissionCheck \<Rightarrow> gated env req (admissionRouter http req) st
      | _ \<Rightarrow> gated env req (invoiceRouter http route req) st)"

section \<open>Lemmas\<close>

lemma relayInformationDocument_limitation:
  assumes "relayInformationDocument pkg parse decode s = Inr doc"
  shows "\<exists>n. advertised_content_length (event_limits_of s) = Inr n \<and> doc_limitation doc = limitation_of s n"
  using assms by (auto simp: relayInformationDocument_def split: sum.splits option.splits)

lemma limitation_of_simps [simp]:
  "max_subscriptions (limitation_of s n) = Option.bind (subscription_limits_of s) maxSubscriptions"
  "max_subid_length (limitation_of s n) = Option.bind (subscription_limits_of s) maxSubscriptionIdLength"
  "max_filters (limitation_of s n) = Option.bind (subscription_limits_of s) maxFilterValues"
  "max_content_length (limitation_of s n) = n"
  "min_pow_difficulty (limitation_of s n) = Option.bind (lim_eventId (event_limits_of s)) id_minLeadingZeroBits"
  "payment_required (limitation_of s n) = map_option pay_enabled (set_payments s)"
  by (simp_all add: limitation_of_def Let_def)

text \<open>The length of the content that is advertised is the limit of the first entry of the settings.\<close>

lemma advertised_content_length_limit:
  assumes "advertised_content_length limits = Inr (Some n)"
  obtains l ls where "content_limit_list limits = l # ls" "cl_maxLength l = Some n"
  using assms by (auto simp: advertised_content_length_def content_limit_list_def
      split: option.splits content_setting.splits list.splits)

text \<open>The payments page of a relay at \<open>wss\<close> is at \<open>https\<close>, on the same host.\<close>

lemma payments_url_wss:
  assumes "parse u = Inr p" "url_scheme p = ''wss''" "url_host p = Some h" "url_username p = []" "url_password p = []"
    "url_port p = None" "\<not> url_opaque p" "url_query p = None" "url_fragment p = None"
  shows "payments_url parse u = Inr (''https://'' @ h @ ''/invoices'')"
  using assms by (simp add: payments_url_def set_protocol_def special_scheme_def default_port_def set_pathname_def
      url_toString_def url_authority_def)

lemma get_invoice_page_cached:
  "get_invoice_page s (Some page) = (response, cache) \<Longrightarrow> cache = Some page \<and> rs_body response \<in> {Page page, NoBody}"
  by (auto simp: get_invoice_page_def respond_def split: list.splits if_splits)

lemma gated_cases:
  assumes "gated env req handler st = (response, st')"
  obtains (stopped) r where "st' = st\<lparr>web_limiter := r\<rparr>" "\<forall>rs. response \<noteq> Inr (Answer rs)"
    | (passed) r rs where "handler (st\<lparr>web_limiter := r\<rparr>) = (rs, st')" "response = Inr (Answer rs)"
      "rateLimiterMiddleware ((we_http env)\<lparr>he_hits := we_gate_hits env\<rparr>) req (web_limiter st) = (Inr False, r)"
  using assms by (auto simp: gated_def split: prod.splits sum.splits bool.splits)

lemma admissionRouter_db [simp]: "web_db (snd (admissionRouter env req st)) = web_db st"
  by (simp add: admissionRouter_def split: prod.splits)

lemma invoiceRouter_db:
  assumes "invoiceRouter env route req st = (rs, st')"
  shows "web_db st' = web_db st
    \<or> (route = PostInvoice \<and> (\<exists>result r. post_invoice env req (web_db st, web_limiter st) = (result, web_db st', r)
         \<and> withController (result, ()) = (rs, ())))"
  using assms
  by (auto simp: invoiceRouter_def withController_def split: web_route.splits prod.splits sum.splits)

end
