(* ===== verification/Payment_Safety.thy ===== *)
theory Payment_Safety
  imports Payment_Laws Sample_Worker
begin

text \<open>
  What the payments component promises: the ledger, that a confirmation credits once and admits
  exactly the payers of the whole fee, that a failed operation changes nothing, and what becomes of
  an invoice whose confirmation fails.
\<close>

section \<open>Lemmas\<close>

definition admitted :: "string \<Rightarrow> user_table \<Rightarrow> bool" where
  "admitted pk users \<longleftrightarrow>
     (case findByPubkey pk users of Inr (Some u) \<Rightarrow> isAdmitted u | _ \<Rightarrow> False)"

lemma find_credit_user [simp]:
  "find (\<lambda>r. db_pubkey r = k) (map (credit_user payee n) rows)
     = map_option (credit_user payee n) (find (\<lambda>r. db_pubkey r = k) rows)"
  by (rule find_map_same) simp

lemma admitted_credit [simp]:
  "admitted pk (Some (map (credit_user payee n) rows)) = admitted pk (Some rows)"
  by (auto simp: admitted_def findByPubkey_def fromDBUser_def split: option.splits)

lemma balance_credit:
  "getBalanceByPubkey pk (Some (map (credit_user payee n) rows)) =
     (case find (\<lambda>r. db_pubkey r = toBuffer pk) rows of
        None \<Rightarrow> Inr 0 | Some r \<Rightarrow> Inr (db_balance r + (if toBuffer pk = payee then n else 0)))"
  by (auto simp: getBalanceByPubkey_def dest: find_key [of db_pubkey] split: option.splits)

lemma admitted_upsert:
  assumes "upsert_user date pk (Some True) tos users = (Inr n, users')"
  shows "admitted pk' users' \<longleftrightarrow> admitted pk' users \<or> toBuffer pk' = toBuffer pk"
proof (cases "toBuffer pk' = toBuffer pk")
  case True
  obtain rows where rows: "users = Some rows"
    using assms by (cases users) (simp_all add: upsert_user_def)
  obtain u where "findByPubkey pk users' = Inr (Some u)" "isAdmitted u"
    using upsert_user_admits [OF rows, of pk date tos] assms by auto
  moreover have "findByPubkey pk' users' = findByPubkey pk users'" unfolding findByPubkey_def True ..
  ultimately show ?thesis using True by (simp add: admitted_def)
next
  case False
  then show ?thesis using upsert_user_other [OF False, of date "Some True" tos users] assms by (simp add: admitted_def)
qed

lemma confirm_invoice_admitted:
  assumes "confirm_invoice ser now k a d db = (Inr u, db')"
  shows "admitted pk (pay_users db') = admitted pk (pay_users db)"
  using assms by (cases rule: confirm_invoice_cases) simp_all

text \<open>The two ways a confirmation that succeeds may end.\<close>

definition fee_paid :: "settings \<Rightarrow> invoice \<Rightarrow> bool" where
  "fee_paid s i \<longleftrightarrow> 0 < admission_fee_amount s (inv_pubkey i)
     \<and> admission_fee_amount s (inv_pubkey i) \<le> msats_of (inv_unit i) (the (inv_amountPaid i))"

lemma confirmInvoice_body_cases:
  assumes "confirmInvoice_body s clock i db = (Inr u, db')"
  obtains db1 v where "confirm_invoice True (clock 0) (inv_id i) (the (inv_amountPaid i)) (the (inv_confirmedAt i)) db
      = (Inr v, db1)" "\<not> fee_paid s i" "db' = db1"
    | db1 v n users where "confirm_invoice True (clock 0) (inv_id i) (the (inv_amountPaid i)) (the (inv_confirmedAt i)) db
      = (Inr v, db1)" "fee_paid s i"
      "upsert_user (clock 2) (inv_pubkey i) (Some True) (Some (clock 1)) (pay_users db1) = (Inr n, users)"
      "db' = db1\<lparr>pay_users := users\<rparr>"
  using assms
  by (auto simp: confirmInvoice_body_def fee_paid_def Let_def split: prod.splits sum.splits if_splits)

lemma confirmInvoice_balances:
  assumes run: "confirmInvoice s tx clock i db = (Inr u, db')"
  obtains v db1 where "confirm_invoice True (clock 0) (inv_id i) (the (inv_amountPaid i)) (the (inv_confirmedAt i)) db
      = (Inr v, db1)" "pay_invoices db' = pay_invoices db1"
    "\<forall>pk. getBalanceByPubkey pk (pay_users db') = getBalanceByPubkey pk (pay_users db1)"
  using confirmInvoice_committed(3) [OF run]
proof (cases rule: confirmInvoice_body_cases)
  case (2 db1 v n users)
  have "getBalanceByPubkey pk users = getBalanceByPubkey pk (pay_users db1)" for pk
    using upsert_user_balance [of pk "clock 2" "inv_pubkey i" "Some True" "Some (clock 1)" "pay_users db1"] 2(3) by simp
  then show ?thesis using that 2 by simp
qed (use that in blast)

lemma fromDBInvoice_simps [simp]:
  "inv_id (fromDBInvoice r) = di_id r" "inv_status (fromDBInvoice r) = di_status r"
  by (simp_all add: fromDBInvoice_def)

text \<open>A database that refuses to begin or to commit makes a confirmation fail and change nothing.\<close>

lemma confirmInvoice_fails:
  assumes "begin_error tx \<noteq> None \<or> commit_error tx \<noteq> None"
  shows "\<exists>err. confirmInvoice s tx clock i db = (Inl err, db)"
proof -
  have "isl (fst (confirmInvoice s tx clock i db))"
    using assms by (auto simp: confirmInvoice_def transactionally_def tx_begin_def tx_commit_def
        tx_transaction_def split: option.splits sum.splits prod.splits)
  then show ?thesis
    using transactionally_error unfolding confirmInvoice_def by (metis isl_def prod.collapse)
qed

lemma run_keeps_completed:
  assumes ok: "holds_invoice r (m_payments st)" and settled: "di_status r \<noteq> PENDING"
    and honest: "\<And>i u k. getInvoiceFromPaymentsProcessor (me_processor env) (Inr i) = Inr u \<Longrightarrow> p_id u = Some k
      \<Longrightarrow> k = inv_id i"
  shows "holds_invoice r (m_payments (snd (onSchedule env st)))"
proof (rule untouched.onSchedule_inv [OF ok])
  fix "is" i u k
  assume "getPendingInvoices (m_payments st) = Inr is" "i \<in> set is"
    "getInvoiceFromPaymentsProcessor (me_processor env) (Inr i) = Inr u" "p_id u = Some k"
  moreover from this obtain invs x where x: "pay_invoices (m_payments st) = Some invs" "x \<in> set invs"
      "di_status x = PENDING" "i = fromDBInvoice x"
    by (auto simp: getPendingInvoices_def findPendingInvoices_def split: option.splits
        dest!: in_set_takeD in_set_dropD)
  moreover have "di_id x \<noteq> di_id r"
    using ok settled x(1-3) by (auto simp: holds_invoice_def distinct_map inj_on_def)
  ultimately show "k \<noteq> di_id r" using honest [of i u k] by simp
qed

section \<open>A user who pays\<close>

definition sample_tx :: tx_env where
  "sample_tx = \<lparr>begin_error = None, commit_error = None, rollback_error = None\<rparr>"

definition sample_payer :: dbuser where
  "sample_payer = sample_user\<lparr>db_balance := 0, is_admitted := False\<rparr>"

definition sample_unpaid :: dbinvoice where
  "sample_unpaid =
     \<lparr>di_id = ''i1'', di_pubkey = toBuffer (replicate 64 (CHR ''b'')), di_bolt11 = ''lnbc'',
      di_amount_requested = 5, di_amount_paid = None, di_unit = SATS, di_status = PENDING,
      di_description = ''fee'', di_confirmed_at = None, di_expires_at = None, di_updated_at = 1,
      di_created_at = 1, di_verify_url = None\<rparr>"

definition sample_payment_db :: payment_db where
  "sample_payment_db = \<lparr>pay_users = Some [sample_payer], pay_invoices = Some [sample_unpaid]\<rparr>"

definition sample_answer :: partial_invoice where
  "sample_answer =
     \<lparr>p_id = Some ''i1'', p_pubkey = Some (replicate 64 (CHR ''b'')), p_bolt11 = None,
      p_amountRequested = None, p_unit = None, p_status = Some COMPLETED, p_description = None,
      p_confirmedAt = Some (Some 9), p_expiresAt = None, p_updatedAt = None, p_createdAt = None,
      p_verifyURL = None\<rparr>"

definition sample_payment :: invoice where
  "sample_payment = merge_invoice sample_answer (fromDBInvoice sample_unpaid)"

definition sample_confirmed :: payment_db where
  "sample_confirmed =
     \<lparr>pay_users = Some [sample_payer\<lparr>db_balance := 5000, is_admitted := True, tos_accepted_at := Some 10, db_updated_at := 10\<rparr>],
      pay_invoices = Some [confirm_row 10 5 9 sample_unpaid]\<rparr>"

definition sample_maintenance_env :: "event_db maintenance_env" where
  "sample_maintenance_env =
     \<lparr>me_settings = env_settings sample_paying_env,
      me_processor = \<lparr>pp_getInvoice = (\<lambda>i. Inr (sample_answer\<lparr>p_id := Some (case i of Inl k \<Rightarrow> k | Inr x \<Rightarrow> inv_id x)\<rparr>)),
        pp_createInvoice = (\<lambda>r. Inl (JsError ''offline''))\<rparr>,
      me_notifier = \<lparr>no_crypto = sample_crypto, no_keys = Inl (JsError ''no secret''), no_sign = (\<lambda>k i. Inr []),
        no_is_worker = True, no_next_month = (\<lambda>n. n), no_events = EventRepository\<rparr>,
      me_tx = (\<lambda>i. sample_tx\<lparr>commit_error := Some (PgError ''could not serialize access'')\<rparr>),
      me_clock = (\<lambda>i n. 10)\<rparr>"

definition sample_maintenance :: "event_db maintenance" where
  "sample_maintenance = \<lparr>m_payments = sample_payment_db, m_events = empty_db, m_sent = [], m_successful = 0\<rparr>"

lemma sample_payment_simps [simp]:
  "inv_id sample_payment = ''i1''" "inv_pubkey sample_payment = replicate 64 (CHR ''b'')"
  "inv_amountPaid sample_payment = Some 5" "inv_unit sample_payment = SATS" "inv_status sample_payment = COMPLETED"
  "inv_confirmedAt sample_payment = Some 9"
  by (simp_all add: sample_payment_def merge_invoice_def override_def sample_answer_def fromDBInvoice_def sample_unpaid_def)

lemma sample_payment_db_simps [simp]:
  "pay_users sample_payment_db = Some [sample_payer]" "pay_invoices sample_payment_db = Some [sample_unpaid]"
  by (simp_all add: sample_payment_db_def)

lemma sample_unpaid_simps [simp]:
  "di_id sample_unpaid = ''i1''" "di_pubkey sample_unpaid = toBuffer (replicate 64 (CHR ''b''))"
  "di_amount_requested sample_unpaid = 5" "di_unit sample_unpaid = SATS" "di_status sample_unpaid = PENDING"
  "di_confirmed_at sample_unpaid = None" "invoice_credit sample_unpaid = 0"
  by (simp_all add: sample_unpaid_def invoice_credit_def)

lemma sample_payer_simps [simp]:
  "db_pubkey sample_payer = toBuffer (replicate 64 (CHR ''b''))" "db_balance sample_payer = 0"
  "is_admitted sample_payer = False"
  by (simp_all add: sample_payer_def sample_user_def)

lemma sample_fee [simp]: "admission_fee_amount (env_settings sample_paying_env) pk = 5"
  by (simp add: admission_fee_amount_def fee_applies_def)

lemma sample_ledger: "ledger_ok sample_payment_db"
  by (simp add: ledger_ok_def)

lemma sample_confirmation:
  "confirmInvoice (env_settings sample_paying_env) sample_tx (\<lambda>n. 10) sample_payment sample_payment_db
     = (Inr (), sample_confirmed)"
  by (simp add: confirmInvoice_def confirm_check_def confirmInvoice_body_def transactionally_def tx_begin_def
      tx_commit_def tx_transaction_def sample_tx_def confirm_invoice_def int8_def credit_user_def upsert_user_def
      merge_user_row_def sample_confirmed_def)

section \<open>Properties\<close>

text \<open>C9. Creating, updating and confirming an invoice and a run of the maintenance worker keep the
  ledger: identifiers and public keys are unique, every invoice has its user, and the balance of a
  user is the sum of the confirmed invoices' amounts, whatever the database and the payments
  processor answer.\<close>

theorem payments_keep_ledger:
  assumes "ledger_ok db"
  shows "ledger_ok (snd (createInvoice tx pp clock uuid pk amount desc db))
    \<and> ledger_ok (snd (updateInvoice now p db))
    \<and> ledger_ok (snd (confirmInvoice s tx clock i db))
    \<and> (\<forall>env (st :: event_db maintenance). m_payments st = db \<longrightarrow> ledger_ok (m_payments (snd (onSchedule env st))))"
proof (intro conjI allI impI)
  show "ledger_ok (snd (updateInvoice now p db))"
    using updateStatus_ledger [OF assms] by (simp add: updateInvoice_def case_prod_beta)
  show "ledger_ok (m_payments (snd (onSchedule env st)))" if "m_payments st = db" for env and st :: "event_db maintenance"
    by (rule ledger.onSchedule_inv) (simp_all add: that assms)
qed (fact createInvoice_ledger [OF assms], fact confirmInvoice_ledger [OF assms])

lemma payments_keep_ledger_witness: "ledger_ok sample_confirmed"
proof -
  have "ledger_ok (snd (confirmInvoice (env_settings sample_paying_env) sample_tx (\<lambda>n. 10) sample_payment sample_payment_db))"
    using payments_keep_ledger [OF sample_ledger] by blast
  then show ?thesis by (simp add: sample_confirmation)
qed

text \<open>C7. The first confirmation of an invoice adds its amount, in millisatoshi, to its payee's balance
  and to no other; every later confirmation of it changes no balance, and no run of the maintenance
  worker changes the amount or the date it was confirmed with.\<close>

theorem confirmation_credits_once:
  assumes run: "confirmInvoice s tx clock i db = (Inr u, db1)"
    and tables: "pay_invoices db = Some invs" "pay_users db = Some users"
    and r: "find (\<lambda>r. di_id r = inv_id i) invs = Some r" "di_confirmed_at r = None"
    and row: "find (\<lambda>r. db_pubkey r = toBuffer pk) users = Some row"
  shows "getBalanceByPubkey pk (pay_users db1)
      = Inr (db_balance row + (if toBuffer pk = di_pubkey r then msats_of (di_unit r) (the (inv_amountPaid i)) else 0))
    \<and> (\<forall>s' tx' clock' i' v db2. inv_id i' = inv_id i \<longrightarrow> confirmInvoice s' tx' clock' i' db1 = (Inr v, db2)
        \<longrightarrow> getBalanceByPubkey pk (pay_users db2) = getBalanceByPubkey pk (pay_users db1))
    \<and> (\<forall>env (st :: event_db maintenance). m_payments st = db1 \<longrightarrow>
        confirmed_as (inv_id i) (the (inv_amountPaid i)) (the (inv_confirmedAt i)) (m_payments (snd (onSchedule env st))))"
proof (intro conjI allI impI)
  obtain v db0 where db0: "confirm_invoice True (clock 0) (inv_id i) (the (inv_amountPaid i)) (the (inv_confirmedAt i)) db
      = (Inr v, db0)" "pay_invoices db1 = pay_invoices db0"
    "\<forall>pk. getBalanceByPubkey pk (pay_users db1) = getBalanceByPubkey pk (pay_users db0)"
    by (rule confirmInvoice_balances [OF run])
  have confirmed: "db0 = \<lparr>pay_users = Some (map (credit_user (di_pubkey r)
        (msats_of (di_unit r) (the (inv_amountPaid i)))) users),
      pay_invoices = Some (map (\<lambda>x. if di_id x = inv_id i
        then confirm_row (clock 0) (the (inv_amountPaid i)) (the (inv_confirmedAt i)) x else x) invs)\<rparr>"
    using db0(1) by (cases rule: confirm_invoice_cases) (use tables r in auto)
  show "getBalanceByPubkey pk (pay_users db1)
      = Inr (db_balance row + (if toBuffer pk = di_pubkey r then msats_of (di_unit r) (the (inv_amountPaid i)) else 0))"
    using row by (simp add: db0(3) confirmed balance_credit)
  have final: "confirmed_as (inv_id i) (the (inv_amountPaid i)) (the (inv_confirmedAt i)) db1"
    using r(1) find_id [OF r(1)] by (simp add: confirmed_as_def db0(2) confirmed find_map_same_id)
  then show "confirmed_as (inv_id i) (the (inv_amountPaid i)) (the (inv_confirmedAt i))
      (m_payments (snd (onSchedule env st)))" if "m_payments st = db1" for env and st :: "event_db maintenance"
    by (intro final.onSchedule_inv) (simp_all add: that)
  fix s' tx' clock' v db2 and i' :: invoice
  assume i': "inv_id i' = inv_id i" and again: "confirmInvoice s' tx' clock' i' db1 = (Inr v, db2)"
  obtain w db3 where db3: "confirm_invoice True (clock' 0) (inv_id i') (the (inv_amountPaid i')) (the (inv_confirmedAt i')) db1
      = (Inr w, db3)" "\<forall>pk. getBalanceByPubkey pk (pay_users db2) = getBalanceByPubkey pk (pay_users db3)"
    by (rule confirmInvoice_balances [OF again])
  have "db3 = db1"
    using db3(1) by (cases rule: confirm_invoice_cases) (use final i' in \<open>auto simp: confirmed_as_def\<close>)
  then show "getBalanceByPubkey pk (pay_users db2) = getBalanceByPubkey pk (pay_users db1)" using db3(2) by simp
qed

lemma confirmation_credits_once_witness:
  "getBalanceByPubkey (replicate 64 (CHR ''b'')) (pay_users sample_confirmed) = Inr 5000"
  using confirmation_credits_once [OF sample_confirmation, of "[sample_unpaid]" "[sample_payer]" sample_unpaid
      "replicate 64 (CHR ''b'')" sample_payer]
  by simp





text \<open>C35. The maintenance worker stores the processor's status before it confirms an invoice: if the
  database then refuses the confirmation, the paid invoice stays completed and unconfirmed, however
  many runs follow, because a run looks at pending invoices only.\<close>

theorem failed_confirmation_is_not_retried:
  assumes tables: "pay_invoices (m_payments st) = Some invs" "distinct (map di_id invs)"
    and r: "r \<in> set invs" "di_status r = PENDING" "di_confirmed_at r = None"
    and answer: "getInvoiceFromPaymentsProcessor (me_processor env) (Inr (fromDBInvoice r)) = Inr u"
      "p_id u = Some (di_id r)" "p_status u = Some COMPLETED"
    and refused: "begin_error (me_tx env (fromDBInvoice r)) \<noteq> None \<or> commit_error (me_tx env (fromDBInvoice r)) \<noteq> None"
      "p_confirmedAt u = Some (Some d)"
    and honest: "\<forall>env'\<in>set envs. \<forall>i u k. getInvoiceFromPaymentsProcessor (me_processor env') (Inr i) = Inr u
      \<longrightarrow> p_id u = Some k \<longrightarrow> k = inv_id i"
  shows "\<exists>r' invs'. pay_invoices (m_payments (fold (\<lambda>env' st'. snd (onSchedule env' st')) envs
        (process_invoice env (fromDBInvoice r) st))) = Some invs'
    \<and> r' \<in> set invs' \<and> di_id r' = di_id r \<and> di_status r' = COMPLETED \<and> di_confirmed_at r' = None"
proof -
  let ?i = "fromDBInvoice r"
  let ?now = "me_clock env ?i 0"
  let ?r = "status_row ?now (Some COMPLETED) r"
  let ?db = "map_invoices (\<lambda>x. if di_id x = di_id r then status_row ?now (Some COMPLETED) x else x) (m_payments st)"
  obtain err where "confirmInvoice (me_settings env) (me_tx env ?i) (\<lambda>n. me_clock env ?i (n + 1)) (merge_invoice u ?i) ?db
      = (Inl err, ?db)"
    using confirmInvoice_fails [OF refused(1)] by blast
  then have db: "m_payments (process_invoice env ?i st) = ?db"
    using answer r(2) refused(2) by (simp add: process_invoice_def updateInvoiceStatus_def updateStatus_def tables(1)
        Let_def case_prod_beta override_def map_invoices_def)
  have "map di_id (map (\<lambda>x. if di_id x = di_id r then status_row ?now (Some COMPLETED) x else x) invs) = map di_id invs"
    by (rule map_key_distinct) simp
  then have "holds_invoice ?r ?db"
    using tables r(1) by (auto simp: holds_invoice_def map_invoices_def simp del: map_map)
  with db have "holds_invoice ?r (m_payments (process_invoice env ?i st))" by simp
  with honest have "holds_invoice ?r (m_payments (fold (\<lambda>env' st'. snd (onSchedule env' st')) envs (process_invoice env ?i st)))"
  proof (induction envs rule: rev_induct)
    case (snoc env' envs)
    then show ?case using run_keeps_completed [of ?r _ env'] by simp
  qed simp
  then show ?thesis
    by (intro exI [of _ ?r]) (auto simp: holds_invoice_def r(3) split: option.splits)
qed

lemma failed_confirmation_is_not_retried_witness:
  "\<exists>r' invs'. pay_invoices (m_payments (fold (\<lambda>env' st'. snd (onSchedule env' st')) [sample_maintenance_env]
        (process_invoice sample_maintenance_env (fromDBInvoice sample_unpaid) sample_maintenance))) = Some invs'
    \<and> r' \<in> set invs' \<and> di_id r' = ''i1'' \<and> di_status r' = COMPLETED \<and> di_confirmed_at r' = None"
proof -
  have asked: "getInvoiceFromPaymentsProcessor (me_processor sample_maintenance_env) (Inr i)
      = Inr (sample_answer\<lparr>p_id := Some (inv_id i)\<rparr>)" for i
    by (simp add: getInvoiceFromPaymentsProcessor_def sample_maintenance_env_def)
  show ?thesis
    using failed_confirmation_is_not_retried [of sample_maintenance "[sample_unpaid]" sample_unpaid sample_maintenance_env,
        OF _ _ _ _ _ asked, of 9 "[sample_maintenance_env]"]
    by (simp add: asked) (simp add: sample_maintenance_def sample_answer_def sample_maintenance_env_def)
qed

end
