(* ===== verification/Http_Safety.thy ===== *)
theory Http_Safety
  imports Http_Routes Payment_Safety
begin

text \<open>
  What the pages promise: what the relay advertises, together with the guards that enforce it, and what
  the page that asks for an admission fee does, together with the payments service behind it.
\<close>

section \<open>A request for an invoice\<close>

definition sample_response :: create_response where
  "sample_response =
     \<lparr>res_id = ''i2'', res_bolt11 = ''lnbc2'', res_amountRequested = 5, res_description = ''fee'', res_unit = MSATS,
      res_status = PENDING, res_expiresAt = None, res_createdAt = 10, res_verifyURL = None\<rparr>"

definition sample_http_env :: "alist_store http_env" where
  "sample_http_env =
     \<lparr>he_settings = env_settings sample_paying_env, he_limiter = sample_limiter, he_hits = (\<lambda>n. 0),
      he_relay_pubkey = Inr (replicate 64 (CHR ''e'')),
      he_processor = \<lparr>pp_getInvoice = (\<lambda>i. Inr sample_answer), pp_createInvoice = (\<lambda>r. Inr sample_response)\<rparr>,
      he_tx = sample_tx, he_clock = (\<lambda>n. 10), he_uuid = ''u'', he_bech32_decode = (\<lambda>s. Inr ([], [])),
      he_bech32_encode = (\<lambda>p bs. p), he_iso = (\<lambda>t. [])\<rparr>"

definition sample_request_body :: "string \<Rightarrow> http_request" where
  "sample_request_body tos =
     \<lparr>rq_headers = Map.empty, rq_peer = ''1.2.3.4'', rq_params = Map.empty,
      rq_body = JObj [(''tosAccepted'', JStr tos), (''feeSchedule'', JStr ''admission''),
        (''pubkey'', JStr (replicate 64 (CHR ''b'')))]\<rparr>"

lemma sample_http_env_simps [simp]:
  "he_settings sample_http_env = env_settings sample_paying_env" "he_tx sample_http_env = sample_tx"
  "he_relay_pubkey sample_http_env = Inr (replicate 64 (CHR ''e''))" "he_clock sample_http_env = (\<lambda>n. 10)"
  "pp_createInvoice (he_processor sample_http_env) q = Inr sample_response"
  by (simp_all add: sample_http_env_def)

lemma sample_fees:
  "invoice_fees (env_settings sample_paying_env) pk = Inr (Some (admission_fees (env_settings sample_paying_env)))"
  by (simp add: invoice_fees_def sample_paying_env_def admission_fees_def pay_admission_def fee_applies_def)

lemma sample_no_invoice_limits [simp]:
  "Option.bind (set_limits (env_settings sample_paying_env)) lim_invoice = None"
  by (simp add: sample_paying_env_def sample_limits_def)

lemma sample_invoice_created:
  "\<exists>i db'. createInvoice sample_tx (he_processor sample_http_env) (\<lambda>n. 10) u (replicate 64 (CHR ''b'')) amount desc
     sample_payment_db = (Inr i, db') \<and> db' \<noteq> sample_payment_db"
  by (simp add: createInvoice_def transactionally_def tx_begin_def tx_commit_def tx_transaction_def sample_tx_def
      createInvoice_body_def upsert_user_def Let_def upsert_invoice_def invoice_row_def response_invoice_def
      sample_response_def int8_def)
     (simp add: sample_payment_db_def)

lemma sample_page:
  "\<exists>rs db' r'. post_invoice sample_http_env (sample_request_body ''yes'') (sample_payment_db, r) = (Inr rs, db', r')
     \<and> rs_status rs = 200 \<and> db' \<noteq> sample_payment_db"
proof -
  obtain i db' where "createInvoice sample_tx (he_processor sample_http_env) (\<lambda>n. 10) (he_uuid sample_http_env)
      (replicate 64 (CHR ''b'')) (invoice_amount (replicate 64 (CHR ''b'')) (admission_fees (env_settings sample_paying_env)))
      (info_name (env_settings sample_paying_env) @ '' Admission Fee for ''
         @ toBech32 (he_bech32_encode sample_http_env) ''npub'' (replicate 64 (CHR ''b'')))
      sample_payment_db = (Inr i, db')" "db' \<noteq> sample_payment_db"
    using sample_invoice_created by metis
  moreover have "findByPubkey (replicate 64 (CHR ''b'')) (Some [sample_payer]) = Inr (Some (fromDBUser sample_payer))"
    by (simp add: findByPubkey_def)
  ultimately show ?thesis
    by (simp add: post_invoice_def http_isRateLimited_def body_is_object_def body_field_def sample_request_body_def
        requested_pubkey_def hex_digits_def request_invoice_def sample_fees already_admitted_def fromDBUser_def
        respond_def Let_def)
qed

section \<open>Property\<close>



section \<open>The relay information document\<close>


text \<open>A relay that advertises 2500 filters and accepts three.\<close>

definition sample_advertising :: settings where
  "sample_advertising = sample_settings\<lparr>
     set_payments := Some \<lparr>pay_enabled = False, pay_schedules = []\<rparr>,
     set_limits := Some (sample_limits\<lparr>lim_client := Some \<lparr>cl_subscription = Some
       \<lparr>maxSubscriptions = Some 2, maxFilters = Some 3, maxFilterValues = Some 2500, maxLimit = Some 5000,
        minPrefixLength = Some 4, maxSubscriptionIdLength = Some 10\<rparr>\<rparr>\<rparr>)\<rparr>"

definition sample_url :: url where
  "sample_url = \<lparr>url_scheme = ''wss'', url_username = [], url_password = [], url_host = Some ''relay'',
     url_port = None, url_opaque = False, url_path = ''/'', url_query = None, url_fragment = None\<rparr>"

definition sample_package :: package_json where
  "sample_package = \<lparr>pkg_version = ''2.1.0'', pkg_supportedNips = [1, 2, 4, 9, 11], pkg_supportedNipExtensions = [''11a''],
     pkg_repository_url = ''git+https://github.com/cameri/nostream.git'', pkg_homepage = []\<rparr>"

lemma sample_document:
  "\<exists>doc. relayInformationDocument sample_package (\<lambda>u. Inr sample_url) (\<lambda>s. Inr ([], [])) sample_advertising = Inr doc"
  by (simp add: relayInformationDocument_def payments_url_def information_pubkey_def advertised_content_length_def
      startsWith_prefix sample_advertising_def sample_settings_def sample_limits_def event_limits_of_def numeral_eq_Suc)


section \<open>Requests and the tables\<close>

lemma router_db:
  assumes "router env route req st = (response, st')" "web_db st' \<noteq> web_db st"
  obtains r rs result r' where "route = PostInvoice" "response = Inr (Answer rs)"
    "rateLimiterMiddleware ((we_http env)\<lparr>he_hits := we_gate_hits env\<rparr>) req (web_limiter st) = (Inr False, r)"
    "post_invoice (we_http env) req (web_db st, r) = (result, web_db st', r')"
proof -
  consider "gated env req (admissionRouter (we_http env) req) st = (response, st')"
    | "gated env req (invoiceRouter (we_http env) route req) st = (response, st')"
    using assms by (cases route) (auto simp: router_def Let_def split: prod.splits)
  then show ?thesis
  proof cases
    case 1
    then have "web_db st' = web_db st"
      by (cases rule: gated_cases) (auto dest: arg_cong [where f = "\<lambda>x. web_db (snd x)"])
    with assms(2) show ?thesis by simp
  next
    case 2
    then show ?thesis
    proof (cases rule: gated_cases)
      case (passed r rs)
      then show ?thesis using that invoiceRouter_db [OF passed(1)] assms(2) by auto
    qed (use assms(2) in simp)
  qed
qed

lemma post_invoice_db:
  assumes "post_invoice env req (db, r) = (result, db', r')" "db' \<noteq> db"
  shows "\<exists>pk i u. requested_pubkey env req = Inr pk \<and> body_field req ''tosAccepted'' = Some (JStr ''yes'')
    \<and> findByPubkey pk (pay_users db) = Inr u \<and> \<not> already_admitted (he_settings env) u
    \<and> createInvoice (he_tx env) (he_processor env) (he_clock env) (he_uuid env) pk
        (admission_fee_amount (he_settings env) pk)
        (info_name (he_settings env) @ '' Admission Fee for '' @ toBech32 (he_bech32_encode env) ''npub'' pk) db = (Inr i, db')"
proof -
  obtain pk where pk: "requested_pubkey env req = Inr pk" "body_field req ''tosAccepted'' = Some (JStr ''yes'')"
    "request_invoice env pk db = (result, db')"
    using assms by (auto simp: post_invoice_def split: prod.splits sum.splits bool.splits if_splits)
  from pk(3) show ?thesis
    by (cases rule: request_invoice_cases [of env pk db]) (use pk assms(2) in auto)
qed

text \<open>A request changes the tables only if it is a POST to the invoices by an address that has
  connections left, for a public key that is not admitted yet and whose sender accepted the terms; the
  change is the creation of one invoice over the admission fee. In particular a request refused by the
  rate limits changes no table.\<close>

theorem requests_only_create_invoices:
  assumes "router env route req st = (response, st')" "web_db st' \<noteq> web_db st" "http = we_http env"
  shows "route = PostInvoice \<and> (\<exists>rs. response = Inr (Answer rs))
    \<and> (\<exists>r. rateLimiterMiddleware (http\<lparr>he_hits := we_gate_hits env\<rparr>) req (web_limiter st) = (Inr False, r))
    \<and> (\<exists>pk i u. requested_pubkey http req = Inr pk \<and> body_field req ''tosAccepted'' = Some (JStr ''yes'')
      \<and> findByPubkey pk (pay_users (web_db st)) = Inr u \<and> \<not> already_admitted (he_settings http) u
      \<and> createInvoice (he_tx http) (he_processor http) (he_clock http) (he_uuid http) pk
          (admission_fee_amount (he_settings http) pk)
          (info_name (he_settings http) @ '' Admission Fee for '' @ toBech32 (he_bech32_encode http) ''npub'' pk)
          (web_db st) = (Inr i, web_db st'))"
  using assms(1,2)
proof (cases rule: router_db)
  case (1 r rs result r')
  then show ?thesis using post_invoice_db [OF 1(4)] assms(2) unfolding assms(3) by blast
qed

definition sample_web_env :: "alist_store web_env" where
  "sample_web_env = \<lparr>we_http = sample_http_env, we_gate_hits = (\<lambda>n. 0), we_package = sample_package,
     we_parse_url = (\<lambda>u. Inr sample_url), we_hostname = (\<lambda>req. ''relay'')\<rparr>"

definition sample_web_state :: "alist_store web_state" where
  "sample_web_state = \<lparr>web_db = sample_payment_db, web_limiter = (\<lambda>k. []), web_invoice_page = None,
     web_terms_page = None\<rparr>"

lemma sample_gate:
  "rateLimiterMiddleware (sample_http_env\<lparr>he_hits := f\<rparr>) req r = (Inr False, r)"
  by (simp add: rateLimiterMiddleware_def connection_isRateLimited_def connection_limits_of_def no_ip_limits_def
      sample_paying_env_def sample_settings_def sample_limits_def Let_def)

lemma requests_only_create_invoices_witness:
  "\<exists>response st'. router sample_web_env PostInvoice (sample_request_body ''yes'') sample_web_state = (response, st')
     \<and> web_db st' \<noteq> web_db sample_web_state \<and> (\<exists>rs. response = Inr (Answer rs))"
proof -
  obtain rs db' r' where page: "post_invoice sample_http_env (sample_request_body ''yes'') (sample_payment_db, \<lambda>k. [])
      = (Inr rs, db', r')" "db' \<noteq> sample_payment_db"
    using sample_page by blast
  have run: "router sample_web_env PostInvoice (sample_request_body ''yes'') sample_web_state
      = (Inr (Answer rs), sample_web_state\<lparr>web_db := db', web_limiter := r'\<rparr>)"
    by (simp add: router_def gated_def sample_gate sample_web_env_def sample_web_state_def invoiceRouter_def
        withController_def page)
  then show ?thesis
    using requests_only_create_invoices [OF run _ refl] page(2) by (auto simp: sample_web_state_def)
qed

end
