(* ===== verification/Settings_Loading.thy ===== *)
theory Settings_Loading
  imports Rate_Limiter
begin

text \<open>
  utils/settings.ts: the settings are the default file with the user's file merged over it, cached
  until one of the two files changes. The file system is an argument, and so are the parsers of YAML
  and JSON. A file's value is an object, or nothing (an empty YAML file); property names are those of
  the files, so none is inherited from a prototype.
\<close>

section \<open>Merging\<close>

text \<open>\<open>mergeDeepRight\<close> of values: two objects are merged by key, otherwise the right value is taken.\<close>

function merge_json :: "json \<Rightarrow> json \<Rightarrow> json"
  and merge_entries :: "(string \<times> json) list \<Rightarrow> (string \<times> json) list \<Rightarrow> (string \<times> json) list" where
  "merge_json l r =
     (case (l, r) of
        (JObj xs, JObj ys) \<Rightarrow> JObj (merge_entries xs ys @ filter (\<lambda>(k, v). k \<notin> fst ` set xs) ys)
      | _ \<Rightarrow> r)"
| "merge_entries [] ys = []"
| "merge_entries ((k, v) # xs) ys =
     (k, case map_of ys k of None \<Rightarrow> v | Some w \<Rightarrow> merge_json v w) # merge_entries xs ys"
  by pat_completeness auto

termination
  by (relation "measure (\<lambda>p. case p of Inl (l, r) \<Rightarrow> size l | Inr (xs, ys) \<Rightarrow> size_list (size_prod (\<lambda>k. 0) size) xs)")
     (auto split: option.splits)

declare merge_json.simps [simp del]

definition entries_of :: "json \<Rightarrow> (string \<times> json) list" where
  "entries_of j = (case j of JObj xs \<Rightarrow> xs | _ \<Rightarrow> [])"

lemma entries_of_JObj [simp]: "entries_of (JObj xs) = xs"
  by (simp add: entries_of_def)

definition mergeDeepRight :: "json \<Rightarrow> json \<Rightarrow> json" where
  "mergeDeepRight l r = merge_json (JObj (entries_of l)) (JObj (entries_of r))"

section \<open>Files\<close>

datatype SettingsFileTypes = yaml_type | json_type

fun file_type_str :: "SettingsFileTypes \<Rightarrow> string" where
  "file_type_str yaml_type = ''yaml''"
| "file_type_str json_type = ''json''"

text \<open>\<open>fs_list\<close> is \<open>readdirSync\<close> of the configuration directory, once it is there.\<close>

record files =
  fs_base :: string
  fs_defaults :: string
  fs_list :: "js_error + string list"
  fs_read :: "string \<Rightarrow> js_error + string"
  fs_parse_yaml :: "string \<Rightarrow> js_error + json"
  fs_parse_json :: "string \<Rightarrow> js_error + json"

definition join_path :: "string \<Rightarrow> string \<Rightarrow> string" where
  "join_path base name = base @ ''/'' @ name"

text \<open>\<open>extname(name).substring(1)\<close>: what follows the last dot, unless it begins the name.\<close>

definition extension_of :: "string \<Rightarrow> string" where
  "extension_of name =
     (case rev (js_split (CHR ''.'') name) of
        [] \<Rightarrow> [] | [whole] \<Rightarrow> [] | ext # before \<Rightarrow> if before = [[]] then [] else ext)"

definition settingsFileType :: "files \<Rightarrow> js_error + SettingsFileTypes" where
  "settingsFileType fs =
     (case fs_list fs of
        Inl err \<Rightarrow> Inl err
      | Inr names \<Rightarrow>
          (case find (\<lambda>name. startsWith name ''settings'') names of
             None \<Rightarrow> Inr yaml_type
           | Some name \<Rightarrow> if extension_of name = ''json'' then Inr json_type else Inr yaml_type))"

definition loadAndParseYamlFile :: "files \<Rightarrow> string \<Rightarrow> js_error + json" where
  "loadAndParseYamlFile fs path =
     (case fs_read fs path of Inl err \<Rightarrow> Inl err | Inr text \<Rightarrow> fs_parse_yaml fs text)"

definition loadAndParseJsonFile :: "files \<Rightarrow> string \<Rightarrow> js_error + json" where
  "loadAndParseJsonFile fs path =
     (case fs_read fs path of Inl err \<Rightarrow> Inl err | Inr text \<Rightarrow> fs_parse_json fs text)"

fun loadSettings :: "files \<Rightarrow> string \<Rightarrow> SettingsFileTypes \<Rightarrow> js_error + json" where
  "loadSettings fs path json_type = loadAndParseJsonFile fs path"
| "loadSettings fs path yaml_type = loadAndParseYamlFile fs path"

definition settingsFilePath :: "files \<Rightarrow> SettingsFileTypes \<Rightarrow> string" where
  "settingsFilePath fs t = join_path (fs_base fs) (''settings.'' @ file_type_str t)"

text \<open>
  Where the two files are: \<open>process.env\<close> and the directory the process runs in give the fields of
  \<open>files\<close>. An empty \<open>NOSTR_CONFIG_DIR\<close> is kept, because \<open>??\<close> replaces only what is not set.
\<close>

definition getSettingsFileBasePath :: "(string \<rightharpoonup> string) \<Rightarrow> string \<Rightarrow> string" where
  "getSettingsFileBasePath env cwd =
     (case env ''NOSTR_CONFIG_DIR'' of None \<Rightarrow> join_path cwd ''.nostr'' | Some dir \<Rightarrow> dir)"

definition getDefaultSettingsFilePath :: "string \<Rightarrow> string" where
  "getDefaultSettingsFilePath cwd = join_path (join_path cwd ''resources'') ''default-settings.yaml''"

section \<open>\<open>createSettings\<close>\<close>

text \<open>
  The cache is \<open>SettingsStatic._settings\<close>. \<open>settingsFileType\<close> never returns a falsy type, so the
  branch that would write the default settings to the user's file is not part of any run. An error of
  the user's file gives the defaults, uncached; one of the directory or of the defaults is thrown.
\<close>

definition createSettings :: "files \<Rightarrow> json option \<Rightarrow> (js_error + json) \<times> json option" where
  "createSettings fs cache =
     (case cache of
        Some s \<Rightarrow> (Inr s, cache)
      | None \<Rightarrow>
          (case settingsFileType fs of
             Inl err \<Rightarrow> (Inl err, None)
           | Inr t \<Rightarrow>
               (case loadSettings fs (fs_defaults fs) yaml_type of
                  Inl err \<Rightarrow> (Inl err, None)
                | Inr defaults \<Rightarrow>
                    (case loadSettings fs (settingsFilePath fs t) t of
                       Inl err \<Rightarrow> (Inr defaults, None)
                     | Inr user \<Rightarrow> (let s = mergeDeepRight defaults user in (Inr s, Some s))))))"

text \<open>The listener of both watchers.\<close>

definition reload_settings :: "files \<Rightarrow> json option \<Rightarrow> (js_error + json) \<times> json option" where
  "reload_settings fs cache = createSettings fs None"

text \<open>The branch that no run takes: the path it writes and the text, as \<open>yaml.dump\<close> gives it.\<close>

definition saveSettings :: "(json \<Rightarrow> string) \<Rightarrow> string \<Rightarrow> json \<Rightarrow> string \<times> string" where
  "saveSettings yaml_dump path s = (join_path path ''settings.yaml'', yaml_dump s)"

text \<open>The files that \<open>watchSettings\<close> watches.\<close>

definition watchSettings :: "files \<Rightarrow> js_error + string list" where
  "watchSettings fs =
     (case settingsFileType fs of
        Inl err \<Rightarrow> Inl err
      | Inr t \<Rightarrow> Inr [fs_defaults fs, settingsFilePath fs t])"

text \<open>Only a change of a watched file, or of the names in the directory, changes what a reload gives.\<close>

lemma watched_files_determine_settings:
  assumes "watchSettings fs = Inr paths" "\<forall>path\<in>set paths. fs_read fs path = read path"
  shows "reload_settings (fs\<lparr>fs_read := read\<rparr>) cache = reload_settings fs cache"
proof -
  obtain t where t: "settingsFileType fs = Inr t" "paths = [fs_defaults fs, settingsFilePath fs t]"
    using assms(1) by (auto simp: watchSettings_def split: sum.splits)
  have same: "loadSettings (fs\<lparr>fs_read := read\<rparr>) p k = loadSettings fs p k" if "p \<in> set paths" for p k
    using assms(2) that by (cases k) (auto simp: loadAndParseJsonFile_def loadAndParseYamlFile_def split: sum.splits)
  have "settingsFileType (fs\<lparr>fs_read := read\<rparr>) = Inr t"
    "settingsFilePath (fs\<lparr>fs_read := read\<rparr>) t = settingsFilePath fs t"
    using t(1) by (simp_all add: settingsFileType_def settingsFilePath_def)
  then show ?thesis
    using t same by (auto simp: reload_settings_def createSettings_def simp del: loadSettings.simps split: sum.splits)
qed

section \<open>Reading a merged value\<close>

text \<open>The value at a path of properties.\<close>

fun json_at :: "string list \<Rightarrow> json \<Rightarrow> json option" where
  "json_at [] j = Some j"
| "json_at (k # ks) j =
     (case j of JObj xs \<Rightarrow> (case map_of xs k of None \<Rightarrow> None | Some v \<Rightarrow> json_at ks v) | _ \<Rightarrow> None)"

fun is_object :: "json \<Rightarrow> bool" where
  "is_object (JObj xs) = True"
| "is_object _ = False"

text \<open>Some object on the way to the path is replaced by a value that is not an object.\<close>

fun shadowed :: "string list \<Rightarrow> json \<Rightarrow> bool" where
  "shadowed [] j = False"
| "shadowed (k # ks) j =
     (case j of JObj xs \<Rightarrow> (case map_of xs k of None \<Rightarrow> False | Some v \<Rightarrow> shadowed ks v) | _ \<Rightarrow> True)"

lemma merge_json_objects:
  "merge_json (JObj xs) (JObj ys) = JObj (merge_entries xs ys @ filter (\<lambda>(k, v). k \<notin> fst ` set xs) ys)"
  by (simp add: merge_json.simps)

lemma merge_json_other: "\<not> is_object l \<or> \<not> is_object r \<Longrightarrow> merge_json l r = r"
  by (cases l; cases r) (simp_all add: merge_json.simps)

lemma map_of_merge_entries:
  "map_of (merge_entries xs ys) k =
     map_option (\<lambda>v. case map_of ys k of None \<Rightarrow> v | Some w \<Rightarrow> merge_json v w) (map_of xs k)"
  by (induction xs) (auto split: option.splits)

lemma map_of_filter_keys: "map_of (filter (\<lambda>(k, v). k \<notin> A) ys) k = (if k \<in> A then None else map_of ys k)"
  by (induction ys) auto

lemma map_of_merged:
  assumes "merged = merge_entries xs ys @ filter (\<lambda>(k, v). k \<notin> fst ` set xs) ys"
  shows "map_of merged k =
     (case (map_of xs k, map_of ys k) of
        (Some v, Some w) \<Rightarrow> Some (merge_json v w) | (Some v, None) \<Rightarrow> Some v | (None, w) \<Rightarrow> w)"
proof (cases "map_of xs k")
  case None
  then have "k \<notin> fst ` set xs" by (simp add: map_of_eq_None_iff)
  then show ?thesis using None
    by (simp add: assms map_add_def map_of_merge_entries map_of_filter_keys del: set_map)
next
  case (Some v)
  then show ?thesis
    by (simp add: assms map_add_def map_of_merge_entries split: option.splits)
qed

text \<open>A path reads the user's value merged over the default one, whichever of them are there.\<close>

lemma json_at_merge:
  "json_at p (merge_json d u) =
     (case json_at p u of
        Some v \<Rightarrow> Some (case json_at p d of None \<Rightarrow> v | Some w \<Rightarrow> merge_json w v)
      | None \<Rightarrow> if shadowed p u then None else json_at p d)"
proof (induction p arbitrary: d u)
  case (Cons k ks)
  show ?case
  proof (cases "is_object d \<and> is_object u")
    case True
    then obtain xs ys where objs: "d = JObj xs" "u = JObj ys"
      by (cases d; cases u) auto
    obtain merged where merged: "merged = merge_entries xs ys @ filter (\<lambda>(k, v). k \<notin> fst ` set xs) ys"
      by blast
    then have "merge_json d u = JObj merged" by (simp only: objs merge_json_objects)
    then show ?thesis
      using map_of_merged [OF merged, of k]
      by (cases "map_of xs k"; cases "map_of ys k") (auto simp: objs Cons.IH split: option.splits)
  next
    case False
    then have merge: "merge_json d u = u" by (simp add: merge_json_other)
    show ?thesis
    proof (cases "is_object u")
      case True
      then have "json_at (k # ks) d = None" using False by (cases d) auto
      then show ?thesis by (simp add: merge split: option.splits del: json_at.simps)
    next
      case False
      then have "json_at (k # ks) u = None" "shadowed (k # ks) u" by (cases u; simp)+
      then show ?thesis by (simp add: merge del: json_at.simps shadowed.simps)
    qed
  qed
qed simp

section \<open>Property\<close>

definition sample_files :: files where
  "sample_files =
     \<lparr>fs_base = ''.nostr'', fs_defaults = ''defaults.yaml'', fs_list = Inr [''README'', ''settings.yaml''],
      fs_read = (\<lambda>path. Inr path),
      fs_parse_yaml = (\<lambda>text. Inr (if text = ''defaults.yaml''
        then JObj [(''info'', JObj [(''name'', JStr ''a''), (''contact'', JStr ''b'')])]
        else JObj [(''info'', JObj [(''name'', JStr ''c'')])])),
      fs_parse_json = (\<lambda>text. Inl (JsError ''SyntaxError''))\<rparr>"

text \<open>C40. Without cached settings, \<open>createSettings\<close> reads at every path the user's value, merged over
  the default one where both are objects, and the default one where the user's file has none and
  replaces no object on the way by another value; it then returns the same settings whatever the
  files hold, until they are reloaded. Where the user's file cannot be read or parsed, the defaults
  are returned, nothing is cached and the next call reads the files again.\<close>

theorem settings_merge_user_over_defaults:
  assumes "settingsFileType fs = Inr t" "loadSettings fs (fs_defaults fs) yaml_type = Inr d"
  shows "case loadSettings fs (settingsFilePath fs t) t of
      Inl err \<Rightarrow> createSettings fs None = (Inr d, None)
    | Inr u \<Rightarrow> (\<exists>s. createSettings fs None = (Inr s, Some s) \<and> (\<forall>fs'. createSettings fs' (Some s) = (Inr s, Some s))
        \<and> reload_settings fs (Some s) = (Inr s, Some s)
        \<and> (\<forall>p. json_at p s =
            (case json_at p (JObj (entries_of u)) of
               Some v \<Rightarrow> Some (case json_at p (JObj (entries_of d)) of None \<Rightarrow> v | Some w \<Rightarrow> merge_json w v)
             | None \<Rightarrow> if shadowed p (JObj (entries_of u)) then None else json_at p (JObj (entries_of d)))))"
  using assms json_at_merge
  by (simp add: createSettings_def reload_settings_def mergeDeepRight_def Let_def split: sum.splits)

lemma settings_merge_user_over_defaults_witness:
  "\<exists>s. createSettings sample_files None = (Inr s, Some s)
     \<and> json_at [''info'', ''name''] s = Some (JStr ''c'') \<and> json_at [''info'', ''contact''] s = Some (JStr ''b'')"
proof -
  let ?d = "JObj [(''info'', JObj [(''name'', JStr ''a''), (''contact'', JStr ''b'')])]"
  let ?u = "JObj [(''info'', JObj [(''name'', JStr ''c'')])]"
  have t: "settingsFileType sample_files = Inr yaml_type"
    by (simp add: settingsFileType_def sample_files_def startsWith_def extension_of_def)
  have d: "loadSettings sample_files (fs_defaults sample_files) yaml_type = Inr ?d"
    by (simp add: loadAndParseYamlFile_def sample_files_def)
  have u: "loadSettings sample_files (settingsFilePath sample_files yaml_type) yaml_type = Inr ?u"
    by (simp add: loadAndParseYamlFile_def settingsFilePath_def join_path_def sample_files_def)
  from settings_merge_user_over_defaults [OF t d] obtain s where
    s: "createSettings sample_files None = (Inr s, Some s)"
      "\<forall>p. json_at p s =
        (case json_at p ?u of
           Some v \<Rightarrow> Some (case json_at p ?d of None \<Rightarrow> v | Some w \<Rightarrow> merge_json w v)
         | None \<Rightarrow> if shadowed p ?u then None else json_at p ?d)"
    unfolding u sum.case entries_of_JObj by blast
  have "json_at [''info'', ''name''] s = Some (JStr ''c'')" by (simp add: s(2) merge_json_other)
  moreover have "json_at [''info'', ''contact''] s = Some (JStr ''b'')" by (simp add: s(2))
  ultimately show ?thesis using s(1) by blast
qed

end
