(* ===== verification/Pg_Schema.thy ===== *)
theory Pg_Schema
  imports Event_Store
begin

text \<open>
  The database as the migrations see it: tables with their columns, indexes, functions, triggers and
  extensions, the rows of the tables of events, and the statements that change them, with PostgreSQL's
  errors. Names are in lower case, as PostgreSQL folds them. A migration of knex runs in a
  transaction: an error leaves the database as it was.
\<close>

section \<open>Tables, indexes and functions\<close>

datatype pg_type = Uuid | Bytea | Integer | Bigint | Text_type | Jsonb | Timestamp | Timestamptz | Boolean | Inet

record column =
  col_name :: string
  col_type :: pg_type
  col_nullable :: bool
  col_default :: "string option"
  col_values :: "string list option"

text \<open>The predicates of partial indexes.\<close>

datatype kind_pred = Kind_is int | Kind_range int int | Either kind_pred kind_pred

fun kind_holds :: "kind_pred \<Rightarrow> int \<Rightarrow> bool" where
  "kind_holds (Kind_is n) k \<longleftrightarrow> k = n"
| "kind_holds (Kind_range lo hi) k \<longleftrightarrow> lo \<le> k \<and> k < hi"
| "kind_holds (Either p q) k \<longleftrightarrow> kind_holds p k \<or> kind_holds q k"

datatype index_method = Btree | Gin

record pg_index =
  idx_name :: string
  idx_table :: string
  idx_columns :: "string list"
  idx_unique :: bool
  idx_method :: index_method
  idx_where :: "kind_pred option"

text \<open>The bodies of the stored functions; what they do is the subject of other theories.\<close>

datatype fn_body =
    Now_utc | Assert_serialized | Confirm_any_unit | Confirm_ambiguous_unit | Confirm_by_unit
  | Charge_user | Process_event_tags

type_synonym signature = "string \<times> pg_type list"

record pg_schema =
  sch_extensions :: "string list"
  sch_tables :: "(string \<times> column list) list"
  sch_indexes :: "pg_index list"
  sch_functions :: "(signature \<times> fn_body) list"
  sch_triggers :: "(string \<times> string \<times> string) list"

record pg_database = pg_schema +
  pg_rows :: event_db

definition empty_database :: pg_database where
  "empty_database = \<lparr>sch_extensions = [], sch_tables = [], sch_indexes = [], sch_functions = [],
     sch_triggers = [], pg_rows = empty_db\<rparr>"

definition column_of :: "pg_database \<Rightarrow> string \<Rightarrow> string \<Rightarrow> column option" where
  "column_of db tbl c = Option.bind (map_of (sch_tables db) tbl) (find (\<lambda>k. col_name k = c))"

section \<open>Unique indexes on the rows of events\<close>

datatype key = Key_bytes bytes | Key_int int | Key_json json

text \<open>The value of a column in a row, \<open>None\<close> where it is \<open>NULL\<close>; no index has another column.\<close>

definition column_key :: "string \<Rightarrow> dbevent \<Rightarrow> key option" where
  "column_key c r =
     (if c = ''event_id'' then Some (Key_bytes (event_id r))
      else if c = ''event_pubkey'' then Some (Key_bytes (event_pubkey r))
      else if c = ''event_kind'' then Some (Key_int (event_kind r))
      else if c = ''event_created_at'' then Some (Key_int (event_created_at r))
      else if c = ''event_deduplication'' then map_option Key_json (event_deduplication r)
      else None)"

text \<open>The entry of a row in an index: none outside its predicate, none that conflicts with a \<open>NULL\<close>.\<close>

definition index_entry :: "pg_index \<Rightarrow> dbevent \<Rightarrow> key list option" where
  "index_entry i r =
     (if (case idx_where i of None \<Rightarrow> True | Some p \<Rightarrow> kind_holds p (event_kind r))
      then those (map (\<lambda>c. column_key c r) (idx_columns i)) else None)"

definition entries_distinct :: "pg_index \<Rightarrow> dbevent list \<Rightarrow> bool" where
  "entries_distinct i rows \<longleftrightarrow> distinct (List.map_filter (index_entry i) rows)"

definition unique_on :: "pg_index \<Rightarrow> event_db \<Rightarrow> bool" where
  "unique_on i rows \<longleftrightarrow> idx_unique i \<and> idx_table i = ''events'' \<longrightarrow> entries_distinct i (events rows)"

section \<open>Statements\<close>

text \<open>The statements of the migrations that change rows; they are described with the migrations.\<close>

datatype row_step = Set_deduplication | Clear_deduplication | Prune_metadata | Deduplicate_metadata | Backfill_tags

datatype statement =
    Create_extension string bool
  | Drop_extension string bool
  | Create_table string "column list"
  | Drop_table string bool
  | Add_column string column
  | Drop_column string string
  | Set_type string string pg_type
  | Set_default string string "string option"
  | Create_index pg_index
  | Drop_index string
  | Create_function signature fn_body bool
  | Drop_function signature bool
  | Create_trigger string string string
  | Drop_trigger string string
  | Change_rows row_step

definition exists_already :: "string \<Rightarrow> js_error" where
  "exists_already what = PgError (what @ '' already exists'')"

definition does_not_exist :: "string \<Rightarrow> js_error" where
  "does_not_exist what = PgError (what @ '' does not exist'')"

definition depended_on :: "string \<Rightarrow> js_error" where
  "depended_on what = PgError (''cannot drop '' @ what @ '' because other objects depend on it'')"

text \<open>
  What an extension is needed for: \<open>uuid-ossp\<close> has the function \<open>uuid_generate_v4\<close> of defaults,
  \<open>btree_gin\<close> the operators of GIN indexes on columns that are not \<open>jsonb\<close>.
\<close>

definition uses_uuid :: "column \<Rightarrow> bool" where
  "uses_uuid c \<longleftrightarrow> col_default c = Some ''uuid_generate_v4()''"

definition uses_btree_gin :: "pg_database \<Rightarrow> pg_index \<Rightarrow> bool" where
  "uses_btree_gin db i \<longleftrightarrow> idx_method i = Gin
     \<and> list_ex (\<lambda>c. map_option col_type (column_of db (idx_table i) c) \<noteq> Some Jsonb) (idx_columns i)"

definition extension_used :: "pg_database \<Rightarrow> string \<Rightarrow> bool" where
  "extension_used db e \<longleftrightarrow>
     (e = ''uuid-ossp'' \<and> list_ex (\<lambda>(t, cs). list_ex uses_uuid cs) (sch_tables db))
     \<or> (e = ''btree_gin'' \<and> list_ex (uses_btree_gin db) (sch_indexes db))"

definition change_column :: "string \<Rightarrow> string \<Rightarrow> (column \<Rightarrow> column) \<Rightarrow> pg_database \<Rightarrow> js_error + pg_database" where
  "change_column tbl c g db =
     (case column_of db tbl c of
        None \<Rightarrow> Inl (does_not_exist c)
      | Some k \<Rightarrow>
          Inr (db\<lparr>sch_tables := map (\<lambda>(t, cs). if t = tbl
                 then (t, map (\<lambda>k. if col_name k = c then g k else k) cs) else (t, cs)) (sch_tables db)\<rparr>))"

definition columns_ok :: "pg_database \<Rightarrow> column list \<Rightarrow> bool" where
  "columns_ok db cs \<longleftrightarrow> list_ex uses_uuid cs \<longrightarrow> ''uuid-ossp'' \<in> set (sch_extensions db)"

definition create_index :: "pg_index \<Rightarrow> pg_database \<Rightarrow> js_error + pg_database" where
  "create_index i db =
     (if list_ex (\<lambda>c. column_of db (idx_table i) c = None) (idx_columns i) then Inl (does_not_exist (idx_table i))
      else if list_ex (\<lambda>j. idx_name j = idx_name i) (sch_indexes db) then Inl (exists_already (idx_name i))
      else if uses_btree_gin db i \<and> ''btree_gin'' \<notin> set (sch_extensions db)
      then Inl (PgError ''data type has no default operator class for access method gin'')
      else if \<not> unique_on i (pg_rows db) then Inl unique_violation
      else Inr (db\<lparr>sch_indexes := sch_indexes db @ [i]\<rparr>))"

definition drop_table :: "string \<Rightarrow> pg_database \<Rightarrow> pg_database" where
  "drop_table tbl db =
     db\<lparr>sch_tables := filter (\<lambda>(t, cs). t \<noteq> tbl) (sch_tables db),
        sch_indexes := filter (\<lambda>i. idx_table i \<noteq> tbl) (sch_indexes db),
        sch_triggers := filter (\<lambda>(g, t, f). t \<noteq> tbl) (sch_triggers db),
        pg_rows := (if tbl = ''events'' then (pg_rows db)\<lparr>events := []\<rparr>
                    else if tbl = ''event_tags'' then (pg_rows db)\<lparr>tag_table := []\<rparr> else pg_rows db)\<rparr>"

definition drop_column :: "string \<Rightarrow> string \<Rightarrow> pg_database \<Rightarrow> js_error + pg_database" where
  "drop_column tbl c db =
     (case column_of db tbl c of
        None \<Rightarrow> Inl (does_not_exist c)
      | Some k \<Rightarrow>
          Inr (db\<lparr>sch_tables := map (\<lambda>(t, cs). if t = tbl then (t, filter (\<lambda>k. col_name k \<noteq> c) cs) else (t, cs))
                    (sch_tables db),
                  sch_indexes := filter (\<lambda>i. \<not> (idx_table i = tbl \<and> c \<in> set (idx_columns i))) (sch_indexes db)\<rparr>))"

end
