(* ===== verification/Migrations.thy ===== *)
theory Migrations
  imports Pg_Schema Event_Repository
begin

text \<open>
  The migrations of the database, in the order of their files. \<open>mig_up\<close> and \<open>mig_down\<close> are the
  statements that \<open>up\<close> and \<open>down\<close> send; a \<open>down\<close> that throws is \<open>None\<close>. What knex makes of a table
  builder is the documented one: \<open>primary\<close> and \<open>unique\<close> are unique indexes named
  \<open>table_pkey\<close> and \<open>table_column_unique\<close>, \<open>index\<close> is an index named \<open>table_columns_index\<close>,
  \<open>enum\<close> is a text column with a list of values and \<open>unsigned\<close> means nothing to PostgreSQL.
\<close>

section \<open>The statements that change rows\<close>

text \<open>\<open>jsonb_build_array(right(event_pubkey::text, 64), event_kind)\<close>.\<close>

definition bytea_text :: "bytes \<Rightarrow> string" where
  "bytea_text bs = CHR 0x5C # CHR ''x'' # fromBuffer bs"

definition right_64 :: "string \<Rightarrow> string" where
  "right_64 s = drop (length s - 64) s"

definition replaceable_deduplication :: "dbevent \<Rightarrow> json" where
  "replaceable_deduplication r = JArr [JStr (right_64 (bytea_text (event_pubkey r))), JNum (event_kind r)]"

text \<open>The conditions of the builder: \<open>and\<close> binds tighter than \<open>or\<close>.\<close>

definition set_deduplication :: "dbevent list \<Rightarrow> dbevent list" where
  "set_deduplication = map (\<lambda>r.
     if event_kind r \<in> {0, 3} \<or> 10000 \<le> event_kind r \<and> event_kind r \<le> 19999 \<and> event_deduplication r = None
     then r\<lparr>event_deduplication := Some (replaceable_deduplication r)\<rparr> else r)"

definition clear_deduplication :: "dbevent list \<Rightarrow> dbevent list" where
  "clear_deduplication = map (\<lambda>r.
     if event_kind r \<in> {0, 3} \<or> 10000 \<le> event_kind r \<and> event_kind r \<le> 19999 \<and> event_deduplication r \<noteq> None
     then r\<lparr>event_deduplication := None\<rparr> else r)"

text \<open>The rows whose latest \<open>created_at\<close> the two statements on kind 41 compare with.\<close>

definition same_channel :: "dbevent \<Rightarrow> dbevent \<Rightarrow> bool" where
  "same_channel a b \<longleftrightarrow> event_pubkey a = event_pubkey b \<and> event_kind b = 41 \<and> event_tags a = event_tags b"

definition superseded :: "dbevent list \<Rightarrow> dbevent \<Rightarrow> bool" where
  "superseded rows a \<longleftrightarrow> list_ex (\<lambda>b. same_channel a b \<and> event_created_at a < event_created_at b) rows"

definition prune_metadata :: "dbevent list \<Rightarrow> dbevent list" where
  "prune_metadata rows = filter (\<lambda>a. \<not> (event_kind a = 41 \<and> superseded rows a)) rows"

definition deduplicate_metadata :: "dbevent list \<Rightarrow> dbevent list" where
  "deduplicate_metadata rows = map (\<lambda>a. if event_kind a = 41 \<and> \<not> superseded rows a
     then a\<lparr>event_deduplication := Some (JArr [JStr (fromBuffer (event_pubkey a)), JNum (event_kind a)])\<rparr> else a) rows"

text \<open>
  The tags of the rows stored before the table \<open>event_tags\<close> existed; a tag without a name is read
  with \<open>tag_name.length\<close>.
\<close>

fun backfill_tag :: "bytes \<Rightarrow> tag \<Rightarrow> js_error + tag_row list" where
  "backfill_tag i [] = Inl (TypeErr ''Cannot read properties of undefined (reading length)'')"
| "backfill_tag i [n] = Inr []"
| "backfill_tag i (n # v # rest) =
     Inr (if length n = 1 \<and> v \<noteq> [] then [\<lparr>tr_event_id = i, tr_name = n, tr_value = v\<rparr>] else [])"

fun backfill_row_tags :: "bytes \<Rightarrow> tag list \<Rightarrow> js_error + tag_row list" where
  "backfill_row_tags i [] = Inr []"
| "backfill_row_tags i (t # ts) =
     (case backfill_tag i t of
        Inl err \<Rightarrow> Inl err
      | Inr rows \<Rightarrow> map_sum id (\<lambda>rest. rows @ rest) (backfill_row_tags i ts))"

fun backfill_tags :: "dbevent list \<Rightarrow> tag_row list \<Rightarrow> js_error + tag_row list" where
  "backfill_tags [] tbl = Inr tbl"
| "backfill_tags (r # rs) tbl =
     (if list_ex (\<lambda>t. tr_event_id t = event_id r) tbl then backfill_tags rs tbl
      else (case backfill_row_tags (event_id r) (event_tags r) of
              Inl err \<Rightarrow> Inl err
            | Inr rows \<Rightarrow> backfill_tags rs (tbl @ rows)))"

fun run_rows :: "row_step \<Rightarrow> event_db \<Rightarrow> js_error + event_db" where
  "run_rows Set_deduplication db = Inr (db\<lparr>events := set_deduplication (events db)\<rparr>)"
| "run_rows Clear_deduplication db = Inr (db\<lparr>events := clear_deduplication (events db)\<rparr>)"
| "run_rows Prune_metadata db = Inr (db\<lparr>events := prune_metadata (events db)\<rparr>)"
| "run_rows Deduplicate_metadata db = Inr (db\<lparr>events := deduplicate_metadata (events db)\<rparr>)"
| "run_rows Backfill_tags db = map_sum id (\<lambda>tbl. db\<lparr>tag_table := tbl\<rparr>) (backfill_tags (events db) (tag_table db))"

section \<open>Running statements\<close>

text \<open>No trigger is there when rows of \<open>events\<close> are changed.\<close>

fun exec :: "statement \<Rightarrow> pg_database \<Rightarrow> js_error + pg_database" where
  "exec (Create_extension e if_not_exists) db =
     (if e \<in> set (sch_extensions db) then (if if_not_exists then Inr db else Inl (exists_already e))
      else Inr (db\<lparr>sch_extensions := sch_extensions db @ [e]\<rparr>))"
| "exec (Drop_extension e if_exists) db =
     (if e \<notin> set (sch_extensions db) then (if if_exists then Inr db else Inl (does_not_exist e))
      else if extension_used db e then Inl (depended_on e)
      else Inr (db\<lparr>sch_extensions := filter (\<lambda>x. x \<noteq> e) (sch_extensions db)\<rparr>))"
| "exec (Create_table t cs) db =
     (if map_of (sch_tables db) t \<noteq> None then Inl (exists_already t)
      else if \<not> columns_ok db cs then Inl (does_not_exist ''function uuid_generate_v4()'')
      else Inr (db\<lparr>sch_tables := sch_tables db @ [(t, cs)]\<rparr>))"
| "exec (Drop_table t if_exists) db =
     (if map_of (sch_tables db) t = None then (if if_exists then Inr db else Inl (does_not_exist t))
      else Inr (drop_table t db))"
| "exec (Add_column t c) db =
     (if map_of (sch_tables db) t = None then Inl (does_not_exist t)
      else if column_of db t (col_name c) \<noteq> None then Inl (exists_already (col_name c))
      else Inr (db\<lparr>sch_tables := map (\<lambda>(t', cs). if t' = t then (t', cs @ [c]) else (t', cs)) (sch_tables db)\<rparr>))"
| "exec (Drop_column t c) db = drop_column t c db"
| "exec (Set_type t c ty) db = change_column t c (col_type_update (\<lambda>_. ty)) db"
| "exec (Set_default t c d) db = change_column t c (col_default_update (\<lambda>_. d)) db"
| "exec (Create_index i) db = create_index i db"
| "exec (Drop_index n) db = Inr (db\<lparr>sch_indexes := filter (\<lambda>i. idx_name i \<noteq> n) (sch_indexes db)\<rparr>)"
| "exec (Create_function s body or_replace) db =
     (if map_of (sch_functions db) s \<noteq> None \<and> \<not> or_replace then Inl (exists_already (fst s))
      else Inr (db\<lparr>sch_functions := filter (\<lambda>(s', b). s' \<noteq> s) (sch_functions db) @ [(s, body)]\<rparr>))"
| "exec (Drop_function s if_exists) db =
     (if map_of (sch_functions db) s = None then (if if_exists then Inr db else Inl (does_not_exist (fst s)))
      else if list_ex (\<lambda>(g, t, f). f = fst s) (sch_triggers db) then Inl (depended_on (fst s))
      else Inr (db\<lparr>sch_functions := filter (\<lambda>(s', b). s' \<noteq> s) (sch_functions db)\<rparr>))"
| "exec (Create_trigger g t f) db =
     (if map_of (sch_tables db) t = None then Inl (does_not_exist t)
      else if \<not> list_ex (\<lambda>(s, b). fst s = f) (sch_functions db) then Inl (does_not_exist f)
      else if list_ex (\<lambda>(g', t', f'). g' = g \<and> t' = t) (sch_triggers db) then Inl (exists_already g)
      else Inr (db\<lparr>sch_triggers := sch_triggers db @ [(g, t, f)]\<rparr>))"
| "exec (Drop_trigger g t) db =
     Inr (db\<lparr>sch_triggers := filter (\<lambda>(g', t', f). \<not> (g' = g \<and> t' = t)) (sch_triggers db)\<rparr>)"
| "exec (Change_rows st) db =
     (case run_rows st (pg_rows db) of
        Inl err \<Rightarrow> Inl err
      | Inr rows \<Rightarrow>
          if list_ex (\<lambda>i. \<not> unique_on i rows) (sch_indexes db) then Inl unique_violation
          else Inr (db\<lparr>pg_rows := rows\<rparr>))"

fun run_statements :: "statement list \<Rightarrow> pg_database \<Rightarrow> js_error + pg_database" where
  "run_statements [] db = Inr db"
| "run_statements (st # sts) db =
     (case exec st db of Inl err \<Rightarrow> Inl err | Inr db' \<Rightarrow> run_statements sts db')"

record migration =
  mig_up :: "statement list"
  mig_down :: "statement list option"

definition run_up :: "migration \<Rightarrow> pg_database \<Rightarrow> js_error + pg_database" where
  "run_up m db = run_statements (mig_up m) db"

definition run_down :: "migration \<Rightarrow> pg_database \<Rightarrow> js_error + pg_database" where
  "run_down m db =
     (case mig_down m of
        None \<Rightarrow> Inl (JsError ''Cannot rollback payment processor removal. Restore from backup if needed.'')
      | Some sts \<Rightarrow> run_statements sts db)"

text \<open>\<open>knex migrate:latest\<close>: what has run stays when a later migration fails.\<close>

fun migrate :: "migration list \<Rightarrow> pg_database \<Rightarrow> js_error option \<times> pg_database" where
  "migrate [] db = (None, db)"
| "migrate (m # ms) db =
     (case run_up m db of Inl err \<Rightarrow> (Some err, db) | Inr db' \<Rightarrow> migrate ms db')"

end
