(* ===== verification/Migration_Files.thy ===== *)
theory Migration_Files
  imports Migrations
begin

text \<open>
  The migrations, one definition per file of migrations/, and their order.
\<close>

section \<open>Columns and indexes of the builder\<close>

definition not_null :: "string \<Rightarrow> pg_type \<Rightarrow> column" where
  "not_null n ty = \<lparr>col_name = n, col_type = ty, col_nullable = False, col_default = None, col_values = None\<rparr>"

definition nullable :: "string \<Rightarrow> pg_type \<Rightarrow> column" where
  "nullable n ty = (not_null n ty)\<lparr>col_nullable := True\<rparr>"

definition with_default :: "string \<Rightarrow> column \<Rightarrow> column" where
  "with_default d c = c\<lparr>col_default := Some d\<rparr>"

definition enum_column :: "string \<Rightarrow> string list \<Rightarrow> column" where
  "enum_column n values = (nullable n Text_type)\<lparr>col_values := Some values\<rparr>"

definition uuid_key :: column where
  "uuid_key = with_default ''uuid_generate_v4()'' (not_null ''id'' Uuid)"

definition timestamps :: "column list" where
  "timestamps = [with_default ''CURRENT_TIMESTAMP'' (not_null ''created_at'' Timestamptz),
                 with_default ''CURRENT_TIMESTAMP'' (not_null ''updated_at'' Timestamptz)]"

definition plain_index :: "string \<Rightarrow> string list \<Rightarrow> pg_index" where
  "plain_index t cs = \<lparr>idx_name = t @ concat (map (\<lambda>c. CHR ''_'' # c) cs) @ ''_index'', idx_table = t,
     idx_columns = cs, idx_unique = False, idx_method = Btree, idx_where = None\<rparr>"

definition unique_index :: "string \<Rightarrow> string \<Rightarrow> string list \<Rightarrow> kind_pred option \<Rightarrow> pg_index" where
  "unique_index n t cs p = \<lparr>idx_name = n, idx_table = t, idx_columns = cs, idx_unique = True,
     idx_method = Btree, idx_where = p\<rparr>"

definition gin_index :: "string \<Rightarrow> string \<Rightarrow> string list \<Rightarrow> pg_index" where
  "gin_index n t cs = \<lparr>idx_name = n, idx_table = t, idx_columns = cs, idx_unique = False,
     idx_method = Gin, idx_where = None\<rparr>"

definition primary_key :: "string \<Rightarrow> string \<Rightarrow> pg_index" where
  "primary_key t c = unique_index (t @ ''_pkey'') t [c] None"

text \<open>\<open>table.datetime\<close> and \<open>table.timestamp\<close> without a time zone; \<open>timestamps(true, true)\<close>.\<close>

section \<open>The tables of events\<close>

definition enable_uuid_ossp_ext :: migration where
  "enable_uuid_ossp_ext = \<lparr>
     mig_up = [Create_extension ''uuid-ossp'' True],
     mig_down = Some [Drop_extension ''uuid-ossp'' True]\<rparr>"

definition create_events_table :: migration where
  "create_events_table = \<lparr>
     mig_up =
       [Create_table ''events''
          [uuid_key, not_null ''event_id'' Bytea, not_null ''event_pubkey'' Bytea, not_null ''event_kind'' Integer,
           not_null ''event_created_at'' Integer, not_null ''event_content'' Text_type, nullable ''event_tags'' Jsonb,
           not_null ''event_signature'' Bytea,
           with_default ''CURRENT_TIMESTAMP'' (nullable ''first_seen'' Timestamp)],
        Create_index (primary_key ''events'' ''id''),
        Create_index (unique_index ''events_event_id_unique'' ''events'' [''event_id''] None),
        Create_index (plain_index ''events'' [''event_id'']),
        Create_index (plain_index ''events'' [''event_pubkey'']),
        Create_index (plain_index ''events'' [''event_kind'']),
        Create_index (plain_index ''events'' [''event_created_at''])],
     mig_down = Some [Drop_table ''events'' False]\<rparr>"

definition add_events_table_indexes :: migration where
  "add_events_table_indexes = \<lparr>
     mig_up = [Create_index (gin_index ''event_tags_idx'' ''events'' [''event_tags''])],
     mig_down = Some [Drop_index ''event_tags_idx'']\<rparr>"

definition regular_replaceable :: kind_pred where
  "regular_replaceable = Either (Kind_is 0) (Either (Kind_is 3) (Kind_range 10000 20000))"

definition replaceable_index :: "string list \<Rightarrow> kind_pred \<Rightarrow> pg_index" where
  "replaceable_index cs p = unique_index ''replaceable_events_idx'' ''events'' cs (Some p)"

definition add_replaceable_events_unique_index :: migration where
  "add_replaceable_events_unique_index = \<lparr>
     mig_up = [Create_index (replaceable_index [''event_pubkey'', ''event_kind''] regular_replaceable)],
     mig_down = Some [Drop_index ''replaceable_events_idx'']\<rparr>"

definition add_delegator_to_events_table :: migration where
  "add_delegator_to_events_table = \<lparr>
     mig_up = [Add_column ''events'' (nullable ''event_delegator'' Bytea),
               Create_index (plain_index ''events'' [''event_delegator''])],
     mig_down = Some [Drop_column ''events'' ''event_delegator'']\<rparr>"

definition add_is_deleted_to_events_table :: migration where
  "add_is_deleted_to_events_table = \<lparr>
     mig_up = [Add_column ''events'' (nullable ''deleted_at'' Timestamp)],
     mig_down = Some [Drop_column ''events'' ''deleted_at'']\<rparr>"

definition add_deduplication_to_events_table :: migration where
  "add_deduplication_to_events_table = \<lparr>
     mig_up = [Add_column ''events'' (nullable ''event_deduplication'' Jsonb)],
     mig_down = Some [Drop_column ''events'' ''event_deduplication'']\<rparr>"

definition parameterized_replaceable :: kind_pred where
  "parameterized_replaceable = Either regular_replaceable (Kind_range 30000 40000)"

definition deduplicated :: "string list" where
  "deduplicated = [''event_pubkey'', ''event_kind'', ''event_deduplication'']"

definition add_deduplication_to_unique_index :: migration where
  "add_deduplication_to_unique_index = \<lparr>
     mig_up = [Drop_index ''replaceable_events_idx'',
               Create_index (replaceable_index deduplicated parameterized_replaceable)],
     mig_down = Some [Drop_index ''replaceable_events_idx'',
               Create_index (replaceable_index [''event_pubkey'', ''event_kind''] regular_replaceable)]\<rparr>"

definition set_deduplication_field :: migration where
  "set_deduplication_field = \<lparr>
     mig_up = [Change_rows Set_deduplication],
     mig_down = Some [Change_rows Clear_deduplication]\<rparr>"

definition group_chat_replaceable :: kind_pred where
  "group_chat_replaceable =
     Either (Either (Kind_is 0) (Either (Kind_is 3) (Either (Kind_is 41) (Kind_range 10000 20000)))) (Kind_range 30000 40000)"

definition add_group_chat_to_unique_index :: migration where
  "add_group_chat_to_unique_index = \<lparr>
     mig_up = [Drop_index ''replaceable_events_idx'', Change_rows Prune_metadata, Change_rows Deduplicate_metadata,
               Create_index (replaceable_index deduplicated group_chat_replaceable)],
     mig_down = Some [Drop_index ''replaceable_events_idx'',
               Create_index (replaceable_index deduplicated parameterized_replaceable)]\<rparr>"

definition delegator_index :: pg_index where
  "delegator_index = unique_index ''pubkey_delegator_kind_idx'' ''events''
     [''event_pubkey'', ''event_delegator'', ''event_kind''] None"

definition add_pubkey_delegator_kind_index :: migration where
  "add_pubkey_delegator_kind_index = \<lparr>
     mig_up = [Create_index delegator_index],
     mig_down = Some [Drop_index ''pubkey_delegator_kind_idx'']\<rparr>"

definition add_kind_tags_created_at_index :: migration where
  "add_kind_tags_created_at_index = \<lparr>
     mig_up = [Create_extension ''btree_gin'' False,
               Create_index (gin_index ''kind_tags_created_at_idx'' ''events''
                 [''event_kind'', ''event_tags'', ''event_created_at''])],
     mig_down = Some [Drop_index ''kind_tags_created_at_idx'', Drop_extension ''btree_gin'' False]\<rparr>"

definition add_remote_address_to_events_table :: migration where
  "add_remote_address_to_events_table = \<lparr>
     mig_up = [Add_column ''events'' (nullable ''remote_address'' Inet)],
     mig_down = Some [Drop_column ''events'' ''remote_address'']\<rparr>"

definition add_expires_at_to_events_table :: migration where
  "add_expires_at_to_events_table = \<lparr>
     mig_up = [Add_column ''events'' (nullable ''expires_at'' Integer),
               Create_index (plain_index ''events'' [''expires_at''])],
     mig_down = Some [Drop_column ''events'' ''expires_at'']\<rparr>"

definition add_event_tags_table :: migration where
  "add_event_tags_table = \<lparr>
     mig_up =
       [Create_table ''event_tags''
          [uuid_key, not_null ''event_id'' Bytea, not_null ''tag_name'' Text_type, not_null ''tag_value'' Text_type],
        Create_index (primary_key ''event_tags'' ''id''),
        Create_index (plain_index ''event_tags'' [''event_id'']),
        Create_index (plain_index ''event_tags'' [''tag_name'', ''tag_value'']),
        Create_function (''process_event_tags'', []) Process_event_tags True,
        Create_trigger ''insert_event_tags'' ''events'' ''process_event_tags'',
        Change_rows Backfill_tags],
     mig_down = Some
       [Drop_trigger ''insert_event_tags'' ''events'', Drop_function (''process_event_tags'', []) True,
        Drop_table ''event_tags'' False]\<rparr>"

definition remove_delegator_from_events_table :: migration where
  "remove_delegator_from_events_table = \<lparr>
     mig_up = [Drop_index ''pubkey_delegator_kind_idx'', Drop_column ''events'' ''event_delegator''],
     mig_down = Some
       [Add_column ''events'' (nullable ''event_delegator'' Bytea),
        Create_index (plain_index ''events'' [''event_delegator'']), Create_index delegator_index]\<rparr>"

section \<open>The tables and functions of the payments\<close>

definition create_invoices_table :: migration where
  "create_invoices_table = \<lparr>
     mig_up =
       [Create_table ''invoices''
          ([uuid_key, not_null ''pubkey'' Bytea, not_null ''bolt11'' Text_type, not_null ''amount_requested'' Bigint,
            nullable ''amount_paid'' Bigint, enum_column ''unit'' [''msats'', ''sats'', ''btc''],
            enum_column ''status'' [''pending'', ''completed'', ''expired''], nullable ''description'' Text_type,
            nullable ''confirmed_at'' Timestamp, nullable ''expires_at'' Timestamp] @ timestamps),
        Create_index (primary_key ''invoices'' ''id''),
        Create_index (plain_index ''invoices'' [''pubkey''])],
     mig_down = Some [Drop_table ''invoices'' False]\<rparr>"

definition create_users_table :: migration where
  "create_users_table = \<lparr>
     mig_up =
       [Create_table ''users''
          ([not_null ''pubkey'' Bytea, with_default ''0'' (nullable ''is_admitted'' Boolean),
            with_default ''0'' (nullable ''balance'' Bigint),
            nullable ''tos_accepted_at'' Timestamp] @ timestamps),
        Create_index (primary_key ''users'' ''pubkey'')],
     mig_down = Some [Drop_table ''users'' False]\<rparr>"

definition confirm_uuid :: signature where
  "confirm_uuid = (''confirm_invoice'', [Uuid, Bigint, Timestamp])"

definition confirm_text :: signature where
  "confirm_text = (''confirm_invoice'', [Text_type, Bigint, Timestamp])"

definition confirm_invoice_func :: migration where
  "confirm_invoice_func = \<lparr>
     mig_up =
       [Create_function (''now_utc'', []) Now_utc False,
        Create_function (''assert_serialized'', []) Assert_serialized False,
        Create_function confirm_uuid Confirm_any_unit True],
     mig_down = Some
       [Drop_function (''confirm_invoice'', [Uuid, Bytea, Timestamp]) True,
        Drop_function (''assert_serialized'', []) True, Drop_function (''now_utc'', []) True]\<rparr>"

definition charge_user_func :: migration where
  "charge_user_func = \<lparr>
     mig_up = [Create_function (''charge_user'', [Bytea, Bigint]) Charge_user True],
     mig_down = Some [Drop_function (''charge_user'', [Bytea, Bigint]) True]\<rparr>"

definition change_invoice_id_to_string :: migration where
  "change_invoice_id_to_string = \<lparr>
     mig_up =
       [Set_type ''invoices'' ''id'' Text_type, Set_default ''invoices'' ''id'' None,
        Create_function confirm_text Confirm_any_unit True],
     mig_down = Some
       [Set_type ''invoices'' ''id'' Uuid, Set_default ''invoices'' ''id'' (Some ''uuid_generate_v4()''),
        Create_function confirm_uuid Confirm_any_unit True]\<rparr>"

definition add_verify_url_to_invoices_table :: migration where
  "add_verify_url_to_invoices_table = \<lparr>
     mig_up = [Add_column ''invoices'' (nullable ''verify_url'' Text_type)],
     mig_down = Some [Drop_column ''invoices'' ''verify_url'']\<rparr>"

text \<open>The variable \<open>unit\<close> of this version has the name of the column that is selected into it.\<close>

definition scale_balance_addition_with_unit :: migration where
  "scale_balance_addition_with_unit = \<lparr>
     mig_up = [Create_function confirm_text Confirm_ambiguous_unit True],
     mig_down = Some [Create_function confirm_text Confirm_any_unit True]\<rparr>"

definition fix_unit_confirm_invoice_func :: migration where
  "fix_unit_confirm_invoice_func = \<lparr>
     mig_up = [Drop_function confirm_uuid False, Drop_function confirm_text False,
               Create_function confirm_text Confirm_by_unit True],
     mig_down = Some [Create_function confirm_text Confirm_any_unit True]\<rparr>"

definition drop_payment_tables :: migration where
  "drop_payment_tables = \<lparr>
     mig_up =
       [Drop_function (''charge_user'', [Bytea, Bigint]) True, Drop_function confirm_uuid True,
        Drop_function (''now_utc'', []) True, Drop_function (''assert_serialized'', []) True,
        Drop_table ''invoices'' True, Drop_table ''users'' True],
     mig_down = None\<rparr>"

section \<open>The order of the files\<close>

definition migrations :: "migration list" where
  "migrations =
     [enable_uuid_ossp_ext, create_events_table, add_events_table_indexes, add_replaceable_events_unique_index,
      add_delegator_to_events_table, add_is_deleted_to_events_table, add_deduplication_to_events_table,
      add_deduplication_to_unique_index, set_deduplication_field, add_group_chat_to_unique_index,
      add_pubkey_delegator_kind_index, create_invoices_table, create_users_table, confirm_invoice_func,
      add_kind_tags_created_at_index, charge_user_func, add_remote_address_to_events_table,
      add_expires_at_to_events_table, change_invoice_id_to_string, add_verify_url_to_invoices_table,
      scale_balance_addition_with_unit, fix_unit_confirm_invoice_func, add_event_tags_table,
      remove_delegator_from_events_table, drop_payment_tables]"

end
