(* ===== verification/Migration_Laws.thy ===== *)
theory Migration_Laws
  imports Migration_Files Event_Query Invoice_Repository
begin

text \<open>
  What the migrations make: the schemas on the way, the unique indexes on the rows of events, the rows
  the migrations change, and the versions of the stored functions.
\<close>

section \<open>Schemas on the way\<close>

text \<open>The database after the first \<open>n\<close> migrations of an empty one.\<close>

definition schema_after :: "nat \<Rightarrow> pg_database" where
  "schema_after n = snd (migrate (take n migrations) empty_database)"

definition same_columns :: "(string \<times> column list) list \<Rightarrow> (string \<times> column list) list \<Rightarrow> bool" where
  "same_columns ts us \<longleftrightarrow> map (\<lambda>(t, cs). (t, set cs)) ts = map (\<lambda>(t, cs). (t, set cs)) us"

text \<open>Two databases agree on everything but the order of columns, indexes and functions.\<close>

definition same_schema :: "pg_database \<Rightarrow> pg_database \<Rightarrow> bool" where
  "same_schema a b \<longleftrightarrow>
     set (sch_extensions a) = set (sch_extensions b) \<and> same_columns (sch_tables a) (sch_tables b)
     \<and> set (sch_indexes a) = set (sch_indexes b) \<and> set (sch_functions a) = set (sch_functions b)
     \<and> set (sch_triggers a) = set (sch_triggers b)"

definition rolls_back :: "migration \<Rightarrow> pg_database \<Rightarrow> bool" where
  "rolls_back m db \<longleftrightarrow>
     (case run_up m db of
        Inl err \<Rightarrow> False
      | Inr db' \<Rightarrow> (case run_down m db' of Inl err \<Rightarrow> False | Inr db'' \<Rightarrow> same_schema db'' db))"

fun rollbacks :: "migration list \<Rightarrow> pg_database \<Rightarrow> bool list" where
  "rollbacks [] db = []"
| "rollbacks (m # ms) db =
     (case run_up m db of Inl err \<Rightarrow> [] | Inr db' \<Rightarrow> rolls_back m db # rollbacks ms db')"

lemma rollbacks_nth:
  "fst (migrate ms db) = None \<Longrightarrow> n < length ms
     \<Longrightarrow> rollbacks ms db ! n = rolls_back (ms ! n) (snd (migrate (take n ms) db))"
  by (induction ms arbitrary: db n) (auto simp: less_Suc_eq_0_disj split: sum.splits)

lemma migrations_succeed: "migrate migrations empty_database = (None, schema_after 25)"
proof -
  have "fst (migrate migrations empty_database) = None" "take 25 migrations = migrations" by code_simp+
  then show ?thesis by (simp add: prod_eq_iff schema_after_def)
qed

lemma same_schema_code [code]:
  "same_schema a b \<longleftrightarrow>
     (if sch_extensions a = sch_extensions b then True else set (sch_extensions a) = set (sch_extensions b))
     \<and> (if sch_tables a = sch_tables b then True else same_columns (sch_tables a) (sch_tables b))
     \<and> (if sch_indexes a = sch_indexes b then True else set (sch_indexes a) = set (sch_indexes b))
     \<and> (if sch_functions a = sch_functions b then True else set (sch_functions a) = set (sch_functions b))
     \<and> (if sch_triggers a = sch_triggers b then True else set (sch_triggers a) = set (sch_triggers b))"
  by (simp add: same_schema_def same_columns_def)

lemma rollbacks_of_all:
  "rollbacks migrations empty_database = map (\<lambda>n. n \<notin> {13, 18, 21, 24}) [0..<25]"
  by code_simp

section \<open>Unique indexes\<close>

lemma distinct_map_filter_iff:
  "distinct xs \<Longrightarrow> distinct (List.map_filter f xs)
     \<longleftrightarrow> (\<forall>x\<in>set xs. \<forall>y\<in>set xs. f x = f y \<longrightarrow> f x \<noteq> None \<longrightarrow> x = y)"
proof (induction xs)
  case (Cons x xs)
  have mem: "z \<in> set (List.map_filter f xs) \<longleftrightarrow> (\<exists>y\<in>set xs. f y = Some z)" for z
    by (auto simp: List.map_filter_def image_iff)
  show ?case
  proof (cases "f x")
    case None
    then show ?thesis using Cons by (auto simp: List.map_filter_simps)
  next
    case (Some z)
    then show ?thesis using Cons mem by (auto simp: List.map_filter_simps)
  qed
qed (simp add: List.map_filter_def)

lemma index_entry_id [simp]:
  "index_entry (unique_index n t [''event_id''] None) r = Some [Key_bytes (event_id r)]"
  by (simp add: index_entry_def unique_index_def column_key_def)

lemma index_entry_key [simp]: "index_entry (primary_key t ''id'') r = None"
  by (simp add: index_entry_def primary_key_def unique_index_def column_key_def)

lemma index_entry_replaceable [simp]:
  "index_entry (replaceable_index deduplicated p) r =
     (if kind_holds p (event_kind r)
      then map_option (\<lambda>j. [Key_bytes (event_pubkey r), Key_int (event_kind r), Key_json j]) (event_deduplication r)
      else None)"
  by (cases "event_deduplication r")
     (simp_all add: index_entry_def replaceable_index_def unique_index_def column_key_def deduplicated_def)

lemma unique_on_events:
  "unique_on (unique_index n ''events'' cs p) rows \<longleftrightarrow> entries_distinct (unique_index n ''events'' cs p) (events rows)"
  by (simp add: unique_on_def unique_index_def)

lemma unique_on_other [simp]:
  "unique_on (plain_index t cs) rows" "unique_on (gin_index n t cs) rows"
  "t \<noteq> ''events'' \<Longrightarrow> unique_on (unique_index n t cs p) rows"
  by (simp_all add: unique_on_def plain_index_def gin_index_def unique_index_def)

lemma unique_on_key [simp]: "unique_on (primary_key t ''id'') rows"
  by (cases "t = ''events''")
     (simp_all add: unique_on_def entries_distinct_def List.map_filter_def primary_key_def unique_index_def
        index_entry_def column_key_def)

lemma unique_on_id [simp]:
  "unique_on (unique_index n ''events'' [''event_id''] None) rows \<longleftrightarrow> distinct (map event_id (events rows))"
  by (simp add: unique_on_events entries_distinct_def List.map_filter_def comp_def distinct_map inj_on_def)

lemma unique_on_replaceable:
  assumes "distinct (map event_id (events rows))"
  shows "unique_on (replaceable_index deduplicated p) rows \<longleftrightarrow>
    (\<forall>r\<in>set (events rows). \<forall>s\<in>set (events rows). kind_holds p (event_kind r)
       \<longrightarrow> event_pubkey r = event_pubkey s \<longrightarrow> event_kind r = event_kind s
       \<longrightarrow> event_deduplication r = event_deduplication s \<longrightarrow> event_deduplication r \<noteq> None \<longrightarrow> r = s)"
proof -
  have "distinct (events rows)" using assms by (simp add: distinct_map)
  then have "unique_on (replaceable_index deduplicated p) rows \<longleftrightarrow>
      (\<forall>r\<in>set (events rows). \<forall>s\<in>set (events rows).
         index_entry (replaceable_index deduplicated p) r = index_entry (replaceable_index deduplicated p) s
         \<longrightarrow> index_entry (replaceable_index deduplicated p) r \<noteq> None \<longrightarrow> r = s)"
    by (simp add: unique_on_def replaceable_index_def unique_index_def entries_distinct_def distinct_map_filter_iff
        del: index_entry_replaceable)
  also have "\<dots> \<longleftrightarrow> (\<forall>r\<in>set (events rows). \<forall>s\<in>set (events rows). kind_holds p (event_kind r)
       \<longrightarrow> event_pubkey r = event_pubkey s \<longrightarrow> event_kind r = event_kind s
       \<longrightarrow> event_deduplication r = event_deduplication s \<longrightarrow> event_deduplication r \<noteq> None \<longrightarrow> r = s)"
  proof (intro ball_cong refl)
    fix r s
    show "(index_entry (replaceable_index deduplicated p) r = index_entry (replaceable_index deduplicated p) s
         \<longrightarrow> index_entry (replaceable_index deduplicated p) r \<noteq> None \<longrightarrow> r = s) \<longleftrightarrow> (kind_holds p (event_kind r)
       \<longrightarrow> event_pubkey r = event_pubkey s \<longrightarrow> event_kind r = event_kind s
       \<longrightarrow> event_deduplication r = event_deduplication s \<longrightarrow> event_deduplication r \<noteq> None \<longrightarrow> r = s)"
      by (cases "event_deduplication r"; cases "event_deduplication s") (auto split: if_splits)
  qed
  finally show ?thesis .
qed

lemma group_chat_kinds: "kind_holds group_chat_replaceable k \<longleftrightarrow> in_replaceable_index k"
  by (auto simp: group_chat_replaceable_def in_replaceable_index_def)

lemma indexes_of_all:
  "sch_indexes (schema_after 25) =
     [primary_key ''events'' ''id'', unique_index ''events_event_id_unique'' ''events'' [''event_id''] None,
      plain_index ''events'' [''event_id''], plain_index ''events'' [''event_pubkey''],
      plain_index ''events'' [''event_kind''], plain_index ''events'' [''event_created_at''],
      gin_index ''event_tags_idx'' ''events'' [''event_tags''],
      replaceable_index deduplicated group_chat_replaceable,
      gin_index ''kind_tags_created_at_idx'' ''events'' [''event_kind'', ''event_tags'', ''event_created_at''],
      plain_index ''events'' [''expires_at''], primary_key ''event_tags'' ''id'',
      plain_index ''event_tags'' [''event_id''], plain_index ''event_tags'' [''tag_name'', ''tag_value'']]"
  by code_simp

lemma indexes_are_the_constraints:
  "(\<forall>i\<in>set (sch_indexes (schema_after 25)). unique_on i rows) \<longleftrightarrow>
     distinct (map event_id (events rows))
     \<and> (\<forall>r\<in>set (events rows). \<forall>s\<in>set (events rows). index_conflict r s \<longrightarrow> r = s)"
proof (cases "distinct (map event_id (events rows))")
  case True
  have "unique_on (replaceable_index deduplicated group_chat_replaceable) rows \<longleftrightarrow>
      (\<forall>r\<in>set (events rows). \<forall>s\<in>set (events rows). index_conflict r s \<longrightarrow> r = s)"
    unfolding unique_on_replaceable [OF True] index_conflict_def group_chat_kinds
    by (intro ball_cong refl) auto
  then show ?thesis using True by (simp add: indexes_of_all)
qed (simp add: indexes_of_all)

section \<open>Channel metadata\<close>

text \<open>The database before kind 41 joins the unique index, with rows.\<close>

lemma before_group_chat:
  "sch_indexes (schema_after 9) =
     [primary_key ''events'' ''id'', unique_index ''events_event_id_unique'' ''events'' [''event_id''] None,
      plain_index ''events'' [''event_id''], plain_index ''events'' [''event_pubkey''],
      plain_index ''events'' [''event_kind''], plain_index ''events'' [''event_created_at''],
      gin_index ''event_tags_idx'' ''events'' [''event_tags''],
      plain_index ''events'' [''event_delegator''],
      replaceable_index deduplicated parameterized_replaceable]"
  "list_ex (\<lambda>c. column_of (schema_after 9) ''events'' c = None) deduplicated = False"
  by code_simp+

lemma index_names [simp]:
  "idx_name (replaceable_index cs p) = ''replaceable_events_idx''" "idx_name (unique_index n t cs q) = n"
  "idx_table (replaceable_index cs p) = ''events''" "idx_columns (replaceable_index cs p) = cs"
  "uses_btree_gin db (replaceable_index cs p) = False"
  by (simp_all add: replaceable_index_def unique_index_def uses_btree_gin_def)

lemma column_of_rows [simp]: "column_of (db\<lparr>pg_rows := rows\<rparr>) = column_of db"
  "column_of (db\<lparr>sch_indexes := is\<rparr>) = column_of db"
  by (simp_all add: column_of_def fun_eq_iff)

lemma other_index_names:
  "idx_name (primary_key t c) = t @ ''_pkey''"
  "idx_name (plain_index t cs) = t @ concat (map (\<lambda>c. CHR ''_'' # c) cs) @ ''_index''"
  "idx_name (gin_index n t cs) = n"
  by (simp_all add: primary_key_def unique_index_def plain_index_def gin_index_def)

definition metadata_rows :: "event_db \<Rightarrow> event_db" where
  "metadata_rows rows = rows\<lparr>events := deduplicate_metadata (prune_metadata (events rows))\<rparr>"

lemma deduplicate_metadata_ids [simp]:
  "map event_id (deduplicate_metadata rows) = map event_id rows"
  by (simp add: deduplicate_metadata_def)

lemma prune_metadata_ids: "distinct (map event_id rows) \<Longrightarrow> distinct (map event_id (prune_metadata rows))"
  by (simp add: prune_metadata_def distinct_map_filter)

lemma group_chat_run:
  assumes "distinct (map event_id (events rows))"
  shows "run_up add_group_chat_to_unique_index ((schema_after 9)\<lparr>pg_rows := rows\<rparr>) =
    (if unique_on (replaceable_index deduplicated group_chat_replaceable) (metadata_rows rows)
     then Inr ((schema_after 9)\<lparr>pg_rows := metadata_rows rows,
       sch_indexes := filter (\<lambda>i. idx_name i \<noteq> ''replaceable_events_idx'') (sch_indexes (schema_after 9))
         @ [replaceable_index deduplicated group_chat_replaceable]\<rparr>)
     else Inl unique_violation)"
  using assms prune_metadata_ids [OF assms] before_group_chat(2)
  by (simp add: run_up_def add_group_chat_to_unique_index_def create_index_def before_group_chat(1) metadata_rows_def
      other_index_names)

definition latest_metadata :: "dbevent list \<Rightarrow> dbevent \<Rightarrow> bool" where
  "latest_metadata rows a \<longleftrightarrow> a \<in> set rows \<and> event_kind a = 41 \<and> \<not> superseded rows a"

definition with_metadata_key :: "dbevent \<Rightarrow> dbevent" where
  "with_metadata_key a = (if event_kind a = 41
     then a\<lparr>event_deduplication := Some (JArr [JStr (fromBuffer (event_pubkey a)), JNum (event_kind a)])\<rparr> else a)"

lemma with_metadata_key_simps [simp]:
  "event_id (with_metadata_key a) = event_id a" "event_kind (with_metadata_key a) = event_kind a"
  "event_pubkey (with_metadata_key a) = event_pubkey a"
  "event_kind a \<noteq> 41 \<Longrightarrow> with_metadata_key a = a"
  "event_kind a = 41 \<Longrightarrow> event_deduplication (with_metadata_key a)
     = Some (JArr [JStr (fromBuffer (event_pubkey a)), JNum 41])"
  by (simp_all add: with_metadata_key_def)

lemma metadata_events:
  "events (metadata_rows rows) = map with_metadata_key (prune_metadata (events rows))"
proof -
  have "\<not> superseded (prune_metadata (events rows)) a"
    if "a \<in> set (prune_metadata (events rows))" "event_kind a = 41" for a
    using that by (auto simp: prune_metadata_def superseded_def list_ex_iff)
  then show ?thesis
    by (auto simp: metadata_rows_def deduplicate_metadata_def with_metadata_key_def)
qed

lemma group_chat_unique:
  assumes ids: "distinct (map event_id (events rows))"
    and old: "unique_on (replaceable_index deduplicated parameterized_replaceable) rows"
  shows "unique_on (replaceable_index deduplicated group_chat_replaceable) (metadata_rows rows) \<longleftrightarrow>
    (\<forall>a b. latest_metadata (events rows) a \<longrightarrow> latest_metadata (events rows) b
       \<longrightarrow> event_pubkey a = event_pubkey b \<longrightarrow> a = b)"
proof -
  have "distinct (map event_id (events (metadata_rows rows)))"
    using prune_metadata_ids [OF ids] by (simp add: metadata_rows_def)
  note new = unique_on_replaceable [OF this]
  have same: "a = b" if "with_metadata_key a = with_metadata_key b" "a \<in> set (events rows)" "b \<in> set (events rows)" for a b
  proof -
    have "event_id a = event_id b" using that(1) by (metis with_metadata_key_simps(1))
    then show ?thesis using ids that(2,3) by (auto simp: distinct_map inj_on_def)
  qed
  have kinds: "kind_holds group_chat_replaceable k \<longleftrightarrow> k = 41 \<or> kind_holds parameterized_replaceable k" for k
    by (auto simp: group_chat_replaceable_def parameterized_replaceable_def regular_replaceable_def)
  have old': "a = b" if "a \<in> set (events rows)" "b \<in> set (events rows)" "kind_holds parameterized_replaceable (event_kind a)"
      "event_pubkey a = event_pubkey b" "event_kind a = event_kind b" "event_deduplication a = event_deduplication b"
      "event_deduplication a \<noteq> None" for a b
    using old that unfolding unique_on_replaceable [OF ids] by blast
  have mem: "latest_metadata (events rows) a \<longleftrightarrow> a \<in> set (prune_metadata (events rows)) \<and> event_kind a = 41" for a
    by (auto simp: latest_metadata_def prune_metadata_def)
  have sub: "a \<in> set (events rows)" if "a \<in> set (prune_metadata (events rows))" for a
    using that by (auto simp: prune_metadata_def)
  show ?thesis
  proof
    assume u: "unique_on (replaceable_index deduplicated group_chat_replaceable) (metadata_rows rows)"
    have "a = b" if ab: "latest_metadata (events rows) a" "latest_metadata (events rows) b" "event_pubkey a = event_pubkey b" for a b
    proof -
      have "with_metadata_key a = with_metadata_key b"
        using u [unfolded new metadata_events, rule_format, of "with_metadata_key a" "with_metadata_key b"] ab
        by (simp add: mem kinds)
      then show ?thesis
        by (rule same) (use ab sub in \<open>simp_all add: mem\<close>)
    qed
    then show "\<forall>a b. latest_metadata (events rows) a \<longrightarrow> latest_metadata (events rows) b
        \<longrightarrow> event_pubkey a = event_pubkey b \<longrightarrow> a = b" by blast
  next
    assume one: "\<forall>a b. latest_metadata (events rows) a \<longrightarrow> latest_metadata (events rows) b
        \<longrightarrow> event_pubkey a = event_pubkey b \<longrightarrow> a = b"
    have "with_metadata_key a = with_metadata_key b"
      if "a \<in> set (prune_metadata (events rows))" "b \<in> set (prune_metadata (events rows))"
        "kind_holds group_chat_replaceable (event_kind a)" "event_pubkey a = event_pubkey b" "event_kind a = event_kind b"
        "event_deduplication (with_metadata_key a) = event_deduplication (with_metadata_key b)"
        "event_deduplication (with_metadata_key a) \<noteq> None" for a b
      using that one sub old' [of a b] by (cases "event_kind a = 41") (auto simp: mem kinds)
    then show "unique_on (replaceable_index deduplicated group_chat_replaceable) (metadata_rows rows)"
      unfolding new metadata_events by auto
  qed
qed

section \<open>The deduplication of replaceable events\<close>

lemma right_64_hex:
  assumes "length pk = 32"
  shows "right_64 (bytea_text pk) = fromBuffer pk"
  using assms by (simp add: right_64_def bytea_text_def)

lemma replaceable_deduplication_upsert:
  assumes "event_pubkey r = toBuffer (pubkey e)" "event_kind r = kind e" "lower_hex (pubkey e)" "length (pubkey e) = 64"
    "meta_deduplication e = None"
  shows "replaceable_deduplication r = deduplication_of e"
    and "JArr [JStr (fromBuffer (event_pubkey r)), JNum (event_kind r)] = deduplication_of e"
proof -
  have "length (toBuffer (pubkey e)) = 32" using length_toBuffer [of "pubkey e"] assms(3,4) by simp
  then show "replaceable_deduplication r = deduplication_of e"
    using assms by (simp add: replaceable_deduplication_def right_64_hex deduplication_of_def)
  show "JArr [JStr (fromBuffer (event_pubkey r)), JNum (event_kind r)] = deduplication_of e"
    using assms by (simp add: deduplication_of_def)
qed

section \<open>The table of tags\<close>

text \<open>Tags whose name and value are their own text in JSON.\<close>

definition plain_tag :: "tag \<Rightarrow> bool" where
  "plain_tag t \<longleftrightarrow> t \<noteq> [] \<and> list_all (list_all (\<lambda>c. json_char c = [c])) (take 2 t)"

lemma backfill_tag_trigger:
  assumes "plain_tag t"
  shows "backfill_tag i t = Inr (case tag_row_of i t of None \<Rightarrow> [] | Some row \<Rightarrow> [row])"
proof -
  have "pg_tag_text w = w" if "list_all (\<lambda>c. json_char c = [c]) w" for w
    using pg_tag_text_plain [of w w] that
    by (cases "w = []") (simp_all add: plain_text_def pg_tag_text_def json_string_def trim_quotes_def)
  then show ?thesis
    using assms by (cases "(i, t)" rule: backfill_tag.cases) (auto simp: plain_tag_def tag_row_of_def js_at_iff)
qed

lemma backfill_row_tags_trigger:
  "list_all plain_tag ts \<Longrightarrow> backfill_row_tags i ts = Inr (List.map_filter (tag_row_of i) ts)"
  by (induction ts) (auto simp: backfill_tag_trigger List.map_filter_simps split: option.splits)

lemma backfill_tags_trigger:
  assumes "distinct (map event_id rows)" "\<forall>t\<in>set tbl. tr_event_id t \<notin> event_id ` set rows"
    "\<forall>r\<in>set rows. list_all plain_tag (event_tags r)"
  shows "backfill_tags rows tbl = Inr (fold trigger_insert rows tbl)"
  using assms
proof (induction rows arbitrary: tbl)
  case (Cons r rs)
  have "\<not> list_ex (\<lambda>t. tr_event_id t = event_id r) tbl" using Cons.prems(2) by (auto simp: list_ex_iff)
  moreover have "\<forall>t\<in>set (tbl @ tag_rows r). tr_event_id t \<notin> event_id ` set rs"
    using Cons.prems(1,2) tag_rows_id by (auto simp: image_iff)
  ultimately show ?case
    using Cons.IH [of "tbl @ tag_rows r"] Cons.prems by (simp add: backfill_row_tags_trigger trigger_insert_def tag_rows_def)
qed simp

end
