(* ===== verification/Stored_Functions.thy ===== *)
theory Stored_Functions
  imports Migration_Laws
begin

text \<open>
  The stored functions of the payments in the versions the migrations give them. The parameters of
  \<open>select confirm_invoice(?, ?, ?)\<close> have no type, so PostgreSQL prefers the version over text. The
  functions call \<open>ASSERT_SERIALIZED\<close> and \<open>now_utc\<close>, which are looked up when they run.
\<close>

section \<open>Versions of \<open>confirm_invoice\<close>\<close>

text \<open>The first version credits the amount whatever the unit.\<close>

definition confirm_any_unit ::
  "bool \<Rightarrow> int \<Rightarrow> string \<Rightarrow> int \<Rightarrow> int \<Rightarrow> payment_db \<Rightarrow> (js_error + unit) \<times> payment_db" where
  "confirm_any_unit serializable now invoiceId amountPaid confirmedAt db =
     (if \<not> serializable then (Inl (PgError ''SN_NOT_SERIALIZABLE''), db)
      else
        (case (pay_invoices db, pay_users db) of
           (Some invs, Some users) \<Rightarrow>
             if \<not> int8 amountPaid then (Inl out_of_range8, db)
             else
               (case find (\<lambda>r. di_id r = invoiceId) invs of
                  None \<Rightarrow> (Inr (), db)
                | Some r \<Rightarrow>
                    if di_confirmed_at r \<noteq> None then (Inr (), db)
                    else
                      (let users' = map (credit_user (di_pubkey r) amountPaid) users
                       in if list_ex (\<lambda>u. \<not> int8 (db_balance u)) users' then (Inl out_of_range8, db)
                          else (Inr (), \<lparr>pay_users = Some users',
                                 pay_invoices = Some (map (\<lambda>r. if di_id r = invoiceId
                                   then confirm_row now amountPaid confirmedAt r else r) invs)\<rparr>)))
         | _ \<Rightarrow> (Inl missing_invoices, db)))"

text \<open>The second version selects the column \<open>unit\<close> into a variable of the same name.\<close>

definition confirm_ambiguous_unit ::
  "bool \<Rightarrow> int \<Rightarrow> string \<Rightarrow> int \<Rightarrow> int \<Rightarrow> payment_db \<Rightarrow> (js_error + unit) \<times> payment_db" where
  "confirm_ambiguous_unit serializable now invoiceId amountPaid confirmedAt db =
     (if \<not> serializable then (Inl (PgError ''SN_NOT_SERIALIZABLE''), db)
      else (Inl (PgError ''column reference unit is ambiguous''), db))"

definition resolve_confirm :: "pg_database \<Rightarrow> fn_body option" where
  "resolve_confirm db =
     (case map_of (sch_functions db) confirm_text of
        Some body \<Rightarrow> Some body
      | None \<Rightarrow> map_of (sch_functions db) confirm_uuid)"

definition helpers_defined :: "pg_database \<Rightarrow> bool" where
  "helpers_defined db \<longleftrightarrow> map_of (sch_functions db) (''assert_serialized'', []) \<noteq> None
     \<and> map_of (sch_functions db) (''now_utc'', []) \<noteq> None"

definition call_confirm_invoice ::
  "pg_database \<Rightarrow> bool \<Rightarrow> int \<Rightarrow> string \<Rightarrow> int \<Rightarrow> int \<Rightarrow> payment_db \<Rightarrow> (js_error + unit) \<times> payment_db" where
  "call_confirm_invoice schema serializable now invoiceId amountPaid confirmedAt db =
     (case resolve_confirm schema of
        None \<Rightarrow> (Inl (does_not_exist ''function confirm_invoice''), db)
      | Some body \<Rightarrow>
          if \<not> helpers_defined schema then (Inl (does_not_exist ''function assert_serialized()''), db)
          else if body = Confirm_any_unit then confirm_any_unit serializable now invoiceId amountPaid confirmedAt db
          else if body = Confirm_ambiguous_unit
          then confirm_ambiguous_unit serializable now invoiceId amountPaid confirmedAt db
          else confirm_invoice serializable now invoiceId amountPaid confirmedAt db)"

section \<open>\<open>charge_user\<close>\<close>

text \<open>The balance of a user who does not exist is \<open>NULL\<close>, and so is the comparison.\<close>

definition charge_user :: "bool \<Rightarrow> bytes \<Rightarrow> int \<Rightarrow> user_table \<Rightarrow> (js_error + int) \<times> user_table" where
  "charge_user serializable charged_user amount users =
     (if \<not> serializable then (Inl (PgError ''SN_NOT_SERIALIZABLE''), users)
      else
        (case users of
           None \<Rightarrow> (Inl missing_table, users)
         | Some us \<Rightarrow>
             if \<not> int8 amount then (Inl out_of_range8, users)
             else
               (case find (\<lambda>u. db_pubkey u = charged_user) us of
                  None \<Rightarrow> (Inr 0, users)
                | Some u \<Rightarrow>
                    if \<not> int8 (db_balance u - amount) then (Inl out_of_range8, users)
                    else if db_balance u - amount \<ge> 0
                    then (Inr 1, Some (map (\<lambda>v. if db_pubkey v = charged_user
                                 then v\<lparr>db_balance := db_balance v - amount\<rparr> else v) us))
                    else (Inr 0, users))))"

section \<open>Lemmas\<close>

fun schema_trace :: "migration list \<Rightarrow> pg_database \<Rightarrow> pg_database list" where
  "schema_trace [] db = [db]"
| "schema_trace (m # ms) db = db # (case run_up m db of Inl err \<Rightarrow> [] | Inr db' \<Rightarrow> schema_trace ms db')"

lemma schema_trace_nth:
  "fst (migrate ms db) = None \<Longrightarrow> n \<le> length ms \<Longrightarrow> schema_trace ms db ! n = snd (migrate (take n ms) db)"
  by (induction ms arbitrary: db n) (auto simp: nth_Cons' take_Cons' split: sum.splits)

lemma schema_trace_length: "fst (migrate ms db) = None \<Longrightarrow> length (schema_trace ms db) = Suc (length ms)"
  by (induction ms arbitrary: db) (auto split: sum.splits)

lemma length_migrations: "length migrations = 25"
  by (simp add: migrations_def)

lemma traced:
  assumes "map P (schema_trace migrations empty_database) = xs" "n \<le> 25"
  shows "P (schema_after n) = xs ! n"
proof -
  have ok: "fst (migrate migrations empty_database) = None" using migrations_succeed by simp
  have "P (schema_trace migrations empty_database ! n) = xs ! n"
    using assms schema_trace_length [OF ok] by (auto simp: length_migrations)
  then show ?thesis
    using schema_trace_nth [OF ok, of n] assms(2) by (simp add: length_migrations schema_after_def)
qed

lemma confirm_versions:
  "map (\<lambda>db. (resolve_confirm db, helpers_defined db)) (schema_trace migrations empty_database) =
     replicate 14 (None, False) @ replicate 7 (Some Confirm_any_unit, True) @ [(Some Confirm_ambiguous_unit, True)]
     @ replicate 3 (Some Confirm_by_unit, True) @ [(Some Confirm_by_unit, False)]"
  by code_simp

lemma confirm_any_unit_msats:
  assumes "\<forall>invs. pay_invoices db = Some invs \<longrightarrow> (\<forall>r\<in>set invs. di_id r = i \<longrightarrow> di_unit r = MSATS)"
  shows "confirm_any_unit ser now i amount date db = confirm_invoice ser now i amount date db"
proof (cases "pay_invoices db")
  case (Some invs)
  show ?thesis
  proof (cases "find (\<lambda>r. di_id r = i) invs")
    case found: (Some r)
    then have "r \<in> set invs" "di_id r = i" by (auto simp: find_Some_iff)
    then have "di_unit r = MSATS" using assms Some by blast
    then show ?thesis
      using Some found by (simp add: confirm_any_unit_def confirm_invoice_def Let_def split: option.split)
  qed (use Some in \<open>simp add: confirm_any_unit_def confirm_invoice_def split: option.split\<close>)
qed (simp add: confirm_any_unit_def confirm_invoice_def)

text \<open>The versions differ in the credit: a payment in satoshi is credited as one in millisatoshi.\<close>

lemma confirm_any_unit_credit:
  assumes "confirm_any_unit True now i amount date db = (Inr (), db')" "pay_invoices db = Some invs"
    "pay_users db = Some users" "find (\<lambda>r. di_id r = i) invs = Some r" "di_confirmed_at r = None"
  shows "pay_users db' = Some (map (credit_user (di_pubkey r) amount) users)"
  using assms by (auto simp: confirm_any_unit_def Let_def split: if_splits)

lemma charge_user_balances:
  assumes "charge_user ser pk amount (Some us) = (res, Some us')" "distinct (map db_pubkey us)"
    "\<forall>u\<in>set us. 0 \<le> db_balance u"
  shows "\<forall>u\<in>set us'. 0 \<le> db_balance u"
proof (cases "find (\<lambda>u. db_pubkey u = pk) us")
  case (Some u)
  then have "u \<in> set us" "db_pubkey u = pk" by (auto simp: find_Some_iff)
  then have "v = u" if "v \<in> set us" "db_pubkey v = pk" for v
    using assms(2) that by (auto simp: distinct_map inj_on_def)
  then show ?thesis
    using assms Some by (auto simp: charge_user_def split: if_splits)
qed (use assms in \<open>auto simp: charge_user_def split: if_splits\<close>)

end
