(* ===== verification/Migration_Safety.thy ===== *)
theory Migration_Safety
  imports Stored_Functions Payment_Safety
begin

text \<open>
  What the migrations promise: the tables they make are the ones the rest of the development works on,
  what they do to rows that are there already, what a rollback gives back, and which version of the
  stored function the payments meet.
\<close>

section \<open>The tables\<close>

lemma event_columns:
  "map_option (map (\<lambda>c. (col_name c, col_type c))) (map_of (sch_tables (schema_after 25)) ''events'') = Some
     [(''id'', Uuid), (''event_id'', Bytea), (''event_pubkey'', Bytea), (''event_kind'', Integer),
      (''event_created_at'', Integer), (''event_content'', Text_type), (''event_tags'', Jsonb),
      (''event_signature'', Bytea), (''first_seen'', Timestamp), (''deleted_at'', Timestamp),
      (''event_deduplication'', Jsonb), (''remote_address'', Inet), (''expires_at'', Integer)]"
  by code_simp

text \<open>C19. The migrations run on an empty database without an error and leave the columns that rows of
  events are modelled with; the unique indexes they leave hold of rows exactly if identifiers are
  distinct and no two rows are in conflict, the two constraints the repository relies on; and the
  predicate of the partial index is exactly the condition under which an event gets a strategy that
  upserts.\<close>

theorem migrations_build_the_modelled_tables:
  "migrate migrations empty_database = (None, schema_after 25)
   \<and> map_option (map (\<lambda>c. (col_name c, col_type c))) (map_of (sch_tables (schema_after 25)) ''events'') = Some
       [(''id'', Uuid), (''event_id'', Bytea), (''event_pubkey'', Bytea), (''event_kind'', Integer),
        (''event_created_at'', Integer), (''event_content'', Text_type), (''event_tags'', Jsonb),
        (''event_signature'', Bytea), (''first_seen'', Timestamp), (''deleted_at'', Timestamp),
        (''event_deduplication'', Jsonb), (''remote_address'', Inet), (''expires_at'', Integer)]
   \<and> ((\<forall>i\<in>set (sch_indexes (schema_after 25)). unique_on i rows) \<longleftrightarrow>
       distinct (map event_id (events rows))
       \<and> (\<forall>r\<in>set (events rows). \<forall>s\<in>set (events rows). index_conflict r s \<longrightarrow> r = s))
   \<and> (eventStrategyFactory e \<in> {ReplaceableEventStrategy, ParameterizedReplaceableEventStrategy} \<longleftrightarrow>
       (\<exists>i\<in>set (sch_indexes (schema_after 25)). \<exists>p. idx_where i = Some p \<and> kind_holds p (kind e)))"
proof -
  have preds: "(\<exists>p. idx_where i = Some p \<and> kind_holds p k) \<longleftrightarrow> in_replaceable_index k"
    if "i = replaceable_index deduplicated group_chat_replaceable" for i k
    using that group_chat_kinds by (simp add: replaceable_index_def unique_index_def)
  have none: "idx_where (primary_key t c) = None" "idx_where (unique_index n t cs None) = None"
    "idx_where (plain_index t cs) = None" "idx_where (gin_index n t cs) = None" for t c n cs
    by (simp_all add: primary_key_def unique_index_def plain_index_def gin_index_def)
  have "(\<exists>i\<in>set (sch_indexes (schema_after 25)). \<exists>p. idx_where i = Some p \<and> kind_holds p (kind e))
      \<longleftrightarrow> in_replaceable_index (kind e)"
    by (simp add: indexes_of_all none preds del: group_chat_kinds)
  moreover have "eventStrategyFactory e \<in> {ReplaceableEventStrategy, ParameterizedReplaceableEventStrategy}
      \<longleftrightarrow> in_replaceable_index (kind e)"
    by (auto simp: eventStrategyFactory_def in_replaceable_index_def kind_tests)
  ultimately show ?thesis
    using migrations_succeed event_columns indexes_are_the_constraints by blast
qed

lemma migrations_build_the_modelled_tables_witness:
  "list_all (\<lambda>i. unique_on i \<lparr>events = [insert_row_of (sample_note 0)], tag_table = []\<rparr>) (sch_indexes (schema_after 25))"
  using migrations_build_the_modelled_tables [of "\<lparr>events = [insert_row_of (sample_note 0)], tag_table = []\<rparr>"]
  by (simp add: list_all_iff)

section \<open>Rollbacks\<close>

lemma rolls_back_nth:
  assumes "n < 25"
  shows "rolls_back (migrations ! n) (schema_after n) \<longleftrightarrow> n \<notin> {13, 18, 21, 24}"
proof -
  have "fst (migrate migrations empty_database) = None" by (simp add: migrations_succeed)
  from rollbacks_nth [OF this, of n]
  have "rollbacks migrations empty_database ! n = rolls_back (migrations ! n) (schema_after n)"
    using assms by (simp only: length_migrations schema_after_def)
  then show ?thesis using assms unfolding rollbacks_of_all by simp
qed

definition one_way_migrations :: "migration list" where
  "one_way_migrations =
     [confirm_invoice_func, change_invoice_id_to_string, fix_unit_confirm_invoice_func, drop_payment_tables]"

lemma one_way_positions:
  "map (\<lambda>m. m \<in> set one_way_migrations) migrations = map (\<lambda>n. n \<in> {13, 18, 21, 24}) [0..<25]"
  by code_simp

lemma one_way_nth:
  assumes "n < 25"
  shows "migrations ! n \<in> set one_way_migrations \<longleftrightarrow> n \<in> {13, 18, 21, 24}"
  using arg_cong [OF one_way_positions, of "\<lambda>xs. xs ! n"] assms by (simp add: length_migrations)

lemma drop_payment_tables_down: "\<exists>err. run_down drop_payment_tables db = Inl err"
  by (simp add: run_down_def drop_payment_tables_def)

lemma fix_unit_again:
  "Option.bind (case run_down fix_unit_confirm_invoice_func (schema_after 22) of Inr db \<Rightarrow> Some db | Inl err \<Rightarrow> None)
     (\<lambda>db. case run_up fix_unit_confirm_invoice_func db of Inl err \<Rightarrow> Some err | Inr db' \<Rightarrow> None)
   = Some (does_not_exist ''confirm_invoice'')"
  by code_simp

text \<open>C29. Rolling a migration back right after it has run restores the extensions, tables, columns,
  indexes, functions and triggers of before, for all migrations but four: the rollback of
  \<open>confirm_invoice\<close> names other parameter types and leaves the function, the one of the change of
  the identifiers leaves the new function beside the old, and the one of the fix of the units does not
  bring back the function over identifiers that it dropped, so that the migration cannot run again. The
  last migration refuses to be rolled back.\<close>

theorem rollbacks_restore_the_schema:
  assumes "n < 25"
  shows "(rolls_back (migrations ! n) (schema_after n) \<longleftrightarrow>
      migrations ! n \<notin> {confirm_invoice_func, change_invoice_id_to_string, fix_unit_confirm_invoice_func,
        drop_payment_tables})
    \<and> (\<exists>db. run_down fix_unit_confirm_invoice_func (schema_after 22) = Inr db
         \<and> run_up fix_unit_confirm_invoice_func db = Inl (does_not_exist ''confirm_invoice''))
    \<and> (\<exists>err. run_down drop_payment_tables (schema_after 25) = Inl err)"
proof (intro conjI)
  show "rolls_back (migrations ! n) (schema_after n) \<longleftrightarrow>
      migrations ! n \<notin> {confirm_invoice_func, change_invoice_id_to_string, fix_unit_confirm_invoice_func,
        drop_payment_tables}"
    using rolls_back_nth [OF assms] one_way_nth [OF assms] by (simp add: one_way_migrations_def)
  show "\<exists>db. run_down fix_unit_confirm_invoice_func (schema_after 22) = Inr db
      \<and> run_up fix_unit_confirm_invoice_func db = Inl (does_not_exist ''confirm_invoice'')"
    using fix_unit_again by (simp split: sum.splits)
qed (rule drop_payment_tables_down)

lemma rollbacks_restore_the_schema_witness:
  "rolls_back (migrations ! 23) (schema_after 23)"
proof -
  have "migrations ! 23 \<notin> set one_way_migrations" using one_way_nth [of 23] by simp
  then show ?thesis using rollbacks_restore_the_schema [of 23] by (simp add: one_way_migrations_def)
qed

section \<open>Rows that are there already\<close>


text \<open>One author who set the metadata of two channels.\<close>

definition channel_row :: "char \<Rightarrow> dbevent" where
  "channel_row c = insert_row_of ((sample_note 41)\<lparr>evt_id := replicate 64 c, tags := [[''e'', [c]]]\<rparr>)"

definition two_channels :: event_db where
  "two_channels = \<lparr>events = [channel_row (CHR ''1''), channel_row (CHR ''2'')], tag_table = []\<rparr>"

lemma channel_row_simps [simp]:
  "event_id (channel_row c) = toBuffer (replicate 64 c)" "event_kind (channel_row c) = 41"
  "event_tags (channel_row c) = [[''e'', [c]]]" "event_deduplication (channel_row c) = None"
  "event_pubkey (channel_row c) = toBuffer (replicate 64 (CHR ''b''))" "event_created_at (channel_row c) = 1500"
  by (simp_all add: channel_row_def insert_row_of_def)

lemma two_channel_ids: "toBuffer (replicate 64 (CHR ''1'')) \<noteq> toBuffer (replicate 64 (CHR ''2''))"
  by code_simp


text \<open>The keys the migrations give to the rows of replaceable events and of channel metadata are the
  keys of the repository: an event that is upserted later conflicts with the row its author had before
  the migration, which it therefore replaces.\<close>

theorem migrated_rows_are_replaced:
  assumes "lower_hex (pubkey e)" "length (pubkey e) = 64" "meta_deduplication e = None"
    and "event_pubkey r = toBuffer (pubkey e)" "event_kind r = kind e" "r \<in> set (events rows)"
  shows "(kind e \<in> {0, 3} \<or> 10000 \<le> kind e \<and> kind e < 20000 \<and> event_deduplication r = None \<longrightarrow>
      (\<exists>db r'. run_rows Set_deduplication rows = Inr db \<and> r' \<in> set (events db) \<and> event_id r' = event_id r
         \<and> index_conflict r' (upsert_row_of e)))
    \<and> (latest_metadata (events rows) r \<longrightarrow>
      (\<exists>r'\<in>set (events (metadata_rows rows)). event_id r' = event_id r \<and> index_conflict r' (upsert_row_of e)))"
proof -
  note keys = replaceable_deduplication_upsert [OF assms(4,5,1-3)]
  have up: "event_pubkey (upsert_row_of e) = event_pubkey r" "event_kind (upsert_row_of e) = kind e"
    "event_deduplication (upsert_row_of e) = Some (deduplication_of e)"
    using assms(4) by (simp_all add: upsert_row_of_def)
  show ?thesis
  proof (intro conjI impI)
    assume k: "kind e \<in> {0, 3} \<or> 10000 \<le> kind e \<and> kind e < 20000 \<and> event_deduplication r = None"
    let ?r = "r\<lparr>event_deduplication := Some (replaceable_deduplication r)\<rparr>"
    have "?r \<in> set (set_deduplication (events rows))"
      using assms(5,6) k by (force simp: set_deduplication_def)
    moreover have "index_conflict ?r (upsert_row_of e)"
      using k assms(5) up keys(1) by (auto simp: index_conflict_def in_replaceable_index_def)
    ultimately show "\<exists>db r'. run_rows Set_deduplication rows = Inr db \<and> r' \<in> set (events db)
        \<and> event_id r' = event_id r \<and> index_conflict r' (upsert_row_of e)"
      by fastforce
  next
    assume l: "latest_metadata (events rows) r"
    then have "with_metadata_key r \<in> set (events (metadata_rows rows))"
      by (auto simp: metadata_events latest_metadata_def prune_metadata_def)
    moreover have "index_conflict (with_metadata_key r) (upsert_row_of e)"
      using l assms(5) up keys(2) by (auto simp: index_conflict_def in_replaceable_index_def latest_metadata_def)
    ultimately show "\<exists>r'\<in>set (events (metadata_rows rows)). event_id r' = event_id r
        \<and> index_conflict r' (upsert_row_of e)"
      by (intro bexI [of _ "with_metadata_key r"]) auto
  qed
qed

lemma migrated_rows_are_replaced_witness:
  "\<exists>db r'. run_rows Set_deduplication \<lparr>events = [insert_row_of (sample_note 0)], tag_table = []\<rparr> = Inr db
     \<and> r' \<in> set (events db) \<and> event_id r' = toBuffer (evt_id (sample_note 0)) \<and> index_conflict r' (upsert_row_of (sample_note 0))"
  using migrated_rows_are_replaced [of "sample_note 0" "insert_row_of (sample_note 0)"
      "\<lparr>events = [insert_row_of (sample_note 0)], tag_table = []\<rparr>"]
  by (simp add: insert_row_of_def hex_digits_def)

text \<open>The migration that introduces \<open>event_tags\<close> fills it with exactly the rows the trigger would have
  inserted, if every tag has a name and the names and values are their own text in JSON. Outside that,
  the two differ: the trigger stores a value with a quotation mark in its escaped form, the migration
  the value itself, and a tag without a name makes the migration fail.\<close>

theorem backfill_agrees_with_trigger:
  assumes "distinct (map event_id (events rows))" "tag_table rows = []"
    and "\<forall>r\<in>set (events rows). list_all plain_tag (event_tags r)"
  shows "run_rows Backfill_tags rows = Inr (rows\<lparr>tag_table := fold trigger_insert (events rows) []\<rparr>)
    \<and> backfill_tag i [''t'', [CHR ''a'', CHR 0x22, CHR ''b'']]
      \<noteq> Inr (case tag_row_of i [''t'', [CHR ''a'', CHR 0x22, CHR ''b'']] of None \<Rightarrow> [] | Some row \<Rightarrow> [row])
    \<and> (\<exists>err. backfill_tag i [] = Inl err)"
proof (intro conjI)
  show "run_rows Backfill_tags rows = Inr (rows\<lparr>tag_table := fold trigger_insert (events rows) []\<rparr>)"
    using backfill_tags_trigger [OF assms(1) _ assms(3), of "[]"] assms(2) by simp
qed (simp_all add: tag_row_of_def pg_tag_text_def trim_quotes_def json_string_def json_char_def)

lemma backfill_agrees_with_trigger_witness:
  "run_rows Backfill_tags \<lparr>events = [insert_row_of (sample_note 1)], tag_table = []\<rparr> =
     Inr \<lparr>events = [insert_row_of (sample_note 1)],
       tag_table = [\<lparr>tr_event_id = toBuffer (evt_id (sample_note 1)), tr_name = ''t'', tr_value = ''x''\<rparr>]\<rparr>"
  using backfill_agrees_with_trigger [of "\<lparr>events = [insert_row_of (sample_note 1)], tag_table = []\<rparr>"]
  by (simp add: insert_row_of_def plain_tag_def json_char_def trigger_insert_def tag_rows_def List.map_filter_def
      tag_row_of_def pg_tag_text_def trim_quotes_def json_string_def)

section \<open>The stored function that confirms invoices\<close>

lemma confirm_version:
  assumes "n \<le> 25"
  shows "(resolve_confirm (schema_after n), helpers_defined (schema_after n)) =
    (if n < 14 then (None, False) else if n < 21 then (Some Confirm_any_unit, True)
     else if n = 21 then (Some Confirm_ambiguous_unit, True) else (Some Confirm_by_unit, n < 25))"
proof -
  consider "n < 14" | "14 \<le> n" "n < 21" | "n = 21" | "22 \<le> n" "n < 25" | "n = 25" using assms by linarith
  then show ?thesis
    unfolding traced [OF confirm_versions assms] by cases (auto simp: nth_append nth_Cons')
qed

text \<open>After the migration that fixes the units, the stored function is the one the payments are modelled
  with. Before the units were introduced it credits the amount whatever the unit, which agrees for
  invoices in millisatoshi; the version in between fails at every call, because its variable has the name
  of the column it selects, and changes nothing. The last migration drops the helper functions but, as
  it names the parameter types of the first version, not the function: calling it then is an error.\<close>

theorem stored_confirmation_history:
  assumes "14 \<le> n" "n \<le> 25"
  shows "call_confirm_invoice (schema_after n) ser now i amount date db =
    (if n < 21 then confirm_any_unit ser now i amount date db
     else if n = 21 then confirm_ambiguous_unit ser now i amount date db
     else if n < 25 then confirm_invoice ser now i amount date db
     else (Inl (does_not_exist ''function assert_serialized()''), db))
    \<and> (\<exists>err. confirm_ambiguous_unit ser now i amount date db = (Inl err, db))
    \<and> ((\<forall>invs. pay_invoices db = Some invs \<longrightarrow> (\<forall>r\<in>set invs. di_id r = i \<longrightarrow> di_unit r = MSATS))
        \<longrightarrow> confirm_any_unit ser now i amount date db = confirm_invoice ser now i amount date db)
    \<and> map_of (sch_functions (schema_after 25)) confirm_text = Some Confirm_by_unit"
proof -
  have "map_of (sch_functions (schema_after 25)) confirm_uuid = None
      \<and> map_of (sch_functions (schema_after 25)) confirm_text = Some Confirm_by_unit"
    by code_simp
  then show ?thesis
    using confirm_version [OF assms(2)] assms confirm_any_unit_msats [of db i ser now amount date]
    by (auto simp: call_confirm_invoice_def confirm_ambiguous_unit_def split: if_splits)
qed

lemma stored_confirmation_history_witness:
  "map (\<lambda>n. call_confirm_invoice (schema_after n) True 10 ''i1'' 5 9 sample_payment_db) [20, 22] =
     map (\<lambda>f. f True 10 ''i1'' 5 9 sample_payment_db) [confirm_any_unit, confirm_invoice]
   \<and> (\<exists>db. confirm_any_unit True 10 ''i1'' 5 9 sample_payment_db = (Inr (), db)
         \<and> pay_users db = Some [sample_payer\<lparr>db_balance := db_balance sample_payer + 5\<rparr>])"
  using stored_confirmation_history [of 20 True 10 "''i1''" 5 9 sample_payment_db]
    stored_confirmation_history [of 22 True 10 "''i1''" 5 9 sample_payment_db]
  by (simp add: confirm_any_unit_def Let_def int8_def credit_user_def sample_payer_def sample_user_def)

end
