(* ===== verification/Worker_Process.thy ===== *)
theory Worker_Process
  imports Relay_System
begin

text \<open>
  app/worker.ts, adapters/web-server-adapter.ts and the closing of adapters/web-socket-server-adapter.ts:
  the process around a worker's relay, its port, its connections, the signals that stop it and the
  callbacks that run until it exits. The relay inside takes only steps of \<open>relay_step\<close>.
\<close>

section \<open>Starting and errors\<close>

text \<open>\<open>process.env.PORT || process.env.RELAY_PORT || 8008\<close>.\<close>

definition worker_port :: "(string \<rightharpoonup> string) \<Rightarrow> js_num" where
  "worker_port env =
     (if truthy (env ''PORT'') then js_Number (the (env ''PORT''))
      else if truthy (env ''RELAY_PORT'') then js_Number (the (env ''RELAY_PORT''))
      else JFinite 8008)"

text \<open>
  The largest message of a web socket, as workerFactory chooses it; \<open>deprecated\<close> is the value of
  \<open>network.max_payload_size\<close>, which counts only where it is a text.
\<close>

definition maxPayload :: "json option \<Rightarrow> settings \<Rightarrow> json" where
  "maxPayload deprecated s =
     (case deprecated of
        Some (JStr text) \<Rightarrow> JStr text
      | _ \<Rightarrow> JNum (case net_maxPayloadSize s of None \<Rightarrow> 131072 | Some n \<Rightarrow> n))"

text \<open>\<open>AppWorker.onError\<close> prints and goes on.\<close>

fun worker_onError :: "js_error \<Rightarrow> string" where
  "worker_onError (TypeErr msg) =
     (if msg = ''Cannot read properties of undefined (reading '__knexUid')''
      then ''Unable to acquire connection. Please increase DB_MAX_POOL_SIZE, DB_ACQUIRE_CONNECTION_TIMEOUT and tune postgresql.conf to make use of server's resources.''
      else ''uncaught error:'')"
| "worker_onError _ = ''uncaught error:''"

text \<open>\<open>WebServerAdapter.onClientError\<close>: what is written to a socket that sent no valid request, before it is ended.\<close>

definition onClientError :: "string option \<Rightarrow> bool \<Rightarrow> string option" where
  "onClientError code writable =
     (if code = Some ''ECONNRESET'' \<or> \<not> writable then None
      else Some (''HTTP/1.1 400 Bad Request'' @ [CHR 0x0D, CHR 0x0A] @ ''Content-Type: text/html'' @ [CHR 0x0D, CHR 0x0A]))"

section \<open>The process\<close>

text \<open>
  \<open>wp_connections\<close> are the open connections of the HTTP server, those of web sockets among them.
  \<open>wp_closing\<close> and \<open>wp_wss_closing\<close> count the callbacks that wait for the HTTP server and for the web socket
  server to close. A process whose primary is gone ends itself, as a worker of a cluster does.
\<close>

datatype process_end = Exited int | Disconnected

record ('db, 'u, 'r) worker_process =
  wp_relay :: "('db, 'u, 'r) relay"
  wp_port :: "js_num option"
  wp_watching :: bool
  wp_accepting :: bool
  wp_connections :: "nat list"
  wp_heartbeat :: bool
  wp_closing :: nat
  wp_wss_closing :: nat
  wp_end :: "process_end option"

definition new_process :: "('db, 'u, 'r) store \<Rightarrow> ('db, 'u, 'r) worker_process" where
  "new_process st =
     \<lparr>wp_relay = initial_relay st, wp_port = None, wp_watching = False, wp_accepting = False,
      wp_connections = [], wp_heartbeat = True, wp_closing = 0, wp_wss_closing = 0, wp_end = None\<rparr>"

definition worker_run :: "(string \<rightharpoonup> string) \<Rightarrow> ('db, 'u, 'r) worker_process \<Rightarrow> ('db, 'u, 'r) worker_process" where
  "worker_run env p = p\<lparr>wp_watching := True, wp_port := Some (worker_port env), wp_accepting := True\<rparr>"

text \<open>\<open>WebSocketServerAdapter.close\<close>, which hands a callback to the close of the HTTP server.\<close>

definition adapter_close :: "('db, 'u, 'r) worker_process \<Rightarrow> ('db, 'u, 'r) worker_process" where
  "adapter_close p =
     p\<lparr>wp_accepting := False, wp_closing := wp_closing p + 1, wp_relay := with_server server_close (wp_relay p)\<rparr>"

text \<open>\<open>AppWorker.onExit\<close> on a signal.\<close>

definition worker_onExit :: "('db, 'u, 'r) worker_process \<Rightarrow> ('db, 'u, 'r) worker_process" where
  "worker_onExit p = adapter_close (p\<lparr>wp_watching := False\<rparr>)"

text \<open>
  The HTTP server emits \<open>close\<close> when its last connection has ended: every waiting callback stops the
  heartbeat, terminates the clients and closes the web socket server.
\<close>

definition web_server_closed :: "('db, 'u, 'r) worker_process \<Rightarrow> ('db, 'u, 'r) worker_process" where
  "web_server_closed p =
     p\<lparr>wp_heartbeat := False, wp_relay := with_server server_terminate_all (wp_relay p),
       wp_closing := 0, wp_wss_closing := wp_wss_closing p + wp_closing p\<rparr>"

definition web_socket_server_closed :: "('db, 'u, 'r) worker_process \<Rightarrow> ('db, 'u, 'r) worker_process" where
  "web_socket_server_closed p = p\<lparr>wp_end := Some (Exited 0)\<rparr>"

definition connection_ended :: "nat \<Rightarrow> ('db, 'u, 'r) worker_process \<Rightarrow> ('db, 'u, 'r) worker_process" where
  "connection_ended k p =
     p\<lparr>wp_connections := removeAll k (wp_connections p),
       wp_relay := with_server (map_client k close_socket) (wp_relay p)\<rparr>"

definition on_relay ::
  "(('db, 'u, 'r) relay \<Rightarrow> ('db, 'u, 'r) relay) \<Rightarrow> ('db, 'u, 'r) worker_process \<Rightarrow> ('db, 'u, 'r) worker_process" where
  "on_relay g p = p\<lparr>wp_relay := g (wp_relay p)\<rparr>"

definition sockets_of :: "('db, 'u, 'r) worker_process \<Rightarrow> (nat \<times> ws_client) list" where
  "sockets_of p = srv_clients (r_server (wp_relay p))"

inductive process_step ::
  "('db, 'u, 'r) runtime \<Rightarrow> (event \<Rightarrow> bool) \<Rightarrow> ('db, 'u, 'r) worker_process \<Rightarrow> ('db, 'u, 'r) worker_process \<Rightarrow> bool"
  for rt peer_ok where
  accept: "wp_end p = None \<Longrightarrow> wp_accepting p \<Longrightarrow> k \<notin> set (wp_connections p) \<Longrightarrow> k \<notin> fst ` set (sockets_of p)
     \<Longrightarrow> process_step rt peer_ok p (p\<lparr>wp_connections := wp_connections p @ [k]\<rparr>)"
| upgrade: "wp_end p = None \<Longrightarrow> k \<in> set (wp_connections p) \<Longrightarrow> k \<notin> fst ` set (sockets_of p)
     \<Longrightarrow> process_step rt peer_ok p (on_relay (onConnection rt clock k headers peer) p)"
| ended: "wp_end p = None \<Longrightarrow> k \<in> set (wp_connections p) \<Longrightarrow> process_step rt peer_ok p (connection_ended k p)"
| receive: "wp_end p = None \<Longrightarrow> map_of (sockets_of p) k = Some c \<Longrightarrow> ws_listening c \<Longrightarrow> ws_open c
     \<Longrightarrow> process_step rt peer_ok p (on_relay (\<lambda>relay.
           relay\<lparr>r_server := map_client k (\<lambda>c. c\<lparr>ws_alive := True\<rparr>) (r_server relay),
                 r_inbox := r_inbox relay @ [(k, raw)]\<rparr>) p)"
| handle: "wp_end p = None \<Longrightarrow> (k, raw) \<in> set (r_inbox (wp_relay p))
     \<Longrightarrow> process_step rt peer_ok p (on_relay (\<lambda>relay.
           onClientMessage rt mclk clk k raw (relay\<lparr>r_inbox := remove1 (k, raw) (r_inbox relay)\<rparr>)) p)"
| deliver: "wp_end p = None \<Longrightarrow> r_pending (wp_relay p) = before @ (k, em # ems) # after
     \<Longrightarrow> process_step rt peer_ok p (on_relay (\<lambda>relay.
           relay\<lparr>r_server := emit (rt_is_worker rt) k em (r_server relay), r_pending := before @ (k, ems) # after\<rparr>) p)"
| pong: "wp_end p = None \<Longrightarrow> process_step rt peer_ok p (on_relay (with_server (map_client k (emit_on onClientPong))) p)"
| ping: "wp_end p = None \<Longrightarrow> process_step rt peer_ok p (on_relay (with_server (map_client k (emit_on onClientPing))) p)"
| closing: "wp_end p = None \<Longrightarrow> process_step rt peer_ok p (on_relay (with_server (map_client k close_socket)) p)"
| closed: "wp_end p = None \<Longrightarrow> map_of (sockets_of p) k = Some c \<Longrightarrow> k \<notin> set (wp_connections p) \<Longrightarrow> \<not> ws_open c
     \<Longrightarrow> process_step rt peer_ok p (on_relay (with_server (map_client k (emit_on onClientClose))) p)"
| heartbeat: "wp_end p = None \<Longrightarrow> wp_heartbeat p
     \<Longrightarrow> process_step rt peer_ok p (on_relay (with_server server_onHeartbeat) p)"
| peer_event: "wp_end p = None \<Longrightarrow> peer_ok e \<Longrightarrow> process_step rt peer_ok p (on_relay (worker_onMessage e) p)"
| signal: "wp_end p = None \<Longrightarrow> process_step rt peer_ok p (worker_onExit p)"
| server_closed: "wp_end p = None \<Longrightarrow> 0 < wp_closing p \<Longrightarrow> wp_connections p = []
     \<Longrightarrow> process_step rt peer_ok p (web_server_closed p)"
| sockets_closed: "wp_end p = None \<Longrightarrow> 0 < wp_wss_closing p \<Longrightarrow> wp_connections p = []
     \<Longrightarrow> process_step rt peer_ok p (web_socket_server_closed p)"
| disconnected: "wp_end p = None \<Longrightarrow> process_step rt peer_ok p (p\<lparr>wp_end := Some Disconnected\<rparr>)"

inductive_cases process_stepE: "process_step rt peer_ok p p'"

inductive process_reachable ::
  "('db, 'u, 'r) runtime \<Rightarrow> (event \<Rightarrow> bool) \<Rightarrow> (string \<rightharpoonup> string) \<Rightarrow> ('db, 'u, 'r) store
     \<Rightarrow> ('db, 'u, 'r) worker_process \<Rightarrow> bool"
  for rt peer_ok env st where
  start: "process_reachable rt peer_ok env st (worker_run env (new_process st))"
| step: "process_reachable rt peer_ok env st p \<Longrightarrow> process_step rt peer_ok p p'
     \<Longrightarrow> process_reachable rt peer_ok env st p'"

section \<open>The process of the maintenance worker\<close>

text \<open>
  It exits at once. An error that nothing catches is thrown again by its handler, which ends the process
  with code 7.
\<close>

record maintenance_process =
  mp_interval :: bool
  mp_end :: "process_end option"

definition maintenance_run :: "maintenance_process \<Rightarrow> maintenance_process" where
  "maintenance_run p = p\<lparr>mp_interval := True\<rparr>"

definition maintenance_close :: "maintenance_process \<Rightarrow> maintenance_process" where
  "maintenance_close p = p\<lparr>mp_interval := False\<rparr>"

definition maintenance_onExit :: "maintenance_process \<Rightarrow> maintenance_process" where
  "maintenance_onExit p = (maintenance_close p)\<lparr>mp_end := Some (Exited 0)\<rparr>"

definition maintenance_onError :: "js_error \<Rightarrow> maintenance_process \<Rightarrow> maintenance_process" where
  "maintenance_onError err p = p\<lparr>mp_end := Some (Exited 7)\<rparr>"

section \<open>The relay inside\<close>

named_theorems process_defs \<open>the operations of a worker's process\<close>

lemmas [process_defs] = worker_onExit_def adapter_close_def web_server_closed_def web_socket_server_closed_def
  connection_ended_def on_relay_def sockets_of_def

text \<open>
  What a process has told its clients' sockets, and what its callbacks may still do, while it runs and
  after.
\<close>

definition process_ok :: "('db, 'u, 'r) worker_process \<Rightarrow> bool" where
  "process_ok p \<longleftrightarrow>
     (\<forall>(k, c)\<in>set (sockets_of p). ws_open c \<longrightarrow> k \<in> set (wp_connections p))
     \<and> (srv_listening (r_server (wp_relay p)) \<longleftrightarrow> wp_closing p = 0 \<and> wp_wss_closing p = 0)
     \<and> (wp_accepting p \<longleftrightarrow> srv_listening (r_server (wp_relay p)))
     \<and> (0 < wp_wss_closing p \<longrightarrow> wp_connections p = [])
     \<and> (wp_heartbeat p \<longleftrightarrow> wp_wss_closing p = 0)
     \<and> (\<forall>n. wp_end p = Some (Exited n) \<longrightarrow> n = 0 \<and> 0 < wp_wss_closing p)"

lemma process_step_relay:
  assumes "process_step rt peer_ok p p'" "process_ok p"
  shows "wp_relay p' = wp_relay p \<or> relay_step rt peer_ok (wp_relay p) (wp_relay p')"
  using assms
proof (induction rule: process_step.induct)
  case (server_closed p)
  then show ?case by (auto simp: process_defs process_ok_def intro: relay_step.terminate)
qed (auto simp: process_defs intro: relay_step.intros)

end
