(* ===== verification/Process_Safety.thy ===== *)
theory Process_Safety
  imports Worker_Process Relay_Safety Sample_Worker App_Primary Mirroring
begin

text \<open>
  What holds of a worker's process from its start to its end: its relay is a relay of the step relation,
  and a signal ends it only when its clients have gone.
\<close>

section \<open>Which sockets are open\<close>

definition openness :: "ws_server \<Rightarrow> (nat \<times> bool) list" where
  "openness srv = map (\<lambda>(k, c). (k, ws_open c)) (srv_clients srv)"

lemma openness_map_client [simp]:
  "(\<And>c. ws_open (g c) = ws_open c) \<Longrightarrow> openness (map_client k g srv) = openness srv"
  "(\<And>c. ws_open (g c) = ws_open c) \<Longrightarrow> openness (map_clients g srv) = openness srv"
  by (simp_all add: openness_def map_client_def map_clients_def case_prod_beta)

lemma openness_primary [simp]: "openness (srv\<lparr>srv_to_primary := es\<rparr>) = openness srv"
  "openness (srv\<lparr>srv_listening := b\<rparr>) = openness srv"
  by (simp_all add: openness_def)

lemma ws_open_simps [simp]:
  "ws_open (onSubscribed i fs c) = ws_open c" "ws_open (onUnsubscribed i c) = ws_open c"
  "ws_open (onClientPong c) = ws_open c" "ws_open (onClientPing c) = ws_open c" "ws_open (onClientClose c) = ws_open c"
  "(\<And>c. ws_open (g c) = ws_open c) \<Longrightarrow> ws_open (emit_on g c) = ws_open c"
  by (simp_all add: onSubscribed_def onUnsubscribed_def onClientPong_def onClientPing_def onClientClose_def emit_on_def)

lemma openness_broadcast [simp]: "openness (server_emit_broadcast e srv) = openness srv"
  by (simp add: server_emit_broadcast_def server_onBroadcast_def)

lemma openness_emit [simp]: "openness (emit w k em srv) = openness srv"
  by (cases em) (simp_all add: adapter_onBroadcast_def Let_def)

lemma listening_emit [simp]: "srv_listening (emit w k em srv) = srv_listening srv"
  by (cases em) (simp_all add: adapter_onBroadcast_def server_emit_broadcast_def server_onBroadcast_def Let_def)

lemma emit_all_keeps [simp]:
  "openness (emit_all w k ems srv) = openness srv" "srv_listening (emit_all w k ems srv) = srv_listening srv"
  unfolding emit_all_def by (induction ems arbitrary: srv) simp_all

lemma onClientMessage_keeps [simp]:
  "openness (r_server (onClientMessage rt mclk clk k raw relay)) = openness (r_server relay)"
  "srv_listening (r_server (onClientMessage rt mclk clk k raw relay)) = srv_listening (r_server relay)"
  by (auto simp: onClientMessage_def split: option.splits prod.splits sum.splits bool.splits)

definition open_sockets :: "ws_server \<Rightarrow> nat set" where
  "open_sockets srv = {k. (k, True) \<in> set (openness srv)}"

lemma open_sockets_iff: "k \<in> open_sockets srv \<longleftrightarrow> (\<exists>c. (k, c) \<in> set (srv_clients srv) \<and> ws_open c)"
  by (force simp: open_sockets_def openness_def)

lemma open_sockets_mono:
  "(\<And>c. ws_open (g c) \<Longrightarrow> ws_open c) \<Longrightarrow> open_sockets (map_client k g srv) \<subseteq> open_sockets srv"
  "(\<And>c. ws_open (g c) \<Longrightarrow> ws_open c) \<Longrightarrow> open_sockets (map_clients g srv) \<subseteq> open_sockets srv"
  by (auto simp: open_sockets_iff map_client_def map_clients_def split: if_splits) blast+

lemma open_sockets_close: "open_sockets (map_client k close_socket srv) = open_sockets srv - {k}"
  by (auto simp: open_sockets_iff map_client_def close_socket_def split: if_splits) force+

lemma open_sockets_connection:
  "open_sockets (r_server (onConnection rt clock k headers peer relay)) \<subseteq> insert k (open_sockets (r_server relay))"
  by (auto simp: open_sockets_iff onConnection_def Let_def split: prod.splits)

lemma listening_connection [simp]:
  "srv_listening (r_server (onConnection rt clock k headers peer relay)) = srv_listening (r_server relay)"
  by (simp add: onConnection_def Let_def split: prod.splits)

section \<open>The process keeps its order\<close>

lemma process_ok_iff:
  "process_ok p \<longleftrightarrow> open_sockets (r_server (wp_relay p)) \<subseteq> set (wp_connections p)
     \<and> (srv_listening (r_server (wp_relay p)) \<longleftrightarrow> wp_closing p = 0 \<and> wp_wss_closing p = 0)
     \<and> (wp_accepting p \<longleftrightarrow> srv_listening (r_server (wp_relay p)))
     \<and> (0 < wp_wss_closing p \<longrightarrow> wp_connections p = [])
     \<and> (wp_heartbeat p \<longleftrightarrow> wp_wss_closing p = 0)
     \<and> (\<forall>n. wp_end p = Some (Exited n) \<longrightarrow> n = 0 \<and> 0 < wp_wss_closing p)"
  by (auto simp: process_ok_def sockets_of_def subset_iff open_sockets_iff)

lemma process_ok_relay:
  assumes "process_ok p" "open_sockets (r_server (g (wp_relay p))) \<subseteq> set (wp_connections p)"
    and "srv_listening (r_server (g (wp_relay p))) = srv_listening (r_server (wp_relay p))"
  shows "process_ok (on_relay g p)"
  using assms by (simp add: process_ok_iff on_relay_def)

lemma process_ok_quiet:
  assumes "process_ok p" "openness (r_server (g (wp_relay p))) = openness (r_server (wp_relay p))"
    and "srv_listening (r_server (g (wp_relay p))) = srv_listening (r_server (wp_relay p))"
  shows "process_ok (on_relay g p)"
  using assms process_ok_relay [of p g] by (simp add: process_ok_iff open_sockets_def)

lemma process_step_ok:
  assumes "process_step rt peer_ok p p'" "process_ok p"
  shows "process_ok p'"
  using assms
proof (induction rule: process_step.induct)
  case (accept p k)
  then show ?case by (auto simp: process_ok_iff)
next
  case (upgrade p k clock headers peer)
  then show ?case
    using open_sockets_connection [of rt clock k headers peer "wp_relay p"]
    by (intro process_ok_relay) (auto simp: process_ok_iff)
next
  case (ended p k)
  then show ?case by (auto simp: process_ok_iff connection_ended_def with_server_def open_sockets_close)
next
  case (closing p k)
  then show ?case by (intro process_ok_relay) (auto simp: process_ok_iff with_server_def open_sockets_close)
next
  case (heartbeat p)
  have "open_sockets (server_onHeartbeat srv) \<subseteq> open_sockets srv" for srv
    unfolding server_onHeartbeat_def
    by (rule open_sockets_mono) (auto simp: emit_on_def onHeartbeat_def close_socket_def split: if_splits)
  then show ?case
    using heartbeat by (intro process_ok_relay) (auto simp: process_ok_iff with_server_def server_onHeartbeat_def)
next
  case (signal p)
  then show ?case by (auto simp: process_ok_iff process_defs with_server_def server_close_def open_sockets_def)
next
  case (server_closed p)
  moreover have "open_sockets (server_terminate_all srv) = {}" for srv
    by (auto simp: server_terminate_all_def open_sockets_iff map_clients_def close_socket_def)
  ultimately show ?case by (auto simp: process_ok_iff process_defs with_server_def server_terminate_all_def)
next
  case (sockets_closed p)
  then show ?case by (simp add: process_ok_iff process_defs)
next
  case (disconnected p)
  then show ?case by (simp add: process_ok_iff)
next
  case (peer_event p e)
  then show ?case
    by (intro process_ok_quiet)
      (auto simp: worker_onMessage_def with_server_def server_emit_broadcast_def server_onBroadcast_def)
qed (auto intro!: process_ok_quiet simp: with_server_def)

lemma started_process_ok: "process_ok (worker_run env (new_process st))"
  by (simp add: process_ok_iff worker_run_def new_process_def initial_relay_def open_sockets_def openness_def)

lemma process_reachable_ok: "process_reachable rt peer_ok env st p \<Longrightarrow> process_ok p"
  by (induction rule: process_reachable.induct) (blast intro: started_process_ok process_step_ok)+

lemma process_reachable_relay:
  "process_reachable rt peer_ok env st p \<Longrightarrow> reachable rt peer_ok st (wp_relay p)"
proof (induction rule: process_reachable.induct)
  case start
  then show ?case by (simp add: worker_run_def new_process_def reachable.start)
next
  case (step p p')
  then show ?case
    using process_step_relay [OF step(2) process_reachable_ok [OF step(1)]] by (auto intro: reachable.step)
qed

section \<open>Stopping\<close>

lemma terminate_closed_sockets:
  "open_sockets srv = {} \<Longrightarrow> server_terminate_all srv = srv"
proof -
  assume closed: "open_sockets srv = {}"
  have "map (\<lambda>(k, c). (k, close_socket c)) (srv_clients srv) = srv_clients srv"
  proof (rule map_idI)
    fix x assume "x \<in> set (srv_clients srv)"
    then have "ws_open (snd x) \<Longrightarrow> fst x \<in> open_sockets srv"
      unfolding open_sockets_iff by (metis prod.collapse)
    then have "\<not> ws_open (snd x)" using closed by blast
    then show "(\<lambda>(k, c). (k, close_socket c)) x = x" by (cases x) (simp add: close_socket_def)
  qed
  then show ?thesis by (simp add: server_terminate_all_def map_clients_def)
qed

text \<open>Once no connection is left, at most two callbacks separate a signalled process from its end.\<close>

lemma drained_process_exits:
  assumes "process_ok p" "\<not> srv_listening (r_server (wp_relay p))" "wp_end p = None" "wp_connections p = []"
  shows "\<exists>p'. (process_step rt peer_ok)\<^sup>*\<^sup>* p p' \<and> wp_end p' = Some (Exited 0)"
proof -
  have last: "\<exists>p'. (process_step rt peer_ok)\<^sup>*\<^sup>* q p' \<and> wp_end p' = Some (Exited 0)"
    if "0 < wp_wss_closing q" "wp_end q = None" "wp_connections q = []" for q
    using r_into_rtranclp [of "process_step rt peer_ok", OF process_step.sockets_closed [OF that(2,1,3)]]
    by (intro exI [of _ "web_socket_server_closed q"]) (simp add: web_socket_server_closed_def)
  show ?thesis
  proof (cases "0 < wp_wss_closing p")
    case False
    then have waiting: "0 < wp_closing p" using assms(1,2) by (simp add: process_ok_iff)
    let ?q = "web_server_closed p"
    have "process_step rt peer_ok p ?q" by (rule process_step.server_closed [OF assms(3) waiting assms(4)])
    moreover have "0 < wp_wss_closing ?q" "wp_end ?q = None" "wp_connections ?q = []"
      using waiting assms(3,4) by (simp_all add: web_server_closed_def)
    ultimately show ?thesis using last [of ?q] by (meson converse_rtranclp_into_rtranclp)
  qed (use last assms in blast)
qed

lemma only_drained_processes_exit:
  assumes "process_step rt peer_ok p p'" "wp_end p = None" "wp_connections p \<noteq> []"
  shows "wp_end p' \<in> {None, Some Disconnected}"
  using assms by (induction rule: process_step.induct) (auto simp: process_defs)

text \<open>C20. A signal does not end a worker while a connection of its HTTP server is open: no step but the loss
  of the primary process ends it, and its heartbeat goes on. Meanwhile it accepts no connection and the
  broadcasts of other workers reach none of its clients. The sockets that closing terminates are all
  closed when the callback that does so runs; with the last connection gone, the process exits with 0.\<close>

theorem signalled_worker_waits_for_its_clients:
  assumes "process_reachable rt peer_ok env st p" "\<not> srv_listening (r_server (wp_relay p))" "wp_end p = None"
  shows "(wp_connections p \<noteq> [] \<longrightarrow> wp_heartbeat p
        \<and> (\<forall>p'. process_step rt peer_ok p p' \<longrightarrow> wp_end p' \<in> {None, Some Disconnected}))
    \<and> \<not> wp_accepting p \<and> worker_onMessage e (wp_relay p) = wp_relay p
    \<and> (wp_connections p = [] \<longrightarrow> wp_relay (web_server_closed p) = wp_relay p
        \<and> (\<exists>p'. (process_step rt peer_ok)\<^sup>*\<^sup>* p p' \<and> wp_end p' = Some (Exited 0)))"
proof -
  note ok = process_reachable_ok [OF assms(1)]
  have "wp_relay (web_server_closed p) = wp_relay p" if "wp_connections p = []"
    using ok that terminate_closed_sockets [of "r_server (wp_relay p)"]
    by (simp add: process_ok_iff web_server_closed_def with_server_def)
  moreover have "worker_onMessage e (wp_relay p) = wp_relay p"
    using assms(2) by (simp add: worker_onMessage_def with_server_def server_emit_broadcast_def)
  moreover have "wp_connections p \<noteq> [] \<longrightarrow> wp_heartbeat p" "\<not> wp_accepting p"
    using ok assms(2) by (auto simp: process_ok_iff)
  ultimately show ?thesis
    using only_drained_processes_exit [of rt peer_ok p] drained_process_exits [OF ok assms(2,3)] assms(3) by blast
qed

text \<open>A worker with one connection that is told to stop.\<close>

definition sample_process :: "(event_db, user_table, alist_store) worker_process" where
  "sample_process = worker_onExit ((worker_run (\<lambda>_. None) (new_process sample_store))\<lparr>wp_connections := [0]\<rparr>)"

lemma sample_process_reachable: "process_reachable rt peer_ok (\<lambda>_. None) sample_store sample_process"
proof -
  let ?p = "worker_run (\<lambda>_. None) (new_process sample_store)"
  have "process_step rt peer_ok ?p (?p\<lparr>wp_connections := wp_connections ?p @ [0]\<rparr>)"
    by (rule process_step.accept) (simp_all add: worker_run_def new_process_def sockets_of_def initial_relay_def)
  then have "process_reachable rt peer_ok (\<lambda>_. None) sample_store (?p\<lparr>wp_connections := [0]\<rparr>)"
    using process_reachable.step [OF process_reachable.start] by (simp add: worker_run_def new_process_def)
  then show ?thesis
    unfolding sample_process_def
    by (rule process_reachable.step) (rule process_step.signal, simp add: worker_run_def new_process_def)
qed

lemma signalled_worker_waits_for_its_clients_witness:
  "wp_heartbeat sample_process
   \<and> worker_onMessage (sample_note 1) (wp_relay sample_process) = wp_relay sample_process"
  using signalled_worker_waits_for_its_clients [OF sample_process_reachable [of undefined "\<lambda>e. True"],
      of "sample_note 1"]
  by (simp add: sample_process_def process_defs with_server_def server_close_def worker_run_def new_process_def)

text \<open>C21. The relay inside a process is a worker of the step relation from start to end: a step of the
  process is a step of its relay or leaves it as it is. So what holds of every reachable worker holds
  of every process: each event sent to a client is authentic, whatever the order in which connections
  come and go and signals arrive.\<close>

theorem processes_refine_workers:
  assumes "process_reachable (worker_runtime cr s relay_pubkey limiter is_worker parse joi_message)
      (authentic cr) env st p"
    and "process_step (worker_runtime cr s relay_pubkey limiter is_worker parse joi_message) (authentic cr) p p'"
    and "db_inv (st_events st)" "authentic_rows cr (st_events st)"
  shows "reachable (worker_runtime cr s relay_pubkey limiter is_worker parse joi_message) (authentic cr) st (wp_relay p)
    \<and> (wp_relay p' = wp_relay p
       \<or> relay_step (worker_runtime cr s relay_pubkey limiter is_worker parse joi_message) (authentic cr)
           (wp_relay p) (wp_relay p'))
    \<and> (\<forall>k c i e. (k, c) \<in> set (sockets_of p') \<longrightarrow> OutgoingEventMessage i e \<in> set (ws_sent c)
         \<longrightarrow> isEventIdValid cr e \<and> isEventSignatureValid cr e)"
proof (intro conjI allI impI)
  note next_ok = process_reachable_relay [OF process_reachable.step [OF assms(1,2)]]
  fix k c i e
  assume "(k, c) \<in> set (sockets_of p')" and sent: "OutgoingEventMessage i e \<in> set (ws_sent c)"
  then have "sent_ok cr c"
    using authenticity.reachable_client [OF next_ok, of k c] assms(3,4) by (simp add: sockets_of_def)
  then show "isEventIdValid cr e" "isEventSignatureValid cr e"
    using sent by (auto simp: sent_ok_def message_ok_def authentic_def)
qed (use process_reachable_relay [OF assms(1)] process_step_relay [OF assms(2) process_reachable_ok [OF assms(1)]] in simp_all)

lemma processes_refine_workers_witness:
  "reachable (worker_runtime sample_crypto sample_settings (Inr []) sample_limiter False sample_parse (\<lambda>j. []))
     (authentic sample_crypto) sample_store (wp_relay sample_process)"
proof -
  have "process_step rt peer_ok sample_process (connection_ended 0 sample_process)" for rt peer_ok
    by (rule process_step.ended) (simp_all add: sample_process_def process_defs worker_run_def new_process_def)
  from processes_refine_workers [OF sample_process_reachable this] show ?thesis by simp
qed

section \<open>Which ends the primary process answers\<close>

definition exit_code :: "process_end \<Rightarrow> int" where
  "exit_code e = (case e of Exited n \<Rightarrow> n | Disconnected \<Rightarrow> 0)"

text \<open>A worker that was told to stop stays away; a maintenance worker that failed is to be started again.\<close>

lemma stopped_worker_not_restarted:
  assumes "process_reachable rt peer_ok env st p" "wp_end p = Some e"
  shows "pr_timers (onClusterExit k (exit_code e) signal pr) = pr_timers pr"
  using process_reachable_ok [OF assms(1)] assms(2)
  by (auto simp: process_ok_iff exit_code_def onClusterExit_def split: process_end.splits)

lemma failed_maintenance_restarted:
  assumes "mp_end (maintenance_onError err m) = Some e" "signal \<noteq> ''SIGINT''"
  shows "pr_timers (onClusterExit k (exit_code e) signal pr) = pr_timers pr @ [map_of (pr_workers pr) k]"
  using assms by (auto simp: maintenance_onError_def exit_code_def onClusterExit_def Let_def)

section \<open>The process of a mirror\<close>

text \<open>
  A mirroring worker closes its socket and exits with code 0 on a signal; \<open>onError\<close> throws the error
  again, which ends the process with code 7 and leaves the socket as it is.
\<close>

record mirror_process =
  mi_mirror :: mirror
  mi_end :: "process_end option"

definition mirror_onExit :: "mirror_process \<Rightarrow> mirror_process" where
  "mirror_onExit p = p\<lparr>mi_mirror := mirror_close (mi_mirror p), mi_end := Some (Exited 0)\<rparr>"

definition mirror_onError :: "js_error \<Rightarrow> mirror_process \<Rightarrow> mirror_process" where
  "mirror_onError err p = p\<lparr>mi_end := Some (Exited 7)\<rparr>"

text \<open>A mirror that was told to stop passes nothing more on and stays away; one that failed is started again.\<close>

lemma stopped_mirror_is_silent: "mirror_onMessage e source (mi_mirror (mirror_onExit p)) = mi_mirror (mirror_onExit p)"
  by (simp add: mirror_onExit_def mirror_close_def mirror_onMessage_def split: option.splits)

lemma stopped_mirror_not_restarted:
  assumes "mi_end (mirror_onExit p) = Some e"
  shows "pr_timers (onClusterExit k (exit_code e) signal pr) = pr_timers pr"
  using assms by (auto simp: mirror_onExit_def exit_code_def onClusterExit_def Let_def)

lemma failed_mirror_restarted:
  assumes "mi_end (mirror_onError err p) = Some e" "signal \<noteq> ''SIGINT''"
  shows "pr_timers (onClusterExit k (exit_code e) signal pr) = pr_timers pr @ [map_of (pr_workers pr) k]"
  using assms by (auto simp: mirror_onError_def exit_code_def onClusterExit_def Let_def)

end
