(* ===== verification/Row_Streams.thy ===== *)
theory Row_Streams
  imports Subscribe_Handler
begin

text \<open>
  utils/stream.ts and the pipeline of fetchAndSend: object-mode streams that transform one chunk at a
  time. The rows of a query arrive one by one, and the query may fail after some of them; the model of
  the handler (Subscribe_Handler) has the rows at once.
\<close>

section \<open>Stages\<close>

text \<open>
  A stage gives, for a chunk, the chunks it passes on and what it has done; at the end of its input it
  acts once more. Nothing comes out of a stage that only writes.
\<close>

record ('a, 'b, 'e) stage =
  on_chunk :: "'a \<Rightarrow> 'b list \<times> 'e list"
  on_end :: "'e list"

definition streamMap :: "('a \<Rightarrow> 'b) \<Rightarrow> ('a, 'b, 'e) stage" where
  "streamMap fn = \<lparr>on_chunk = (\<lambda>chunk. ([fn chunk], [])), on_end = []\<rparr>"

definition streamFilter :: "('a \<Rightarrow> bool) \<Rightarrow> ('a, 'a, 'e) stage" where
  "streamFilter predicate = \<lparr>on_chunk = (\<lambda>chunk. (if predicate chunk then [chunk] else [], [])), on_end = []\<rparr>"

definition streamEach :: "('a \<Rightarrow> 'e) \<Rightarrow> ('a, 'b, 'e) stage" where
  "streamEach writeFn = \<lparr>on_chunk = (\<lambda>chunk. ([], [writeFn chunk])), on_end = []\<rparr>"

definition streamEnd :: "'e \<Rightarrow> ('a, 'a, 'e) stage" where
  "streamEnd finalFn = \<lparr>on_chunk = (\<lambda>chunk. ([chunk], [])), on_end = [finalFn]\<rparr>"

text \<open>A chunk runs through a stage and what it passes on through the next.\<close>

fun feed :: "('a, 'b, 'e) stage \<Rightarrow> 'a list \<Rightarrow> 'b list \<times> 'e list" where
  "feed s [] = ([], [])"
| "feed s (x # xs) =
     (case on_chunk s x of
        (out, eff) \<Rightarrow> (case feed s xs of (outs, effs) \<Rightarrow> (out @ outs, eff @ effs)))"

definition pipe :: "('a, 'b, 'e) stage \<Rightarrow> ('b, 'c, 'e) stage \<Rightarrow> ('a, 'c, 'e) stage" where
  "pipe s t =
     \<lparr>on_chunk = (\<lambda>x. case on_chunk s x of (out, eff) \<Rightarrow> (case feed t out of (outs, effs) \<Rightarrow> (outs, eff @ effs))),
      on_end = on_end s @ on_end t\<rparr>"

section \<open>The pipeline of a subscription\<close>

text \<open>A stream of rows: the rows it gives, and the error it ends with, if any.\<close>

fun run_pipeline :: "('a, 'b, 'e) stage \<Rightarrow> 'a list \<Rightarrow> js_error option \<Rightarrow> 'e list \<times> js_error option" where
  "run_pipeline s [] None = (on_end s, None)"
| "run_pipeline s [] (Some err) = ([], Some err)"
| "run_pipeline s (x # xs) end =
     (case on_chunk s x of
        (out, eff) \<Rightarrow> (case run_pipeline s xs end of (effs, err) \<Rightarrow> (eff @ effs, err)))"

definition subscription_pipeline :: "string \<Rightarrow> subfilter list \<Rightarrow> (dbevent, event, emission) stage" where
  "subscription_pipeline subscriptionId filters =
     pipe (streamFilter (\<lambda>r. deleted_at r = None))
       (pipe (streamMap toNostrEvent)
         (pipe (streamFilter (isClientSubscribedToEvent filters))
           (pipe (streamEach (\<lambda>e. EmitMessage (createOutgoingEventMessage subscriptionId e)))
             (streamEnd (EmitMessage (createEndOfStoredEventsNoticeMessage subscriptionId))))))"

definition stream_fetchAndSend ::
  "string \<Rightarrow> subfilter list \<Rightarrow> dbevent list \<Rightarrow> js_error option \<Rightarrow> emission list \<times> js_error option" where
  "stream_fetchAndSend subscriptionId filters rows err =
     run_pipeline (subscription_pipeline subscriptionId filters) rows err"

lemmas stage_defs = streamMap_def streamFilter_def streamEach_def streamEnd_def pipe_def

lemma subscription_chunk:
  "on_chunk (subscription_pipeline i fs) r =
     ([], if deleted_at r = None \<and> isClientSubscribedToEvent fs (toNostrEvent r)
          then [EmitMessage (createOutgoingEventMessage i (toNostrEvent r))] else [])"
  by (simp add: subscription_pipeline_def stage_defs)

lemma subscription_end:
  "on_end (subscription_pipeline i fs) = [EmitMessage (createEndOfStoredEventsNoticeMessage i)]"
  by (simp add: subscription_pipeline_def stage_defs)

definition sent_rows :: "string \<Rightarrow> subfilter list \<Rightarrow> dbevent list \<Rightarrow> emission list" where
  "sent_rows i fs rows =
     map (\<lambda>e. EmitMessage (createOutgoingEventMessage i e))
       (filter (isClientSubscribedToEvent fs) (map toNostrEvent (filter (\<lambda>r. deleted_at r = None) rows)))"

lemma stream_fetchAndSend_eq:
  "stream_fetchAndSend i fs rows err =
     (sent_rows i fs rows @ (if err = None then [EmitMessage (createEndOfStoredEventsNoticeMessage i)] else []), err)"
  unfolding stream_fetchAndSend_def
proof (induction rows)
  case Nil
  then show ?case by (cases err) (simp_all add: sent_rows_def subscription_end)
next
  case (Cons r rows)
  then show ?case by (auto simp: subscription_chunk sent_rows_def split: prod.splits)
qed

lemma sent_rows_take: "sent_rows i fs rows = sent_rows i fs (take n rows) @ sent_rows i fs (drop n rows)"
  unfolding sent_rows_def by (simp flip: map_append filter_append)

end
