(* ===== verification/Db_Clients.thy ===== *)
theory Db_Clients
  imports App_Primary Rate_Limiter
begin

text \<open>
  database/client.ts, cache/client.ts and the factories that hand their clients to the repositories:
  how a process configures its connections from its environment, and the module variables that keep
  one client of each kind per process. What knex and redis make of a configuration is a parameter.
\<close>

section \<open>Numbers in template strings\<close>

text \<open>\<open>Number::toString\<close>: the digits of a number with at most 20 decimal places, and their point.\<close>

definition decimal_places :: "rat \<Rightarrow> nat" where
  "decimal_places q =
     (case find (\<lambda>k. of_int \<lfloor>q * 10 ^ k\<rfloor> = q * 10 ^ k) [0..<20] of Some k \<Rightarrow> k | None \<Rightarrow> 20)"

definition strip_zeros :: "string \<Rightarrow> string" where
  "strip_zeros s = rev (dropWhile (\<lambda>c. c = CHR ''0'') (rev s))"

definition positive_str :: "rat \<Rightarrow> string" where
  "positive_str q =
     (let places = decimal_places q;
          digits = nat_str (nat \<lfloor>q * 10 ^ places\<rfloor>);
          point = int (length digits) - int places;
          s = strip_zeros digits;
          k = length s
      in if int k \<le> point \<and> point \<le> 21 then s @ replicate (nat point - k) (CHR ''0'')
         else if 0 < point \<and> point \<le> 21 then take (nat point) s @ ''.'' @ drop (nat point) s
         else if -6 < point \<and> point \<le> 0 then ''0.'' @ replicate (nat (- point)) (CHR ''0'') @ s
         else take 1 s @ (if k = 1 then [] else ''.'' @ drop 1 s) @ ''e''
              @ (if 1 \<le> point then ''+'' else ''-'') @ nat_str (nat \<bar>point - 1\<bar>))"

fun js_num_str :: "js_num \<Rightarrow> string" where
  "js_num_str JNaN = ''NaN''"
| "js_num_str (JInfinity negative) = (if negative then ''-Infinity'' else ''Infinity'')"
| "js_num_str (JFinite q) =
     (if q = 0 then ''0'' else if q < 0 then ''-'' @ positive_str (- q) else positive_str q)"

text \<open>The operator \<open>%\<close>, whose result has the sign of the dividend.\<close>

definition js_truncate :: "rat \<Rightarrow> int" where
  "js_truncate q = (if q < 0 then \<lceil>q\<rceil> else \<lfloor>q\<rfloor>)"

fun js_remainder :: "js_num \<Rightarrow> js_num \<Rightarrow> js_num" where
  "js_remainder (JFinite p) (JFinite q) =
     (if q = 0 then JNaN else JFinite (p - q * of_int (js_truncate (p / q))))"
| "js_remainder (JFinite p) (JInfinity negative) = JFinite p"
| "js_remainder _ _ = JNaN"

lemma length_nat_str: "n < 10 ^ Suc k \<Longrightarrow> length (nat_str n) \<le> Suc k"
proof (induction k arbitrary: n)
  case 0
  then show ?case by (simp add: nat_str.simps [of n])
next
  case (Suc k)
  then have "n div 10 < 10 ^ Suc k" by (simp add: less_mult_imp_div_less algebra_simps)
  from Suc.IH [OF this] show ?case by (simp add: nat_str.simps [of n])
qed

lemma decimal_places_of_nat [simp]: "decimal_places (of_nat n) = 0"
  by (simp add: decimal_places_def upt_conv_Cons)

lemma strip_zeros_fill: "strip_zeros s @ replicate (length s - length (strip_zeros s)) (CHR ''0'') = s"
proof -
  let ?t = "takeWhile (\<lambda>c. c = CHR ''0'') (rev s)"
  have "?t = replicate (length ?t) (CHR ''0'')"
    by (rule replicate_eqI) (auto dest: set_takeWhileD)
  moreover have "length ?t = length s - length (strip_zeros s)"
    unfolding strip_zeros_def
    by (metis add_diff_cancel_right' length_append length_rev takeWhile_dropWhile_id)
  ultimately have "rev ?t = replicate (length s - length (strip_zeros s)) (CHR ''0'')"
    by (metis rev_replicate)
  moreover have "strip_zeros s @ rev ?t = s"
    unfolding strip_zeros_def by (simp flip: rev_append)
  ultimately show ?thesis by simp
qed

lemma length_strip_zeros: "length (strip_zeros s) \<le> length s"
  using length_dropWhile_le [of "\<lambda>c. c = CHR ''0''" "rev s"] by (simp add: strip_zeros_def)

lemma js_num_str_nat:
  assumes "n < 10 ^ 21"
  shows "js_num_str (JFinite (of_nat n)) = nat_str n"
proof (cases "n = 0")
  case True
  moreover have "nat_str 0 = ''0''" by code_simp
  ultimately show ?thesis by simp
next
  case False
  have len: "length (nat_str n) \<le> 21"
    using length_nat_str [of n 20] assms by simp
  have "positive_str (of_nat n) = nat_str n"
    unfolding positive_str_def Let_def
    using len length_strip_zeros [of "nat_str n"] strip_zeros_fill [of "nat_str n"] by simp
  then show ?thesis using False by simp
qed

lemma js_remainder_nat:
  assumes "0 < n"
  shows "js_remainder (JFinite (of_nat i)) (JFinite (of_nat n)) = JFinite (of_nat (i mod n))"
proof -
  have "\<not> (of_nat i / of_nat n :: rat) < 0" by (simp add: not_less)
  then have "js_truncate (of_nat i / of_nat n) = int (i div n)"
    by (simp add: js_truncate_def floor_divide_of_nat_eq del: divide_less_0_iff)
  moreover have "(of_nat i :: rat) - of_nat n * of_nat (i div n) = of_nat (i mod n)"
    by (metis add_diff_cancel_left' mult_div_mod_eq of_nat_add of_nat_mult)
  ultimately show ?thesis using assms by simp
qed

section \<open>Configurations\<close>

type_synonym process_env = "string \<rightharpoonup> string"

definition env_Number :: "process_env \<Rightarrow> string \<Rightarrow> js_num" where
  "env_Number env v = (case env v of None \<Rightarrow> JNaN | Some s \<Rightarrow> js_Number s)"

definition env_Number_or :: "process_env \<Rightarrow> string \<Rightarrow> int \<Rightarrow> js_num" where
  "env_Number_or env v n = (if truthy (env v) then env_Number env v else JFinite (of_int n))"

record connection_params =
  db_host :: "string option"
  db_port :: js_num
  db_user :: "string option"
  db_password :: "string option"
  db_database :: "string option"

datatype connection = Connection_uri string | Connection_params connection_params

record knex_pool =
  pool_min :: js_num
  pool_max :: js_num
  pool_idleTimeoutMillis :: int
  pool_propagateCreateError :: bool
  pool_acquireTimeoutMillis :: js_num

record knex_config =
  knex_tag :: string
  knex_client :: string
  knex_connection :: connection
  knex_pool :: knex_pool
  knex_acquireConnectionTimeout :: "js_num option"

definition params_of :: "process_env \<Rightarrow> string \<Rightarrow> connection_params" where
  "params_of env pfx =
     \<lparr>db_host = env (pfx @ ''DB_HOST''), db_port = env_Number env (pfx @ ''DB_PORT''),
      db_user = env (pfx @ ''DB_USER''), db_password = env (pfx @ ''DB_PASSWORD''),
      db_database = env (pfx @ ''DB_NAME'')\<rparr>"

definition pool_of :: "process_env \<Rightarrow> string \<Rightarrow> knex_pool" where
  "pool_of env pfx =
     \<lparr>pool_min = env_Number_or env (pfx @ ''DB_MIN_POOL_SIZE'') 0,
      pool_max = env_Number_or env (pfx @ ''DB_MAX_POOL_SIZE'') 3,
      pool_idleTimeoutMillis = 60000, pool_propagateCreateError = False,
      pool_acquireTimeoutMillis = env_Number_or env (pfx @ ''DB_ACQUIRE_CONNECTION_TIMEOUT'') 60000\<rparr>"

definition getMasterConfig :: "process_env \<Rightarrow> knex_config" where
  "getMasterConfig env =
     \<lparr>knex_tag = ''master'', knex_client = ''pg'',
      knex_connection = (if truthy (env ''DB_URI'') then Connection_uri (the (env ''DB_URI''))
                         else Connection_params (params_of env [])),
      knex_pool = pool_of env [],
      knex_acquireConnectionTimeout = Some (env_Number_or env ''DB_ACQUIRE_CONNECTION_TIMEOUT'' 60000)\<rparr>"

definition getReadReplicaConfigByIndex :: "process_env \<Rightarrow> js_num \<Rightarrow> knex_config" where
  "getReadReplicaConfigByIndex env index =
     (let pfx = ''RR'' @ js_num_str index @ ''_'' in
      \<lparr>knex_tag = ''read-replica'', knex_client = ''pg'', knex_connection = Connection_params (params_of env pfx),
       knex_pool = pool_of env pfx, knex_acquireConnectionTimeout = None\<rparr>)"

definition getReadReplicaConfig :: "process_env \<Rightarrow> knex_config" where
  "getReadReplicaConfig env =
     getReadReplicaConfigByIndex env (js_remainder (env_Number env ''WORKER_INDEX'') (env_Number env ''READ_REPLICAS''))"

section \<open>One client of each kind per process\<close>

record 'c db_clients =
  writeClient :: "'c option"
  readClient :: "'c option"

definition getMasterDbClient :: "(knex_config \<Rightarrow> 'c) \<Rightarrow> process_env \<Rightarrow> 'c db_clients \<Rightarrow> 'c \<times> 'c db_clients" where
  "getMasterDbClient knex env st =
     (case writeClient st of
        Some c \<Rightarrow> (c, st)
      | None \<Rightarrow> (let c = knex (getMasterConfig env) in (c, st\<lparr>writeClient := Some c\<rparr>)))"

definition getReadReplicaDbClient ::
  "(knex_config \<Rightarrow> 'c) \<Rightarrow> process_env \<Rightarrow> 'c db_clients \<Rightarrow> 'c \<times> 'c db_clients" where
  "getReadReplicaDbClient knex env st =
     (if env ''READ_REPLICA_ENABLED'' \<noteq> Some ''true'' then getMasterDbClient knex env st
      else
        (case readClient st of
           Some c \<Rightarrow> (c, st)
         | None \<Rightarrow> (let c = knex (getReadReplicaConfig env) in (c, st\<lparr>readClient := Some c\<rparr>))))"

text \<open>
  \<open>releaseConnection\<close>, patched into knex: whether it prints the state of the pool, and when it has
  printed last for each tag.
\<close>

definition releaseConnection :: "bool \<Rightarrow> int \<Rightarrow> string \<Rightarrow> (string \<rightharpoonup> int) \<Rightarrow> bool \<times> (string \<rightharpoonup> int)" where
  "releaseConnection released now tag lastUpdate =
     (if \<not> released then (False, lastUpdate)
      else
        (let last = (case lastUpdate tag of None \<Rightarrow> now | Some t \<Rightarrow> t) in
         if now - last \<ge> 60000 then (True, lastUpdate(tag \<mapsto> now)) else (False, lastUpdate(tag \<mapsto> last))))"

section \<open>The cache\<close>

record redis_options =
  redis_url :: string
  redis_password :: "string option"

text \<open>A template string prints an absent variable as \<open>undefined\<close>.\<close>

definition env_str :: "process_env \<Rightarrow> string \<Rightarrow> string" where
  "env_str env v = (case env v of None \<Rightarrow> ''undefined'' | Some s \<Rightarrow> s)"

definition getCacheConfig :: "process_env \<Rightarrow> redis_options" where
  "getCacheConfig env =
     \<lparr>redis_url =
        (if truthy (env ''REDIS_URI'') then the (env ''REDIS_URI'')
         else ''redis://'' @ env_str env ''REDIS_USER'' @ '':'' @ env_str env ''REDIS_PASSWORD'' @ ''@''
              @ env_str env ''REDIS_HOST'' @ '':'' @ env_str env ''REDIS_PORT''),
      redis_password = env ''REDIS_PASSWORD''\<rparr>"

definition getCacheClient :: "(redis_options \<Rightarrow> 'c) \<Rightarrow> process_env \<Rightarrow> 'c option \<Rightarrow> 'c \<times> 'c option" where
  "getCacheClient createClient env inst =
     (case inst of
        Some c \<Rightarrow> (c, inst)
      | None \<Rightarrow> (let c = createClient (getCacheConfig env) in (c, Some c)))"

text \<open>
  \<open>slidingWindowRateLimiterFactory\<close>; \<open>conn\<close> is the outcome of the adapter's connection.
\<close>

definition slidingWindowRateLimiterFactory ::
  "(redis_options \<Rightarrow> 'r cache_client) \<Rightarrow> js_error option \<Rightarrow> process_env
     \<Rightarrow> 'r cache_client option \<times> 'r rate_limiter option
     \<Rightarrow> 'r rate_limiter \<times> ('r cache_client option \<times> 'r rate_limiter option)" where
  "slidingWindowRateLimiterFactory createClient conn env st =
     (case st of
        (cache, Some limiter) \<Rightarrow> (limiter, st)
      | (cache, None) \<Rightarrow>
          (case getCacheClient createClient env cache of
             (client, cache') \<Rightarrow>
               (let limiter = SlidingWindowRateLimiter (RedisAdapter conn client)
                in (limiter, cache', Some limiter))))"

end
