(* ===== verification/Db_Sharing.thy ===== *)
theory Db_Sharing
  imports Db_Clients
begin

text \<open>
  factories/: which database client each factory gives to the repositories it builds, in a process
  forked with an environment of its own; which replica that makes each worker read from.
\<close>

section \<open>The factories\<close>

datatype 'c repository = Event_repository 'c 'c | User_repository 'c | Invoice_repository 'c

datatype client_factory =
    Worker_factory | Static_mirroring_factory | Payments_service_factory | Admission_controller_factory
  | Invoice_controller_factory | Invoice_status_controller_factory

definition with_both :: "(knex_config \<Rightarrow> 'c) \<Rightarrow> process_env \<Rightarrow> ('c \<Rightarrow> 'c \<Rightarrow> 'c repository list) \<Rightarrow> 'c db_clients
     \<Rightarrow> 'c repository list \<times> 'c db_clients" where
  "with_both knex env build st =
     (case getMasterDbClient knex env st of
        (dbClient, st1) \<Rightarrow>
          (case getReadReplicaDbClient knex env st1 of
             (rrDbClient, st2) \<Rightarrow> (build dbClient rrDbClient, st2)))"

definition with_master :: "(knex_config \<Rightarrow> 'c) \<Rightarrow> process_env \<Rightarrow> ('c \<Rightarrow> 'c repository list) \<Rightarrow> 'c db_clients
     \<Rightarrow> 'c repository list \<times> 'c db_clients" where
  "with_master knex env build st =
     (case getMasterDbClient knex env st of (dbClient, st1) \<Rightarrow> (build dbClient, st1))"

definition workerFactory where
  "workerFactory knex env =
     with_both knex env (\<lambda>dbClient readReplicaDbClient.
       [Event_repository dbClient readReplicaDbClient, User_repository dbClient])"

definition staticMirroringWorkerFactory where
  "staticMirroringWorkerFactory knex env =
     with_both knex env (\<lambda>dbClient readReplicaDbClient.
       [Event_repository dbClient readReplicaDbClient, User_repository dbClient])"

definition createPaymentsService where
  "createPaymentsService knex env =
     with_both knex env (\<lambda>dbClient rrDbClient.
       [Invoice_repository dbClient, User_repository dbClient, Event_repository dbClient rrDbClient])"

definition createGetAdmissionCheckController where
  "createGetAdmissionCheckController knex env =
     with_master knex env (\<lambda>dbClient. [User_repository dbClient])"

definition createPostInvoiceController where
  "createPostInvoiceController knex env st =
     (case with_master knex env (\<lambda>dbClient. [User_repository dbClient]) st of
        (users, st1) \<Rightarrow> (case createPaymentsService knex env st1 of (repos, st2) \<Rightarrow> (users @ repos, st2)))"

definition createGetInvoiceStatusController where
  "createGetInvoiceStatusController knex env st =
     (case getReadReplicaDbClient knex env st of (rrDbClient, st1) \<Rightarrow> ([Invoice_repository rrDbClient], st1))"

fun build_with :: "(knex_config \<Rightarrow> 'c) \<Rightarrow> process_env \<Rightarrow> client_factory \<Rightarrow> 'c db_clients
     \<Rightarrow> 'c repository list \<times> 'c db_clients" where
  "build_with knex env Worker_factory st = workerFactory knex env st"
| "build_with knex env Static_mirroring_factory st = staticMirroringWorkerFactory knex env st"
| "build_with knex env Payments_service_factory st = createPaymentsService knex env st"
| "build_with knex env Admission_controller_factory st = createGetAdmissionCheckController knex env st"
| "build_with knex env Invoice_controller_factory st = createPostInvoiceController knex env st"
| "build_with knex env Invoice_status_controller_factory st = createGetInvoiceStatusController knex env st"

text \<open>A process calls the factories in some order: at its start, and for each HTTP request.\<close>

fun build_all :: "(knex_config \<Rightarrow> 'c) \<Rightarrow> process_env \<Rightarrow> client_factory list \<Rightarrow> 'c db_clients
     \<Rightarrow> 'c repository list \<times> 'c db_clients" where
  "build_all knex env [] st = ([], st)"
| "build_all knex env (f # fs) st =
     (case build_with knex env f st of
        (repos, st1) \<Rightarrow> (case build_all knex env fs st1 of (rest, st2) \<Rightarrow> (repos @ rest, st2)))"

definition no_clients :: "'c db_clients" where
  "no_clients = \<lparr>writeClient = None, readClient = None\<rparr>"

section \<open>The clients they share\<close>

definition master_client where
  "master_client knex env = knex (getMasterConfig env)"

definition reading_client where
  "reading_client knex env =
     (if env ''READ_REPLICA_ENABLED'' \<noteq> Some ''true'' then master_client knex env else knex (getReadReplicaConfig env))"

text \<open>What the module variables hold is what a fresh process would make.\<close>

definition clients_ok where
  "clients_ok knex env st \<longleftrightarrow>
     writeClient st \<in> {None, Some (master_client knex env)}
     \<and> readClient st \<in> {None, Some (knex (getReadReplicaConfig env))}"

text \<open>Events and invoices are written and users are read and written on the master; an invoice's status is read
  where the replica is.\<close>

fun uses_clients :: "'c \<Rightarrow> 'c \<Rightarrow> 'c repository \<Rightarrow> bool" where
  "uses_clients w r (Event_repository a b) \<longleftrightarrow> a = w \<and> b = r"
| "uses_clients w r (User_repository a) \<longleftrightarrow> a = w"
| "uses_clients w r (Invoice_repository a) \<longleftrightarrow> a \<in> {w, r}"

lemma getMasterDbClient_ok:
  assumes "clients_ok knex env st" "getMasterDbClient knex env st = (c, st')"
  shows "c = master_client knex env \<and> clients_ok knex env st'"
  using assms by (auto simp: getMasterDbClient_def clients_ok_def master_client_def Let_def split: option.splits)

lemma getReadReplicaDbClient_ok:
  assumes "clients_ok knex env st" "getReadReplicaDbClient knex env st = (c, st')"
  shows "c = reading_client knex env \<and> clients_ok knex env st'"
  using assms getMasterDbClient_ok [of knex env st c st']
  by (auto simp: getReadReplicaDbClient_def reading_client_def clients_ok_def Let_def split: option.splits if_splits)

lemma with_both_ok:
  assumes "clients_ok knex env st" "with_both knex env build st = (repos, st')"
  shows "repos = build (master_client knex env) (reading_client knex env) \<and> clients_ok knex env st'"
proof -
  obtain w st1 where w: "getMasterDbClient knex env st = (w, st1)" by force
  obtain r st2 where r: "getReadReplicaDbClient knex env st1 = (r, st2)" by force
  note got = getMasterDbClient_ok [OF assms(1) w]
  note got' = getReadReplicaDbClient_ok [OF conjunct2 [OF got] r]
  show ?thesis using assms(2) got got' by (simp add: with_both_def w r)
qed

lemma with_master_ok:
  assumes "clients_ok knex env st" "with_master knex env build st = (repos, st')"
  shows "repos = build (master_client knex env) \<and> clients_ok knex env st'"
  using assms getMasterDbClient_ok [OF assms(1)] by (auto simp: with_master_def split: prod.splits)

lemma createPaymentsService_ok:
  assumes "clients_ok knex env st" "createPaymentsService knex env st = (repos, st')"
  shows "list_all (uses_clients (master_client knex env) (reading_client knex env)) repos \<and> clients_ok knex env st'"
  using with_both_ok [OF assms(1)] assms(2) by (fastforce simp: createPaymentsService_def)

lemma createPostInvoiceController_ok:
  assumes "clients_ok knex env st" "createPostInvoiceController knex env st = (repos, st')"
  shows "list_all (uses_clients (master_client knex env) (reading_client knex env)) repos \<and> clients_ok knex env st'"
proof -
  obtain us st1 where us: "with_master knex env (\<lambda>c. [User_repository c]) st = (us, st1)" by force
  obtain ps st2 where ps: "createPaymentsService knex env st1 = (ps, st2)" by force
  note got = with_master_ok [OF assms(1) us]
  note got' = createPaymentsService_ok [OF conjunct2 [OF got] ps]
  show ?thesis using assms(2) got got' by (auto simp: createPostInvoiceController_def us ps)
qed

lemma build_with_ok:
  assumes "clients_ok knex env st" "build_with knex env f st = (repos, st')"
  shows "list_all (uses_clients (master_client knex env) (reading_client knex env)) repos \<and> clients_ok knex env st'"
proof (cases f)
  case Worker_factory
  then show ?thesis using with_both_ok [OF assms(1)] assms(2) by (fastforce simp: workerFactory_def)
next
  case Static_mirroring_factory
  then show ?thesis using with_both_ok [OF assms(1)] assms(2) by (fastforce simp: staticMirroringWorkerFactory_def)
next
  case Payments_service_factory
  then show ?thesis using createPaymentsService_ok [OF assms(1)] assms(2) by simp
next
  case Admission_controller_factory
  then show ?thesis using with_master_ok [OF assms(1)] assms(2) by (fastforce simp: createGetAdmissionCheckController_def)
next
  case Invoice_controller_factory
  then show ?thesis using createPostInvoiceController_ok [OF assms(1)] assms(2) by simp
next
  case Invoice_status_controller_factory
  then show ?thesis using getReadReplicaDbClient_ok [OF assms(1)] assms(2)
    by (auto simp: createGetInvoiceStatusController_def split: prod.splits)
qed

lemma build_all_ok:
  assumes "clients_ok knex env st" "build_all knex env fs st = (repos, st')"
  shows "list_all (uses_clients (master_client knex env) (reading_client knex env)) repos \<and> clients_ok knex env st'"
  using assms
proof (induction fs arbitrary: st repos)
  case (Cons f fs)
  then show ?case by (fastforce split: prod.splits dest: build_with_ok)
qed simp

section \<open>Forked processes\<close>

text \<open>\<open>cluster.fork\<close> adds the worker's variables to those of the primary process.\<close>

definition fork_env :: "process_env \<Rightarrow> worker_env \<Rightarrow> process_env" where
  "fork_env env vars = env ++ map_of vars"

lemma fork_env_other:
  "v \<notin> fst ` set vars \<Longrightarrow> fork_env env vars v = env v"
  by (auto simp: fork_env_def map_add_def map_of_eq_None_iff [THEN iffD2] split: option.splits)

lemma fork_env_replica:
  assumes "fst ` set vars \<subseteq> {''WORKER_TYPE'', ''WORKER_INDEX'', ''MIRROR_INDEX''}"
  shows "getReadReplicaConfigByIndex (fork_env env vars) index = getReadReplicaConfigByIndex env index"
    and "getMasterConfig (fork_env env vars) = getMasterConfig env"
    and "fork_env env vars ''READ_REPLICA_ENABLED'' = env ''READ_REPLICA_ENABLED''"
    and "fork_env env vars ''READ_REPLICAS'' = env ''READ_REPLICAS''"
proof -
  have other: "fork_env env vars (c # v) = env (c # v)" if "c \<noteq> CHR ''W''" "c \<noteq> CHR ''M''" for c v
    using assms that by (intro fork_env_other) auto
  show "getReadReplicaConfigByIndex (fork_env env vars) index = getReadReplicaConfigByIndex env index"
    "getMasterConfig (fork_env env vars) = getMasterConfig env"
    "fork_env env vars ''READ_REPLICA_ENABLED'' = env ''READ_REPLICA_ENABLED''"
    "fork_env env vars ''READ_REPLICAS'' = env ''READ_REPLICAS''"
    by (simp_all add: getReadReplicaConfigByIndex_def getMasterConfig_def params_of_def pool_of_def
        env_Number_or_def env_Number_def other Let_def)
qed

text \<open>How many of \<open>w\<close> workers have a number with a given remainder.\<close>

lemma workers_of_replica:
  assumes "j < (n::nat)"
  shows "w div n \<le> card {i. i < w \<and> i mod n = j} \<and> card {i. i < w \<and> i mod n = j} \<le> w div n + 1"
proof -
  have eq: "{i. i < w \<and> i mod n = j} = (\<lambda>q. q * n + j) ` {q. q * n + j < w}"
  proof (intro equalityI subsetI)
    fix i assume "i \<in> {i. i < w \<and> i mod n = j}"
    then have "i div n * n + j = i" "i < w" using div_mult_mod_eq [of i n] by simp_all
    then have "i div n \<in> {q. q * n + j < w}" "i = (\<lambda>q. q * n + j) (i div n)" by simp_all
    then show "i \<in> (\<lambda>q. q * n + j) ` {q. q * n + j < w}" by (rule rev_image_eqI)
  qed (use assms in auto)
  have inj: "inj_on (\<lambda>q. q * n + j) A" for A using assms by (auto intro!: inj_onI)
  have hi: "{q. q * n + j < w} \<subseteq> {..w div n}"
  proof
    fix q assume "q \<in> {q. q * n + j < w}"
    then have "q * n \<le> w" by simp
    then show "q \<in> {..w div n}" using assms by (simp add: less_eq_div_iff_mult_less_eq)
  qed
  have lo: "{..<w div n} \<subseteq> {q. q * n + j < w}"
  proof
    fix q assume "q \<in> {..<w div n}"
    then have "Suc q * n \<le> w" using assms by (simp only: lessThan_iff less_eq_div_iff_mult_less_eq flip: Suc_le_eq)
    then show "q \<in> {q. q * n + j < w}" using assms by simp
  qed
  show ?thesis
    unfolding eq card_image [OF inj]
    using card_mono [OF finite_subset [OF hi] lo] card_mono [OF _ hi] by simp
qed

text \<open>Which replica a client worker, and which the others, read from.\<close>

lemma client_worker_config:
  assumes "env ''READ_REPLICAS'' = Some (nat_str n)" "0 < n"
  shows "getReadReplicaConfig (fork_env env (client_env i)) = getReadReplicaConfigByIndex env (JFinite (of_nat (i mod n)))"
proof -
  have names: "fst ` set (client_env i) \<subseteq> {''WORKER_TYPE'', ''WORKER_INDEX'', ''MIRROR_INDEX''}"
    by (simp add: client_env_def)
  have "fork_env env (client_env i) ''WORKER_INDEX'' = Some (nat_str i)"
    by (simp add: fork_env_def client_env_def)
  then have "env_Number (fork_env env (client_env i)) ''WORKER_INDEX'' = JFinite (of_nat i)"
    by (simp add: env_Number_def)
  moreover have "env_Number (fork_env env (client_env i)) ''READ_REPLICAS'' = JFinite (of_nat n)"
    using assms(1) fork_env_replica(4) [OF names, of env] by (simp add: env_Number_def)
  ultimately show ?thesis
    by (simp only: getReadReplicaConfig_def js_remainder_nat [OF assms(2)] fork_env_replica(1) [OF names])
qed

definition other_worker_env :: "nat option \<Rightarrow> worker_env" where
  "other_worker_env mirror = (case mirror of None \<Rightarrow> maintenance_worker_env | Some k \<Rightarrow> mirror_worker_env k)"

lemma other_worker_names:
  "fst ` set (other_worker_env m) \<subseteq> {''WORKER_TYPE'', ''WORKER_INDEX'', ''MIRROR_INDEX''}"
  by (auto simp: other_worker_env_def maintenance_worker_env_def mirror_worker_env_def split: option.splits)

lemma other_worker_config:
  assumes "env ''WORKER_INDEX'' = None"
  shows "getReadReplicaConfig (fork_env env (other_worker_env m)) = getReadReplicaConfigByIndex env JNaN"
proof -
  have "fork_env env (other_worker_env m) ''WORKER_INDEX'' = None"
    using assms by (subst fork_env_other)
      (auto simp: other_worker_env_def maintenance_worker_env_def mirror_worker_env_def split: option.splits)
  then show ?thesis
    by (simp add: getReadReplicaConfig_def env_Number_def fork_env_replica(1) [OF other_worker_names])
qed

lemma shared_clients:
  assumes "env ''READ_REPLICA_ENABLED'' = Some ''true''"
    and "fst ` set vars \<subseteq> {''WORKER_TYPE'', ''WORKER_INDEX'', ''MIRROR_INDEX''}"
  shows "list_all (uses_clients (knex (getMasterConfig env)) (knex (getReadReplicaConfig (fork_env env vars))))
    (fst (build_all knex (fork_env env vars) fs no_clients))"
proof -
  obtain repos st where run: "build_all knex (fork_env env vars) fs no_clients = (repos, st)" by force
  have "clients_ok knex (fork_env env vars) no_clients" by (simp add: clients_ok_def no_clients_def)
  from build_all_ok [OF this run] show ?thesis
    using assms by (simp add: run master_client_def reading_client_def fork_env_replica)
qed

text \<open>C39. With read replicas, every factory call of a process, in any order and number, builds on the same two
  clients: everything is written on the master and events are read on one replica. Client worker \<open>i\<close> reads
  from replica \<open>i mod n\<close>, configured by the variables of that number, so that \<open>w\<close> workers are spread evenly
  over \<open>n\<close> replicas; a maintenance worker or mirror has no index, and its client is configured from
  variables named \<open>RRNaN_\<close>.\<close>

theorem workers_share_database_clients:
  assumes "env ''READ_REPLICA_ENABLED'' = Some ''true''" "env ''READ_REPLICAS'' = Some (nat_str n)" "0 < n"
    and "env ''WORKER_INDEX'' = None" "n < 10 ^ 21" "j < n"
  defines "replica \<equiv> \<lambda>pfx. \<lparr>knex_tag = ''read-replica'', knex_client = ''pg'',
      knex_connection = Connection_params (params_of env pfx), knex_pool = pool_of env pfx,
      knex_acquireConnectionTimeout = None\<rparr>"
  shows "list_all (uses_clients (knex (getMasterConfig env)) (knex (replica (''RR'' @ nat_str (i mod n) @ ''_''))))
        (fst (build_all knex (fork_env env (client_env i)) fs no_clients))
    \<and> w div n \<le> card {i. i < w \<and> i mod n = j} \<and> card {i. i < w \<and> i mod n = j} \<le> w div n + 1
    \<and> list_all (uses_clients (knex (getMasterConfig env)) (knex (replica ''RRNaN_'')))
        (fst (build_all knex (fork_env env (other_worker_env m)) fs no_clients))"
proof -
  have "i mod n < 10 ^ 21" using assms(3,5) mod_less_divisor [of n i] by linarith
  then have "getReadReplicaConfigByIndex env (JFinite (of_nat (i mod n))) = replica (''RR'' @ nat_str (i mod n) @ ''_'')"
    using js_num_str_nat [of "i mod n"] by (simp add: getReadReplicaConfigByIndex_def replica_def Let_def)
  moreover have "getReadReplicaConfigByIndex env JNaN = replica ''RRNaN_''"
    by (simp add: getReadReplicaConfigByIndex_def replica_def Let_def)
  moreover have "fst ` set (client_env i) \<subseteq> {''WORKER_TYPE'', ''WORKER_INDEX'', ''MIRROR_INDEX''}"
    by (simp add: client_env_def)
  ultimately show ?thesis
    using shared_clients [where env = env and vars = "client_env i", OF assms(1)] shared_clients [where env = env, OF assms(1) other_worker_names]
      client_worker_config [where env = env, OF assms(2,3)] other_worker_config [where env = env, OF assms(4)] workers_of_replica [OF assms(6)]
    by (metis (no_types, lifting))
qed

definition replica_env :: process_env where
  "replica_env = map_of [(''READ_REPLICA_ENABLED'', ''true''), (''READ_REPLICAS'', ''2''), (''RR1_DB_HOST'', ''b'')]"

definition client_host :: "knex_config \<Rightarrow> string option" where
  "client_host c = (case knex_connection c of Connection_uri u \<Rightarrow> Some u | Connection_params p \<Rightarrow> db_host p)"

lemma workers_share_database_clients_witness:
  "list_all (uses_clients None (Some ''b''))
     (fst (build_all client_host (fork_env replica_env (client_env 3))
       [Worker_factory, Invoice_status_controller_factory] no_clients))"
proof -
  have two: "nat_str 2 = ''2''" "nat_str (Suc 0) = ''1''" by code_simp+
  have env: "replica_env ''READ_REPLICA_ENABLED'' = Some ''true''" "replica_env ''READ_REPLICAS'' = Some (nat_str 2)"
    "replica_env ''WORKER_INDEX'' = None"
    by (simp_all add: replica_env_def two)
  have hosts: "(case knex_connection (getMasterConfig replica_env) of
      Connection_uri u \<Rightarrow> Some u | Connection_params p \<Rightarrow> db_host p) = None" "replica_env ''RR1_DB_HOST'' = Some ''b''"
    by (simp_all add: client_host_def getMasterConfig_def params_of_def replica_env_def truthy_def)
  show ?thesis
    using workers_share_database_clients [OF env(1,2) _ env(3), of 0 client_host 3
        "[Worker_factory, Invoice_status_controller_factory]"]
    by (simp add: two hosts client_host_def params_of_def del: build_all.simps)
qed

end
