(* ===== verification/Tor_Client.thy ===== *)
theory Tor_Client
  imports Db_Clients
begin

text \<open>
  tor/client.ts and its use in app/app.ts: the hidden service the primary process announces. The Tor
  daemon and the library that speaks to its control port are a parameter; the file that keeps the
  service's key is a map from paths to contents.
\<close>

section \<open>Configuration\<close>

record tor_config =
  tor_host :: "string option"
  tor_port :: js_num
  tor_password :: "string option"

definition createTorConfig :: "process_env \<Rightarrow> tor_config" where
  "createTorConfig env =
     \<lparr>tor_host = env ''TOR_HOST'', tor_port = env_Number_or env ''TOR_CONTROL_PORT'' 9051,
      tor_password = env ''TOR_PASSWORD''\<rparr>"

text \<open>\<open>path.join\<close> of a normalized path and a name.\<close>

definition path_in :: "string \<Rightarrow> string \<Rightarrow> string" where
  "path_in base name = (if base = [] then name else base @ ''/'' @ name)"

definition getPrivateKeyFile :: "process_env \<Rightarrow> string \<Rightarrow> string" where
  "getPrivateKeyFile env homedir =
     path_in (case env ''NOSTR_CONFIG_DIR'' of Some dir \<Rightarrow> dir | None \<Rightarrow> path_in homedir ''.nostr'')
       ''v3_onion_private_key''"

section \<open>The client of the control port\<close>

text \<open>
  \<open>reply_json\<close> is the text \<open>JSON.stringify\<close> gives of the library's reply to \<open>ADD_ONION\<close>.
\<close>

record onion_reply =
  ServiceID :: string
  PrivateKey :: "string option"
  reply_json :: string

record 'c tor_library =
  tor_new :: "tor_config \<Rightarrow> 'c"
  tor_connect :: "'c \<Rightarrow> js_error option"
  tor_addOnion :: "'c \<Rightarrow> js_num \<Rightarrow> string option \<Rightarrow> string option \<Rightarrow> js_error + onion_reply"
  tor_quit :: "'c \<Rightarrow> js_error option"

text \<open>The module variable \<open>client\<close>; a client that cannot connect is forgotten.\<close>

definition getTorClient :: "'c tor_library \<Rightarrow> process_env \<Rightarrow> 'c option \<Rightarrow> 'c option" where
  "getTorClient tor env client =
     (case client of
        Some c \<Rightarrow> Some c
      | None \<Rightarrow>
          (let config = createTorConfig env in
           if tor_host config = None then None
           else
             (let c = tor_new tor config in
              case tor_connect tor c of None \<Rightarrow> Some c | Some err \<Rightarrow> None)))"

definition closeTorClient :: "'c tor_library \<Rightarrow> 'c option \<Rightarrow> js_error option \<times> 'c option" where
  "closeTorClient tor client =
     (case client of
        None \<Rightarrow> (None, None)
      | Some c \<Rightarrow> (case tor_quit tor c of None \<Rightarrow> (None, None) | Some err \<Rightarrow> (Some err, client)))"

section \<open>The hidden service\<close>

text \<open>
  The process's files and client. \<open>write_error\<close> is the error of writing a path, if it has one; a path
  that cannot be read has no content.
\<close>

record 'c tor_state =
  ts_files :: "string \<rightharpoonup> string"
  ts_client :: "'c option"

definition addOnion ::
  "'c tor_library \<Rightarrow> process_env \<Rightarrow> string \<Rightarrow> (string \<Rightarrow> js_error option) \<Rightarrow> js_num \<Rightarrow> string option
     \<Rightarrow> 'c tor_state \<Rightarrow> (js_error + string) \<times> 'c tor_state" where
  "addOnion tor env homedir write_error port host st =
     (let path = getPrivateKeyFile env homedir;
          privateKey = (case ts_files st path of
                          None \<Rightarrow> None
                        | Some data \<Rightarrow> if data \<noteq> [] then Some data else None);
          client = getTorClient tor env (ts_client st);
          st1 = st\<lparr>ts_client := client\<rparr>
      in case client of
           None \<Rightarrow> (Inl (JsError ''not connect''), st1)
         | Some c \<Rightarrow>
             (case tor_addOnion tor c port host privateKey of
                Inl err \<Rightarrow> (Inl err, st1)
              | Inr hiddenService \<Rightarrow>
                  (if truthy (PrivateKey hiddenService) then
                     (case write_error path of
                        Some err \<Rightarrow> (Inl err, st1)
                      | None \<Rightarrow>
                          (Inr (ServiceID hiddenService),
                           st1\<lparr>ts_files := (ts_files st)(path := PrivateKey hiddenService)\<rparr>))
                   else (Inl (JsError (reply_json hiddenService)), st1))))"

text \<open>What \<open>App.run\<close> prints of it.\<close>

definition torHiddenServicePort :: "process_env \<Rightarrow> js_num" where
  "torHiddenServicePort env = env_Number_or env ''HIDDEN_SERVICE_PORT'' 80"

definition onion_host :: "process_env \<Rightarrow> string \<Rightarrow> string" where
  "onion_host env hostname = hostname @ '':'' @ js_num_str (env_Number_or env ''RELAY_PORT'' 8008)"

definition announced ::
  "'c tor_library \<Rightarrow> process_env \<Rightarrow> string \<Rightarrow> string \<Rightarrow> (string \<Rightarrow> js_error option) \<Rightarrow> 'c tor_state \<Rightarrow> string \<times> 'c tor_state" where
  "announced tor env homedir hostname write_error st =
     (case addOnion tor env homedir write_error (torHiddenServicePort env) (Some (onion_host env hostname)) st of
        (Inr value, st') \<Rightarrow> (''Tor hidden service: '' @ value @ '':'' @ js_num_str (torHiddenServicePort env), st')
      | (Inl err, st') \<Rightarrow> (''Tor hidden service: disabled'', st'))"

section \<open>Starting and starting again\<close>

lemma getTorClient_same:
  "getTorClient tor env None = Some c \<Longrightarrow> getTorClient tor env (Some c) = Some c"
  by (simp add: getTorClient_def)

lemma addOnion_first:
  assumes "getTorClient tor env (ts_client st) = Some c" "ts_files st (getPrivateKeyFile env homedir) = None"
    and "tor_addOnion tor c port host None = Inr r" "truthy (PrivateKey r)"
    and "write_error (getPrivateKeyFile env homedir) = None"
  shows "addOnion tor env homedir write_error port host st =
    (Inr (ServiceID r),
     \<lparr>ts_files = (ts_files st)(getPrivateKeyFile env homedir := PrivateKey r), ts_client = Some c\<rparr>)"
  using assms by (simp add: addOnion_def Let_def)

lemma addOnion_again:
  assumes "getTorClient tor env (ts_client st) = Some c"
    and "ts_files st (getPrivateKeyFile env homedir) = Some key" "key \<noteq> []"
    and "tor_addOnion tor c port host (Some key) = Inr r" "PrivateKey r = None"
  shows "addOnion tor env homedir write_error port host st =
    (Inl (JsError (reply_json r)), st\<lparr>ts_client := Some c\<rparr>)"
  using assms by (simp add: addOnion_def Let_def truthy_def)

text \<open>Tor replies to \<open>ADD_ONION\<close> with a private key only where it was to generate one. So the first start
  of the primary process announces the service and keeps its key, and every later start, which gives
  that key and gets the same service from Tor, takes the reply for a failure: the service runs, while
  the relay prints that it is disabled; the key stays.\<close>

theorem restarted_onion_service_is_reported_disabled:
  assumes "ts_client st = None" "ts_files st (getPrivateKeyFile env homedir) = None"
    and "getTorClient tor env None = Some c"
    and new_key: "\<And>port host. \<exists>r. tor_addOnion tor c port host None = Inr r \<and> truthy (PrivateKey r)"
    and given_key: "\<And>port host key. \<exists>r. tor_addOnion tor c port host (Some key) = Inr r \<and> PrivateKey r = None"
    and "write_error (getPrivateKeyFile env homedir) = None"
  shows "\<exists>key st1 st2 value.
    announced tor env homedir hostname write_error st =
      (''Tor hidden service: '' @ value @ '':'' @ js_num_str (torHiddenServicePort env), st1)
    \<and> ts_files st1 (getPrivateKeyFile env homedir) = Some key \<and> key \<noteq> []
    \<and> announced tor env homedir hostname write_error (st1\<lparr>ts_client := None\<rparr>) =
        (''Tor hidden service: disabled'', st2)
    \<and> ts_files st2 = ts_files st1 \<and> ts_client st2 = Some c"
proof -
  let ?port = "torHiddenServicePort env" and ?host = "Some (onion_host env hostname)"
  let ?path = "getPrivateKeyFile env homedir"
  obtain r where r: "tor_addOnion tor c ?port ?host None = Inr r" "truthy (PrivateKey r)"
    using new_key by blast
  then obtain key where key: "PrivateKey r = Some key" "key \<noteq> []" by (auto simp: truthy_def split: option.splits)
  let ?st1 = "\<lparr>ts_files = (ts_files st)(?path \<mapsto> key), ts_client = Some c\<rparr>"
  have first: "announced tor env homedir hostname write_error st =
      (''Tor hidden service: '' @ ServiceID r @ '':'' @ js_num_str ?port, ?st1)"
    using addOnion_first [where st = st and env = env and homedir = homedir and write_error = write_error,
        OF _ assms(2) r assms(6)] assms(1,3) key by (simp add: announced_def)
  obtain r' where r': "tor_addOnion tor c ?port ?host (Some key) = Inr r'" "PrivateKey r' = None"
    using given_key by blast
  have "announced tor env homedir hostname write_error (?st1\<lparr>ts_client := None\<rparr>) =
      (''Tor hidden service: disabled'', ?st1)"
    using addOnion_again [where st = "?st1\<lparr>ts_client := None\<rparr>" and env = env and homedir = homedir and key = key,
        OF _ _ key(2) r'] assms(3)
    by (simp add: announced_def)
  then show ?thesis using first key(2) by fastforce
qed

definition sample_tor :: "unit tor_library" where
  "sample_tor = \<lparr>tor_new = (\<lambda>c. ()), tor_connect = (\<lambda>c. None),
     tor_addOnion = (\<lambda>c port host key. Inr \<lparr>ServiceID = ''abc'',
        PrivateKey = (if key = None then Some ''ED25519-V3:k'' else None), reply_json = ''{}''\<rparr>),
     tor_quit = (\<lambda>c. None)\<rparr>"

lemma restarted_onion_service_is_reported_disabled_witness:
  "\<exists>st. ts_files st ''/d/v3_onion_private_key'' \<noteq> None
     \<and> fst (announced sample_tor [''TOR_HOST'' \<mapsto> ''tor'', ''NOSTR_CONFIG_DIR'' \<mapsto> ''/d''] ''/root'' ''h'' (\<lambda>_. None) st)
       = ''Tor hidden service: disabled''"
proof -
  let ?env = "[''TOR_HOST'' \<mapsto> ''tor'', ''NOSTR_CONFIG_DIR'' \<mapsto> ''/d'']"
  let ?run = "announced sample_tor ?env ''/root'' ''h'' (\<lambda>_. None)"
  let ?st = "\<lparr>ts_files = Map.empty, ts_client = None\<rparr>"
  have path: "getPrivateKeyFile ?env ''/root'' = ''/d/v3_onion_private_key''"
    by (simp add: getPrivateKeyFile_def path_in_def)
  have "getTorClient sample_tor ?env None = Some ()"
    by (simp add: getTorClient_def createTorConfig_def sample_tor_def Let_def)
  moreover have "\<exists>r. tor_addOnion sample_tor () port host None = Inr r \<and> truthy (PrivateKey r)" for port host
    by (simp add: sample_tor_def truthy_def)
  moreover have "\<exists>r. tor_addOnion sample_tor () port host (Some key) = Inr r \<and> PrivateKey r = None" for port host key
    by (simp add: sample_tor_def)
  ultimately obtain key st1 st2 where "ts_files st1 (getPrivateKeyFile ?env ''/root'') = Some key"
    "?run (st1\<lparr>ts_client := None\<rparr>) = (''Tor hidden service: disabled'', st2)"
    using restarted_onion_service_is_reported_disabled [of ?st ?env "''/root''" sample_tor "()" "\<lambda>_. None" "''h''"]
    by auto
  then show ?thesis unfolding path by (intro exI [of _ "st1\<lparr>ts_client := None\<rparr>"]) simp
qed

end
