(* ===== verification/Event_Crypto.thy ===== *)
theory Event_Crypto
  imports Payments_Service
begin

text \<open>
  The rest of utils/event.ts: signing, the encrypted direct messages of NIP-04 and the broadcast that a
  notification ends with. The curve and the cipher are parameters; base64 is Node's.
\<close>

section \<open>Base64\<close>

definition b64_alphabet :: string where
  "b64_alphabet = ''ABCDEFGHIJKLMNOPQRSTUVWXYZabcdefghijklmnopqrstuvwxyz0123456789+/''"

definition b64_char :: "nat \<Rightarrow> char" where
  "b64_char n = b64_alphabet ! n"

fun base64_nats :: "nat list \<Rightarrow> string" where
  "base64_nats [] = []"
| "base64_nats [a] = [b64_char (a div 4), b64_char (a mod 4 * 16), CHR ''='', CHR ''='']"
| "base64_nats [a, b] =
     [b64_char (a div 4), b64_char (a mod 4 * 16 + b div 16), b64_char (b mod 16 * 4), CHR ''='']"
| "base64_nats (a # b # c # rest) =
     b64_char (a div 4) # b64_char (a mod 4 * 16 + b div 16) # b64_char (b mod 16 * 4 + c div 64)
       # b64_char (c mod 64) # base64_nats rest"

definition base64 :: "bytes \<Rightarrow> string" where
  "base64 bs = base64_nats (map unat bs)"

text \<open>What a receiver reads back.\<close>

fun index_of :: "'a \<Rightarrow> 'a list \<Rightarrow> nat" where
  "index_of x [] = 0"
| "index_of x (y # ys) = (if x = y then 0 else Suc (index_of x ys))"

definition b64_value :: "char \<Rightarrow> nat" where
  "b64_value c = index_of c b64_alphabet"

fun unbase64_nats :: "string \<Rightarrow> nat list" where
  "unbase64_nats (p # q # r # s # rest) =
     (let a = b64_value p * 4 + b64_value q div 16 in
      if r = CHR ''='' then [a]
      else
        (let b = b64_value q mod 16 * 16 + b64_value r div 4 in
         if s = CHR ''='' then [a, b]
         else a # b # (b64_value r mod 4 * 64 + b64_value s) # unbase64_nats rest))"
| "unbase64_nats _ = []"

definition unbase64 :: "string \<Rightarrow> bytes" where
  "unbase64 s = map of_nat (unbase64_nats s)"

lemma b64_table:
  "list_all (\<lambda>n. b64_value (b64_char n) = n \<and> b64_char n \<noteq> CHR ''='' \<and> b64_char n \<noteq> CHR ''?'') [0..<64]"
  by code_simp

lemma b64_simps [simp]:
  assumes "n < 64"
  shows "b64_value (b64_char n) = n" "b64_char n \<noteq> CHR ''=''" "b64_char n \<noteq> CHR ''?''"
  using b64_table assms by (simp_all add: list_all_iff)

lemma b64_no_mark [simp]: "n < 64 \<Longrightarrow> CHR ''?'' \<noteq> b64_char n"
  using b64_simps(3) by force

lemma byte_arith:
  fixes a b :: nat
  assumes "a < 256" "b < 256"
  shows "a div 4 < 64" "a mod 4 * 16 < 64" "a mod 4 * 16 + b div 16 < 64" "b mod 16 * 4 < 64" "a mod 64 < 64"
    "b mod 16 * 4 + a div 64 < 64" "(a mod 4 * 16 + b div 16) div 16 = a mod 4" "(a mod 4 * 16 + b div 16) mod 16 = b div 16"
    "(b mod 16 * 4 + a div 64) div 4 = b mod 16" "(b mod 16 * 4 + a div 64) mod 4 = a div 64"
    "a div 4 * 4 + a mod 4 = a" "b div 16 * 16 + b mod 16 = b" "a div 64 * 64 + a mod 64 = a"
    "b div 16 < 16" "a div 64 < 4"
proof -
  have small: "a mod 4 < 4" "b div 16 < 16" "b mod 16 < 16" "a div 64 < 4" using assms by auto
  then show "a mod 4 * 16 < 64" "a mod 4 * 16 + b div 16 < 64" "b mod 16 * 4 < 64" "b mod 16 * 4 + a div 64 < 64"
    "b div 16 < 16" "a div 64 < 4"
    by linarith+
  show "(a mod 4 * 16 + b div 16) div 16 = a mod 4" "(a mod 4 * 16 + b div 16) mod 16 = b div 16"
    "(b mod 16 * 4 + a div 64) div 4 = b mod 16" "(b mod 16 * 4 + a div 64) mod 4 = a div 64"
    using small by simp_all
qed (use assms in auto)

lemma unat_byte: "unat (b :: 8 word) < 256"
  using unsigned_less [of b] by simp

lemma unbase64_base64_nats:
  "\<forall>n\<in>set ns. n < 256 \<Longrightarrow> unbase64_nats (base64_nats ns) = ns"
proof (induction ns rule: base64_nats.induct)
  case (2 a)
  then show ?case by (simp add: byte_arith [of a 0])
next
  case (3 a b)
  then show ?case by (simp add: byte_arith [of a b] byte_arith [of b b])
next
  case (4 a b c rest)
  then show ?case by (simp add: byte_arith [of a b] byte_arith [of c b] Let_def)
qed simp

lemma unbase64_base64 [simp]: "unbase64 (base64 bs) = bs"
proof -
  have "\<forall>n\<in>set (map unat bs). n < 256" by (auto intro: unat_byte)
  then show ?thesis by (simp add: unbase64_def base64_def unbase64_base64_nats map_idI)
qed

lemma base64_nats_no_mark: "\<forall>n\<in>set ns. n < 256 \<Longrightarrow> CHR ''?'' \<notin> set (base64_nats ns)"
proof (induction ns rule: base64_nats.induct)
  case (2 a)
  then show ?case by (simp add: byte_arith [of a 0])
next
  case (3 a b)
  then show ?case by (simp add: byte_arith [of a b])
next
  case (4 a b c rest)
  then show ?case by (simp add: byte_arith [of a b] byte_arith [of c b])
qed simp

lemma base64_no_mark: "CHR ''?'' \<notin> set (base64 bs)"
  unfolding base64_def by (rule base64_nats_no_mark) (auto intro: unat_byte)

section \<open>Signing and sending\<close>

text \<open>\<open>sign\<close> is the curve's signature of an identifier with a private key.\<close>

definition signEvent :: "(string \<Rightarrow> string \<Rightarrow> js_error + bytes) \<Rightarrow> string \<Rightarrow> event \<Rightarrow> js_error + event" where
  "signEvent sign privkey e =
     (case sign privkey (evt_id e) of Inl err \<Rightarrow> Inl err | Inr s \<Rightarrow> Inr (e\<lparr>sig := fromBuffer s\<rparr>))"

text \<open>\<open>send\<close> is the error \<open>process.send\<close> calls back with; what was handed to it comes second.\<close>

definition broadcastEvent ::
  "bool \<Rightarrow> bool \<Rightarrow> (event \<Rightarrow> js_error option) \<Rightarrow> event \<Rightarrow> (js_error + event) \<times> event list" where
  "broadcastEvent is_worker has_send send e =
     (if \<not> is_worker \<or> \<not> has_send then (Inr e, [])
      else (case send e of Some err \<Rightarrow> (Inl err, [e]) | None \<Rightarrow> (Inr e, [e])))"

section \<open>Encrypted direct messages\<close>

text \<open>
  \<open>sharedSecret\<close> gives the compressed point of a private and a public key, \<open>aes\<close> the output of the
  cipher under a key and an initialization vector, and \<open>iv\<close> are the 16 random bytes.
\<close>

definition encryptKind4Event ::
  "(string \<Rightarrow> string \<Rightarrow> js_error + bytes) \<Rightarrow> (bytes \<Rightarrow> bytes \<Rightarrow> bytes \<Rightarrow> js_error + bytes) \<Rightarrow> bytes \<Rightarrow> string \<Rightarrow> string
     \<Rightarrow> event \<Rightarrow> js_error + event" where
  "encryptKind4Event sharedSecret aes iv senderPrivkey receiverPubkey e =
     (case sharedSecret senderPrivkey (''02'' @ receiverPubkey) of
        Inl err \<Rightarrow> Inl err
      | Inr point \<Rightarrow>
          (case aes (drop 1 point) iv (utf8 (content e)) of
             Inl err \<Rightarrow> Inl err
           | Inr ciphertext \<Rightarrow> Inr (e\<lparr>content := base64 ciphertext @ ''?iv='' @ base64 iv\<rparr>)))"

text \<open>How the receiver reads such a content, following NIP-04.\<close>

definition kind4_parts :: "string \<Rightarrow> bytes \<times> bytes" where
  "kind4_parts s =
     (let c = takeWhile (\<lambda>x. x \<noteq> CHR ''?'') s in (unbase64 c, unbase64 (drop (length c + 4) s)))"

definition read_kind4 ::
  "(string \<Rightarrow> string \<Rightarrow> js_error + bytes) \<Rightarrow> (bytes \<Rightarrow> bytes \<Rightarrow> bytes \<Rightarrow> js_error + bytes) \<Rightarrow> string \<Rightarrow> string
     \<Rightarrow> string \<Rightarrow> js_error + bytes" where
  "read_kind4 sharedSecret aes_decrypt privkey senderPubkey s =
     (case sharedSecret privkey (''02'' @ senderPubkey) of
        Inl err \<Rightarrow> Inl err
      | Inr point \<Rightarrow> (case kind4_parts s of (ciphertext, iv) \<Rightarrow> aes_decrypt (drop 1 point) iv ciphertext))"

lemma kind4_parts_encrypted: "kind4_parts (base64 c @ ''?iv='' @ base64 iv) = (c, iv)"
proof -
  have "takeWhile (\<lambda>x. x \<noteq> CHR ''?'') (base64 c @ ''?iv='' @ base64 iv) = base64 c"
    using base64_no_mark [of c] by (subst takeWhile_append2) auto
  then show ?thesis by (simp add: kind4_parts_def)
qed

text \<open>The receiver of an encrypted message reads the sender's text: the content separates into the
  ciphertext and the initialization vector, which decode to the bytes that were encoded, provided that
  the two keys give points with the same abscissa and that the cipher can be undone with its key and
  vector. Nothing but the content of the event changes.\<close>

theorem encrypted_message_round_trip:
  assumes "encryptKind4Event sharedSecret aes iv senderPrivkey receiverPubkey e = Inr e'"
    and point: "sharedSecret senderPrivkey (''02'' @ receiverPubkey) = Inr p"
    and other: "sharedSecret receiverPrivkey (''02'' @ senderPubkey) = Inr q" "drop 1 q = drop 1 p"
    and undo: "\<And>key iv m c. aes key iv m = Inr c \<Longrightarrow> aes_decrypt key iv c = Inr m"
  shows "read_kind4 sharedSecret aes_decrypt receiverPrivkey senderPubkey (content e') = Inr (utf8 (content e))
    \<and> e' = e\<lparr>content := content e'\<rparr>"
proof -
  obtain c where c: "aes (drop 1 p) iv (utf8 (content e)) = Inr c"
    and e': "e' = e\<lparr>content := base64 c @ ''?iv='' @ base64 iv\<rparr>"
    using assms(1) point by (auto simp: encryptKind4Event_def split: sum.splits)
  show ?thesis
    using other undo [OF c] by (simp add: read_kind4_def e' kind4_parts_encrypted del: append.simps)
qed

definition plain_message :: event where
  "plain_message = \<lparr>evt_id = [], pubkey = ''a'', created_at = 1, kind = 4, tags = [], sig = [], content = ''hi'',
     ctx_address = None, meta_expiration = None, meta_deduplication = None\<rparr>"

lemma encrypted_message_round_trip_witness:
  "\<exists>e'. encryptKind4Event (\<lambda>a b. Inr [if a = ''s'' then 2 else 3, 7]) (\<lambda>key iv m. Inr (key @ rev m)) [1, 2] ''s'' ''r'' plain_message = Inr e'
     \<and> read_kind4 (\<lambda>a b. Inr [if a = ''s'' then 2 else 3, 7]) (\<lambda>key iv c. Inr (rev (drop (length key) c))) ''r'' ''s'' (content e') = Inr (utf8 ''hi'')"
proof -
  let ?enc = "encryptKind4Event (\<lambda>a b. Inr [if a = ''s'' then 2 else 3, 7]) (\<lambda>key iv m. Inr (key @ rev m)) [1, 2] ''s'' ''r'' plain_message"
  obtain e' where e': "?enc = Inr e'" by (simp add: encryptKind4Event_def)
  have "read_kind4 (\<lambda>a b. Inr [if a = ''s'' then 2 else 3, 7]) (\<lambda>key iv c. Inr (rev (drop (length key) c))) ''r'' ''s'' (content e')
      = Inr (utf8 (content plain_message))"
    using encrypted_message_round_trip [OF e', where receiverPrivkey = "''r''" and senderPubkey = "''s''"
        and aes_decrypt = "\<lambda>key iv c. Inr (rev (drop (length key) c))"] by simp
  then show ?thesis using e' by (simp add: plain_message_def)
qed

text \<open>The pipeline of a notification: identify, sign, store, broadcast; an error of a step is logged.\<close>

lemma notification_pipeline:
  assumes "no_keys no = Inr (priv, pub)" "inv_amountPaid i = Some amount"
    and sign: "\<And>d. no_sign no priv d = map_sum id fromBuffer (sign priv d)"
  shows "sendInvoiceUpdateNotification no now i db =
    (case signEvent sign priv (identifyEvent (no_crypto no) (invoice_event pub now (no_next_month no now) i amount)) of
       Inl err \<Rightarrow> (Inr (), [], db)
     | Inr x \<Rightarrow> (Inr (), snd (broadcastEvent (no_is_worker no) True send x), snd (repo_create (no_events no) x db)))"
proof -
  let ?e = "identifyEvent (no_crypto no) (invoice_event pub now (no_next_month no now) i amount)"
  show ?thesis
    using assms by (cases "sign priv (evt_id ?e)"; cases "send (?e\<lparr>sig := fromBuffer (projr (sign priv (evt_id ?e)))\<rparr>)")
      (simp_all add: sendInvoiceUpdateNotification_def signEvent_def broadcastEvent_def Let_def)
qed

end
