(* ===== verification/Invoice_Conversions.thy ===== *)
theory Invoice_Conversions
  imports Invoice_Repository
begin

text \<open>
  The conversions of utils/transform.ts from the invoices of payment processors. A processor's invoice
  is a JSON object; an absent property is \<open>undefined\<close>, here \<open>None\<close>. The functions check no types, so a
  field of the result may hold any value of the object. How \<open>Date\<close> reads a text is a parameter.
\<close>

section \<open>Properties, \<open>BigInt\<close> and \<open>Date\<close>\<close>

definition prop_of :: "string \<Rightarrow> json option \<Rightarrow> json option" where
  "prop_of k v = (case v of Some (JObj xs) \<Rightarrow> map_of xs k | _ \<Rightarrow> None)"

definition path_of :: "string list \<Rightarrow> json option \<Rightarrow> json option" where
  "path_of ks v = fold prop_of ks v"

definition is_String :: "json option \<Rightarrow> bool" where
  "is_String v \<longleftrightarrow> (case v of Some (JStr s) \<Rightarrow> True | _ \<Rightarrow> False)"

definition is_Number :: "json option \<Rightarrow> bool" where
  "is_Number v \<longleftrightarrow> (case v of Some (JNum i) \<Rightarrow> True | _ \<Rightarrow> False)"

text \<open>\<open>String(v)\<close>; inside an array \<open>null\<close> is empty.\<close>

fun js_text :: "json \<Rightarrow> string" where
  "js_text JNull = ''null''"
| "js_text (JBool b) = (if b then ''true'' else ''false'')"
| "js_text (JNum i) = int_str i"
| "js_text (JStr s) = s"
| "js_text (JArr xs) = js_join '','' (map (\<lambda>x. if x = JNull then [] else js_text x) xs)"
| "js_text (JObj xs) = ''[object Object]''"

definition string_to_bigint :: "string \<Rightarrow> int option" where
  "string_to_bigint raw =
     (let s = js_trim raw in
      case s of
        [] \<Rightarrow> Some 0
      | c # cs \<Rightarrow>
          if c = CHR ''-'' then map_option (\<lambda>n. - int n) (digits_of 10 cs)
          else if c = CHR ''+'' then map_option int (digits_of 10 cs)
          else if c = CHR ''0'' \<and> cs \<noteq> [] \<and> hd cs \<in> set ''xXoObB'' then
            map_option int (digits_of (if hd cs \<in> set ''xX'' then 16 else if hd cs \<in> set ''oO'' then 8 else 2) (tl cs))
          else map_option int (digits_of 10 s))"

definition no_bigint :: "string \<Rightarrow> js_error" where
  "no_bigint s = JsError (''Cannot convert '' @ s @ '' to a BigInt'')"

definition toBigInt :: "json option \<Rightarrow> js_error + int" where
  "toBigInt v =
     (case v of
        None \<Rightarrow> Inl (TypeErr ''Cannot convert undefined to a BigInt'')
      | Some JNull \<Rightarrow> Inl (TypeErr ''Cannot convert null to a BigInt'')
      | Some (JBool b) \<Rightarrow> Inr (if b then 1 else 0)
      | Some (JNum i) \<Rightarrow> Inr i
      | Some j \<Rightarrow> (case string_to_bigint (js_text j) of None \<Rightarrow> Inl (no_bigint (js_text j)) | Some i \<Rightarrow> Inr i))"

text \<open>The time value of \<open>new Date(v)\<close>, \<open>None\<close> for an invalid date.\<close>

definition time_clip :: "int \<Rightarrow> int option" where
  "time_clip t = (if \<bar>t\<bar> \<le> 8640000000000000 then Some t else None)"

definition toDate :: "(string \<Rightarrow> int option) \<Rightarrow> json option \<Rightarrow> int option" where
  "toDate parse v =
     (case v of
        None \<Rightarrow> None
      | Some JNull \<Rightarrow> Some 0
      | Some (JBool b) \<Rightarrow> Some (if b then 1 else 0)
      | Some (JNum i) \<Rightarrow> time_clip i
      | Some j \<Rightarrow> parse (js_text j))"

definition addTime :: "int \<Rightarrow> int option \<Rightarrow> int option" where
  "addTime ms date = Option.bind date (\<lambda>t. time_clip (t + ms))"

text \<open>\<open>multiply(1000)\<close> of what \<open>is(Number)\<close> accepted.\<close>

definition in_milliseconds :: "json option \<Rightarrow> json option" where
  "in_milliseconds v = (case v of Some (JNum i) \<Rightarrow> Some (JNum (i * 1000)) | _ \<Rightarrow> None)"

section \<open>The conversions\<close>

text \<open>A date is \<open>null\<close>, or a \<open>Date\<close> with its time value.\<close>

datatype date_field = NullDate | Date "int option"

record converted_invoice =
  cv_id :: "json option"
  cv_pubkey :: "json option"
  cv_bolt11 :: "json option"
  cv_amountRequested :: int
  cv_description :: "json option"
  cv_unit :: "json option"
  cv_status :: "json option"
  cv_expiresAt :: date_field
  cv_confirmedAt :: date_field
  cv_createdAt :: date_field
  cv_rawResponse :: "string option"

definition date_if_string :: "(string \<Rightarrow> int option) \<Rightarrow> json option \<Rightarrow> date_field" where
  "date_if_string parse v = (if is_String v then Date (toDate parse v) else NullDate)"

definition fromZebedeeInvoice :: "(string \<Rightarrow> int option) \<Rightarrow> json \<Rightarrow> js_error + converted_invoice" where
  "fromZebedeeInvoice parse j =
     (let v = Some j in
      case toBigInt (prop_of ''amount'' v) of
        Inl err \<Rightarrow> Inl err
      | Inr amount \<Rightarrow>
          Inr \<lparr>cv_id = prop_of ''id'' v, cv_pubkey = prop_of ''internalId'' v,
               cv_bolt11 = path_of [''invoice'', ''request''] v, cv_amountRequested = amount,
               cv_description = prop_of ''description'' v, cv_unit = prop_of ''unit'' v,
               cv_status = prop_of ''status'' v,
               cv_expiresAt = date_if_string parse (prop_of ''expiresAt'' v),
               cv_confirmedAt = date_if_string parse (prop_of ''confirmedAt'' v),
               cv_createdAt = date_if_string parse (prop_of ''createdAt'' v),
               cv_rawResponse = Some (stringify j)\<rparr>)"

text \<open>\<open>cond\<close> gives \<open>undefined\<close> where no case applies.\<close>

definition status_in :: "(string \<times> InvoiceStatus) list \<Rightarrow> json option \<Rightarrow> json option" where
  "status_in cases v =
     (case v of Some (JStr s) \<Rightarrow> map_option (\<lambda>st. JStr (status_str st)) (map_of cases s) | _ \<Rightarrow> None)"

definition nodeless_statuses :: "(string \<times> InvoiceStatus) list" where
  "nodeless_statuses =
     [(''new'', PENDING), (''pending_confirmation'', PENDING), (''underpaid'', PENDING), (''in_flight'', PENDING),
      (''paid'', COMPLETED), (''overpaid'', COMPLETED), (''expired'', EXPIRED)]"

definition fromNodelessInvoice :: "(string \<Rightarrow> int option) \<Rightarrow> json \<Rightarrow> js_error + converted_invoice" where
  "fromNodelessInvoice parse j =
     (let v = Some j in
      case toBigInt (prop_of ''satsAmount'' v) of
        Inl err \<Rightarrow> Inl err
      | Inr amount \<Rightarrow>
          Inr \<lparr>cv_id = prop_of ''id'' v, cv_pubkey = path_of [''metadata'', ''requestId''] v,
               cv_bolt11 = prop_of ''lightningInvoice'' v, cv_amountRequested = amount,
               cv_description = path_of [''metadata'', ''description''] v, cv_unit = path_of [''metadata'', ''unit''] v,
               cv_status = status_in nodeless_statuses (prop_of ''status'' v),
               cv_expiresAt =
                 (if is_String (prop_of ''expiresAt'' v) then Date (toDate parse (prop_of ''expiresAt'' v))
                  else if is_String (prop_of ''createdAt'' v)
                  then Date (addTime (15 * 60000) (toDate parse (prop_of ''createdAt'' v)))
                  else NullDate),
               cv_confirmedAt = date_if_string parse (prop_of ''paidAt'' v),
               cv_createdAt = date_if_string parse (prop_of ''createdAt'' v),
               cv_rawResponse = None\<rparr>)"

definition openNode_statuses :: "(string \<times> InvoiceStatus) list" where
  "openNode_statuses =
     [(''expired'', EXPIRED), (''refunded'', EXPIRED), (''unpaid'', PENDING), (''processing'', PENDING),
      (''underpaid'', PENDING), (''paid'', COMPLETED)]"

definition fromOpenNodeInvoice :: "(string \<Rightarrow> int option) \<Rightarrow> int \<Rightarrow> json \<Rightarrow> js_error + converted_invoice" where
  "fromOpenNodeInvoice parse now j =
     (let v = Some j;
          amount = (if is_Number (prop_of ''amount'' v) then prop_of ''amount'' v else prop_of ''price'' v)
      in case toBigInt amount of
           Inl err \<Rightarrow> Inl err
         | Inr n \<Rightarrow>
             Inr \<lparr>cv_id = prop_of ''id'' v, cv_pubkey = prop_of ''order_id'' v,
                  cv_bolt11 =
                    (if is_String (path_of [''lightning_invoice'', ''payreq''] v)
                     then path_of [''lightning_invoice'', ''payreq''] v else path_of [''lightning'', ''payreq''] v),
                  cv_amountRequested = n, cv_description = prop_of ''description'' v,
                  cv_unit = Some (JStr (unit_str SATS)),
                  cv_status = status_in openNode_statuses (prop_of ''status'' v),
                  cv_expiresAt = Date (toDate parse
                    (if is_String (path_of [''lightning'', ''expires_at''] v) then path_of [''lightning'', ''expires_at''] v
                     else if is_Number (path_of [''lightning_invoice'', ''expires_at''] v)
                     then in_milliseconds (path_of [''lightning_invoice'', ''expires_at''] v)
                     else None)),
                  cv_confirmedAt = (if prop_of ''status'' v = Some (JStr ''paid'') then Date (Some now) else NullDate),
                  cv_createdAt = Date (toDate parse
                    (if is_Number (prop_of ''created_at'' v) then in_milliseconds (prop_of ''created_at'' v)
                     else prop_of ''created_at'' v)),
                  cv_rawResponse = Some (stringify j)\<rparr>)"

section \<open>What they promise\<close>

text \<open>\<open>BigInt\<close> reads what \<open>toString\<close> prints, with and without a sign.\<close>

lemma string_to_bigint_nat_str [simp]: "string_to_bigint (nat_str n) = Some (int n)"
proof -
  have dig: "is_digit x" if "x \<in> set (nat_str n)" for x using that by (rule nat_str_set)
  have trim: "js_trim (nat_str n) = nat_str n" by (rule js_trim_digits) (rule dig)
  obtain c cs where s: "nat_str n = c # cs" by (cases "nat_str n") auto
  have c: "c \<noteq> CHR ''-''" "c \<noteq> CHR ''+''" using dig [of c] s non_digit_facts by auto
  have "\<not> (cs \<noteq> [] \<and> hd cs \<in> set ''xXoObB'')"
  proof
    assume a: "cs \<noteq> [] \<and> hd cs \<in> set ''xXoObB''"
    then have "is_digit (hd cs)" using dig [of "hd cs"] s by simp
    with a show False using non_digit_facts by auto
  qed
  then have "string_to_bigint (nat_str n) = map_option int (digits_of 10 (nat_str n))"
    using c trim unfolding string_to_bigint_def Let_def s by auto
  then show ?thesis by (simp add: digits_of_def)
qed

lemma toBigInt_number: "toBigInt (Some (JNum i)) = Inr i" "toBigInt (Some (JStr (nat_str n))) = Inr (int n)"
  by (simp_all add: toBigInt_def)

lemma status_in_iff:
  "status_in cases v = Some (JStr (status_str st)) \<longleftrightarrow> (\<exists>s. v = Some (JStr s) \<and> map_of cases s = Some st)"
proof -
  have "status_str st' = status_str st \<longleftrightarrow> st' = st" for st' by (cases st; cases st') simp_all
  then show ?thesis by (auto simp: status_in_def split: option.splits json.splits)
qed

text \<open>A status of OpenNode is completed exactly where the confirmation has a date.\<close>

lemma openNode_confirmed:
  assumes "fromOpenNodeInvoice parse now j = Inr i"
  shows "cv_status i = Some (JStr (status_str COMPLETED)) \<longleftrightarrow> cv_confirmedAt i = Date (Some now)"
proof -
  let ?status = "prop_of ''status'' (Some j)"
  have paid: "map_of openNode_statuses s = Some COMPLETED \<longleftrightarrow> s = ''paid''" for s
    by (simp add: openNode_statuses_def)
  have fields: "cv_status i = status_in openNode_statuses ?status"
    "cv_confirmedAt i = (if ?status = Some (JStr ''paid'') then Date (Some now) else NullDate)"
    using assms by (auto simp: fromOpenNodeInvoice_def Let_def split: sum.splits simp del: if_split_asm)
  have "cv_status i = Some (JStr (status_str COMPLETED)) \<longleftrightarrow> ?status = Some (JStr ''paid'')"
    unfolding fields status_in_iff paid by blast
  then show ?thesis using fields(2) by simp
qed

end
