(* ===== verification/Web_App.thy ===== *)
theory Web_App
  imports Http_Routes
begin

text \<open>
  factories/web-app-factory.ts: the application in front of the routes, which adds the content security
  policy to every answer. Static files are served by express.
\<close>

text \<open>
  The URL of the relay for the web. The setter of \<open>protocol\<close> ignores \<open>':'\<close>, the value it is given for
  a relay that is not at \<open>wss\<close>.
\<close>

definition webRelayUrl :: "(string \<Rightarrow> js_error + url) \<Rightarrow> url \<Rightarrow> js_error + url" where
  "webRelayUrl parse relayUrl =
     (case parse (url_toString relayUrl) of
        Inl err \<Rightarrow> Inl err
      | Inr u \<Rightarrow> Inr (if url_scheme relayUrl = ''wss'' then set_protocol ''https'' u else u))"

definition quoted :: "string \<Rightarrow> string" where
  "quoted s = CHR 0x27 # s @ [CHR 0x27]"

definition csp_directives :: "(string \<Rightarrow> js_error + url) \<Rightarrow> string \<Rightarrow> js_error + (string \<times> string list) list" where
  "csp_directives parse relay_url =
     (case parse relay_url of
        Inl err \<Rightarrow> Inl err
      | Inr relayUrl \<Rightarrow>
          (case webRelayUrl parse relayUrl of
             Inl err \<Rightarrow> Inl err
           | Inr web \<Rightarrow>
               Inr [(''img-src'', [quoted ''self'', ''data:'']),
                    (''connect-src'', [quoted ''self'', relay_url, url_toString web]),
                    (''default-src'', [quoted ''self'']),
                    (''script-src-attr'', [quoted ''unsafe-inline'']),
                    (''script-src'', [quoted ''self'', quoted ''unsafe-inline'', ''https://cdn.jsdelivr.net/npm/'',
                       ''https://unpkg.com/'', ''https://cdnjs.cloudflare.com/ajax/libs/'']),
                    (''style-src'', [quoted ''self'', ''https://cdn.jsdelivr.net/npm/'']),
                    (''font-src'', [quoted ''self'', ''https://cdn.jsdelivr.net/npm/''])]))"

text \<open>\<open>createWebApp\<close>: an error of a relay URL goes to express before any route.\<close>

definition createWebApp ::
  "'r web_env \<Rightarrow> web_route \<Rightarrow> http_request \<Rightarrow> 'r web_state
     \<Rightarrow> (js_error + (string \<times> string list) list \<times> web_response) \<times> 'r web_state" where
  "createWebApp env route req st =
     (case csp_directives (we_parse_url env) (info_relay_url (he_settings (we_http env))) of
        Inl err \<Rightarrow> (Inl err, st)
      | Inr directives \<Rightarrow>
          (case router env route req st of
             (Inl err, st') \<Rightarrow> (Inl err, st')
           | (Inr response, st') \<Rightarrow> (Inr (directives, response), st')))"

text \<open>
  A page of a relay at \<open>wss\<close> may connect to the relay and to its site at \<open>https\<close>; for a relay at \<open>ws\<close>,
  the site is not among the sources, and the relay is there twice.
\<close>

lemma connect_sources:
  assumes "parse relay_url = Inr u" "parse (url_toString u) = Inr u" "url_host u = Some h" "h \<noteq> []"
    and "csp_directives parse relay_url = Inr ds"
  shows "url_scheme u = ''wss'' \<Longrightarrow> map_of ds ''connect-src'' =
      Some [quoted ''self'', relay_url, url_toString (set_protocol ''https'' u)]"
    and "url_scheme u = ''ws'' \<Longrightarrow> map_of ds ''connect-src'' = Some [quoted ''self'', relay_url, url_toString u]"
  using assms by (auto simp: csp_directives_def webRelayUrl_def split: sum.splits)

text \<open>Whatever the application answers, its tables are those the router leaves.\<close>

lemma createWebApp_router:
  "createWebApp env route req st = (answer, st') \<Longrightarrow> st' = st \<or> snd (router env route req st) = st'"
  by (auto simp: createWebApp_def split: sum.splits prod.splits)

end
