(* ===== verification/Primary_Process.thy ===== *)
theory Primary_Process
  imports Tor_Client Worker_Process Http_Routes
begin

text \<open>
  The process of the primary (app/app.ts): what it prints, how \<open>run\<close> starts the workers, the hidden
  service it announces afterwards, the workers that end, the timers, the signal that stops it, and the
  errors nothing catches, which end a process of node with code 1.
\<close>

section \<open>State\<close>

record primary_process =
  pp_primary :: primary
  pp_watching :: bool
  pp_printed :: "string list"
  pp_announcing :: bool
  pp_end :: "process_end option"

definition new_primary :: primary_process where
  "new_primary =
     \<lparr>pp_primary = no_workers, pp_watching = False, pp_printed = [], pp_announcing = False, pp_end = None\<rparr>"

definition uncaught :: "primary_process \<Rightarrow> primary_process" where
  "uncaught p = p\<lparr>pp_end := Some (Exited 1)\<rparr>"

text \<open>Statements one after another, none of them once the process has ended.\<close>

definition statement :: "(primary_process \<Rightarrow> primary_process) \<Rightarrow> primary_process \<Rightarrow> primary_process" where
  "statement g p = (if pp_end p = None then g p else p)"

definition statements :: "(primary_process \<Rightarrow> primary_process) list \<Rightarrow> primary_process \<Rightarrow> primary_process" where
  "statements gs p = fold statement gs p"

section \<open>Printing\<close>

text \<open>\<open>' '.repeat(count)\<close> throws a \<open>RangeError\<close> for a negative count.\<close>

definition js_repeat_space :: "int \<Rightarrow> js_error + string" where
  "js_repeat_space n =
     (if n < 0 then Inl (JsError (''Invalid count value: '' @ int_str n))
      else Inr (replicate (nat n) (CHR '' '')))"

definition centered :: "string \<Rightarrow> nat \<Rightarrow> js_error + string" where
  "centered input width =
     (let start = (int width - int (length input)) div 2
      in map_sum id (\<lambda>padding. padding @ '' '' @ input) (js_repeat_space start))"

definition logCentered :: "string \<Rightarrow> primary_process \<Rightarrow> primary_process" where
  "logCentered input p =
     (case centered input 74 of
        Inl err \<Rightarrow> uncaught p
      | Inr line \<Rightarrow> p\<lparr>pp_printed := pp_printed p @ [line]\<rparr>)"

section \<open>\<open>run\<close>\<close>

text \<open>\<open>Number(process.env.WORKER_COUNT)\<close>, the configured count or that of the processors.\<close>

definition workerCount :: "process_env \<Rightarrow> settings \<Rightarrow> nat \<Rightarrow> js_num" where
  "workerCount env s cpus =
     (if truthy (env ''WORKER_COUNT'') then js_Number (the (env ''WORKER_COUNT''))
      else case set_workers_count s of
             Some n \<Rightarrow> if n \<noteq> 0 then JFinite (of_int n) else JFinite (of_nat cpus)
           | None \<Rightarrow> JFinite (of_nat cpus))"

definition secret_missing :: "process_env \<Rightarrow> settings \<Rightarrow> bool" where
  "secret_missing env s \<longleftrightarrow>
     payments_enabled s \<and> (env ''SECRET'' = None \<or> env ''SECRET'' = Some '''' \<or> env ''SECRET'' = Some ''changeme'')"

definition start_workers :: "worker_env list \<Rightarrow> primary_process \<Rightarrow> primary_process" where
  "start_workers envs p = p\<lparr>pp_primary := fold createWorker envs (pp_primary p)\<rparr>"

definition check_secret :: "process_env \<Rightarrow> settings \<Rightarrow> primary_process \<Rightarrow> primary_process" where
  "check_secret env s p =
     (if secret_missing env s then
        p\<lparr>pp_printed := pp_printed p @ [''Please configure the secret using the SECRET environment variable.''],
          pp_end := Some (Exited 1)\<rparr>
      else p)"

text \<open>
  \<open>run\<close> up to the loop, and from it on. \<open>provider\<close> is the text of \<open>settings.payments.processor\<close>. Before
  the first line the process prints a fixed banner.
\<close>

definition run_opening ::
  "package_json \<Rightarrow> process_env \<Rightarrow> settings \<Rightarrow> string \<Rightarrow> (primary_process \<Rightarrow> primary_process) list" where
  "run_opening pkg env s provider =
     [\<lambda>p. p\<lparr>pp_watching := True\<rparr>,
      logCentered (''v'' @ pkg_version pkg),
      logCentered (''NIPs implemented: '' @ js_join '','' (map int_str (pkg_supportedNips pkg))),
      logCentered (''Pay-to-relay '' @ (if payments_enabled s then ''enabled'' else ''disabled''))]
     @ (if payments_enabled s then [logCentered (''Payments provider: '' @ provider)] else [])
     @ [check_secret env s]"

definition run_starting ::
  "process_env \<Rightarrow> settings \<Rightarrow> nat \<Rightarrow> nat \<Rightarrow> (primary_process \<Rightarrow> primary_process) list" where
  "run_starting env s cpus n =
     (let mirrors = nonempty_list (set_mirrors s) in
      [start_workers (map client_env [0..<n]),
       logCentered (js_num_str (workerCount env s cpus) @ '' client workers started''),
       start_workers [maintenance_worker_env],
       logCentered ''1 maintenance worker started'']
      @ (if mirrors \<noteq> [] then
           [start_workers (map mirror_worker_env [0..<length mirrors]),
            logCentered (nat_str (length mirrors) @ '' static-mirroring worker started'')]
         else [])
      @ [\<lambda>p. p\<lparr>pp_announcing := True\<rparr>])"

text \<open>A loop that never ends gives \<open>None\<close>.\<close>

definition primary_start ::
  "package_json \<Rightarrow> process_env \<Rightarrow> settings \<Rightarrow> string \<Rightarrow> nat \<Rightarrow> primary_process option" where
  "primary_start pkg env s provider cpus =
     (let p = statements (run_opening pkg env s provider) new_primary in
      if pp_end p \<noteq> None then Some p
      else map_option (\<lambda>n. statements (run_starting env s cpus n) p) (loop_count (workerCount env s cpus)))"

section \<open>Afterwards\<close>

text \<open>The answer of \<open>addOnion\<close> is printed in a callback whose errors nothing handles.\<close>

definition announce ::
  "'c tor_library \<Rightarrow> process_env \<Rightarrow> string \<Rightarrow> string \<Rightarrow> (string \<Rightarrow> js_error option)
     \<Rightarrow> primary_process \<times> 'c tor_state \<Rightarrow> primary_process \<times> 'c tor_state" where
  "announce tor env homedir hostname write_error = (\<lambda>(p, st).
     case announced tor env homedir hostname write_error st of
       (text, st') \<Rightarrow> (logCentered text (p\<lparr>pp_announcing := False\<rparr>), st'))"

definition worker_ended :: "nat \<Rightarrow> int \<Rightarrow> string \<Rightarrow> primary_process \<Rightarrow> primary_process" where
  "worker_ended k code signal p = p\<lparr>pp_primary := onClusterExit k code signal (pp_primary p)\<rparr>"

definition timer_fires :: "primary_process \<Rightarrow> primary_process" where
  "timer_fires p =
     (case restart_worker (pp_primary p) of
        Inl err \<Rightarrow> uncaught p
      | Inr pr \<Rightarrow> p\<lparr>pp_primary := pr\<rparr>)"

definition primary_close :: "primary_process \<Rightarrow> primary_process" where
  "primary_close p = p\<lparr>pp_printed := pp_printed p @ [''close''], pp_watching := False\<rparr>"

definition primary_onExit :: "primary_process \<Rightarrow> primary_process" where
  "primary_onExit p =
     (primary_close (p\<lparr>pp_printed := pp_printed p @ [''exiting'']\<rparr>))\<lparr>pp_end := Some (Exited 0)\<rparr>"

inductive primary_process_step ::
  "'c tor_library \<Rightarrow> process_env \<Rightarrow> string \<Rightarrow> string \<Rightarrow> (string \<Rightarrow> js_error option)
     \<Rightarrow> primary_process \<times> 'c tor_state \<Rightarrow> primary_process \<times> 'c tor_state \<Rightarrow> bool"
  for tor env homedir hostname write_error where
  announce: "pp_end p = None \<Longrightarrow> pp_announcing p
    \<Longrightarrow> primary_process_step tor env homedir hostname write_error (p, st)
          (announce tor env homedir hostname write_error (p, st))"
| worker_ended: "pp_end p = None \<Longrightarrow> (k, wenv) \<in> set (pr_workers (pp_primary p))
    \<Longrightarrow> primary_process_step tor env homedir hostname write_error (p, st) (worker_ended k code signal p, st)"
| timer: "pp_end p = None \<Longrightarrow> pr_timers (pp_primary p) \<noteq> []
    \<Longrightarrow> primary_process_step tor env homedir hostname write_error (p, st) (timer_fires p, st)"
| signal: "pp_end p = None
    \<Longrightarrow> primary_process_step tor env homedir hostname write_error (p, st) (primary_onExit p, st)"

inductive_cases primary_process_stepE: "primary_process_step tor env homedir hostname write_error s s'"

section \<open>What statements keep\<close>

lemma statements_simps [simp]:
  "statements [] p = p"
  "pp_end p \<noteq> None \<Longrightarrow> statements gs p = p"
  "pp_end p = None \<Longrightarrow> statements (g # gs) p = statements gs (g p)"
  "statements (gs @ hs) p = statements hs (statements gs p)"
proof -
  have "fold statement gs p = p" if "pp_end p \<noteq> None" for gs p
    using that by (induction gs) (auto simp: statement_def)
  then show "pp_end p \<noteq> None \<Longrightarrow> statements gs p = p" by (auto simp: statements_def)
qed (simp_all add: statements_def statement_def)

lemma logCentered_keeps [simp]:
  "pp_primary (logCentered text p) = pp_primary p"
  "pp_watching (logCentered text p) = pp_watching p"
  "pp_announcing (logCentered text p) = pp_announcing p"
  by (simp_all add: logCentered_def uncaught_def split: sum.splits)

lemma logCentered_end:
  "pp_end (logCentered text p) = (if 74 < length text then Some (Exited 1) else pp_end p)"
  by (auto simp: logCentered_def centered_def js_repeat_space_def uncaught_def Let_def)

text \<open>A process that still runs has executed every statement; one that ended did so for a reason \<open>R\<close>.\<close>

lemma statements_running:
  "pp_end (statements gs p) = None \<Longrightarrow> statements gs p = fold (\<lambda>g. g) gs p"
proof (induction gs arbitrary: p)
  case (Cons g gs)
  then have "pp_end p = None" by (cases "pp_end p") auto
  with Cons show ?case by simp
qed simp

definition fails_only :: "bool \<Rightarrow> (primary_process \<Rightarrow> primary_process) \<Rightarrow> bool" where
  "fails_only R g \<longleftrightarrow> (\<forall>p. pp_end p = None \<longrightarrow> pp_end (g p) = None \<or> pp_end (g p) = Some (Exited 1) \<and> R)"

lemma fails_onlyD:
  "fails_only R g \<Longrightarrow> pp_end p = None \<Longrightarrow> pp_end (g p) = None \<or> pp_end (g p) = Some (Exited 1) \<and> R"
  by (simp add: fails_only_def)

lemma fails_only_logCentered: "(74 < length text \<Longrightarrow> R) \<Longrightarrow> fails_only R (logCentered text)"
  by (simp add: fails_only_def logCentered_end)

lemma fails_only_check_secret: "(secret_missing env s \<Longrightarrow> R) \<Longrightarrow> fails_only R (check_secret env s)"
  by (simp add: fails_only_def check_secret_def)

lemma statements_fail_only:
  assumes "\<And>g. g \<in> set gs \<Longrightarrow> fails_only R g" "pp_end p = None" "pp_end (statements gs p) = Some e"
  shows "e = Exited 1 \<and> R"
  using assms
proof (induction gs arbitrary: p)
  case (Cons g gs)
  then have "fails_only R g" by simp
  from fails_onlyD [OF this Cons.prems(2)] show ?case
    using Cons.IH [of "g p"] Cons.prems by (cases "pp_end (g p)") auto
qed simp

lemma workerCount_loop: "loop_count (workerCount env s cpus) = worker_count (env ''WORKER_COUNT'') s cpus"
  by (auto simp: workerCount_def worker_count_def split: option.splits)

end
