(* ===== verification/Primary_Safety.thy ===== *)
theory Primary_Safety
  imports Primary_Process Sample_Worker
begin

text \<open>
  Why the primary process ends, and what it does with its workers until then: it starts those of the
  settings, prints what it may fail to print, and brings back a worker that crashed.
\<close>

section \<open>Starting\<close>

text \<open>The texts \<open>run\<close> prints in the middle of a line of 74 characters.\<close>

definition run_texts :: "package_json \<Rightarrow> process_env \<Rightarrow> settings \<Rightarrow> string \<Rightarrow> nat \<Rightarrow> string set" where
  "run_texts pkg env s provider cpus =
     {''v'' @ pkg_version pkg, ''NIPs implemented: '' @ js_join '','' (map int_str (pkg_supportedNips pkg)),
      js_num_str (workerCount env s cpus) @ '' client workers started'',
      nat_str (length (nonempty_list (set_mirrors s))) @ '' static-mirroring worker started''}
     \<union> (if payments_enabled s then {''Payments provider: '' @ provider} else {})"

lemma opening_fails_only:
  "g \<in> set (run_opening pkg env s provider) \<Longrightarrow>
     fails_only (secret_missing env s \<or> (\<exists>text\<in>run_texts pkg env s provider cpus. 74 < length text)) g"
  by (auto simp: run_opening_def run_texts_def intro!: fails_only_logCentered fails_only_check_secret
      simp: fails_only_def [of _ "\<lambda>p. p\<lparr>pp_watching := True\<rparr>"] split: if_splits)

lemma starting_fails_only:
  "g \<in> set (run_starting env s cpus n) \<Longrightarrow>
     fails_only (secret_missing env s \<or> (\<exists>text\<in>run_texts pkg env s provider cpus. 74 < length text)) g"
  by (auto simp: run_starting_def run_texts_def Let_def start_workers_def intro!: fails_only_logCentered
      simp: fails_only_def [of _ "start_workers envs" for envs] fails_only_def [of _ "\<lambda>p. p\<lparr>pp_announcing := True\<rparr>"] split: if_splits)

lemma start_ends:
  assumes "primary_start pkg env s provider cpus = Some p" "pp_end p = Some e"
  shows "e = Exited 1 \<and> (secret_missing env s \<or> (\<exists>text\<in>run_texts pkg env s provider cpus. 74 < length text))"
proof (cases "pp_end (statements (run_opening pkg env s provider) new_primary) = None")
  case True
  with assms obtain n where "p = statements (run_starting env s cpus n)
      (statements (run_opening pkg env s provider) new_primary)"
    by (auto simp: primary_start_def Let_def)
  with statements_fail_only [OF starting_fails_only [where n = n and pkg = pkg and provider = provider] True] assms(2) show ?thesis
    by blast
next
  case False
  with assms have "p = statements (run_opening pkg env s provider) new_primary"
    by (simp add: primary_start_def Let_def)
  with statements_fail_only [OF opening_fails_only [where cpus = cpus], where p = new_primary] assms(2)
  show ?thesis by (simp add: new_primary_def)
qed

text \<open>A process that runs has started exactly the workers of \<open>primary_run\<close>.\<close>

lemma start_runs:
  assumes "primary_start pkg env s provider cpus = Some p" "pp_end p = None"
  shows "primary_run (env ''SECRET'') (env ''WORKER_COUNT'') s cpus = Some (Inr (pp_primary p))
    \<and> pp_watching p \<and> pp_announcing p"
proof -
  let ?p = "statements (run_opening pkg env s provider) new_primary"
  have running: "pp_end ?p = None" using assms by (auto simp: primary_start_def Let_def split: if_splits)
  with assms(1) obtain n where n: "worker_count (env ''WORKER_COUNT'') s cpus = Some n"
      "p = statements (run_starting env s cpus n) ?p"
    by (auto simp: primary_start_def Let_def workerCount_loop)
  have opened: "\<not> secret_missing env s \<and> pp_primary ?p = no_workers \<and> pp_watching ?p"
    using running statements_running [OF running]
    by (auto simp: run_opening_def check_secret_def new_primary_def split: if_splits)
  have "p = fold (\<lambda>g. g) (run_starting env s cpus n) ?p"
    using statements_running assms(2) n(2) by blast
  with opened n(1) show ?thesis
    by (simp add: run_starting_def start_workers_def primary_run_def worker_envs_def secret_missing_def Let_def)
qed

section \<open>Running\<close>

text \<open>
  The workers that run and those whose timer is pending are some of those started: the others ended with
  code 0 or on a signal from the keyboard.
\<close>

definition primary_within :: "worker_env list \<Rightarrow> primary \<Rightarrow> bool" where
  "primary_within envs pr \<longleftrightarrow> (\<exists>envs'. primary_ok envs' pr \<and> mset envs' \<subseteq># mset envs)"

lemma ended_worker_within:
  assumes "primary_within envs pr" and live: "(k, wenv) \<in> set (pr_workers pr)"
  shows "primary_within envs (onClusterExit k code signal pr)"
proof -
  obtain envs' where ok: "primary_ok envs' pr" "mset envs' \<subseteq># mset envs"
    using assms(1) by (auto simp: primary_within_def)
  show ?thesis
  proof (cases "code = 0 \<or> signal = ''SIGINT''")
    case True
    let ?rest = "filter (\<lambda>(k', _). k' \<noteq> k) (pr_workers pr)"
    have "mset (map snd (pr_workers pr)) = add_mset wenv (mset (map snd ?rest))"
      using ok(1) live by (intro remove_key_mset) (simp_all add: primary_ok_def)
    then have all: "add_mset wenv (mset (map snd ?rest) + mset (map the (pr_timers pr))) = mset envs'"
      using ok(1) by (simp add: primary_ok_def)
    have rest: "mset (map snd ?rest) + mset (map the (pr_timers pr)) = mset (remove1 wenv envs')"
      using all [symmetric] by simp
    have "primary_ok (remove1 wenv envs') (onClusterExit k code signal pr)"
      using ok(1) True rest unfolding primary_ok_def
      by (auto simp: onClusterExit_def distinct_map_filter)
    moreover have "mset (remove1 wenv envs') \<subseteq># mset envs"
      using ok(2) subset_mset.order_trans [OF diff_subset_eq_self ok(2)] by simp
    ultimately show ?thesis by (auto simp: primary_within_def)
  next
    case False
    then show ?thesis using crash_ok [OF ok(1) live] ok(2) by (auto simp: primary_within_def)
  qed
qed

lemma restarted_within:
  assumes "primary_within envs pr"
  shows "\<exists>pr'. restart_worker pr = Inr pr' \<and> primary_within envs pr'"
proof -
  obtain envs' where ok: "primary_ok envs' pr" "mset envs' \<subseteq># mset envs"
    using assms by (auto simp: primary_within_def)
  then obtain pr' where "restart_worker pr = Inr pr'"
    by (cases "pr_timers pr"; cases "hd (pr_timers pr)") (auto simp: restart_worker_def primary_ok_def)
  with restart_ok [OF ok(1) this] ok(2) show ?thesis by (auto simp: primary_within_def)
qed

text \<open>Why a process that runs may end: a signal, or an announcement that does not fit its line.\<close>

definition runs_or_told :: "worker_env list \<Rightarrow> bool \<Rightarrow> primary_process \<Rightarrow> bool" where
  "runs_or_told envs R p \<longleftrightarrow>
     (case pp_end p of
        None \<Rightarrow> pp_watching p \<and> primary_within envs (pp_primary p)
      | Some e \<Rightarrow> e = Exited 0 \<and> \<not> pp_watching p \<or> e = Exited 1 \<and> R)"

lemma primary_process_step_keeps:
  assumes "primary_process_step tor env homedir hostname write_error s s'" "runs_or_told envs R (fst s)"
    and "\<And>st. 74 < length (fst (announced tor env homedir hostname write_error st)) \<Longrightarrow> R"
  shows "runs_or_told envs R (fst s')"
  using assms
proof (induction rule: primary_process_step.induct)
  case (announce p st)
  then show ?case
    by (auto simp: Primary_Process.announce_def runs_or_told_def logCentered_end split: prod.splits option.splits)
      (metis fst_conv)+
next
  case (timer p st)
  then obtain pr where "restart_worker (pp_primary p) = Inr pr" "primary_within envs pr"
    using restarted_within by (fastforce simp: runs_or_told_def)
  with timer show ?case by (simp add: runs_or_told_def timer_fires_def)
qed (auto simp: runs_or_told_def Primary_Process.worker_ended_def primary_onExit_def primary_close_def
    intro: ended_worker_within)

lemma started_process:
  assumes "primary_start pkg env s provider cpus = Some p"
    and "secret_missing env s \<or> (\<exists>text\<in>run_texts pkg env s provider cpus. 74 < length text) \<Longrightarrow> R"
  shows "\<exists>envs. (pp_end p = None \<longrightarrow> worker_envs (env ''WORKER_COUNT'') s cpus = Some envs) \<and> runs_or_told envs R p"
proof (cases "pp_end p")
  case None
  from start_runs [OF assms(1) None] obtain envs where
    "worker_envs (env ''WORKER_COUNT'') s cpus = Some envs" "pp_primary p = fold createWorker envs no_workers" "pp_watching p"
    by (auto simp: primary_run_def split: if_splits)
  with started_ok [of envs] None show ?thesis by (auto simp: runs_or_told_def primary_within_def)
next
  case (Some e)
  with start_ends [OF assms(1)] assms(2) show ?thesis by (auto simp: runs_or_told_def)
qed

lemma run_keeps:
  assumes "(primary_process_step tor env homedir hostname write_error)\<^sup>*\<^sup>* s s'" "runs_or_told envs R (fst s)"
    and "\<And>st. 74 < length (fst (announced tor env homedir hostname write_error st)) \<Longrightarrow> R"
  shows "runs_or_told envs R (fst s')"
  using assms(1,2) by (induction rule: rtranclp_induct) (auto intro: primary_process_step_keeps assms(3))

lemma ended_process_stays:
  assumes "(primary_process_step tor env homedir hostname write_error)\<^sup>*\<^sup>* s s'" "pp_end (fst s) \<noteq> None"
  shows "s' = s"
  using assms by (induction rule: rtranclp_induct) (auto elim: primary_process_stepE)

lemma timers_within:
  assumes "primary_within envs pr"
  shows "\<exists>pr'. fire_timers (length (pr_timers pr)) pr = Inr pr' \<and> pr_timers pr' = []
    \<and> mset (map snd (pr_workers pr')) = mset (map snd (pr_workers pr)) + mset (map the (pr_timers pr))
    \<and> mset (map snd (pr_workers pr')) \<subseteq># mset envs"
proof -
  obtain envs' where ok: "primary_ok envs' pr" "mset envs' \<subseteq># mset envs"
    using assms by (auto simp: primary_within_def)
  with fire_timers_ok [OF ok(1)] show ?thesis by (auto simp: primary_ok_def)
qed


definition sample_primary_package :: package_json where
  "sample_primary_package = \<lparr>pkg_version = ''2.1.0'', pkg_supportedNips = [1, 2, 4, 9, 11],
     pkg_supportedNipExtensions = [''11a''], pkg_repository_url = [], pkg_homepage = []\<rparr>"

definition sample_primary_process :: primary_process where
  "sample_primary_process = the (primary_start sample_primary_package Map.empty sample_settings [] 1)"

lemma sample_primary_starts:
  "primary_start sample_primary_package Map.empty sample_settings [] 1 = Some sample_primary_process"
  "pp_end sample_primary_process = None"
  "pp_primary sample_primary_process =
     \<lparr>pr_workers = [(1, client_env 0), (2, maintenance_worker_env)], pr_next = 3, pr_timers = []\<rparr>"
proof -
  let ?start = "primary_start sample_primary_package Map.empty sample_settings [] 1"
  have "js_join '','' (map int_str [1, 2, 4, 9, 11]) = ''1,2,4,9,11''" "js_num_str (JFinite 1) = ''1''"
    by code_simp+
  moreover have "loop_count (workerCount Map.empty sample_settings 1) = Some 1"
    by (simp add: workerCount_def truthy_def sample_settings_def)
  ultimately have "\<exists>p. ?start = Some p \<and> pp_end p = None
      \<and> pp_primary p = \<lparr>pr_workers = [(1, client_env 0), (2, maintenance_worker_env)], pr_next = 3, pr_timers = []\<rparr>"
    by (simp add: primary_start_def run_opening_def run_starting_def sample_primary_package_def new_primary_def
        logCentered_end check_secret_def secret_missing_def payments_enabled_def sample_settings_def
        truthy_def workerCount_def start_workers_def createWorker_def no_workers_def Let_def)
  then obtain p where p: "?start = Some p" "pp_end p = None"
      "pp_primary p = \<lparr>pr_workers = [(1, client_env 0), (2, maintenance_worker_env)], pr_next = 3, pr_timers = []\<rparr>"
    by blast
  moreover have "sample_primary_process = p" by (simp only: sample_primary_process_def p(1) option.sel)
  ultimately show "?start = Some sample_primary_process" "pp_end sample_primary_process = None"
    "pp_primary sample_primary_process =
       \<lparr>pr_workers = [(1, client_env 0), (2, maintenance_worker_env)], pr_next = 3, pr_timers = []\<rparr>"
    by simp_all
qed


section \<open>The hidden service\<close>


text \<open>A Tor daemon whose addresses have their length.\<close>

definition sample_onion :: "unit tor_library" where
  "sample_onion = sample_tor\<lparr>tor_addOnion := (\<lambda>c port host key. Inr \<lparr>ServiceID = replicate 56 (CHR ''a''),
     PrivateKey = (if key = None then Some ''ED25519-V3:k'' else None), reply_json = ''{}''\<rparr>)\<rparr>"


end
