(* ===== verification/Seeds.thy ===== *)
theory Seeds
  imports Db_Clients Event_Retention
begin

text \<open>
  knexfile.js and seeds/0000-events.js: the connection on which knex's command line migrates and seeds,
  and what a seed leaves in the tables of events. The file events.json is a parameter, and so is
  \<open>uuid_of\<close>, which gives each row its primary key.
\<close>

section \<open>The connection of the command line\<close>

record knexfile_params =
  kf_host :: string
  kf_port :: string
  kf_user :: string
  kf_password :: string
  kf_database :: string

datatype knexfile_connection = Knexfile_uri string | Knexfile_params knexfile_params

text \<open>\<open>process.env.X ?? d\<close>: a variable that is set to the empty text counts as set.\<close>

definition env_default :: "process_env \<Rightarrow> string \<Rightarrow> string \<Rightarrow> string" where
  "env_default env v d = (case env v of None \<Rightarrow> d | Some s \<Rightarrow> s)"

definition knexfile :: "process_env \<Rightarrow> knexfile_connection" where
  "knexfile env =
     (if truthy (env ''DATABASE_URI'') then Knexfile_uri (the (env ''DATABASE_URI''))
      else Knexfile_params
        \<lparr>kf_host = env_default env ''DB_HOST'' ''localhost'', kf_port = env_default env ''DB_PORT'' ''5432'',
         kf_user = env_default env ''DB_USER'' ''postgres'', kf_password = env_default env ''DB_PASSWORD'' ''postgres'',
         kf_database = env_default env ''DB_NAME'' ''nostream''\<rparr>)"

text \<open>The command line and the relay read the address of the database from different variables.\<close>

lemma knexfile_ignores_DB_URI:
  assumes "env ''DATABASE_URI'' = None"
  shows "knexfile (env(''DB_URI'' \<mapsto> uri)) = knexfile env"
    and "uri \<noteq> [] \<Longrightarrow> knex_connection (getMasterConfig (env(''DB_URI'' \<mapsto> uri))) = Connection_uri uri"
  using assms by (simp_all add: knexfile_def env_default_def getMasterConfig_def truthy_def)

section \<open>Seeding\<close>

definition seed_row :: "event \<Rightarrow> dbevent" where
  "seed_row e =
     \<lparr>event_id = toBuffer (evt_id e), event_pubkey = toBuffer (pubkey e), event_kind = kind e,
      event_created_at = created_at e, event_content = content e, event_tags = tags e,
      event_signature = toBuffer (sig e), event_deduplication = None,
      remote_address = None, expires_at = None, deleted_at = None\<rparr>"

text \<open>\<open>knex('events').del()\<close>, with the trigger on each row, and an insert that ignores no conflict.\<close>

definition delete_all :: "event_db \<Rightarrow> event_db" where
  "delete_all db =
     db\<lparr>events := [], tag_table := fold (\<lambda>r. filter (\<lambda>t. tr_event_id t \<noteq> event_id r)) (events db) (tag_table db)\<rparr>"

definition insert_strict :: "dbevent \<Rightarrow> event_db \<Rightarrow> js_error + event_db" where
  "insert_strict row db =
     (if \<not> row_ok row then Inl value_error
      else if has_event_id (event_id row) db \<or> list_ex (\<lambda>r. index_conflict r row) (events db)
      then Inl unique_violation
      else Inr (insert_row row db))"

fun insert_all :: "dbevent list \<Rightarrow> event_db \<Rightarrow> js_error + event_db" where
  "insert_all [] db = Inr db"
| "insert_all (row # rows) db =
     (case insert_strict row db of Inl err \<Rightarrow> Inl err | Inr db' \<Rightarrow> insert_all rows db')"

text \<open>\<open>batchInsert\<close>: statements of at most \<open>n\<close> rows in one transaction.\<close>

function batches :: "nat \<Rightarrow> 'a list \<Rightarrow> 'a list list" where
  "batches n xs = (if xs = [] \<or> n = 0 then [] else take n xs # batches n (drop n xs))"
  by auto
termination by (relation "measure (length \<circ> snd)") auto

declare batches.simps [simp del]

fun insert_batches :: "dbevent list list \<Rightarrow> event_db \<Rightarrow> js_error + event_db" where
  "insert_batches [] db = Inr db"
| "insert_batches (b # bs) db = (case insert_all b db of Inl err \<Rightarrow> Inl err | Inr db' \<Rightarrow> insert_batches bs db')"

text \<open>
  The rows are deleted before, outside the transaction. Two rows of one primary key are a conflict like
  one of the other unique constraints.
\<close>

definition seed :: "(string \<Rightarrow> string) \<Rightarrow> event list \<Rightarrow> event_db \<Rightarrow> js_error option \<times> event_db" where
  "seed uuid_of es db =
     (let db1 = delete_all db in
      if \<not> distinct (map (uuid_of \<circ> evt_id) es) then (Some unique_violation, db1)
      else case insert_batches (batches 10 (map seed_row es)) db1 of
             Inl err \<Rightarrow> (Some err, db1)
           | Inr db2 \<Rightarrow> (None, db2))"

section \<open>What a seed leaves\<close>

lemma delete_all_empty: "db_inv db \<Longrightarrow> delete_all db = empty_db"
proof -
  assume inv: "db_inv db"
  have left: "set (fold (\<lambda>r. filter (\<lambda>t. tr_event_id t \<noteq> event_id r)) rs ts)
      = {t \<in> set ts. \<forall>r\<in>set rs. tr_event_id t \<noteq> event_id r}" for rs ts
    by (induction rs arbitrary: ts) auto
  have "\<forall>t\<in>set (tag_table db). \<exists>r\<in>set (events db). event_id r = tr_event_id t"
    using inv by (simp add: db_inv_def)
  then have "set (tag_table (delete_all db)) = {}" by (simp add: delete_all_def left) metis
  then show ?thesis by (simp add: delete_all_def empty_db_def)
qed

lemma insert_all_append:
  "insert_all (xs @ ys) db = (case insert_all xs db of Inl err \<Rightarrow> Inl err | Inr db' \<Rightarrow> insert_all ys db')"
  by (induction xs arbitrary: db) (auto split: sum.splits)

lemma insert_batches_all: "0 < n \<Longrightarrow> insert_batches (batches n rows) db = insert_all rows db"
proof (induction n rows arbitrary: db rule: batches.induct)
  case (1 n rows)
  show ?case
  proof (cases "rows = []")
    case False
    with 1 have "insert_batches (batches n (drop n rows)) db' = insert_all (drop n rows) db'" for db' by simp
    with False 1(2) show ?thesis
      using insert_all_append [of "take n rows" "drop n rows" db]
      by (subst batches.simps) (simp split: sum.split)
  qed (simp add: batches.simps)
qed

lemma insert_strict_inv: "insert_strict row db = Inr db' \<Longrightarrow> db_inv db \<Longrightarrow> db_inv db' \<and> events db' = events db @ [row]"
  using insert_ignore_inv [of db row]
  by (auto simp: insert_strict_def insert_ignore_def insert_row_def split: if_splits)

lemma insert_all_inv:
  "insert_all rows db = Inr db' \<Longrightarrow> db_inv db \<Longrightarrow> db_inv db' \<and> events db' = events db @ rows"
proof (induction rows arbitrary: db)
  case (Cons row rows)
  then obtain db1 where db1: "insert_strict row db = Inr db1" "insert_all rows db1 = Inr db'"
    by (auto split: sum.splits)
  with insert_strict_inv [OF db1(1)] Cons show ?case by auto
qed simp

text \<open>A seed that succeeds leaves the file's events and nothing else; one that fails leaves no event at
  all, although its inserts are rolled back.\<close>

theorem seed_replaces_all_events:
  assumes "db_inv db"
  shows "case seed uuid_of es db of
      (None, db') \<Rightarrow> events db' = map seed_row es \<and> db_inv db'
    | (Some err, db') \<Rightarrow> db' = empty_db"
proof (cases "insert_all (map seed_row es) empty_db")
  case (Inr db2)
  with insert_all_inv [OF Inr] show ?thesis
    by (simp add: seed_def delete_all_empty [OF assms] insert_batches_all Let_def) (simp add: empty_db_def)
qed (simp add: seed_def delete_all_empty [OF assms] insert_batches_all Let_def)

text \<open>A seeded event has no deduplication, so the partial index never sees it: a newer event of its
  author and kind is stored beside it instead of in its place.\<close>

theorem seeded_events_are_not_replaced:
  assumes "seed uuid_of es empty_db = (None, db)" "e0 \<in> set es"
    and "isReplaceableEvent e" "pubkey e = pubkey e0" "kind e = kind e0" "created_at e0 < created_at e"
    and "row_ok (upsert_row_of e)" "\<not> has_event_id (toBuffer (evt_id e)) db"
  shows "\<exists>db'. upsert e db = (Inr 1, db') \<and> seed_row e0 \<in> set (events db') \<and> upsert_row_of e \<in> set (events db')"
proof -
  have rows: "events db = map seed_row es"
    using seed_replaces_all_events [where db = empty_db and uuid_of = uuid_of and es = es] assms(1) by simp
  have "find (\<lambda>r. index_conflict r (upsert_row_of e)) (events db) = None"
    by (auto simp: find_None_iff rows index_conflict_def seed_row_def)
  moreover have "event_id (upsert_row_of e) = toBuffer (evt_id e)" by (simp add: upsert_row_of_def)
  ultimately show ?thesis
    using assms(2,7,8) by (simp add: upsert_def insert_or_merge_def insert_row_def rows)
qed

end
