(* ===== verification/Loggers.thy ===== *)
theory Loggers
  imports Event_Handler
begin

text \<open>
  factories/logger-factory.ts: the loggers of a process, named after its role. The package \<open>debug\<close>, which
  makes and prints them, is a parameter.
\<close>

record 'i debug_library =
  debug_new :: "string option \<Rightarrow> 'i"
  debug_extend :: "'i \<Rightarrow> string \<Rightarrow> 'i"
  debug_to_stdout :: "'i \<Rightarrow> 'i"

definition logger_prefix :: "bool \<Rightarrow> string option \<Rightarrow> string option" where
  "logger_prefix isWorker WORKER_TYPE = (if isWorker then WORKER_TYPE else Some ''primary'')"

text \<open>A template literal prints an absent variable as \<open>undefined\<close>.\<close>

definition enabled_names :: "string option \<Rightarrow> string \<Rightarrow> string" where
  "enabled_names pre namespace =
     (case pre of None \<Rightarrow> ''undefined'' | Some p \<Rightarrow> p) @ '':'' @ namespace @ '':*''"

text \<open>The logger, and the names that are enabled with it, if any.\<close>

definition createLogger ::
  "'i debug_library \<Rightarrow> bool \<Rightarrow> string option \<Rightarrow> string \<Rightarrow> bool \<Rightarrow> bool \<Rightarrow> 'i \<times> string option" where
  "createLogger lib isWorker WORKER_TYPE namespace enabled stdout =
     (let pre = logger_prefix isWorker WORKER_TYPE;
          instance0 = debug_new lib pre;
          names = (if enabled then Some (enabled_names pre namespace) else None);
          instance1 = (if stdout then debug_to_stdout lib instance0 else instance0)
      in (debug_extend lib instance1 namespace, names))"

text \<open>
  A library that only keeps names: \<open>extend\<close> appends after a colon, and a pattern that ends in an asterisk
  enables the names that begin with what is before it.
\<close>

definition name_library :: "string debug_library" where
  "name_library =
     \<lparr>debug_new = (\<lambda>p. case p of None \<Rightarrow> ''undefined'' | Some s \<Rightarrow> s),
      debug_extend = (\<lambda>i namespace. i @ '':'' @ namespace), debug_to_stdout = (\<lambda>i. i)\<rparr>"

definition pattern_enables :: "string \<Rightarrow> string \<Rightarrow> bool" where
  "pattern_enables pattern name \<longleftrightarrow>
     (if pattern \<noteq> [] \<and> last pattern = CHR ''*''
      then take (length pattern - 1) name = butlast pattern else name = pattern)"

text \<open>The option \<open>enabled\<close> enables what extends the logger but not the logger itself.\<close>

lemma enabled_logger_is_silent:
  assumes "createLogger name_library isWorker WORKER_TYPE namespace True stdout = (name, Some pattern)"
  shows "\<not> pattern_enables pattern name" "pattern_enables pattern (name @ '':'' @ sub)"
  using assms by (cases stdout;
      auto simp: createLogger_def name_library_def enabled_names_def pattern_enables_def butlast_append Let_def
        split: option.splits)+

end
