(* ===== verification/Spec2Isabelle.thy ===== *)
theory Spec2Isabelle
  imports Cluster_Delivery Rune_Laws Http_Safety Settings_Loading Migration_Safety
    Process_Safety Row_Streams Db_Sharing Tor_Client Event_Crypto Invoice_Conversions Web_App
    Primary_Safety Seeds Loggers
begin

text \<open>
A model of the nostr relay nostream (src/): what its processes do with the events, subscriptions,
  payments and settings they are given, and the theorems that make it correct.

  The program. A primary process (app/app.ts) forks client workers (app/worker.ts), mirrors
  (app/static-mirroring-worker.ts) and a maintenance worker (app/maintenance-worker.ts), and passes
  the messages of one on to the others. A client worker holds the web sockets: a message is rate
  limited, validated by the schemas and given to the EVENT, REQ or CLOSE handler, which work on the
  event repository (PostgreSQL behind knex), the user repository and the rate limiter (sorted sets in
  Redis) and emit messages, subscriptions and broadcasts on the socket's adapter. HTTP controllers and
  the maintenance worker run the payments for admission.

  The theories, in the order of the imports, with the sources they model:
    Relay_Prelude, Js_Encoding, Js_Values: JavaScript's strings, arrays, numbers and JSON text, hex
      buffers (utils/transform.ts), conversion of strings to numbers;
    Nostr_Event: @types/event.ts, constants/base.ts, utils/event.ts, utils/proof-of-work.ts: events,
      filters, classification, matching, identifiers, expiration, proof of work;
    Relay_Messages: the protocol's messages and the emissions of a handler (utils/messages.ts);
    Relay_Settings: @types/settings.ts, absent properties as options; Settings_Loading: utils/settings.ts,
      merging, caching and reloading of the two settings files;
    Redis_Cache, Rate_Limiter: adapters/redis-adapter.ts and utils/sliding-window-rate-limiter.ts;
    Event_Store, Event_Repository, Event_Query: the tables with their indexes and trigger
      (migrations), repositories/event-repository.ts and the SQL it generates; Event_Retention: laws of
      the two insertions; User_Repository: repositories/user-repository.ts;
    Event_Strategies, Event_Handler, Event_Guards: handlers/event-strategies, the EVENT handler, and
      what its guards mean; Subscribe_Handler: the REQ and CLOSE handlers;
    Node_Address, Web_Socket: adapters/web-socket-adapter.ts and web-socket-server-adapter.ts, and which
      addresses node accepts for a client; Schemas: schemas/;
    Relay_System: a worker as a step relation, message handling (factories/message-handler-factory.ts);
      Relay_Invariants, Relay_Safety: the contract of an invariant of a worker and its two instances;
    Canonical_Form: the serialization that is hashed determines the event;
    Invoice_Repository, Payments_Service: the tables of invoices and users with the stored function
      confirm_invoice, transactions (database/transaction.ts), services/payments-service.ts and the
      maintenance worker; Payment_Laws, Payment_Safety: their invariants and properties;
    Pg_Schema, Migrations, Migration_Files: the 25 files of migrations/ as statements on a database of
      tables, indexes, functions and triggers with the rows of the event tables; Migration_Laws,
      Stored_Functions, Migration_Safety: what they build, undo and do to stored rows, and the versions
      of the stored functions;
    Http_Interface, Http_Routes, Http_Safety: the controllers behind /invoices and /admissions, the other
      routes with the relay information document (handlers/request-handlers, routes/);
    Mirroring, App_Primary, Cluster, Cluster_Safety, Cluster_Delivery: the mirrors, the primary process
      and all processes together; that no broadcast between workers is lost;
    Primary_Process, Primary_Safety: the process of the primary: what it prints, its start, its end, the
      hidden service it announces (app/app.ts);
    Runes, Rune_Laws: utils/runes/;
    Worker_Process, Process_Safety: the process around a worker: its connections, signals, callbacks and
      end (app/worker.ts, adapters/web-server-adapter.ts, the closing of web-socket-server-adapter.ts); the
      end of a mirror's process;
    Row_Streams: utils/stream.ts and the pipeline of a subscription, row by row;
    Db_Clients, Db_Sharing: database/client.ts, cache/client.ts and the factories that hand the clients to
      the repositories, in the environment a worker is forked with; Tor_Client: tor/client.ts;
    Event_Crypto: signing, broadcasting and the encrypted messages of utils/event.ts;
    Invoice_Conversions: the invoices of payment processors (utils/transform.ts);
    Web_App: factories/web-app-factory.ts, the policy in front of the routes; Seeds: knexfile.js and
      seeds/0000-events.js; Loggers: factories/logger-factory.ts;
    Sample_Worker: concrete settings, events and runs on which the witnesses evaluate.

  State and operations. Each class with state is a record (ws_client, ws_server, relay, mirror, primary,
  cluster, payment_db, event_db), each method a function from the old state to its result and the new
  state, in the order of the code and with all of its early returns; an error or a rejected promise is
  the left side of a sum (js_error). The stores a component uses are parameters with the operations it
  calls (event_repository, user_repository, rate_limiter, cache_adapter, payments_processor), and a
  locale states the laws the client relies on: sorted_set_client and sorted_set_cache for the rate
  limiter, the contract of the event repository for the handlers, relay_invariant for a worker,
  payment_service for the maintenance worker; each is interpreted on the repository's own classes. The
  turns of the event loop are the steps of inductive relations (relay_step, mirror_step, cluster_step,
  primary_step), in which messages, deliveries, socket events, crashes and restarts interleave freely.

  What the properties show. Safety of the whole: only authentic events leave the relay, in every
  reachable state of a worker and of the cluster, and the tables keep their constraints; subscriptions
  stay within their limit. The EVENT handler: effects only past every guard, one reply, what each guard
  accepts, rate limits and the sliding window, strategies and the rows they leave. REQ: the generated
  SQL selects what the in-memory matcher accepts, answers are sound, complete for one filter, ordered
  and bounded, but a filter with identifiers and a tag query is never answered; broadcasts reach the matching subscriptions. Payments: balances are the sum of the
  confirmed invoices, a confirmation credits once, failures change nothing, paying what the page asks
  for admits; the relay enforces what its information document advertises. Mirrors apply the relay's own
  guards. Crashed workers come back, and the primary process ends only on a signal or for the reasons its
  property names, of which announcing a hidden service is one. Settings merge by path.
  The migrations build the tables and indexes the repositories are modelled on, rewrite stored rows to
  what the code would have written, and can be rolled back except for four.
  The process around a worker takes only the worker's steps, and ends on a signal only when its clients
  have gone; its repositories share one client for writing and one for reading, spread over the replicas.
  Runes and events survive printing and reading. Where the code does something else than it means to,
  a property says what it does instead, and the manifest names it as a finding.

  Bounds. Recursion is structural or has a termination proof; there is no fuel. Numbers that are
  integral in JavaScript are integers, columns hold 32 or 64 bits (int4, int8) and an insert outside
  them fails as PostgreSQL does; strings hold code units below 256. The clock's readings are arguments.

  Not modelled. The cryptography (hash, HMAC, signatures) and bech32 are parameters, as are JSON and
  YAML parsers, the file system and the text of Joi's messages. No migration runs while rows are written, and what
  PostgreSQL makes of a statement is its documented behaviour. Every operation on the database is one
  step: concurrent transactions are seen as serialized. Events of a mirrored relay have the type the
  code asserts. URLs are parsed by a parameter. Not modelled at all: the parsing of HTTP, the choice
  of a route and the static files, the calls of loggers, the banner the primary process prints, and
  the types without operations. Node's sockets, knex,
  redis and the library for Tor's control port are parameters or steps of the environment; a rational
  number stands for a double, so a number with more than twenty decimal places is printed without
  rounding.
\<close>

section \<open>The worker\<close>

text \<open>C2. In every reachable state of a worker whose store holds authentic events and whose peers
  broadcast authentic events, every EVENT message any client has been sent carries an event whose
  identifier is the hash of its contents and whose signature verifies.\<close>

theorem worker_sends_authentic_events:
  assumes "reachable (worker_runtime cr s relay_pubkey limiter is_worker parse joi_message)
      (authentic cr) st relay"
    and "db_inv (st_events st)" "authentic_rows cr (st_events st)"
    and "(k, c) \<in> set (srv_clients (r_server relay))"
    and "OutgoingEventMessage i e \<in> set (ws_sent c)"
  shows "isEventIdValid cr e \<and> isEventSignatureValid cr e"
proof -
  have "sent_ok cr c"
    using authenticity.reachable_client [OF assms(1) _ assms(4)] assms(2,3) by simp
  then show ?thesis using assms(5) by (auto simp: sent_ok_def message_ok_def authentic_def)
qed

lemma worker_sends_authentic_events_witness:
  "isEventIdValid sample_crypto (sample_note 1) \<and> isEventSignatureValid sample_crypto (sample_note 1)"
  using worker_sends_authentic_events [OF sample_end_reachable, where k = 0 and c = sample_subscribed
      and i = "''s''" and e = "sample_note 1"]
  by simp

text \<open>C3. In every reachable state of a worker the constraints of the tables hold (event identifiers
  are unique, no two rows share a replaceable key, values fit their columns, the table of tags is the
  trigger's) and every stored event is authentic, if this was so at the start.\<close>

theorem worker_keeps_store_invariant:
  assumes "reachable (worker_runtime cr s relay_pubkey limiter is_worker parse joi_message)
      (authentic cr) st relay"
    and "db_inv (st_events st)" "authentic_rows cr (st_events st)"
  shows "db_inv (st_events (r_store relay)) \<and> authentic_rows cr (st_events (r_store relay))"
  using authenticity.reachable_store [OF assms(1)] assms(2,3) by simp

lemma worker_keeps_store_invariant_witness:
  "db_inv (st_events (r_store sample_end)) \<and> authentic_rows sample_crypto (st_events (r_store sample_end))"
  by (rule worker_keeps_store_invariant [OF sample_end_reachable]) simp_all

text \<open>C5. In every reachable state of a worker, a client holds at most the configured number of
  subscriptions, under different identifiers, and none once its socket has closed.\<close>

theorem worker_bounds_subscriptions:
  assumes "reachable (worker_runtime cr s relay_pubkey limiter is_worker parse joi_message)
      (\<lambda>e. True) st relay"
    and "db_inv (st_events st)" "(k, c) \<in> set (srv_clients (r_server relay))"
  shows "distinct (map fst (ws_subscriptions c)) \<and> subscriptions_bounded s (ws_subscriptions c)
    \<and> (ws_listening c \<or> ws_subscriptions c = [])"
proof -
  have "client_ok s c"
    using subscription_limits.reachable_client [OF assms(1) _ assms(3)] assms(2) by simp
  then show ?thesis by (auto simp: client_ok_def)
qed

lemma worker_bounds_subscriptions_witness:
  "subscriptions_bounded sample_settings [(''s'', [empty_filter])]"
  using worker_bounds_subscriptions [OF sample_end_reachable, where k = 0 and c = sample_subscribed] by simp

section \<open>EVENT messages\<close>

text \<open>C4. A run of the EVENT handler changes the event store, broadcasts, or replies with success only
  if the event passed every guard: its identifier and signature are valid, it is not expired, not
  rate-limited, acceptable under the limits and its author is admitted.\<close>

theorem event_effects_are_guarded:
  assumes "handle_event env clk raw address st = (ems, err, st')"
    and "st_events st' \<noteq> st_events st \<or> broadcasts ems \<noteq> [] \<or> (i, True, msg) \<in> set (command_results ems)"
  shows "isEventIdValid (env_crypto env) raw \<and> isEventSignatureValid (env_crypto env) raw
    \<and> \<not> isExpiredEvent (at_expiry clk) raw
    \<and> fst (isRateLimited env (at_hit clk) (prepared raw address) (st_cache st)) = Inr False
    \<and> canAcceptEvent env (at_accept clk) (prepared raw address) = Inr None
    \<and> isUserAdmitted env (prepared raw address) (st_users st) = Inr None"
proof -
  have "admits env clk raw address st" using handle_event_effect [OF assms(1)] assms(2) by blast
  then show ?thesis by (simp add: admits_def)
qed

lemma event_effects_are_guarded_witness:
  "canAcceptEvent sample_env (at_accept sample_clock) (sample_note 1) = Inr None"
  using event_effects_are_guarded [OF sample_handled] by simp

text \<open>C6. The EVENT handler replies exactly once, with the event's identifier, when it ends
  normally, and emits nothing when it rejects; whatever it broadcasts is the event it was given, once,
  and then the reply is an unqualified success.\<close>

theorem event_handler_replies_once:
  assumes "handle_event env clk raw address st = (ems, err, st')"
  shows "(case err of None \<Rightarrow> map fst (command_results ems) = [evt_id raw] | Some x \<Rightarrow> ems = [])
    \<and> (broadcasts ems = []
       \<or> broadcasts ems = [prepared raw address] \<and> command_results ems = [(evt_id raw, True, [])])"
  using handle_event_replies [OF assms] handle_event_broadcast [OF assms] by (auto split: option.splits)

lemma event_handler_replies_once_witness:
  "map fst (command_results (fst (handle_event sample_env sample_clock (sample_note 1) None sample_store)))
     = [evt_id (sample_note 1)]"
  using event_handler_replies_once [OF sample_handled] by (simp add: sample_handled)

text \<open>C12. A broadcast event that is not ephemeral is in the event store when the handler ends, and
  the constraints of the tables still hold.\<close>

theorem broadcast_events_are_stored:
  assumes "env_events env = EventRepository" "db_inv (st_events st)"
    and "handle_event env clk raw address st = (ems, err, st')"
    and "broadcasts ems \<noteq> []" "\<not> isEphemeralEvent raw"
  shows "has_event_id (toBuffer (evt_id raw)) (st_events st') \<and> db_inv (st_events st')"
  using event_repo.handle_event_stored [OF assms] event_repo.handle_event_inv [OF assms(1-3)] by simp

lemma broadcast_events_are_stored_witness:
  "has_event_id (replicate 32 7) (st_events (sample_stored 1))"
  using broadcast_events_are_stored [OF _ _ sample_handled] by (simp add: isEphemeralEvent_def)

text \<open>C8. \<open>canAcceptEvent\<close> accepts exactly the events of the relay's own key and those within the
  limits: no applicable content limit is exceeded, \<open>created_at\<close> is within the two deltas of now, the
  identifier and the public key have the leading zero bits asked for, and public key and kind are
  allowed by the lists.\<close>

theorem canAcceptEvent_iff:
  assumes "env_relay_pubkey env = Inr relay" "relay \<noteq> pubkey e"
    and "limits = event_limits_of (env_settings env)"
  shows "canAcceptEvent env now_ms e = Inr None \<longleftrightarrow>
    (\<forall>l\<in>set (content_limit_list limits). \<not> content_too_long e l)
    \<and> (\<forall>d. Option.bind (lim_createdAt limits) maxPositiveDelta = Some d \<longrightarrow> 0 < d
         \<longrightarrow> created_at e \<le> now_ms div 1000 + d)
    \<and> (\<forall>d. Option.bind (lim_createdAt limits) maxNegativeDelta = Some d \<longrightarrow> 0 < d
         \<longrightarrow> now_ms div 1000 - d \<le> created_at e)
    \<and> (\<forall>n. Option.bind (lim_eventId limits) id_minLeadingZeroBits = Some n
         \<longrightarrow> n \<le> int (getLeadingZeroBits (toBuffer (evt_id e))))
    \<and> (\<forall>n. Option.bind (lim_pubkey limits) pk_minLeadingZeroBits = Some n
         \<longrightarrow> n \<le> int (getLeadingZeroBits (toBuffer (pubkey e))))
    \<and> (\<forall>ps. Option.bind (lim_pubkey limits) pk_whitelist = Some ps \<longrightarrow> ps \<noteq> []
         \<longrightarrow> (\<exists>p\<in>set ps. prefix p (pubkey e)))
    \<and> (\<forall>ps. Option.bind (lim_pubkey limits) pk_blacklist = Some ps
         \<longrightarrow> (\<forall>p\<in>set ps. \<not> prefix p (pubkey e)))
    \<and> (\<forall>ks. Option.bind (lim_kind limits) k_whitelist = Some ks \<longrightarrow> ks \<noteq> []
         \<longrightarrow> (\<exists>k\<in>set ks. isEventKindOrRangeMatch e k))
    \<and> (\<forall>ks. Option.bind (lim_kind limits) k_blacklist = Some ks
         \<longrightarrow> (\<forall>k\<in>set ks. \<not> isEventKindOrRangeMatch e k))"
  using canAcceptEvent_None [OF assms(1), of now_ms e] assms(2)
  unfolding assms(3) Let_def check_content_None check_created_at_None check_pow_None
    check_pubkey_None check_kind_None getEventProofOfWork_def getPubkeyProofOfWork_def
  by blast

lemma canAcceptEvent_iff_witness:
  "canAcceptEvent sample_env 2000000 (sample_note 1) = Inr None \<and>
   canAcceptEvent sample_env 2000000 ((sample_note 1)\<lparr>created_at := 3000\<rparr>) \<noteq> Inr None"
  using canAcceptEvent_iff [of sample_env _ "sample_note 1" _ 2000000]
    canAcceptEvent_iff [of sample_env _ "(sample_note 1)\<lparr>created_at := 3000\<rparr>" _ 2000000]
  by (simp add: sample_limits_def content_limit_list_def content_too_long_def positive_limit_def)

text \<open>C15. With payments enabled, \<open>isUserAdmitted\<close> lets exactly these events pass: those of the relay's
  own key, those no enabled admission fee applies to, and those of an admitted user whose balance
  reaches the minimum.\<close>

theorem isUserAdmitted_iff:
  assumes "env_relay_pubkey env = Inr relay" "payments_enabled (env_settings env)"
    and "env_users env = UserRepository" "users = Some rows"
  shows "isUserAdmitted env e users = Inr None \<longleftrightarrow> relay = pubkey e
    \<or> (\<forall>f\<in>set (admission_fees (env_settings env)). \<not> isApplicableFee e f)
    \<or> (\<exists>row. find (\<lambda>r. db_pubkey r = toBuffer (pubkey e)) rows = Some row \<and> is_admitted row
         \<and> (min_balance (env_settings env) \<le> 0 \<or> min_balance (env_settings env) \<le> db_balance row))"
  using isUserAdmitted_None [OF assms(1,2), of e users] assms(3,4)
  by (auto simp: findByPubkey_def fromDBUser_def split: option.splits)

lemma isUserAdmitted_iff_witness:
  "isUserAdmitted sample_paying_env (sample_note 1) (Some [sample_user]) = Inr None
   \<and> isUserAdmitted sample_paying_env ((sample_note 1)\<lparr>pubkey := replicate 64 (CHR ''c'')\<rparr>)
        (Some [sample_user]) \<noteq> Inr None"
  using isUserAdmitted_iff [of sample_paying_env _ "Some [sample_user]" _ "sample_note 1"]
    isUserAdmitted_iff [of sample_paying_env _ "Some [sample_user]" _
      "(sample_note 1)\<lparr>pubkey := replicate 64 (CHR ''c'')\<rparr>"] sample_keys_differ
  by (simp add: isApplicableFee_def sample_user_def)



text \<open>C18. After any sequence of hits of a bucket that was empty, in the order of their times, a
  further hit reports the limit exceeded exactly if the steps of the distinct hits (time and step)
  within the period before it, this one included, add up to more than the rate.\<close>

theorem hit_counts_sliding_window:
  assumes "sorted_set_client client members" "limiter = SlidingWindowRateLimiter (RedisAdapter None client)"
    and "0 < rl_period options" "sorted (map fst hs)"
    and "\<forall>h\<in>set hs. 0 \<le> fst h \<and> 0 \<le> snd h \<and> fst h \<le> t" "0 \<le> t" "0 \<le> s"
    and "members r key = Map.empty"
  shows "fst (rl_hit limiter t key s options (run_hits limiter key options hs r))
    = Inr (rl_rate options < (\<Sum>h\<in>window (hs @ [(t, s)]) (t - rl_period options). snd h))"
  using sorted_set_cache.hit_after_hits [OF sorted_set_client.adapter_cache [OF assms(1)] assms(3,4) _ assms(6-8)] assms(5)
  by (simp add: assms(2))

lemma hit_counts_sliding_window_witness:
  "fst (rl_hit sample_limiter 5000 ''k'' 1 \<lparr>rl_period = 1000, rl_rate = 2\<rparr>
      (run_hits sample_limiter ''k'' \<lparr>rl_period = 1000, rl_rate = 2\<rparr>
         [(3900, 1), (4500, 1), (4900, 1)] (\<lambda>k. []))) = Inr True"
  using hit_counts_sliding_window [OF alist_redis.sorted_set_client_axioms sample_limiter_def,
      of "\<lparr>rl_period = 1000, rl_rate = 2\<rparr>" "[(3900, 1), (4500, 1), (4900, 1)]" 5000 1 "\<lambda>k. []" "''k''"]
  by auto

text \<open>Hits of the same step in one millisecond count once, however many there are: the member of
  the sorted set is made of the time and the step alone.\<close>

theorem same_millisecond_hits_count_once:
  assumes "sorted_set_client client members" "limiter = SlidingWindowRateLimiter (RedisAdapter None client)"
    and "0 < rl_period options" "0 \<le> t" "0 \<le> s" "members r key = Map.empty"
  shows "fst (rl_hit limiter t key s options (run_hits limiter key options (replicate n (t, s)) r))
    = Inr (rl_rate options < s)"
proof -
  have "window (replicate n (t, s) @ [(t, s)]) (t - rl_period options) = {(t, s)}"
    using assms(3) by (auto simp: window_def)
  then show ?thesis
    using sorted_set_cache.hit_after_hits [OF sorted_set_client.adapter_cache [OF assms(1)] assms(3),
        of "replicate n (t, s)" t s r key] assms(4-6)
    by (simp add: assms(2) in_set_replicate)
qed

lemma same_millisecond_hits_count_once_witness:
  "fst (rl_hit sample_limiter 5000 ''k'' 1 \<lparr>rl_period = 1000, rl_rate = 2\<rparr>
      (run_hits sample_limiter ''k'' \<lparr>rl_period = 1000, rl_rate = 2\<rparr>
         (replicate 100 (5000, 1)) (\<lambda>k. []))) = Inr False"
  using same_millisecond_hits_count_once [OF alist_redis.sorted_set_client_axioms sample_limiter_def,
      of "\<lparr>rl_period = 1000, rl_rate = 2\<rparr>" 5000 1 "\<lambda>k. []" "''k''" 100]
  by simp

section \<open>The event store\<close>

text \<open>C13. An event of a replaceable or parameterized replaceable kind is upserted: afterwards exactly
  one row has its replaceable key, the newest of its row and the rows that had that key before, the
  stored one winning a tie; every other row is kept, and the constraints of the tables still hold.\<close>

theorem upsert_stores_newest:
  assumes "db_inv db" "isReplaceableEvent e \<or> isParameterizedReplaceableEvent e"
    and "upsert e db = (Inr n, db')"
  shows "keeps_newest (upsert_row_of e) db db' \<and> db_inv db'"
proof
  show "keeps_newest (upsert_row_of e) db db'"
    using upsert_keeps_newest [OF assms(1) _ assms(3)] upserted_kinds assms(2) by blast
  show "db_inv db'" using event_repo.upsert_inv [OF assms(1), of e] assms(3) by simp
qed

lemma upsert_stores_newest_witness:
  "\<exists>db'. upsert (sample_newer 10000) (sample_upserted 10000) = (Inr 1, db')
     \<and> keeps_newest (upsert_row_of (sample_newer 10000)) (sample_upserted 10000) db'"
proof -
  have int4: "int4 10000" by (simp add: int4_def)
  then obtain db' where db': "upsert (sample_newer 10000) (sample_upserted 10000) = (Inr 1, db')"
    using sample_second_upsert [of 10000] by (auto simp: in_replaceable_index_def)
  then show ?thesis
    using upsert_stores_newest [OF sample_upserted_inv [OF int4] _ db'] by (auto simp: kind_tests)
qed

text \<open>C26. A deletion request marks exactly the rows of its author that one of its valid e tags names
  and that are not marked yet, with the time of the request; it changes and removes no other row, and
  it is itself added exactly if it is broadcast.\<close>

theorem delete_marks_own_events:
  assumes "isDeleteEvent e"
    and "execute (eventStrategyFactory e) EventRepository now e db = (ems, err, db')"
  shows "events db' = map (mark_deleted e now) (events db)
      @ (if broadcasts ems = [] then [] else [insert_row_of e])
    \<and> (\<forall>r. mark_deleted e now r \<noteq> r \<longrightarrow> event_pubkey r = toBuffer (pubkey e)
         \<and> (\<exists>tag\<in>set (tags e). isValidETag tag \<and> event_id r = toBuffer (tag ! 1)))"
proof -
  have "eventStrategyFactory e = DeleteEventStrategy"
    using assms(1) by (simp add: eventStrategyFactory_def kind_tests)
  then show ?thesis
    using execute_delete_rows [of now e db ems err db'] assms(2)
    by (auto simp: mark_deleted_def names_event_def)
qed

lemma delete_marks_own_events_witness:
  "\<exists>ems err db'. execute (eventStrategyFactory sample_deletion) EventRepository 9
      sample_deletion (st_events (sample_stored 1)) = (ems, err, db')
     \<and> deleted_at (hd (events db')) = Some 9"
proof -
  obtain ems err db' where run: "execute (eventStrategyFactory sample_deletion) EventRepository 9
      sample_deletion (st_events (sample_stored 1)) = (ems, err, db')"
    by (metis prod_cases3)
  have "isDeleteEvent sample_deletion" by (simp add: kind_tests)
  from delete_marks_own_events [OF this run, THEN conjunct1]
  have "hd (events db') = mark_deleted sample_deletion 9 (insert_row_of (sample_note 1))" by simp
  moreover have "names_event sample_deletion (insert_row_of (sample_note 1))"
    by (simp add: names_event_def insert_row_of_def del: fromBuffer_Cons)
  ultimately have "deleted_at (hd (events db')) = Some 9"
    by (simp add: mark_deleted_def insert_row_of_def)
  with run show ?thesis by blast
qed

text \<open>The strategies that upsert are chosen for exactly the kinds the partial unique index of the
  tables covers, so the conflict target of the upsert always names an index; deletion requests and
  ephemeral events get strategies of their own and every other kind the default one.\<close>

theorem strategy_agrees_with_index:
  "(eventStrategyFactory e \<in> {ReplaceableEventStrategy, ParameterizedReplaceableEventStrategy}
      \<longleftrightarrow> in_replaceable_index (kind e))
   \<and> (eventStrategyFactory e = EphemeralEventStrategy \<longleftrightarrow> 20000 \<le> kind e \<and> kind e < 30000)
   \<and> (eventStrategyFactory e = DeleteEventStrategy \<longleftrightarrow> kind e = 5)"
  by (auto simp: eventStrategyFactory_def in_replaceable_index_def kind_tests)

text \<open>An event of a regular kind with a value that its column does not take (such as a
  \<open>created_at\<close> the schema accepts but 32 bits do not hold) is answered with success and
  \<open>duplicate:\<close>, although nothing is stored.\<close>

theorem out_of_range_event_reported_duplicate:
  assumes "eventStrategyFactory e = DefaultEventStrategy" "\<not> row_ok (insert_row_of e)"
  shows "execute (eventStrategyFactory e) EventRepository now e db =
    ([EmitMessage (CommandResult (evt_id e) True ''duplicate:'')], None, db)"
  using execute_default_out_of_range [OF assms(2)] assms(1) by simp

lemma out_of_range_event_reported_duplicate_witness:
  "event_wf ((sample_note 1)\<lparr>created_at := 5000000000\<rparr>)
   \<and> execute DefaultEventStrategy EventRepository 0 ((sample_note 1)\<lparr>created_at := 5000000000\<rparr>) empty_db =
    ([EmitMessage (CommandResult (evt_id (sample_note 1)) True ''duplicate:'')], None, empty_db)"
  using out_of_range_event_reported_duplicate [of "(sample_note 1)\<lparr>created_at := 5000000000\<rparr>" 0 empty_db]
    sample_note_wf [of 1]
  by (simp add: eventStrategyFactory_def kind_tests row_ok_def insert_row_of_def int4_def event_wf_def)

section \<open>Queries\<close>



text \<open>C25. Whatever several filters select is stored and matches one of them, is in the order of the
  first filter (ascending in time without a limit, descending with one) and within the limit of the
  first filter, 500 if it has none.\<close>

theorem findByFilters_bounded_sorted_sound:
  assumes "db_inv db" "\<forall>r\<in>set (events db). sized_row r"
    and "\<forall>g\<in>set (f # fs). hex_filter g \<and> plain_filter g"
    and "findByFilters (f # fs) db = Inr rows"
  shows "set rows \<subseteq> {r \<in> set (events db). \<exists>g\<in>set (f # fs). isEventMatchingFilter g (toNostrEvent r)}
    \<and> int (length rows) \<le> (case limit f of None \<Rightarrow> 500 | Some n \<Rightarrow> max 0 n)
    \<and> sorted_wrt (\<lambda>r s. if limit f = None then event_created_at r \<le> event_created_at s
                        else event_created_at s \<le> event_created_at r) rows"
proof -
  have sound: "set rows \<subseteq> {r \<in> set (events db). \<exists>g\<in>set (f # fs). isEventMatchingFilter g (toNostrEvent r)}"
    using findByFilters_sound [OF assms(1,2) _ assms(4)] assms(3) by blast
  obtain xs where xs: "rows = order_limit (filter_query f) xs"
    using assms(4) run_select_shape [of "filter_query f" "map filter_query fs" db rows]
    by (auto simp: findByFilters_def)
  show ?thesis
    using sound order_limit_length [of "filter_query f" xs] order_limit_sorted [of "filter_query f" xs]
    by (cases "limit f") (auto simp: xs filter_query_def)
qed

lemma findByFilters_bounded_sorted_sound_witness:
  "\<exists>rows. findByFilters [sample_tag_filter\<lparr>limit := Some 1\<rparr>, sample_tag_filter] (st_events (sample_stored 1)) = Inr rows
     \<and> int (length rows) \<le> 1"
proof -
  let ?f = "sample_tag_filter\<lparr>limit := Some 1\<rparr>" and ?db = "st_events (sample_stored 1)"
  have f: "hex_filter ?f \<and> plain_filter ?f" "query_ok (filter_query ?f)"
    using sample_tag_filter_simps by (simp_all add: hex_filter_def plain_filter_def generic_tag_queries_def
        query_ok_def ambiguous_def filter_query_def prefix_clause_def)
  obtain rows where rows: "findByFilters [?f, sample_tag_filter] ?db = Inr rows"
    using f(2) sample_tag_filter_simps(5) by (simp add: findByFilters_def run_select_def)
  have "db_inv ?db" by (rule sample_stored_inv) (simp add: int4_def)
  from findByFilters_bounded_sorted_sound [OF this _ _ rows] f(1)
  show ?thesis using rows by simp
qed

text \<open>A filter with queries on two different tags selects no row at all, also where stored
  events match it: both conditions are on the one row of \<open>event_tags\<close> that is joined.\<close>

theorem two_tag_queries_select_nothing:
  assumes "(key, vs) \<in> set (generic_tag_queries f)" "(key', vs') \<in> set (generic_tag_queries f)"
    and "key \<noteq> key'" "query_ok (filter_query f)"
  shows "findByFilters [f] db = Inr []"
  using where_rows_two_tags [OF assms(1-3)] findByFilters_one [OF assms(4)]
  by (simp add: order_limit_def sort_rows_def split: sql_order.splits)

lemma two_tag_queries_select_nothing_witness:
  "findByFilters [sample_two_tags] (insert_row (insert_row_of sample_tagged) empty_db) = Inr []
   \<and> isEventMatchingFilter sample_two_tags sample_tagged"
  using two_tag_queries_select_nothing [of "''#t''" "[''x'']" sample_two_tags "''#u''" "[''y'']"]
  by (simp add: sample_two_tags_ok)

section \<open>Subscriptions\<close>



text \<open>Every answer to a REQ sends, under the subscription's identifier, only stored events that
  are not deleted and match one of its filters; it ends with the end of stored events if and only if
  the subscription was set up and the query did not fail.\<close>

theorem subscription_answers_are_sound:
  assumes "handle_subscribe s EventRepository subs i fs db = (ems, err)"
  shows "(\<forall>(j, e)\<in>set (sent_events ems). j = i
      \<and> (\<exists>r\<in>set (events db). deleted_at r = None \<and> e = toNostrEvent r)
      \<and> (\<exists>f\<in>set fs. isEventMatchingFilter f e))
    \<and> (EmitMessage (EndOfStoredEventsNotice i) \<in> set ems \<longleftrightarrow>
         err = None \<and> EmitSubscribe i (uniqWith filter_equals fs) \<in> set ems)
    \<and> (EmitMessage (EndOfStoredEventsNotice i) \<in> set ems
         \<longrightarrow> last ems = EmitMessage (EndOfStoredEventsNotice i))"
proof -
  have "(EmitMessage (EndOfStoredEventsNotice i) \<in> set ems \<longleftrightarrow>
         err = None \<and> EmitSubscribe i (uniqWith filter_equals fs) \<in> set ems)
    \<and> (EmitMessage (EndOfStoredEventsNotice i) \<in> set ems
         \<longrightarrow> last ems = EmitMessage (EndOfStoredEventsNotice i))"
    by (cases rule: handle_subscribe_cases [of s subs i fs EventRepository db]) (use assms in auto)
  then show ?thesis using handle_subscribe_sound [OF assms] by blast
qed

lemma subscription_answers_are_sound_witness:
  "last (fst (handle_subscribe sample_settings EventRepository [] ''s'' [empty_filter] empty_db))
     = EmitMessage (EndOfStoredEventsNotice ''s'')"
  using subscription_answers_are_sound [OF sample_subscribe] by (simp add: sample_subscribe)

text \<open>C22. A REQ with identifiers and a tag query in one of its filters is never answered, though each filter
  alone is: its SQL names \<open>event_id\<close>, a column of both joined tables, so the database refuses the whole
  statement. The subscription is set up, but no stored event, no end of stored events and no notice is
  sent, and the error only goes to the log.\<close>

theorem id_and_tag_filters_are_never_answered:
  assumes "canSubscribe s subs i (uniqWith filter_equals fs) = Inr None"
    and "f \<in> set fs" "ids f = Some (x # xs)" "generic_tag_queries f \<noteq> []"
  shows "handle_subscribe s EventRepository subs i fs db = ([EmitSubscribe i (uniqWith filter_equals fs)],
    Some (PgError (''column reference '' @ [CHR 0x22] @ ''event_id'' @ [CHR 0x22] @ '' is ambiguous'')))"
  by (rule handle_subscribe_ambiguous [OF assms])

lemma id_and_tag_filters_are_never_answered_witness:
  "fst (handle_subscribe sample_settings EventRepository [] ''s''
      [sample_tag_filter, sample_tag_filter\<lparr>ids := Some [''abcd'']\<rparr>] (st_events (sample_stored 1)))
    = [EmitSubscribe ''s'' [sample_tag_filter, sample_tag_filter\<lparr>ids := Some [''abcd'']\<rparr>]]"
proof -
  let ?f = "sample_tag_filter\<lparr>ids := Some [''abcd'']\<rparr>"
  have uniq: "uniqWith filter_equals [sample_tag_filter, ?f] = [sample_tag_filter, ?f]"
    by (simp add: uniqWith_def uniq_step_def filter_equals_def sample_tag_filter_def empty_filter_def)
  have "canSubscribe sample_settings [] ''s'' [sample_tag_filter, ?f] = Inr None"
    by (simp add: canSubscribe_def subscription_limits_of_def sample_limits_def or_zero_def)
  moreover have "generic_tag_queries ?f \<noteq> []"
    using sample_tag_filter_simps(1) by (simp add: generic_tag_queries_def)
  ultimately show ?thesis
    using id_and_tag_filters_are_never_answered [of sample_settings "[]" "''s''" "[sample_tag_filter, ?f]" ?f "''abcd''" "[]"]
    by (simp add: uniq)
qed

text \<open>A broadcast sends the event to every client whose socket is open and whose adapter listens,
  once per subscription that has a filter matching it and under that subscription's identifier, and
  changes nothing else of any client.\<close>

theorem broadcast_reaches_matching_subscriptions:
  assumes "map_of (srv_clients srv) k = Some c" "srv_listening srv"
  shows "map_of (srv_clients (server_emit_broadcast e srv)) k =
    Some (if ws_open c \<and> ws_adapted c \<and> ws_listening c
          then c\<lparr>ws_sent := ws_sent c @ map (\<lambda>i. OutgoingEventMessage i e)
                   (map fst (filter (\<lambda>(i, fs). \<exists>f\<in>set fs. isEventMatchingFilter f e) (ws_subscriptions c)))\<rparr>
          else c)"
  using server_onBroadcast_client [OF assms(1), of e] assms(2)
  by (simp add: server_emit_broadcast_def matching_subscriptions_def)

lemma broadcast_reaches_matching_subscriptions_witness:
  "map_of (srv_clients (server_emit_broadcast (sample_note 2) (r_server sample_end))) 0 =
     Some (sample_subscribed\<lparr>ws_sent := [OutgoingEventMessage ''s'' (sample_note 1),
                                        OutgoingEventMessage ''s'' (sample_note 2)]\<rparr>)"
  using broadcast_reaches_matching_subscriptions [of "r_server sample_end" 0 sample_subscribed "sample_note 2"]
  by (simp add: sample_end_listening)

text \<open>A client that neither answers nor sends anything is closed by the second heartbeat if it has
  no subscription; a client that answered since the last heartbeat, or that has a subscription, is kept
  open by a heartbeat and pinged.\<close>

theorem heartbeats_close_idle_clients:
  assumes "ws_adapted c" "ws_listening c" "ws_open c"
    and "map_of (srv_clients srv) k = Some c"
  shows "(ws_subscriptions c = [] \<longrightarrow>
      (\<exists>c'. map_of (srv_clients (server_onHeartbeat (server_onHeartbeat srv))) k = Some c' \<and> \<not> ws_open c'))
    \<and> (ws_alive c \<or> ws_subscriptions c \<noteq> [] \<longrightarrow>
      map_of (srv_clients (server_onHeartbeat srv)) k
        = Some (c\<lparr>ws_alive := False, ws_pings := ws_pings c + 1\<rparr>))"
  using assms by (simp add: server_onHeartbeat_def emit_on_def onHeartbeat_def close_socket_def)

lemma heartbeats_close_idle_clients_witness:
  "\<exists>c'. map_of (srv_clients (server_onHeartbeat (server_onHeartbeat
       \<lparr>srv_clients = [(0, sample_client [] [])], srv_listening = True, srv_to_primary = []\<rparr>))) 0 = Some c'
     \<and> \<not> ws_open c'"
  using heartbeats_close_idle_clients [of "sample_client [] []"
      "\<lparr>srv_clients = [(0, sample_client [] [])], srv_listening = True, srv_to_primary = []\<rparr>" 0]
  by (simp add: sample_client_def)

section \<open>Messages and events\<close>

text \<open>C30. A message the schema accepts is well-formed: an EVENT carries a well-formed event without
  metadata; a REQ has an identifier of 1 to 256 characters and one to ten filters with lower-case
  hexadecimal prefixes, times below ten digits, a non-negative limit and tag queries on lower-case
  letters with non-empty values; a CLOSE has a non-empty identifier.\<close>

theorem accepted_messages_are_well_formed:
  assumes "messageSchema j = Some m"
  shows "case m of
      IncomingEventMessage e secret \<Rightarrow> event_wf e \<and> secret = None
    | SubscribeMessage i fs \<Rightarrow>
        i \<noteq> [] \<and> length i \<le> 256 \<and> fs \<noteq> [] \<and> length fs \<le> 10 \<and> (\<forall>f\<in>set fs. filter_wf f)
    | UnsubscribeMessage i \<Rightarrow> i \<noteq> []"
  using messageSchema_event [of j] messageSchema_subscribe [of j] messageSchema_unsubscribe [of j] assms
  by (cases m) simp_all

lemma accepted_messages_are_well_formed_witness: "filter_wf empty_filter"
  using accepted_messages_are_well_formed [OF sample_message] by simp

text \<open>C31. The schema accepts the JSON form of every well-formed event and gives the event back.\<close>

theorem event_schema_round_trip:
  assumes "event_wf e"
  shows "eventSchema (json_of_event e) = Some e"
  by (rule eventSchema_json [OF assms])

lemma event_schema_round_trip_witness: "eventSchema (json_of_event (sample_note 1)) = Some (sample_note 1)"
  by (rule event_schema_round_trip) (rule sample_note_wf; simp)

text \<open>\<open>getLeadingZeroBits\<close>, which works byte-wise with \<open>msb\<close>, is the length of the run of zero
  bits the buffer starts with; \<open>4 * k\<close> bits are \<open>k\<close> leading zeros of its hexadecimal form.\<close>

theorem proof_of_work_counts_zero_bits:
  "getLeadingZeroBits bs = length (takeWhile Not (bits_of bs))
   \<and> (4 * k \<le> getLeadingZeroBits bs \<longleftrightarrow> take k (fromBuffer bs) = replicate k (CHR ''0''))"
proof -
  have "prefix (replicate k (CHR ''0'')) (fromBuffer bs) \<longleftrightarrow> take k (fromBuffer bs) = replicate k (CHR ''0'')"
    by (auto simp: prefix_def) (metis append_take_drop_id)
  then show ?thesis using getLeadingZeroBits_spec getLeadingZeroBits_hex by simp
qed

text \<open>An event is expired exactly if its expiration time is positive and has come, whatever the
  milliseconds of now; a time below ten digits printed in the first expiration tag is read back.\<close>

theorem expiration_is_read_back:
  assumes "tags e = pre @ (tag_value ExpirationTag # int_str n # rest) # post"
    and "\<forall>t\<in>set pre. length t < 2 \<or> hd t \<noteq> tag_value ExpirationTag"
    and "0 \<le> n" "n < 10 ^ 10"
  shows "getEventExpiration e = Some n \<and> (isExpiredEvent now_ms e \<longleftrightarrow> 0 < n \<and> n * 1000 \<le> now_ms)"
  using getEventExpiration_printed [OF assms(1) _ assms(3,4)] assms(2) isExpiredEvent_iff [of now_ms e] by auto

lemma expiration_is_read_back_witness:
  "isExpiredEvent 2000000 ((sample_note 1)\<lparr>tags := [[''t'', ''x''], [''expiration'', int_str 1700]]\<rparr>)"
  using expiration_is_read_back [of "(sample_note 1)\<lparr>tags := [[''t'', ''x''], [''expiration'', int_str 1700]]\<rparr>"
      "[[''t'', ''x'']]" 1700 "[]" "[]" 2000000]
  by simp

text \<open>C32. The canonical form that is hashed to the identifier is injective: two events with the same
  form agree in author, time, kind, tags and content.\<close>

theorem canonical_form_is_injective:
  "stringify (serializeEvent e) = stringify (serializeEvent e') \<longleftrightarrow>
     pubkey e = pubkey e' \<and> created_at e = created_at e' \<and> kind e = kind e' \<and> tags e = tags e'
     \<and> content e = content e'"
  by (rule serializeEvent_inject)
section \<open>Streams of rows\<close>



end
